(* ===== verification/Exec.thy ===== *)
theory Exec
  imports Main "HOL-Library.Word"
begin

text \<open>
  The prelude of the development: how a piece of pallet code runs, and the arithmetic it
  runs on.

  A dispatchable or a pallet function is a HOL function from the storage to an
  \<open>outcome\<close>.  \<open>Done r s\<close> is the normal return, \<open>Fail e s\<close> the
  return of an \<open>Err\<close>, \<open>Panic\<close> an unwinding panic (a failed \<open>unwrap\<close> or
  \<open>expect\<close>, a division by zero).  \<open>Fail\<close> carries a storage: the runtime this
  repository pins does not roll storage back when a dispatchable returns an error, so whatever
  was written before the error stays written.  \<open>Panic\<close> carries none: the block or the
  extrinsic that panics is not applied.

  The combinators keep the shape of the source: \<open>ensure\<close> is the macro of that name,
  \<open>and_then\<close> is the \<open>?\<close> operator, \<open>or_else\<close> the method, \<open>unwrap_or_default\<close>
  the method on a unit result, \<open>unwrap_then\<close> an \<open>unwrap\<close> or \<open>expect\<close> of an option,
  \<open>div_then\<close> a division (which panics on zero) and \<open>for_each\<close> a loop over a list.
  \<open>keeps P r\<close> says that \<open>P\<close> holds of whatever storage \<open>r\<close> leaves behind, on the
  normal and on the error return; invariants are proved with it.
\<close>

named_theorems keeps_intros "rules that push a storage property through the combinators"
named_theorems exec_defs "definitions of the combinators"

section \<open>Outcomes and their combinators\<close>

datatype ('e, 'a, 's) outcome = Done 'a 's | Fail 'e 's | Panic

definition ensure :: "bool \<Rightarrow> 'e \<Rightarrow> 's \<Rightarrow> ('e, 'a, 's) outcome \<Rightarrow> ('e, 'a, 's) outcome" where
  [exec_defs]: "ensure b e s k = (if b then k else Fail e s)"

definition and_then ::
    "('e, 'a, 's) outcome \<Rightarrow> ('a \<Rightarrow> 's \<Rightarrow> ('e, 'b, 's) outcome) \<Rightarrow> ('e, 'b, 's) outcome" where
  [exec_defs]: "and_then r k = (case r of Done a s \<Rightarrow> k a s | Fail e s \<Rightarrow> Fail e s | Panic \<Rightarrow> Panic)"

definition or_else ::
    "('e, 'a, 's) outcome \<Rightarrow> ('e \<Rightarrow> 's \<Rightarrow> ('e, 'a, 's) outcome) \<Rightarrow> ('e, 'a, 's) outcome" where
  [exec_defs]: "or_else r h = (case r of Done a s \<Rightarrow> Done a s | Fail e s \<Rightarrow> h e s | Panic \<Rightarrow> Panic)"

definition unwrap_or_default :: "('e, unit, 's) outcome \<Rightarrow> ('e, unit, 's) outcome" where
  [exec_defs]: "unwrap_or_default r = or_else r (\<lambda>_ s. Done () s)"

definition unwrap_ok :: "('e, 'a, 's) outcome \<Rightarrow> ('e, 'a, 's) outcome" where
  [exec_defs]: "unwrap_ok r = or_else r (\<lambda>_ _. Panic)"

definition unwrap_then :: "'a option \<Rightarrow> ('a \<Rightarrow> ('e, 'b, 's) outcome) \<Rightarrow> ('e, 'b, 's) outcome" where
  [exec_defs]: "unwrap_then x k = (case x of None \<Rightarrow> Panic | Some a \<Rightarrow> k a)"

definition ok_or :: "'a option \<Rightarrow> 'e \<Rightarrow> 's \<Rightarrow> ('a \<Rightarrow> ('e, 'b, 's) outcome) \<Rightarrow> ('e, 'b, 's) outcome" where
  [exec_defs]: "ok_or x e s k = (case x of None \<Rightarrow> Fail e s | Some a \<Rightarrow> k a)"

definition div_then ::
    "'w::len word \<Rightarrow> 'w word \<Rightarrow> ('w word \<Rightarrow> ('e, 'b, 's) outcome) \<Rightarrow> ('e, 'b, 's) outcome" where
  [exec_defs]: "div_then a b k = (if b = 0 then Panic else k (a div b))"

primrec for_each :: "('x \<Rightarrow> 's \<Rightarrow> ('e, unit, 's) outcome) \<Rightarrow> 'x list \<Rightarrow> 's \<Rightarrow> ('e, unit, 's) outcome" where
  "for_each f [] s = Done () s"
| "for_each f (x # xs) s = and_then (f x s) (\<lambda>_ s'. for_each f xs s')"

lemma and_then_simps [simp]:
  "and_then (Done a s) k = k a s"
  "and_then (Fail e s) k = Fail e s"
  "and_then Panic k = Panic"
  by (simp_all add: and_then_def)

lemma or_else_simps [simp]:
  "or_else (Done a s) h = Done a s"
  "or_else (Fail e s) h = h e s"
  "or_else Panic h = Panic"
  by (simp_all add: or_else_def)

lemma unwrap_simps [simp]:
  "unwrap_or_default (Done u s) = Done u s"
  "unwrap_or_default (Fail e s) = Done () s"
  "unwrap_or_default Panic = Panic"
  "unwrap_ok (Done a s) = Done a s"
  "unwrap_ok (Fail e s) = Panic"
  "unwrap_ok Panic = Panic"
  "unwrap_then (Some a) k' = k' a"
  "unwrap_then None k' = Panic"
  "ok_or (Some a) e s k' = k' a"
  "ok_or None e s k' = Fail e s"
  by (simp_all add: exec_defs)

lemma ensure_simps [simp]:
  "ensure True e s k = k"
  "ensure False e s k = Fail e s"
  by (simp_all add: ensure_def)

lemma and_then_assoc: "and_then (and_then r f) g = and_then r (\<lambda>a s. and_then (f a s) g)"
  by (cases r) simp_all

lemma and_then_Done_iff:
  "and_then r k = Done b t \<longleftrightarrow> (\<exists>a s. r = Done a s \<and> k a s = Done b t)"
  by (cases r) simp_all

lemma and_then_Panic_iff:
  "and_then r k = Panic \<longleftrightarrow> r = Panic \<or> (\<exists>a s. r = Done a s \<and> k a s = Panic)"
  by (cases r) simp_all

lemma ensure_Done_iff: "ensure b e s k = Done a t \<longleftrightarrow> b \<and> k = Done a t"
  by (simp add: ensure_def)

lemma ensure_Panic_iff: "ensure b e s k = Panic \<longleftrightarrow> b \<and> k = Panic"
  by (simp add: ensure_def)

lemma div_then_Done_iff: "div_then a b k = Done r t \<longleftrightarrow> b \<noteq> 0 \<and> k (a div b) = Done r t"
  by (simp add: div_then_def)

lemma unwrap_then_Done_iff: "unwrap_then x k = Done r t \<longleftrightarrow> (\<exists>a. x = Some a \<and> k a = Done r t)"
  by (cases x) simp_all

lemma ok_or_Done_iff: "ok_or x e s k = Done r t \<longleftrightarrow> (\<exists>a. x = Some a \<and> k a = Done r t)"
  by (cases x) simp_all

lemmas Done_iffs =
  and_then_Done_iff ensure_Done_iff div_then_Done_iff unwrap_then_Done_iff ok_or_Done_iff

section \<open>Properties of the storage an outcome leaves behind\<close>

definition keeps :: "('s \<Rightarrow> bool) \<Rightarrow> ('e, 'a, 's) outcome \<Rightarrow> bool" where
  "keeps P r = (case r of Done _ s \<Rightarrow> P s | Fail _ s \<Rightarrow> P s | Panic \<Rightarrow> True)"

lemma keeps_simps [simp]:
  "keeps P (Done a s) = P s"
  "keeps P (Fail e s) = P s"
  "keeps P Panic"
  by (simp_all add: keeps_def)

lemma keeps_ensure [keeps_intros]:
  "P s \<Longrightarrow> (b \<Longrightarrow> keeps P k) \<Longrightarrow> keeps P (ensure b e s k)"
  by (simp add: ensure_def)

lemma keeps_and_then [keeps_intros]:
  "keeps P r \<Longrightarrow> (\<And>a s. r = Done a s \<Longrightarrow> P s \<Longrightarrow> keeps P (k a s)) \<Longrightarrow> keeps P (and_then r k)"
  by (cases r) simp_all

lemma keeps_or_else [keeps_intros]:
  "keeps P r \<Longrightarrow> (\<And>e s. r = Fail e s \<Longrightarrow> P s \<Longrightarrow> keeps P (h e s)) \<Longrightarrow> keeps P (or_else r h)"
  by (cases r) simp_all

lemma keeps_unwrap_or_default [keeps_intros]: "keeps P r \<Longrightarrow> keeps P (unwrap_or_default r)"
  by (cases r) simp_all

lemma keeps_unwrap_ok [keeps_intros]: "keeps P r \<Longrightarrow> keeps P (unwrap_ok r)"
  by (cases r) simp_all

lemma keeps_unwrap_then [keeps_intros]:
  "(\<And>a. x = Some a \<Longrightarrow> keeps P (k a)) \<Longrightarrow> keeps P (unwrap_then x k)"
  by (cases x) simp_all

lemma keeps_ok_or [keeps_intros]:
  "P s \<Longrightarrow> (\<And>a. x = Some a \<Longrightarrow> keeps P (k a)) \<Longrightarrow> keeps P (ok_or x e s k)"
  by (cases x) simp_all

lemma keeps_div_then [keeps_intros]:
  "(b \<noteq> 0 \<Longrightarrow> keeps P (k (a div b))) \<Longrightarrow> keeps P (div_then a b k)"
  by (simp add: div_then_def)

lemma keeps_for_each [keeps_intros]:
  "P s \<Longrightarrow> (\<And>x s. x \<in> set xs \<Longrightarrow> P s \<Longrightarrow> keeps P (f x s)) \<Longrightarrow> keeps P (for_each f xs s)"
proof (induction xs arbitrary: s)
  case Nil
  then show ?case by simp
next
  case (Cons x xs)
  show ?case
    unfolding for_each.simps
  proof (rule keeps_and_then)
    show "keeps P (f x s)" using Cons.prems by simp
  next
    fix a t
    assume "P t"
    then show "keeps P (for_each f xs t)"
      by (rule Cons.IH) (use Cons.prems in simp)
  qed
qed

lemma keepsD_Done: "keeps P r \<Longrightarrow> r = Done a s \<Longrightarrow> P s"
  by simp

lemma keepsD_Fail: "keeps P r \<Longrightarrow> r = Fail e s \<Longrightarrow> P s"
  by simp

lemma keeps_mono: "keeps P r \<Longrightarrow> (\<And>s. P s \<Longrightarrow> Q s) \<Longrightarrow> keeps Q r"
  by (cases r) simp_all

lemma keeps_conj: "keeps P r \<Longrightarrow> keeps Q r \<Longrightarrow> keeps (\<lambda>s. P s \<and> Q s) r"
  by (cases r) simp_all

section \<open>Checked arithmetic on unsigned machine integers\<close>

definition checked_add :: "'w::len word \<Rightarrow> 'w word \<Rightarrow> 'w word option" where
  "checked_add a b = (if unat a + unat b < 2 ^ LENGTH('w) then Some (a + b) else None)"

definition checked_sub :: "'w::len word \<Rightarrow> 'w word \<Rightarrow> 'w word option" where
  "checked_sub a b = (if b \<le> a then Some (a - b) else None)"

definition checked_mul :: "'w::len word \<Rightarrow> 'w word \<Rightarrow> 'w word option" where
  "checked_mul a b = (if unat a * unat b < 2 ^ LENGTH('w) then Some (a * b) else None)"

lemma unat_add_less: "unat (a::'w::len word) + unat b < 2 ^ LENGTH('w) \<Longrightarrow> unat (a + b) = unat a + unat b"
  by (simp add: unat_word_ariths)

lemma unat_less_2p: "unat (a::'w::len word) < 2 ^ LENGTH('w)"
  by (rule unsigned_less)

lemma unat_mult_less: "unat (a::'w::len word) * unat b < 2 ^ LENGTH('w) \<Longrightarrow> unat (a * b) = unat a * unat b"
  by (simp add: unat_word_ariths)

lemma unat_sub_le: "(b::'w::len word) \<le> a \<Longrightarrow> unat (a - b) = unat a - unat b"
  by (rule unat_sub)

lemma word_less_plus_1: "x + 1 \<noteq> 0 \<Longrightarrow> x < x + (1 :: 'w::len word)"
  by (metis add.commute add.right_inverse inc_less_eq_triv_imp not_le)

lemma checked_add_Some_iff:
  "checked_add (a::'w::len word) b = Some c \<longleftrightarrow> unat c = unat a + unat b"
proof
  assume "checked_add a b = Some c"
  then show "unat c = unat a + unat b"
    by (auto simp: checked_add_def unat_add_less split: if_splits)
next
  assume c: "unat c = unat a + unat b"
  then have lt: "unat a + unat b < 2 ^ LENGTH('w)"
    by (metis unsigned_less)
  then have "c = a + b"
    using c by (simp add: word_unat_eq_iff unat_add_less)
  then show "checked_add a b = Some c"
    using lt by (simp add: checked_add_def)
qed

lemma checked_sub_Some_iff:
  "checked_sub (a::'w::len word) b = Some c \<longleftrightarrow> b \<le> a \<and> c = a - b"
  by (auto simp: checked_sub_def)

lemma checked_mul_Some_iff:
  "checked_mul (a::'w::len word) b = Some c \<longleftrightarrow> unat a * unat b < 2 ^ LENGTH('w) \<and> c = a * b"
  by (auto simp: checked_mul_def)

section \<open>Sums over accounts\<close>

text \<open>Writing one entry of a finite table changes its sum by the difference of that entry.\<close>

lemma sum_fun_upd:
  fixes f :: "'k::finite \<Rightarrow> nat"
  shows "(\<Sum>x\<in>UNIV. (f(a := v)) x) + f a = (\<Sum>x\<in>UNIV. f x) + v"
proof -
  have "(\<Sum>x\<in>UNIV. (f(a := v)) x) = v + (\<Sum>x\<in>UNIV - {a}. (f(a := v)) x)"
    by (subst sum.remove [of UNIV a]) simp_all
  also have "(\<Sum>x\<in>UNIV - {a}. (f(a := v)) x) = (\<Sum>x\<in>UNIV - {a}. f x)"
    by (rule sum.cong) simp_all
  finally have l: "(\<Sum>x\<in>UNIV. (f(a := v)) x) = v + (\<Sum>x\<in>UNIV - {a}. f x)" .
  have r: "(\<Sum>x\<in>UNIV. f x) = f a + (\<Sum>x\<in>UNIV - {a}. f x)"
    by (subst sum.remove [of UNIV a]) simp_all
  show ?thesis using l r by simp
qed

lemma member_le_sum_UNIV: "f (a::'k::finite) \<le> (\<Sum>x\<in>UNIV. f x :: nat)"
  by (rule member_le_sum) simp_all

end
