(* ===== verification/Linked_Map.thy ===== *)
theory Linked_Map
  imports Exec "HOL-Library.AList"
begin

text \<open>
  The storage maps of the pallets.  A plain \<open>map\<close> or \<open>double_map\<close> storage item is a
  partial function; reading an absent key gives the item's default, which is what
  \<open>get_or\<close> writes out.  A \<open>linked_map\<close> item can also be enumerated: it is an
  association list, newest key first, because the runtime links a new key in at the head and
  leaves the place of an existing key alone when its value is overwritten.
\<close>

section \<open>Plain storage maps\<close>

definition get_or :: "'v \<Rightarrow> ('k \<rightharpoonup> 'v) \<Rightarrow> 'k \<Rightarrow> 'v" where
  "get_or d m k = (case m k of None \<Rightarrow> d | Some v \<Rightarrow> v)"

lemma get_or_upd [simp]: "get_or d (m(k \<mapsto> v)) k' = (if k' = k then v else get_or d m k')"
  by (simp add: get_or_def)

lemma get_or_empty [simp]: "get_or d Map.empty k = d"
  by (simp add: get_or_def)

lemma get_or_None [simp]: "m k = None \<Longrightarrow> get_or d m k = d"
  by (simp add: get_or_def)

lemma get_or_Some [simp]: "m k = Some v \<Longrightarrow> get_or d m k = v"
  by (simp add: get_or_def)

section \<open>Linked maps\<close>

type_synonym ('k, 'v) linked_map = "('k \<times> 'v) list"

definition lm_contains :: "('k, 'v) linked_map \<Rightarrow> 'k \<Rightarrow> bool" where
  "lm_contains m k = (map_of m k \<noteq> None)"

definition lm_get :: "'v \<Rightarrow> ('k, 'v) linked_map \<Rightarrow> 'k \<Rightarrow> 'v" where
  "lm_get d m k = get_or d (map_of m) k"

definition lm_insert :: "'k \<Rightarrow> 'v \<Rightarrow> ('k, 'v) linked_map \<Rightarrow> ('k, 'v) linked_map" where
  "lm_insert k v m = (if lm_contains m k then AList.update k v m else (k, v) # m)"

definition lm_mutate :: "'v \<Rightarrow> 'k \<Rightarrow> ('v \<Rightarrow> 'v) \<Rightarrow> ('k, 'v) linked_map \<Rightarrow> ('k, 'v) linked_map" where
  "lm_mutate d k f m = lm_insert k (f (lm_get d m k)) m"

definition lm_remove :: "'k \<Rightarrow> ('k, 'v) linked_map \<Rightarrow> ('k, 'v) linked_map" where
  "lm_remove k m = AList.delete k m"

definition lm_keys :: "('k, 'v) linked_map \<Rightarrow> 'k list" where
  "lm_keys m = map fst m"

definition lm_wf :: "('k, 'v) linked_map \<Rightarrow> bool" where
  "lm_wf m = distinct (lm_keys m)"

lemma map_of_lm_insert [simp]: "map_of (lm_insert k v m) = (map_of m)(k \<mapsto> v)"
  by (simp add: lm_insert_def update_conv')

lemma map_of_lm_remove [simp]: "map_of (lm_remove k m) = (map_of m)(k := None)"
  by (simp add: lm_remove_def delete_conv')

lemma lm_contains_iff: "lm_contains m k \<longleftrightarrow> k \<in> set (lm_keys m)"
  by (simp add: lm_contains_def lm_keys_def map_of_eq_None_iff)

lemma lm_contains_insert [simp]: "lm_contains (lm_insert k v m) k' \<longleftrightarrow> k' = k \<or> lm_contains m k'"
  by (simp add: lm_contains_def)

lemma lm_contains_mutate [simp]: "lm_contains (lm_mutate d k f m) k' \<longleftrightarrow> k' = k \<or> lm_contains m k'"
  by (simp add: lm_mutate_def)

lemma lm_contains_remove [simp]: "lm_contains (lm_remove k m) k' \<longleftrightarrow> k' \<noteq> k \<and> lm_contains m k'"
  by (simp add: lm_contains_def)

lemma lm_contains_Nil [simp]: "\<not> lm_contains [] k"
  by (simp add: lm_contains_def)

lemma lm_get_insert [simp]: "lm_get d (lm_insert k v m) k' = (if k' = k then v else lm_get d m k')"
  by (simp add: lm_get_def)

lemma lm_get_mutate [simp]:
  "lm_get d (lm_mutate d k f m) k' = (if k' = k then f (lm_get d m k) else lm_get d m k')"
  by (simp add: lm_mutate_def)

lemma lm_get_remove [simp]: "lm_get d (lm_remove k m) k' = (if k' = k then d else lm_get d m k')"
  by (simp add: lm_get_def get_or_def)

lemma lm_get_absent: "\<not> lm_contains m k \<Longrightarrow> lm_get d m k = d"
  by (simp add: lm_contains_def lm_get_def)

lemma map_of_lm_get: "lm_contains m k \<Longrightarrow> map_of m k = Some (lm_get d m k)"
  by (auto simp: lm_contains_def lm_get_def)

lemma keys_lm_insert:
  "lm_keys (lm_insert k v m) = (if lm_contains m k then lm_keys m else k # lm_keys m)"
  by (simp add: lm_insert_def lm_keys_def update_keys lm_contains_iff)

lemma keys_lm_mutate [simp]: "lm_contains m k \<Longrightarrow> lm_keys (lm_mutate d k f m) = lm_keys m"
  by (simp add: lm_mutate_def keys_lm_insert)

lemma set_keys_lm_insert [simp]: "set (lm_keys (lm_insert k v m)) = insert k (set (lm_keys m))"
  by (auto simp: keys_lm_insert lm_contains_iff)

lemma set_keys_lm_remove [simp]: "set (lm_keys (lm_remove k m)) = set (lm_keys m) - {k}"
  by (auto simp: lm_keys_def lm_remove_def delete_keys)

lemma lm_wf_Nil [simp]: "lm_wf []"
  by (simp add: lm_wf_def lm_keys_def)

lemma lm_wf_insert [simp]: "lm_wf m \<Longrightarrow> lm_wf (lm_insert k v m)"
  by (simp add: lm_wf_def keys_lm_insert lm_contains_iff)

lemma lm_wf_mutate [simp]: "lm_wf m \<Longrightarrow> lm_wf (lm_mutate d k f m)"
  by (simp add: lm_mutate_def)

lemma lm_wf_remove [simp]: "lm_wf m \<Longrightarrow> lm_wf (lm_remove k m)"
  by (simp add: lm_wf_def lm_remove_def lm_keys_def distinct_delete)

section \<open>The interface of an enumerable storage map\<close>

text \<open>
  What a pallet relies on when it uses a \<open>linked_map\<close>: lookups after an insert or a removal,
  and an enumeration that yields every present key exactly once.  The order of the enumeration
  is not part of the contract.  \<open>total_of\<close> is the total of a quantity over the stored
  values, which is how a pallet's books relate its totals to its entries.
\<close>

definition total_of :: "('v \<Rightarrow> 'n::comm_monoid_add) \<Rightarrow> ('k \<rightharpoonup> 'v) \<Rightarrow> 'n" where
  "total_of g m = (\<Sum>k\<in>dom m. g (the (m k)))"

lemma total_of_empty [simp]: "total_of g Map.empty = 0"
  by (simp add: total_of_def)

locale enumerable_storage =
  fixes lookup :: "'m \<Rightarrow> 'k \<Rightarrow> 'v option"
    and ins :: "'k \<Rightarrow> 'v \<Rightarrow> 'm \<Rightarrow> 'm"
    and rem :: "'k \<Rightarrow> 'm \<Rightarrow> 'm"
    and enum :: "'m \<Rightarrow> 'k list"
    and wf :: "'m \<Rightarrow> bool"
  assumes lookup_ins: "lookup (ins k v m) = (lookup m)(k \<mapsto> v)"
    and lookup_rem: "lookup (rem k m) = (lookup m)(k := None)"
    and set_enum: "set (enum m) = dom (lookup m)"
    and enum_distinct: "wf m \<Longrightarrow> distinct (enum m)"
    and wf_ins: "wf m \<Longrightarrow> wf (ins k v m)"
    and wf_rem: "wf m \<Longrightarrow> wf (rem k m)"
begin

lemma finite_dom: "finite (dom (lookup m))"
  by (simp flip: set_enum)

lemma total_ins_fresh: "lookup m k = None \<Longrightarrow> total_of g (lookup (ins k v m)) = g v + total_of g (lookup m)"
proof -
  assume fresh: "lookup m k = None"
  then have "(\<Sum>j\<in>dom (lookup m). g (the (lookup (ins k v m) j)))
      = (\<Sum>j\<in>dom (lookup m). g (the (lookup m j)))"
    by (intro sum.cong) (auto simp: lookup_ins)
  with fresh show ?thesis
    by (simp add: total_of_def lookup_ins finite_dom domIff)
qed

lemma total_split: "lookup m k = Some w \<Longrightarrow> total_of g (lookup m) = g w + (\<Sum>j\<in>dom (lookup m) - {k}. g (the (lookup m j)))"
  unfolding total_of_def by (subst sum.remove [of _ k]) (auto simp: finite_dom)

lemma total_rem: "lookup m k = Some w \<Longrightarrow> total_of g (lookup m) = g w + total_of g (lookup (rem k m))"
proof -
  assume present: "lookup m k = Some w"
  have "dom (lookup (rem k m)) = dom (lookup m) - {k}"
    by (simp add: lookup_rem)
  then have "total_of g (lookup (rem k m)) = (\<Sum>j\<in>dom (lookup m) - {k}. g (the (lookup m j)))"
    unfolding total_of_def by (intro sum.cong) (auto simp: lookup_rem)
  with present show ?thesis by (simp add: total_split)
qed

lemma total_ins_present:
  "lookup m k = Some w \<Longrightarrow> total_of g (lookup (ins k v m)) + g w = total_of g (lookup m) + g v"
proof -
  assume present: "lookup m k = Some w"
  have dom: "dom (lookup (ins k v m)) = dom (lookup m)"
    using present by (auto simp: lookup_ins split: if_splits)
  have "total_of g (lookup (ins k v m)) = g v + (\<Sum>j\<in>dom (lookup m) - {k}. g (the (lookup (ins k v m) j)))"
    by (subst total_split [of _ k v]) (simp_all add: lookup_ins dom [simplified lookup_ins])
  also have "(\<Sum>j\<in>dom (lookup m) - {k}. g (the (lookup (ins k v m) j)))
      = (\<Sum>j\<in>dom (lookup m) - {k}. g (the (lookup m j)))"
    by (intro sum.cong) (auto simp: lookup_ins)
  finally show ?thesis
    using total_split [OF present, of g] by (simp add: ac_simps)
qed

end

interpretation lm: enumerable_storage map_of lm_insert lm_remove lm_keys lm_wf
proof unfold_locales
  fix m :: "('k, 'v) linked_map"
  show "set (lm_keys m) = dom (map_of m)"
    by (simp add: lm_keys_def dom_map_of_conv_image_fst)
next
  fix m :: "('k, 'v) linked_map"
  show "lm_wf m \<Longrightarrow> distinct (lm_keys m)"
    by (simp add: lm_wf_def)
qed simp_all

end
