(* ===== verification/System.thy ===== *)
theory System
  imports Linked_Map
begin

text \<open>
  What every pallet shares: the machine types of the runtime (primitives/src/lib.rs), the
  origin of a call with the \<open>ensure_*\<close> checks on it, the errors a dispatchable can return
  (each pallet's \<open>decl_error!\<close> enum and the string literals), and the part of the storage
  that belongs to the frame: the sudo key, the block number, the index of the extrinsic being
  applied and the timestamp.

  The storage of the runtime is one record, extended pallet by pallet: an operation of a pallet
  is polymorphic in the extension, so it runs on the storage of any runtime that contains the
  pallet and visibly leaves the fields of the later pallets alone.
\<close>

section \<open>Types of the runtime\<close>

type_synonym account_id = "256 word"
type_synonym balance = "128 word"
type_synonym asset_id = "32 word"
type_synonym block_number = "32 word"
type_synonym moment = "64 word"

text \<open>\<open>AccountId::default()\<close>, the all-zero public key.\<close>

definition default_account :: account_id where
  "default_account = 0"

section \<open>Errors\<close>

datatype ga_error =
    NoIdAvailable
  | ZeroAmount
  | NoUpdatePermission
  | NoMintPermission
  | NoBurnPermission
  | TotalMintingOverflow
  | FreeMintingOverflow
  | TotalBurningUnderflow
  | FreeBurningUnderflow
  | IdAlreadyTaken
  | IdUnavailable
  | InsufficientBalance
  | LiquidityRestrictions
  | InsufficientReservedBalance
  | NoSuchLock
  | MissingLock
  | NoLockMeetRequirement

datatype loan_error =
    TotalCollateralUnderflow
  | ReachLoanCap
  | InvalidCollateralLoanAmounts
  | OverLTVLimit

datatype dispatch_error =
    BadOrigin
  | GaError ga_error
  | LoanError loan_error
  | Other string

type_synonym ('a, 's) dispatch = "(dispatch_error, 'a, 's) outcome"

section \<open>Origins\<close>

datatype origin = Root | Signed account_id | NoneOrigin

definition ensure_root :: "origin \<Rightarrow> 's \<Rightarrow> (unit, 's) dispatch" where
  "ensure_root orig s = (case orig of Root \<Rightarrow> Done () s | _ \<Rightarrow> Fail BadOrigin s)"

definition ensure_signed :: "origin \<Rightarrow> 's \<Rightarrow> (account_id, 's) dispatch" where
  "ensure_signed orig s = (case orig of Signed who \<Rightarrow> Done who s | _ \<Rightarrow> Fail BadOrigin s)"

definition ensure_none :: "origin \<Rightarrow> 's \<Rightarrow> (unit, 's) dispatch" where
  "ensure_none orig s = (case orig of NoneOrigin \<Rightarrow> Done () s | _ \<Rightarrow> Fail BadOrigin s)"

lemma ensure_origin_simps [simp]:
  "ensure_root Root s = Done () s"
  "ensure_root (Signed who) s = Fail BadOrigin s"
  "ensure_root NoneOrigin s = Fail BadOrigin s"
  "ensure_signed (Signed who) s = Done who s"
  "ensure_signed Root s = Fail BadOrigin s"
  "ensure_signed NoneOrigin s = Fail BadOrigin s"
  "ensure_none NoneOrigin s = Done () s"
  "ensure_none Root s = Fail BadOrigin s"
  "ensure_none (Signed who) s = Fail BadOrigin s"
  by (simp_all add: ensure_root_def ensure_signed_def ensure_none_def)

lemma keeps_ensure_root [keeps_intros]: "P s \<Longrightarrow> keeps P (ensure_root orig s)"
  by (cases orig) simp_all

lemma keeps_ensure_signed [keeps_intros]: "P s \<Longrightarrow> keeps P (ensure_signed orig s)"
  by (cases orig) simp_all

lemma keeps_ensure_none [keeps_intros]: "P s \<Longrightarrow> keeps P (ensure_none orig s)"
  by (cases orig) simp_all

lemma ensure_root_Done_iff: "ensure_root orig s = Done u t \<longleftrightarrow> orig = Root \<and> t = s"
  by (cases orig) auto

lemma ensure_signed_Done_iff: "ensure_signed orig s = Done who t \<longleftrightarrow> orig = Signed who \<and> t = s"
  by (cases orig) auto

lemma ensure_none_Done_iff: "ensure_none orig s = Done u t \<longleftrightarrow> orig = NoneOrigin \<and> t = s"
  by (cases orig) auto

lemmas origin_Done_iffs = ensure_root_Done_iff ensure_signed_Done_iff ensure_none_Done_iff

lemma ensure_root_and_then:
  "and_then (ensure_root orig s) k = (if orig = Root then k () s else Fail BadOrigin s)"
  by (cases orig) simp_all

section \<open>Storage of the frame\<close>

record system_state =
  SudoKey :: account_id
  BlockNumber :: block_number
  ExtrinsicIndex :: "32 word option"
  Now :: moment

end
