(* ===== verification/Generic_Asset.thy ===== *)
theory Generic_Asset
  imports System
begin

text \<open>
  The generic-asset pallet (runtime/modules/generic-asset/src/lib.rs): its data, its storage
  and every operation of it, the dispatchables included.  The balances are \<open>u128\<close>, the
  asset ids \<open>u32\<close>, as the runtime instantiates them; the unchecked \<open>+\<close>, \<open>-\<close> and
  \<open>+=\<close> of the source are the wrapping operations of the release build.

  The hash \<open>twox_64\<close> over an encoded asset id, which names the list a lock is stored in,
  is not code of this repository: the operations on locks take it as the parameter
  \<open>twox\<close>.
\<close>

section \<open>Owners, permissions and asset options\<close>

datatype 'acct owner = NoOwner | Address 'acct

record 'acct permissions_v1 =
  update_perm :: "'acct owner"
  mint_perm :: "'acct owner"
  burn_perm :: "'acct owner"

datatype 'acct permission_versions = V1 "'acct permissions_v1"

datatype permission_type = Burn | Mint | Update

definition default_permissions_v1 :: "'acct permissions_v1" where
  "default_permissions_v1 = \<lparr>update_perm = NoOwner, mint_perm = NoOwner, burn_perm = NoOwner\<rparr>"

definition default_permission_versions :: "'acct permission_versions" where
  "default_permission_versions = V1 default_permissions_v1"

fun into_latest :: "'acct permission_versions \<Rightarrow> 'acct permissions_v1" where
  "into_latest (V1 v1) = v1"

definition into_versions :: "'acct permissions_v1 \<Rightarrow> 'acct permission_versions" where
  "into_versions p = V1 p"

record ('bal, 'acct) asset_options =
  initial_issuance :: 'bal
  permissions :: "'acct permissions_v1"

subsection \<open>The binary format of the versioned permissions\<close>

text \<open>
  The derived codec of the enums and structs writes a one-byte constructor index and then the
  fields in order.  How an account id is written is not fixed by the pallet: \<open>enc\<close> and
  \<open>dec\<close> are the codec of the account type.
\<close>

type_synonym bytes = "8 word list"

fun encode_owner :: "('acct \<Rightarrow> bytes) \<Rightarrow> 'acct owner \<Rightarrow> bytes" where
  "encode_owner enc NoOwner = [0]"
| "encode_owner enc (Address a) = 1 # enc a"

fun decode_owner :: "(bytes \<Rightarrow> ('acct \<times> bytes) option) \<Rightarrow> bytes \<Rightarrow> ('acct owner \<times> bytes) option" where
  "decode_owner dec [] = None"
| "decode_owner dec (b # bs) =
     (if b = 0 then Some (NoOwner, bs)
      else if b = 1 then map_option (\<lambda>(a, r). (Address a, r)) (dec bs)
      else None)"

definition encode_permissions_v1 :: "('acct \<Rightarrow> bytes) \<Rightarrow> 'acct permissions_v1 \<Rightarrow> bytes" where
  "encode_permissions_v1 enc p =
     encode_owner enc (update_perm p) @ encode_owner enc (mint_perm p) @ encode_owner enc (burn_perm p)"

definition decode_permissions_v1 ::
    "(bytes \<Rightarrow> ('acct \<times> bytes) option) \<Rightarrow> bytes \<Rightarrow> ('acct permissions_v1 \<times> bytes) option" where
  "decode_permissions_v1 dec bs =
     Option.bind (decode_owner dec bs) (\<lambda>(u, bs).
     Option.bind (decode_owner dec bs) (\<lambda>(m, bs).
     Option.bind (decode_owner dec bs) (\<lambda>(b, bs).
       Some (\<lparr>update_perm = u, mint_perm = m, burn_perm = b\<rparr>, bs))))"

fun encode_permission_versions :: "('acct \<Rightarrow> bytes) \<Rightarrow> 'acct permission_versions \<Rightarrow> bytes" where
  "encode_permission_versions enc (V1 payload) = 0 # encode_permissions_v1 enc payload"

fun decode_permission_versions ::
    "(bytes \<Rightarrow> ('acct \<times> bytes) option) \<Rightarrow> bytes \<Rightarrow> ('acct permission_versions \<times> bytes) option" where
  "decode_permission_versions dec [] = None"
| "decode_permission_versions dec (version # bs) =
     (if version = 0 then map_option (\<lambda>(p, r). (V1 p, r)) (decode_permissions_v1 dec bs) else None)"

section \<open>Storage\<close>

type_synonym lock_identifier = "64 word"

datatype withdraw_reason = TransactionPayment | Transfer | Reserve | Fee | Tip

record balance_lock =
  lock_id :: "128 word"
  lock_asset_id :: asset_id
  lock_amount :: balance
  lock_reasons :: "withdraw_reason list"

datatype ga_event =
    Created asset_id account_id "(balance, account_id) asset_options"
  | Transferred asset_id account_id account_id balance
  | PermissionUpdated asset_id "account_id permissions_v1"
  | Minted asset_id account_id balance
  | Burned asset_id account_id balance
  | Reserved asset_id account_id balance "128 word"
  | Unreserved asset_id account_id balance "128 word"

record ga_state = system_state +
  TotalIssuance :: "asset_id \<rightharpoonup> balance"
  FreeBalance :: "(asset_id \<times> account_id) \<rightharpoonup> balance"
  ReservedBalance :: "(asset_id \<times> account_id) \<rightharpoonup> balance"
  Symbols :: "asset_id \<rightharpoonup> string"
  NextAssetId :: asset_id
  Permissions :: "asset_id \<rightharpoonup> account_id permission_versions"
  NextLockId :: "128 word"
  Locks :: "(lock_identifier \<times> account_id) \<rightharpoonup> balance_lock list"
  GaEvents :: "ga_event list"

definition deposit_ga_event :: "ga_event \<Rightarrow> 'a ga_state_scheme \<Rightarrow> 'a ga_state_scheme" where
  "deposit_ga_event ev s = s\<lparr>GaEvents := GaEvents s @ [ev]\<rparr>"

section \<open>Immutable accessors\<close>

definition total_issuance :: "asset_id \<Rightarrow> 'a ga_state_scheme \<Rightarrow> balance" where
  "total_issuance aid s = get_or 0 (TotalIssuance s) aid"

definition free_balance :: "asset_id \<Rightarrow> account_id \<Rightarrow> 'a ga_state_scheme \<Rightarrow> balance" where
  "free_balance aid who s = get_or 0 (FreeBalance s) (aid, who)"

definition reserved_balance :: "asset_id \<Rightarrow> account_id \<Rightarrow> 'a ga_state_scheme \<Rightarrow> balance" where
  "reserved_balance aid who s = get_or 0 (ReservedBalance s) (aid, who)"

definition total_balance :: "asset_id \<Rightarrow> account_id \<Rightarrow> 'a ga_state_scheme \<Rightarrow> balance" where
  "total_balance aid who s = free_balance aid who s + reserved_balance aid who s"

definition symbols :: "asset_id \<Rightarrow> 'a ga_state_scheme \<Rightarrow> string" where
  "symbols aid s = get_or [] (Symbols s) aid"

definition get_permission :: "asset_id \<Rightarrow> 'a ga_state_scheme \<Rightarrow> account_id permission_versions" where
  "get_permission aid s = get_or default_permission_versions (Permissions s) aid"

definition locks :: "lock_identifier \<Rightarrow> account_id \<Rightarrow> 'a ga_state_scheme \<Rightarrow> balance_lock list" where
  "locks ident who s = get_or [] (Locks s) (ident, who)"

definition asset_id_exists :: "asset_id \<Rightarrow> 'a ga_state_scheme \<Rightarrow> bool" where
  "asset_id_exists aid s = (Symbols s aid \<noteq> None)"

definition check_permission ::
    "asset_id \<Rightarrow> account_id \<Rightarrow> permission_type \<Rightarrow> 'a ga_state_scheme \<Rightarrow> bool" where
  "check_permission aid who what s =
     (let permission = into_latest (get_permission aid s) in
      case what of
        Burn \<Rightarrow> (case burn_perm permission of Address account \<Rightarrow> account = who | NoOwner \<Rightarrow> False)
      | Mint \<Rightarrow> (case mint_perm permission of Address account \<Rightarrow> account = who | NoOwner \<Rightarrow> False)
      | Update \<Rightarrow> (case update_perm permission of Address account \<Rightarrow> account = who | NoOwner \<Rightarrow> False))"

definition ensure_can_withdraw ::
    "asset_id \<Rightarrow> account_id \<Rightarrow> balance \<Rightarrow> withdraw_reason list \<Rightarrow> balance
      \<Rightarrow> 'a ga_state_scheme \<Rightarrow> (unit, 'a ga_state_scheme) dispatch" where
  "ensure_can_withdraw _ _ _ _ _ s = Done () s"

section \<open>Low-level writers\<close>

definition set_free_balance ::
    "asset_id \<Rightarrow> account_id \<Rightarrow> balance \<Rightarrow> 'a ga_state_scheme \<Rightarrow> 'a ga_state_scheme" where
  "set_free_balance aid who b s = s\<lparr>FreeBalance := (FreeBalance s)((aid, who) \<mapsto> b)\<rparr>"

definition set_reserved_balance ::
    "asset_id \<Rightarrow> account_id \<Rightarrow> balance \<Rightarrow> 'a ga_state_scheme \<Rightarrow> 'a ga_state_scheme" where
  "set_reserved_balance aid who b s = s\<lparr>ReservedBalance := (ReservedBalance s)((aid, who) \<mapsto> b)\<rparr>"

definition set_total_issuance :: "asset_id \<Rightarrow> balance \<Rightarrow> 'a ga_state_scheme \<Rightarrow> 'a ga_state_scheme" where
  "set_total_issuance aid b s = s\<lparr>TotalIssuance := (TotalIssuance s)(aid \<mapsto> b)\<rparr>"

section \<open>Locks\<close>

definition take_lock_id :: "'a ga_state_scheme \<Rightarrow> 128 word \<times> 'a ga_state_scheme" where
  "take_lock_id s = (NextLockId s, s\<lparr>NextLockId := NextLockId s + 1\<rparr>)"

definition generic_asset_lock_identifier :: "(asset_id \<Rightarrow> lock_identifier) \<Rightarrow> asset_id \<Rightarrow> lock_identifier" where
  "generic_asset_lock_identifier twox aid = twox aid"

definition set_lock ::
    "(asset_id \<Rightarrow> lock_identifier) \<Rightarrow> asset_id \<Rightarrow> account_id \<Rightarrow> balance \<Rightarrow> withdraw_reason list
      \<Rightarrow> 'a ga_state_scheme \<Rightarrow> 128 word \<times> 'a ga_state_scheme" where
  "set_lock twox aid who amount reasons s =
     (let (lid, s) = take_lock_id s;
          new_lock = \<lparr>lock_id = lid, lock_asset_id = aid, lock_amount = amount, lock_reasons = reasons\<rparr>;
          ident = generic_asset_lock_identifier twox aid
      in (lid, s\<lparr>Locks := (Locks s)((ident, who) \<mapsto> locks ident who s @ [new_lock])\<rparr>))"

definition extend_lock ::
    "lock_identifier \<Rightarrow> account_id \<Rightarrow> balance \<Rightarrow> withdraw_reason list \<Rightarrow> 'a ga_state_scheme \<Rightarrow> 'a ga_state_scheme" where
  "extend_lock _ _ _ _ s = s"

text \<open>The closure of \<open>remove_lock\<close>: drop the first lock with the id, keep the others.\<close>

fun drop_first_lock :: "bool \<Rightarrow> 128 word \<Rightarrow> balance_lock list \<Rightarrow> balance_lock list" where
  "drop_first_lock first lid [] = []"
| "drop_first_lock first lid (v # vs) =
     (if first \<and> lock_id v = lid then drop_first_lock False lid vs
      else v # drop_first_lock first lid vs)"

definition remove_lock ::
    "lock_identifier \<Rightarrow> account_id \<Rightarrow> 128 word \<Rightarrow> 'a ga_state_scheme \<Rightarrow> 'a ga_state_scheme" where
  "remove_lock ident who lid s =
     (let old = locks ident who s;
          new_locks = drop_first_lock True lid old
      in if length old - length new_locks = 1
         then s\<lparr>Locks := (Locks s)((ident, who) \<mapsto> new_locks)\<rparr>
         else s)"

definition lock_id_exists :: "lock_identifier \<Rightarrow> account_id \<Rightarrow> 128 word \<Rightarrow> 'a ga_state_scheme \<Rightarrow> bool" where
  "lock_id_exists ident who lid s = list_ex (\<lambda>l. lock_id l = lid) (locks ident who s)"

definition find_lock_id_by_amount ::
    "lock_identifier \<Rightarrow> account_id \<Rightarrow> balance \<Rightarrow> 'a ga_state_scheme \<Rightarrow> 128 word option" where
  "find_lock_id_by_amount ident who amount s =
     map_option lock_id (find (\<lambda>l. lock_amount l = amount) (locks ident who s))"

definition locked_balance ::
    "(asset_id \<Rightarrow> lock_identifier) \<Rightarrow> asset_id \<Rightarrow> account_id \<Rightarrow> 128 word \<Rightarrow> 'a ga_state_scheme \<Rightarrow> balance option" where
  "locked_balance twox aid who lid s =
     map_option lock_amount
       (find (\<lambda>l. lock_id l = lid) (locks (generic_asset_lock_identifier twox aid) who s))"

section \<open>Public mutables\<close>

definition mint_free ::
    "asset_id \<Rightarrow> account_id \<Rightarrow> account_id \<Rightarrow> balance \<Rightarrow> 'a ga_state_scheme
      \<Rightarrow> (unit, 'a ga_state_scheme) dispatch" where
  "mint_free aid who to_acct amount s =
     (if check_permission aid who Mint s then
        ok_or (checked_add (total_issuance aid s) amount) (GaError TotalMintingOverflow) s (\<lambda>new_total_issuance.
        ok_or (checked_add (free_balance aid to_acct s) amount) (GaError FreeMintingOverflow) s (\<lambda>value.
          Done () (set_free_balance aid to_acct value (set_total_issuance aid new_total_issuance s))))
      else Fail (GaError NoMintPermission) s)"

definition burn_free ::
    "asset_id \<Rightarrow> account_id \<Rightarrow> account_id \<Rightarrow> balance \<Rightarrow> 'a ga_state_scheme
      \<Rightarrow> (unit, 'a ga_state_scheme) dispatch" where
  "burn_free aid who to_acct amount s =
     (if check_permission aid who Burn s then
        ok_or (checked_sub (total_issuance aid s) amount) (GaError TotalBurningUnderflow) s (\<lambda>new_total_issuance.
        ok_or (checked_sub (free_balance aid to_acct s) amount) (GaError FreeBurningUnderflow) s (\<lambda>value.
          Done () (set_free_balance aid to_acct value (set_total_issuance aid new_total_issuance s))))
      else Fail (GaError NoBurnPermission) s)"

definition create_asset ::
    "asset_id option \<Rightarrow> account_id option \<Rightarrow> (balance, account_id) asset_options
      \<Rightarrow> 'a ga_state_scheme \<Rightarrow> (unit, 'a ga_state_scheme) dispatch" where
  "create_asset asset_id from_account options s =
     and_then
       (case asset_id of
          Some aid \<Rightarrow>
            ensure (TotalIssuance s aid = None) (GaError IdAlreadyTaken) s (
            ensure (aid < NextAssetId s) (GaError IdUnavailable) s (
              Done aid s))
        | None \<Rightarrow>
            (let aid = NextAssetId s in
             ok_or (checked_add aid 1) (GaError NoIdAvailable) s (\<lambda>next_id.
               Done aid (s\<lparr>NextAssetId := next_id\<rparr>))))
       (\<lambda>aid s.
          let account_id = (case from_account of Some a \<Rightarrow> a | None \<Rightarrow> default_account);
              perms = into_versions (permissions options);
              s = set_total_issuance aid (initial_issuance options) s;
              s = set_free_balance aid account_id (initial_issuance options) s;
              s = s\<lparr>Permissions := (Permissions s)(aid \<mapsto> perms)\<rparr>
          in Done () (deposit_ga_event (Created aid account_id options) s))"

definition make_transfer ::
    "asset_id \<Rightarrow> account_id \<Rightarrow> account_id \<Rightarrow> balance \<Rightarrow> 'a ga_state_scheme
      \<Rightarrow> (unit, 'a ga_state_scheme) dispatch" where
  "make_transfer aid from_acct to_acct amount s =
     ensure (amount \<le> free_balance aid from_acct s) (GaError InsufficientBalance) s (
       if from_acct \<noteq> to_acct then
         (let s = set_free_balance aid from_acct (free_balance aid from_acct s - amount) s;
              s = set_free_balance aid to_acct (free_balance aid to_acct s + amount) s
          in Done () s)
       else Done () s)"

definition make_transfer_with_event ::
    "asset_id \<Rightarrow> account_id \<Rightarrow> account_id \<Rightarrow> balance \<Rightarrow> 'a ga_state_scheme
      \<Rightarrow> (unit, 'a ga_state_scheme) dispatch" where
  "make_transfer_with_event aid from_acct to_acct amount s =
     and_then (make_transfer aid from_acct to_acct amount s) (\<lambda>_ s.
       if from_acct \<noteq> to_acct
       then Done () (deposit_ga_event (Transferred aid from_acct to_acct amount) s)
       else Done () s)"

definition reserve ::
    "(asset_id \<Rightarrow> lock_identifier) \<Rightarrow> asset_id \<Rightarrow> account_id \<Rightarrow> balance \<Rightarrow> 'a ga_state_scheme
      \<Rightarrow> (128 word, 'a ga_state_scheme) dispatch" where
  "reserve twox aid who amount s =
     (let original_reserve_balance = reserved_balance aid who s;
          original_free_balance = free_balance aid who s
      in ensure (amount \<le> original_free_balance) (GaError InsufficientBalance) s (
           let s = set_reserved_balance aid who (original_reserve_balance + amount) s;
               s = set_free_balance aid who (original_free_balance - amount) s;
               (lid, s) = set_lock twox aid who amount [Reserve] s
           in Done lid (deposit_ga_event (Reserved aid who amount lid) s)))"

definition unreserve ::
    "(asset_id \<Rightarrow> lock_identifier) \<Rightarrow> asset_id \<Rightarrow> account_id \<Rightarrow> balance \<Rightarrow> 128 word option
      \<Rightarrow> 'a ga_state_scheme \<Rightarrow> (unit, 'a ga_state_scheme) dispatch" where
  "unreserve twox aid who amount lock s =
     (let reserved = reserved_balance aid who s;
          idf = generic_asset_lock_identifier twox aid
      in ensure (amount \<le> reserved) (GaError InsufficientReservedBalance) s (
         and_then
           (case lock of
              Some lid \<Rightarrow>
                if \<not> lock_id_exists idf who lid s then Fail (GaError MissingLock) s else Done lid s
            | None \<Rightarrow>
                (case find_lock_id_by_amount idf who amount s of
                   Some lid \<Rightarrow> Done lid s
                 | None \<Rightarrow> Fail (GaError NoLockMeetRequirement) s))
           (\<lambda>lid s.
              let s = remove_lock idf who lid s;
                  s = set_free_balance aid who (free_balance aid who s + amount) s;
                  s = set_reserved_balance aid who (reserved - amount) s
              in Done () (deposit_ga_event (Unreserved aid who amount lid) s))))"

text \<open>\<open>slash\<close> and \<open>repatriate_reserved\<close> are stubs: their bodies are commented out.\<close>

definition slash :: "asset_id \<Rightarrow> account_id \<Rightarrow> balance \<Rightarrow> 'a ga_state_scheme
    \<Rightarrow> (balance option, 'a ga_state_scheme) dispatch" where
  "slash _ _ _ s = Done None s"

datatype balance_status = Free_Status | Reserved_Status

definition repatriate_reserved ::
    "asset_id \<Rightarrow> account_id \<Rightarrow> account_id \<Rightarrow> balance \<Rightarrow> balance_status \<Rightarrow> 'a ga_state_scheme
      \<Rightarrow> (balance, 'a ga_state_scheme) dispatch" where
  "repatriate_reserved _ _ _ _ _ s = Done 0 s"

section \<open>Dispatchables\<close>

definition create :: "origin \<Rightarrow> balance \<Rightarrow> string \<Rightarrow> 'a ga_state_scheme \<Rightarrow> (unit, 'a ga_state_scheme) dispatch" where
  "create orig initial symbol s =
     and_then (ensure_root orig s) (\<lambda>_ s.
       let root_account_id = SudoKey s;
           options = \<lparr>initial_issuance = initial,
             permissions = \<lparr>update_perm = Address root_account_id,
                            mint_perm = Address root_account_id,
                            burn_perm = Address root_account_id\<rparr>\<rparr>;
           aid = NextAssetId s
       in and_then (create_asset None (Some root_account_id) options s) (\<lambda>_ s.
            Done () (s\<lparr>Symbols := (Symbols s)(aid \<mapsto> symbol)\<rparr>)))"

definition transfer ::
    "origin \<Rightarrow> asset_id \<Rightarrow> account_id \<Rightarrow> balance \<Rightarrow> 'a ga_state_scheme \<Rightarrow> (unit, 'a ga_state_scheme) dispatch" where
  "transfer orig aid to_acct amount s =
     and_then (ensure_signed orig s) (\<lambda>who s.
     ensure (amount \<noteq> 0) (GaError ZeroAmount) s (
       make_transfer_with_event aid who to_acct amount s))"

definition update_permission ::
    "origin \<Rightarrow> asset_id \<Rightarrow> account_id permissions_v1 \<Rightarrow> 'a ga_state_scheme \<Rightarrow> (unit, 'a ga_state_scheme) dispatch" where
  "update_permission orig aid new_permission s =
     and_then (ensure_signed orig s) (\<lambda>who s.
       let perms = into_versions new_permission in
       if check_permission aid who Update s
       then Done () (deposit_ga_event (PermissionUpdated aid (into_latest perms))
              (s\<lparr>Permissions := (Permissions s)(aid \<mapsto> perms)\<rparr>))
       else Fail (GaError NoUpdatePermission) s)"

definition mint :: "origin \<Rightarrow> asset_id \<Rightarrow> account_id \<Rightarrow> balance \<Rightarrow> 'a ga_state_scheme \<Rightarrow> (unit, 'a ga_state_scheme) dispatch" where
  "mint orig aid to_acct amount s =
     and_then (ensure_signed orig s) (\<lambda>who s.
     and_then (mint_free aid who to_acct amount s) (\<lambda>_ s.
       Done () (deposit_ga_event (Minted aid to_acct amount) s)))"

definition burn :: "origin \<Rightarrow> asset_id \<Rightarrow> account_id \<Rightarrow> balance \<Rightarrow> 'a ga_state_scheme \<Rightarrow> (unit, 'a ga_state_scheme) dispatch" where
  "burn orig aid to_acct amount s =
     and_then (ensure_signed orig s) (\<lambda>who s.
     and_then (burn_free aid who to_acct amount s) (\<lambda>_ s.
       Done () (deposit_ga_event (Burned aid to_acct amount) s)))"

definition create_reserved ::
    "origin \<Rightarrow> asset_id \<Rightarrow> (balance, account_id) asset_options \<Rightarrow> 'a ga_state_scheme \<Rightarrow> (unit, 'a ga_state_scheme) dispatch" where
  "create_reserved orig aid options s =
     and_then (ensure_root orig s) (\<lambda>_ s. create_asset (Some aid) None options s)"

text \<open>The \<open>Call\<close> enum that \<open>decl_module!\<close> generates, and its dispatch.\<close>

datatype ga_call =
    Call_create balance string
  | Call_transfer asset_id account_id balance
  | Call_update_permission asset_id "account_id permissions_v1"
  | Call_mint asset_id account_id balance
  | Call_burn asset_id account_id balance
  | Call_create_reserved asset_id "(balance, account_id) asset_options"

fun ga_dispatch :: "origin \<Rightarrow> ga_call \<Rightarrow> 'a ga_state_scheme \<Rightarrow> (unit, 'a ga_state_scheme) dispatch" where
  "ga_dispatch orig (Call_create initial symbol) s = create orig initial symbol s"
| "ga_dispatch orig (Call_transfer aid to_acct amount) s = transfer orig aid to_acct amount s"
| "ga_dispatch orig (Call_update_permission aid p) s = update_permission orig aid p s"
| "ga_dispatch orig (Call_mint aid to_acct amount) s = mint orig aid to_acct amount s"
| "ga_dispatch orig (Call_burn aid to_acct amount) s = burn orig aid to_acct amount s"
| "ga_dispatch orig (Call_create_reserved aid options) s = create_reserved orig aid options s"

section \<open>Genesis\<close>

record ga_genesis =
  gen_assets :: "asset_id list"
  gen_initial_balance :: balance
  gen_endowed_accounts :: "account_id list"
  gen_symbols :: "(asset_id \<times> string) list"
  gen_next_asset_id :: asset_id

text \<open>
  The storage items are built in the order of their declaration, then the extra
  \<open>build\<close> closure runs.  \<open>len() as u32\<close> truncates and the product wraps.
\<close>

definition ga_genesis_build :: "ga_genesis \<Rightarrow> 'a ga_state_scheme \<Rightarrow> (unit, 'a ga_state_scheme) dispatch" where
  "ga_genesis_build cfg s =
     (let issuance = gen_initial_balance cfg * ucast (of_nat (length (gen_endowed_accounts cfg)) :: 32 word);
          s = fold (\<lambda>aid. set_total_issuance aid issuance) (gen_assets cfg) s;
          s = s\<lparr>Symbols := fold (\<lambda>(aid, symb) m. m(aid \<mapsto> symb)) (gen_symbols cfg) (Symbols s)\<rparr>;
          s = s\<lparr>NextAssetId := gen_next_asset_id cfg, NextLockId := 1\<rparr>;
          s = fold (\<lambda>aid. fold (\<lambda>account_id. set_free_balance aid account_id (gen_initial_balance cfg))
                (gen_endowed_accounts cfg)) (gen_assets cfg) s;
          root_id = SudoKey s;
          options = \<lparr>initial_issuance = 0,
            permissions = \<lparr>update_perm = Address root_id, mint_perm = Address root_id,
                           burn_perm = Address root_id\<rparr>\<rparr>
      in for_each (\<lambda>i s. unwrap_ok (create_asset (Some (fst i)) (Some root_id) options s))
           (gen_symbols cfg) s)"

definition empty_ga_state :: "system_state \<Rightarrow> ga_state" where
  "empty_ga_state sys = system_state.extend sys (ga_state.fields Map.empty Map.empty Map.empty Map.empty
     0 Map.empty 1 Map.empty [])"

end
