(* ===== verification/Asset_Ledger.thy ===== *)
theory Asset_Ledger
  imports Generic_Asset
begin

text \<open>
  What the other pallets rely on when they move assets, as the interface \<open>asset_ledger\<close>
  with the generic-asset pallet as its provider, and the invariant of the pallet: for every
  asset the free and reserved balances of all accounts add up to the recorded issuance, and an
  id that has not been handed out yet carries nothing.  The invariant is what makes the
  unchecked \<open>+=\<close> of the source safe.
\<close>

section \<open>The interface\<close>

locale asset_ledger =
  fixes bal :: "'asset \<Rightarrow> 'acct \<Rightarrow> 's \<Rightarrow> balance"
    and xfer :: "'asset \<Rightarrow> 'acct \<Rightarrow> 'acct \<Rightarrow> balance \<Rightarrow> 's \<Rightarrow> (unit, 's) dispatch"
  assumes xfer_short: "\<not> n \<le> bal a f s \<Longrightarrow> \<exists>e. xfer a f t n s = Fail e s"
    and xfer_enough: "n \<le> bal a f s \<Longrightarrow> \<exists>s'. xfer a f t n s = Done () s'"
    and xfer_bal: "xfer a f t n s = Done () s' \<Longrightarrow>
      bal b w s' = (if b = a \<and> f \<noteq> t \<and> w = f then bal a f s - n
                    else if b = a \<and> f \<noteq> t \<and> w = t then bal a t s + n
                    else bal b w s)"
begin

lemma xfer_Done_iff: "(\<exists>s'. xfer a f t n s = Done () s') \<longleftrightarrow> n \<le> bal a f s"
  using xfer_short [of n a f s t] xfer_enough [of n a f s t] by (cases "n \<le> bal a f s") auto

lemma xfer_not_Panic: "xfer a f t n s \<noteq> Panic"
  using xfer_short [of n a f s t] xfer_enough [of n a f s t] by (cases "n \<le> bal a f s") auto

lemma xfer_Fail_unchanged: "xfer a f t n s = Fail e s' \<Longrightarrow> s' = s \<and> \<not> n \<le> bal a f s"
  using xfer_short [of n a f s t] xfer_enough [of n a f s t] by (cases "n \<le> bal a f s") auto

lemma xfer_Done_le: "xfer a f t n s = Done () s' \<Longrightarrow> n \<le> bal a f s"
  using xfer_Done_iff [of a f t n s] by blast

lemma xfer_pair_sum:
  "xfer a f t n s = Done () s' \<Longrightarrow> bal a f s' + bal a t s' = bal a f s + bal a t s"
  by (cases "f = t") (simp_all add: xfer_bal [of a f t n s s'])

lemma xfer_other_asset: "xfer a f t n s = Done () s' \<Longrightarrow> b \<noteq> a \<Longrightarrow> bal b w s' = bal b w s"
  by (simp add: xfer_bal [of a f t n s s'])

lemma xfer_other_account:
  "xfer a f t n s = Done () s' \<Longrightarrow> w \<noteq> f \<Longrightarrow> w \<noteq> t \<Longrightarrow> bal b w s' = bal b w s"
  by (simp add: xfer_bal [of a f t n s s'])

lemma xfer_back:
  assumes "xfer a f t n s = Done () s'" and "xfer a t f n s' = Done () s''"
  shows "bal b w s'' = bal b w s"
  using assms by (simp add: xfer_bal [of a f t n s s'] xfer_bal [of a t f n s' s''])

text \<open>A transfer can always be undone when the receiver's balance did not wrap.\<close>

lemma xfer_can_return:
  assumes "xfer a f t n s = Done () s'" and "unat (bal a t s) + unat n < 2 ^ 128" and "f \<noteq> t"
  shows "\<exists>s''. xfer a t f n s' = Done () s''"
proof (rule xfer_enough)
  have "bal a t s' = bal a t s + n"
    using assms(1,3) by (simp add: xfer_bal [of a f t n s s'])
  then show "n \<le> bal a t s'"
    using assms(2) by (simp add: word_le_nat_alt unat_add_less)
qed

end

section \<open>How the writers change what is read\<close>

named_theorems ledger_simps "reading the ledger after a write to it"

lemma reads_after_set_free [ledger_simps]:
  "free_balance aid who (set_free_balance aid' who' b s)
     = (if aid = aid' \<and> who = who' then b else free_balance aid who s)"
  "reserved_balance aid who (set_free_balance aid' who' b s) = reserved_balance aid who s"
  "total_issuance aid (set_free_balance aid' who' b s) = total_issuance aid s"
  by (simp_all add: free_balance_def reserved_balance_def total_issuance_def set_free_balance_def)

lemma reads_after_set_reserved [ledger_simps]:
  "free_balance aid who (set_reserved_balance aid' who' b s) = free_balance aid who s"
  "reserved_balance aid who (set_reserved_balance aid' who' b s)
     = (if aid = aid' \<and> who = who' then b else reserved_balance aid who s)"
  "total_issuance aid (set_reserved_balance aid' who' b s) = total_issuance aid s"
  by (simp_all add: free_balance_def reserved_balance_def total_issuance_def set_reserved_balance_def)

lemma reads_after_set_total [ledger_simps]:
  "free_balance aid who (set_total_issuance aid' b s) = free_balance aid who s"
  "reserved_balance aid who (set_total_issuance aid' b s) = reserved_balance aid who s"
  "total_issuance aid (set_total_issuance aid' b s) = (if aid = aid' then b else total_issuance aid s)"
  by (simp_all add: free_balance_def reserved_balance_def total_issuance_def set_total_issuance_def)

text \<open>Storage fields that hold no balance do not matter to the readers of balances.\<close>

lemma reads_ignore [ledger_simps]:
  "free_balance aid who (s\<lparr>Symbols := x1\<rparr>) = free_balance aid who s"
  "free_balance aid who (s\<lparr>NextAssetId := x2\<rparr>) = free_balance aid who s"
  "free_balance aid who (s\<lparr>Permissions := x3\<rparr>) = free_balance aid who s"
  "free_balance aid who (s\<lparr>NextLockId := x4\<rparr>) = free_balance aid who s"
  "free_balance aid who (s\<lparr>Locks := x5\<rparr>) = free_balance aid who s"
  "reserved_balance aid who (s\<lparr>Symbols := x1\<rparr>) = reserved_balance aid who s"
  "reserved_balance aid who (s\<lparr>NextAssetId := x2\<rparr>) = reserved_balance aid who s"
  "reserved_balance aid who (s\<lparr>Permissions := x3\<rparr>) = reserved_balance aid who s"
  "reserved_balance aid who (s\<lparr>NextLockId := x4\<rparr>) = reserved_balance aid who s"
  "reserved_balance aid who (s\<lparr>Locks := x5\<rparr>) = reserved_balance aid who s"
  "total_issuance aid (s\<lparr>Symbols := x1\<rparr>) = total_issuance aid s"
  "total_issuance aid (s\<lparr>NextAssetId := x2\<rparr>) = total_issuance aid s"
  "total_issuance aid (s\<lparr>Permissions := x3\<rparr>) = total_issuance aid s"
  "total_issuance aid (s\<lparr>NextLockId := x4\<rparr>) = total_issuance aid s"
  "total_issuance aid (s\<lparr>Locks := x5\<rparr>) = total_issuance aid s"
  by (simp_all add: free_balance_def reserved_balance_def total_issuance_def)

lemma reads_after_event [ledger_simps]:
  "free_balance aid who (deposit_ga_event ev s) = free_balance aid who s"
  "reserved_balance aid who (deposit_ga_event ev s) = reserved_balance aid who s"
  "total_issuance aid (deposit_ga_event ev s) = total_issuance aid s"
  by (simp_all add: free_balance_def reserved_balance_def total_issuance_def deposit_ga_event_def)

section \<open>Transfers provide the interface\<close>

text \<open>
  \<open>moved\<close> is the storage a successful transfer leaves: every pallet that moves assets
  reasons with it instead of unfolding the transfer.
\<close>

definition moved :: "asset_id \<Rightarrow> account_id \<Rightarrow> account_id \<Rightarrow> balance \<Rightarrow> 'a ga_state_scheme \<Rightarrow> 'a ga_state_scheme" where
  "moved aid f t n s =
     (if f = t then s
      else deposit_ga_event (Transferred aid f t n)
             (set_free_balance aid t (free_balance aid t s + n)
               (set_free_balance aid f (free_balance aid f s - n) s)))"

lemma make_transfer_with_event_eq:
  "make_transfer_with_event aid f t n s =
     (if n \<le> free_balance aid f s then Done () (moved aid f t n s)
      else Fail (GaError InsufficientBalance) s)"
  by (simp add: make_transfer_with_event_def make_transfer_def moved_def ensure_def ledger_simps Let_def)

lemma free_balance_moved [ledger_simps]:
  "free_balance b w (moved a f t n s) =
     (if b = a \<and> f \<noteq> t \<and> w = f then free_balance a f s - n
      else if b = a \<and> f \<noteq> t \<and> w = t then free_balance a t s + n
      else free_balance b w s)"
  by (auto simp: moved_def ledger_simps)

lemma reads_after_moved [ledger_simps]:
  "reserved_balance b w (moved a f t n s) = reserved_balance b w s"
  "total_issuance b (moved a f t n s) = total_issuance b s"
  by (simp_all add: moved_def ledger_simps)

interpretation ga: asset_ledger free_balance make_transfer_with_event
  by unfold_locales (auto simp: make_transfer_with_event_eq ledger_simps split: if_splits)

section \<open>The invariant of the pallet\<close>

definition holdings :: "asset_id \<Rightarrow> account_id \<Rightarrow> 'a ga_state_scheme \<Rightarrow> nat" where
  "holdings aid who s = unat (free_balance aid who s) + unat (reserved_balance aid who s)"

definition all_holdings :: "asset_id \<Rightarrow> 'a ga_state_scheme \<Rightarrow> nat" where
  "all_holdings aid s = (\<Sum>who\<in>UNIV. holdings aid who s)"

definition solvent :: "asset_id \<Rightarrow> 'a ga_state_scheme \<Rightarrow> bool" where
  "solvent aid s \<longleftrightarrow> all_holdings aid s = unat (total_issuance aid s)"

definition unused_id :: "asset_id \<Rightarrow> 'a ga_state_scheme \<Rightarrow> bool" where
  "unused_id aid s \<longleftrightarrow> TotalIssuance s aid = None \<and> Permissions s aid = None"

definition ga_inv :: "'a ga_state_scheme \<Rightarrow> bool" where
  "ga_inv s \<longleftrightarrow> (\<forall>aid. solvent aid s) \<and> (\<forall>aid. NextAssetId s \<le> aid \<longrightarrow> unused_id aid s)"

lemma ga_inv_solvent: "ga_inv s \<Longrightarrow> solvent aid s"
  by (simp add: ga_inv_def)

lemma solventD: "solvent aid s \<Longrightarrow> all_holdings aid s = unat (total_issuance aid s)"
  by (simp add: solvent_def)

lemma solvent_cong:
  assumes "\<And>who. free_balance aid who t = free_balance aid who s"
    and "\<And>who. reserved_balance aid who t = reserved_balance aid who s"
    and "total_issuance aid t = total_issuance aid s"
  shows "solvent aid t = solvent aid s"
  by (simp add: solvent_def all_holdings_def holdings_def assms)

lemma holdings_le_all: "holdings aid who s \<le> all_holdings aid s"
  unfolding all_holdings_def by (rule member_le_sum_UNIV)

lemma holdings_pair_le_all:
  assumes "f \<noteq> t"
  shows "holdings aid f s + holdings aid t s \<le> all_holdings aid s"
proof -
  have "(\<Sum>who\<in>{f, t}. holdings aid who s) \<le> all_holdings aid s"
    unfolding all_holdings_def by (rule sum_mono2) simp_all
  with assms show ?thesis by simp
qed

lemma solvent_holdings_less: "solvent aid s \<Longrightarrow> holdings aid who s < 2 ^ 128"
  using holdings_le_all [of aid who s] unat_less_2p [of "total_issuance aid s"]
  by (simp add: solvent_def)

lemma solvent_pair_less: "solvent aid s \<Longrightarrow> f \<noteq> t \<Longrightarrow> holdings aid f s + holdings aid t s < 2 ^ 128"
  using holdings_pair_le_all [of f t aid s] unat_less_2p [of "total_issuance aid s"]
  by (simp add: solvent_def)

lemma solvent_total_balance:
  "solvent aid s \<Longrightarrow> unat (total_balance aid who s) = holdings aid who s"
  using solvent_holdings_less [of aid s who]
  by (simp add: total_balance_def holdings_def unat_add_less)

text \<open>Changing what one account holds changes the total by the difference.\<close>

lemma all_holdings_one_account:
  assumes "\<And>w. w \<noteq> who \<Longrightarrow> holdings aid w t = holdings aid w s"
  shows "all_holdings aid t + holdings aid who s = all_holdings aid s + holdings aid who t"
proof -
  have "(\<lambda>w. holdings aid w t) = (\<lambda>w. holdings aid w s)(who := holdings aid who t)"
    using assms by auto
  then show ?thesis
    unfolding all_holdings_def by (metis sum_fun_upd)
qed

lemma all_holdings_two_accounts:
  fixes s u :: "'a ga_state_scheme"
  assumes "f \<noteq> t" and "\<And>w. w \<noteq> f \<Longrightarrow> w \<noteq> t \<Longrightarrow> holdings aid w u = holdings aid w s"
    and "holdings aid f u + holdings aid t u = holdings aid f s + holdings aid t s"
  shows "all_holdings aid u = all_holdings aid s"
proof -
  have split: "all_holdings aid x = holdings aid f x + (holdings aid t x + (\<Sum>w\<in>UNIV - {f} - {t}. holdings aid w x))"
    for x :: "'a ga_state_scheme"
    unfolding all_holdings_def using assms(1)
    by (subst sum.remove [of UNIV f], simp_all, subst sum.remove [of _ t], simp_all)
  have "(\<Sum>w\<in>UNIV - {f} - {t}. holdings aid w u) = (\<Sum>w\<in>UNIV - {f} - {t}. holdings aid w s)"
    using assms(2) by (intro sum.cong) auto
  with assms(3) show ?thesis by (simp add: split)
qed

subsection \<open>Every operation keeps it\<close>

lemma solvent_moved:
  assumes "solvent aid s" and "aid = a \<Longrightarrow> n \<le> free_balance a f s"
  shows "solvent aid (moved a f t n s)"
proof (cases "aid = a \<and> f \<noteq> t")
  case True
  then have le: "n \<le> free_balance aid f s" and ne: "f \<noteq> t" and a: "aid = a"
    using assms(2) by auto
  have "unat (free_balance aid t s) + unat n < 2 ^ 128"
    using solvent_pair_less [OF assms(1) ne] le by (simp add: holdings_def word_le_nat_alt)
  then have "all_holdings aid (moved a f t n s) = all_holdings aid s"
    using le by (intro all_holdings_two_accounts [OF ne])
      (auto simp: holdings_def ledger_simps a ne ne [symmetric] unat_add_less unat_sub_le word_le_nat_alt)
  then show ?thesis
    using assms(1) by (simp add: solvent_def ledger_simps)
next
  case False
  then have "solvent aid (moved a f t n s) = solvent aid s"
    by (intro solvent_cong) (auto simp: ledger_simps)
  then show ?thesis using assms(1) by simp
qed

lemma moved_other_fields [simp]:
  "NextAssetId (moved a f t n s) = NextAssetId s"
  "TotalIssuance (moved a f t n s) = TotalIssuance s"
  "Permissions (moved a f t n s) = Permissions s"
  "SudoKey (moved a f t n s) = SudoKey s"
  "Symbols (moved a f t n s) = Symbols s"
  "Now (moved a f t n s) = Now s"
  "BlockNumber (moved a f t n s) = BlockNumber s"
  "ExtrinsicIndex (moved a f t n s) = ExtrinsicIndex s"
  "ga_state.more (moved a f t n s) = ga_state.more s"
  by (simp_all add: moved_def deposit_ga_event_def set_free_balance_def)

lemma ga_inv_moved: "ga_inv s \<Longrightarrow> n \<le> free_balance a f s \<Longrightarrow> ga_inv (moved a f t n s)"
  by (simp add: ga_inv_def solvent_moved unused_id_def)

lemma ga_inv_transfer [keeps_intros]:
  "ga_inv s \<Longrightarrow> keeps ga_inv (make_transfer_with_event aid f t n s)"
  by (simp add: make_transfer_with_event_eq ga_inv_moved)


text \<open>
  A write to one account that changes its holdings by as much as it changes the issuance, in
  either direction, keeps the asset solvent; a write that moves an amount between the free and
  the reserved part changes nothing.
\<close>

lemma solvent_one_account:
  assumes "solvent aid s"
    and "\<And>w. w \<noteq> who \<Longrightarrow> holdings aid w t = holdings aid w s"
    and "unat (total_issuance aid t) + holdings aid who s = unat (total_issuance aid s) + holdings aid who t"
  shows "solvent aid t"
  using all_holdings_one_account [of who aid t s, OF assms(2)] assms(1,3)
  by (simp add: solvent_def)

lemma mint_free_Done_iff:
  "mint_free aid who to_acct amount s = Done u s' \<longleftrightarrow>
     check_permission aid who Mint s
     \<and> unat (total_issuance aid s) + unat amount < 2 ^ 128
     \<and> unat (free_balance aid to_acct s) + unat amount < 2 ^ 128
     \<and> s' = set_free_balance aid to_acct (free_balance aid to_acct s + amount)
              (set_total_issuance aid (total_issuance aid s + amount) s)"
  by (auto simp: mint_free_def ok_or_def checked_add_def split: option.splits if_splits)

lemma burn_free_Done_iff:
  "burn_free aid who to_acct amount s = Done u s' \<longleftrightarrow>
     check_permission aid who Burn s
     \<and> amount \<le> total_issuance aid s \<and> amount \<le> free_balance aid to_acct s
     \<and> s' = set_free_balance aid to_acct (free_balance aid to_acct s - amount)
              (set_total_issuance aid (total_issuance aid s - amount) s)"
  by (auto simp: burn_free_def ok_or_def checked_sub_def split: option.splits if_splits)

lemma mint_free_Fail: "mint_free aid who to_acct amount s = Fail e s' \<Longrightarrow> s' = s"
  by (auto simp: mint_free_def ok_or_def split: option.splits if_splits)

lemma burn_free_Fail: "burn_free aid who to_acct amount s = Fail e s' \<Longrightarrow> s' = s"
  by (auto simp: burn_free_def ok_or_def split: option.splits if_splits)

lemma mint_burn_not_Panic [simp]:
  "mint_free aid who to_acct amount s \<noteq> Panic"
  "burn_free aid who to_acct amount s \<noteq> Panic"
  by (simp_all add: mint_free_def burn_free_def ok_or_def split: option.splits)

lemma set_other_fields [simp]:
  "NextAssetId (set_free_balance a w b s) = NextAssetId s"
  "TotalIssuance (set_free_balance a w b s) = TotalIssuance s"
  "Permissions (set_free_balance a w b s) = Permissions s"
  "NextAssetId (set_reserved_balance a w b s) = NextAssetId s"
  "TotalIssuance (set_reserved_balance a w b s) = TotalIssuance s"
  "Permissions (set_reserved_balance a w b s) = Permissions s"
  "NextAssetId (set_total_issuance a b s) = NextAssetId s"
  "Permissions (set_total_issuance a b s) = Permissions s"
  "TotalIssuance (set_total_issuance a b s) = (TotalIssuance s)(a \<mapsto> b)"
  "NextAssetId (deposit_ga_event ev s) = NextAssetId s"
  "TotalIssuance (deposit_ga_event ev s) = TotalIssuance s"
  "Permissions (deposit_ga_event ev s) = Permissions s"
  by (simp_all add: set_free_balance_def set_reserved_balance_def set_total_issuance_def deposit_ga_event_def)

text \<open>Nobody has a permission on an unused id, so only the creation of an asset touches it.\<close>

lemma unused_no_permission: "unused_id aid s \<Longrightarrow> \<not> check_permission aid who what s"
  by (cases what) (simp_all add: unused_id_def check_permission_def get_permission_def
      default_permission_versions_def default_permissions_v1_def)

lemma solvent_deposit_event [simp]: "solvent aid (deposit_ga_event ev s) = solvent aid s"
  by (rule solvent_cong) (simp_all add: ledger_simps)

lemma ga_inv_deposit_event [simp]: "ga_inv (deposit_ga_event ev s) = ga_inv s"
  by (simp add: ga_inv_def unused_id_def)

text \<open>Fields the invariant does not read.\<close>

lemma ga_inv_ignores [simp]:
  "ga_inv (s\<lparr>Symbols := x1\<rparr>) = ga_inv s"
  "ga_inv (s\<lparr>NextLockId := x2\<rparr>) = ga_inv s"
  "ga_inv (s\<lparr>Locks := x3\<rparr>) = ga_inv s"
  by (simp_all add: ga_inv_def unused_id_def solvent_def all_holdings_def holdings_def ledger_simps)

lemma ga_inv_mint_free [keeps_intros]:
  assumes inv: "ga_inv s"
  shows "keeps ga_inv (mint_free aid who to_acct amount s)"
proof (cases "mint_free aid who to_acct amount s")
  case (Done u t)
  then have perm: "check_permission aid who Mint s"
    and tot: "unat (total_issuance aid s) + unat amount < 2 ^ 128"
    and fre: "unat (free_balance aid to_acct s) + unat amount < 2 ^ 128"
    and t: "t = set_free_balance aid to_acct (free_balance aid to_acct s + amount)
              (set_total_issuance aid (total_issuance aid s + amount) s)"
    by (simp_all add: mint_free_Done_iff)
  have "solvent b t" for b
  proof (rule solvent_one_account [of b s to_acct])
    show "solvent b s" using inv by (rule ga_inv_solvent)
    show "holdings b w t = holdings b w s" if "w \<noteq> to_acct" for w
      using that by (simp add: holdings_def t ledger_simps)
    show "unat (total_issuance b t) + holdings b to_acct s = unat (total_issuance b s) + holdings b to_acct t"
      using tot fre by (simp add: holdings_def t ledger_simps unat_add_less)
  qed
  moreover have "unused_id b t" if "NextAssetId t \<le> b" for b
  proof -
    have "unused_id b s" using that inv by (simp add: t ga_inv_def)
    then show ?thesis
      using perm unused_no_permission [of aid s who Mint] by (auto simp: t unused_id_def)
  qed
  ultimately show ?thesis by (simp add: Done ga_inv_def)
qed (use inv mint_free_Fail in fastforce)+

lemma ga_inv_burn_free [keeps_intros]:
  assumes inv: "ga_inv s"
  shows "keeps ga_inv (burn_free aid who to_acct amount s)"
proof (cases "burn_free aid who to_acct amount s")
  case (Done u t)
  then have perm: "check_permission aid who Burn s"
    and tot: "amount \<le> total_issuance aid s" and fre: "amount \<le> free_balance aid to_acct s"
    and t: "t = set_free_balance aid to_acct (free_balance aid to_acct s - amount)
              (set_total_issuance aid (total_issuance aid s - amount) s)"
    by (simp_all add: burn_free_Done_iff)
  have "solvent b t" for b
  proof (rule solvent_one_account [of b s to_acct])
    show "solvent b s" using inv by (rule ga_inv_solvent)
    show "holdings b w t = holdings b w s" if "w \<noteq> to_acct" for w
      using that by (simp add: holdings_def t ledger_simps)
    show "unat (total_issuance b t) + holdings b to_acct s = unat (total_issuance b s) + holdings b to_acct t"
      using tot fre by (simp add: holdings_def t ledger_simps unat_sub_le word_le_nat_alt)
  qed
  moreover have "unused_id b t" if "NextAssetId t \<le> b" for b
  proof -
    have "unused_id b s" using that inv by (simp add: t ga_inv_def)
    then show ?thesis
      using perm unused_no_permission [of aid s who Burn] by (auto simp: t unused_id_def)
  qed
  ultimately show ?thesis by (simp add: Done ga_inv_def)
qed (use inv burn_free_Fail in fastforce)+

text \<open>An asset with no recorded issuance is held by nobody, so it can be created afresh.\<close>

lemma no_issuance_no_holdings:
  assumes "solvent aid s" and "TotalIssuance s aid = None"
  shows "holdings aid who s = 0"
  using holdings_le_all [of aid who s] assms
  by (simp add: solvent_def total_issuance_def)

definition created ::
    "asset_id \<Rightarrow> account_id \<Rightarrow> (balance, account_id) asset_options \<Rightarrow> 'a ga_state_scheme \<Rightarrow> 'a ga_state_scheme" where
  "created aid acct options s =
     deposit_ga_event (Created aid acct options)
       ((set_free_balance aid acct (initial_issuance options)
          (set_total_issuance aid (initial_issuance options) s))
        \<lparr>Permissions := (Permissions s)(aid \<mapsto> into_versions (permissions options))\<rparr>)"

lemma create_asset_eq:
  "create_asset asset_id from_account options s =
     (let acct = (case from_account of Some a \<Rightarrow> a | None \<Rightarrow> default_account) in
      case asset_id of
        Some aid \<Rightarrow>
          if TotalIssuance s aid \<noteq> None then Fail (GaError IdAlreadyTaken) s
          else if \<not> aid < NextAssetId s then Fail (GaError IdUnavailable) s
          else Done () (created aid acct options s)
      | None \<Rightarrow>
          if unat (NextAssetId s) + 1 < 2 ^ 32
          then Done () (created (NextAssetId s) acct options (s\<lparr>NextAssetId := NextAssetId s + 1\<rparr>))
          else Fail (GaError NoIdAvailable) s)"
  by (simp add: create_asset_def created_def ensure_def checked_add_def Let_def split: option.split)

lemma solvent_created:
  assumes "solvent b s" and "b = aid \<Longrightarrow> TotalIssuance s aid = None"
  shows "solvent b (created aid acct options s)"
proof (rule solvent_one_account [of b s acct])
  show "solvent b s" by (rule assms(1))
  show "holdings b w (created aid acct options s) = holdings b w s" if "w \<noteq> acct" for w
    using that by (simp add: holdings_def created_def ledger_simps)
  show "unat (total_issuance b (created aid acct options s)) + holdings b acct s
      = unat (total_issuance b s) + holdings b acct (created aid acct options s)"
  proof (cases "b = aid")
    case True
    then have none: "TotalIssuance s aid = None" and "holdings aid acct s = 0"
      using assms no_issuance_no_holdings [of aid s acct] by auto
    then have "free_balance aid acct s = 0" "reserved_balance aid acct s = 0"
      by (simp_all add: holdings_def unat_eq_zero)
    with none True show ?thesis
      by (simp add: holdings_def created_def ledger_simps) (simp add: total_issuance_def)
  next
    case False
    then show ?thesis by (simp add: holdings_def created_def ledger_simps)
  qed
qed

lemma created_other_fields [simp]:
  "NextAssetId (created aid acct options s) = NextAssetId s"
  "TotalIssuance (created aid acct options s) = (TotalIssuance s)(aid \<mapsto> initial_issuance options)"
  "Permissions (created aid acct options s) = (Permissions s)(aid \<mapsto> into_versions (permissions options))"
  by (simp_all add: created_def)

lemma ga_inv_create_asset [keeps_intros]:
  assumes inv: "ga_inv s"
  shows "keeps ga_inv (create_asset asset_id from_account options s)"
proof (cases asset_id)
  case (Some aid)
  have "ga_inv (created aid acct options s)"
    if "TotalIssuance s aid = None" "aid < NextAssetId s" for acct
    using that inv by (auto simp: ga_inv_def solvent_created unused_id_def)
  then show ?thesis using inv Some by (simp add: create_asset_eq Let_def)
next
  case None
  let ?aid = "NextAssetId s" and ?s = "s\<lparr>NextAssetId := NextAssetId s + 1\<rparr>"
  have "ga_inv (created ?aid acct options ?s)" if less: "unat ?aid + 1 < 2 ^ 32" for acct
  proof -
    have next_id: "unat (?aid + 1) = unat ?aid + 1"
      using less by (simp add: unat_add_less)
    have none: "TotalIssuance s ?aid = None"
      using inv by (simp add: ga_inv_def unused_id_def)
    have "solvent b ?s" for b
      using inv by (simp add: ga_inv_def cong: solvent_cong)
        (simp add: solvent_def all_holdings_def holdings_def ledger_simps)
    then have "solvent b (created ?aid acct options ?s)" for b
      using none by (auto intro: solvent_created)
    moreover have "unused_id b (created ?aid acct options ?s)" if "?aid + 1 \<le> b" for b
    proof -
      have "?aid < b" using that next_id by (simp add: word_le_nat_alt word_less_nat_alt)
      then show ?thesis using inv by (auto simp: ga_inv_def unused_id_def)
    qed
    ultimately show ?thesis by (simp add: ga_inv_def)
  qed
  then show ?thesis using inv None by (simp add: create_asset_eq Let_def)
qed

end
