(* ===== verification/Asset_Properties.thy ===== *)
theory Asset_Properties
  imports Asset_Ledger
begin

text \<open>
  The properties of the generic-asset pallet: conservation of every asset over any history of
  calls, the exact effect of a transfer, who can change what, minting against burning, reserving
  against unreserving, the creation of assets, the genesis configuration and the binary format
  of the permissions.
\<close>

section \<open>The remaining operations keep the invariant\<close>

lemma solvent_same_holdings:
  assumes "solvent aid s" and "\<And>w. holdings aid w t = holdings aid w s"
    and "total_issuance aid t = total_issuance aid s"
  shows "solvent aid t"
  using assms by (simp add: solvent_def all_holdings_def)

lemma ga_inv_same_books:
  assumes "ga_inv s" and "\<And>aid w. holdings aid w t = holdings aid w s"
    and "TotalIssuance t = TotalIssuance s" and "Permissions t = Permissions s"
    and "NextAssetId t = NextAssetId s"
  shows "ga_inv t"
proof -
  have "total_issuance aid t = total_issuance aid s" for aid
    using assms(3) by (simp add: total_issuance_def)
  then have "solvent aid t" for aid
    using assms(1,2) by (intro solvent_same_holdings [of aid s t]) (simp_all add: ga_inv_def)
  then show ?thesis
    using assms(1,3-5) by (simp add: ga_inv_def unused_id_def)
qed

text \<open>The storage a successful \<open>reserve\<close> or \<open>unreserve\<close> leaves.\<close>

definition reserved_state ::
    "(asset_id \<Rightarrow> lock_identifier) \<Rightarrow> asset_id \<Rightarrow> account_id \<Rightarrow> balance \<Rightarrow> 'a ga_state_scheme \<Rightarrow> 'a ga_state_scheme" where
  "reserved_state twox aid who n s =
     deposit_ga_event (Reserved aid who n (NextLockId s))
       ((set_free_balance aid who (free_balance aid who s - n)
          (set_reserved_balance aid who (reserved_balance aid who s + n) s))
        \<lparr>NextLockId := NextLockId s + 1,
         Locks := (Locks s)((twox aid, who) \<mapsto> locks (twox aid) who s
           @ [\<lparr>lock_id = NextLockId s, lock_asset_id = aid, lock_amount = n, lock_reasons = [Reserve]\<rparr>])\<rparr>)"

lemma locks_ignore [ledger_simps]:
  "locks ident who (set_free_balance a w b s) = locks ident who s"
  "locks ident who (set_reserved_balance a w b s) = locks ident who s"
  "locks ident who (set_total_issuance a b s) = locks ident who s"
  "locks ident who (deposit_ga_event ev s) = locks ident who s"
  "locks ident who (s\<lparr>NextLockId := x\<rparr>) = locks ident who s"
  by (simp_all add: locks_def set_free_balance_def set_reserved_balance_def set_total_issuance_def
      deposit_ga_event_def)

lemma locks_update [ledger_simps]:
  "locks ident who (s\<lparr>Locks := (Locks s')((ident', who') \<mapsto> ls)\<rparr>)
     = (if ident = ident' \<and> who = who' then ls else locks ident who s')"
  by (simp add: locks_def)

lemma reserve_eq:
  "reserve twox aid who n s =
     (if n \<le> free_balance aid who s then Done (NextLockId s) (reserved_state twox aid who n s)
      else Fail (GaError InsufficientBalance) s)"
  by (simp add: reserve_def reserved_state_def set_lock_def take_lock_id_def ensure_def Let_def
      generic_asset_lock_identifier_def ledger_simps)
    (simp add: set_free_balance_def set_reserved_balance_def)

definition chosen_lock ::
    "lock_identifier \<Rightarrow> account_id \<Rightarrow> balance \<Rightarrow> 128 word option \<Rightarrow> 'a ga_state_scheme \<Rightarrow> ga_error + 128 word" where
  "chosen_lock ident who n lock s =
     (case lock of
        Some lid \<Rightarrow> if lock_id_exists ident who lid s then Inr lid else Inl MissingLock
      | None \<Rightarrow> (case find_lock_id_by_amount ident who n s of
                  Some lid \<Rightarrow> Inr lid | None \<Rightarrow> Inl NoLockMeetRequirement))"

definition unreserved_state ::
    "(asset_id \<Rightarrow> lock_identifier) \<Rightarrow> asset_id \<Rightarrow> account_id \<Rightarrow> balance \<Rightarrow> 128 word \<Rightarrow> 'a ga_state_scheme \<Rightarrow> 'a ga_state_scheme" where
  "unreserved_state twox aid who n lid s =
     deposit_ga_event (Unreserved aid who n lid)
       (set_reserved_balance aid who (reserved_balance aid who s - n)
         (set_free_balance aid who (free_balance aid who s + n)
           (remove_lock (twox aid) who lid s)))"

lemma reads_after_remove_lock [ledger_simps]:
  "free_balance aid w (remove_lock ident who lid s) = free_balance aid w s"
  "reserved_balance aid w (remove_lock ident who lid s) = reserved_balance aid w s"
  "total_issuance aid (remove_lock ident who lid s) = total_issuance aid s"
  by (simp_all add: remove_lock_def Let_def ledger_simps)

lemma remove_lock_fields [simp]:
  "NextAssetId (remove_lock ident who lid s) = NextAssetId s"
  "TotalIssuance (remove_lock ident who lid s) = TotalIssuance s"
  "Permissions (remove_lock ident who lid s) = Permissions s"
  by (simp_all add: remove_lock_def Let_def)

lemma unreserve_eq:
  "unreserve twox aid who n lock s =
     (if \<not> n \<le> reserved_balance aid who s then Fail (GaError InsufficientReservedBalance) s
      else case chosen_lock (twox aid) who n lock s of
             Inl e \<Rightarrow> Fail (GaError e) s
           | Inr lid \<Rightarrow> Done () (unreserved_state twox aid who n lid s))"
  by (simp add: unreserve_def unreserved_state_def chosen_lock_def ensure_def Let_def
      generic_asset_lock_identifier_def ledger_simps split: option.split)

lemma ga_inv_reserve [keeps_intros]:
  assumes inv: "ga_inv s"
  shows "keeps ga_inv (reserve twox aid who n s)"
proof (cases "n \<le> free_balance aid who s")
  case True
  have less: "holdings aid who s < 2 ^ 128"
    using inv by (intro solvent_holdings_less) (simp add: ga_inv_def)
  then have "unat (reserved_balance aid who s) + unat n < 2 ^ 128"
    using True by (simp add: holdings_def word_le_nat_alt)
  then have "ga_inv (reserved_state twox aid who n s)"
    using True by (intro ga_inv_same_books [OF inv])
      (auto simp: reserved_state_def holdings_def ledger_simps unat_add_less unat_sub_le word_le_nat_alt)
  with True show ?thesis by (simp add: reserve_eq)
qed (simp add: reserve_eq inv)

lemma ga_inv_unreserve [keeps_intros]:
  assumes inv: "ga_inv s"
  shows "keeps ga_inv (unreserve twox aid who n lock s)"
proof (cases "n \<le> reserved_balance aid who s")
  case True
  have less: "holdings aid who s < 2 ^ 128"
    using inv by (intro solvent_holdings_less) (simp add: ga_inv_def)
  then have "unat (free_balance aid who s) + unat n < 2 ^ 128"
    using True by (simp add: holdings_def word_le_nat_alt)
  then have "ga_inv (unreserved_state twox aid who n lid s)" for lid
    using True by (intro ga_inv_same_books [OF inv])
      (auto simp: unreserved_state_def holdings_def ledger_simps unat_add_less unat_sub_le word_le_nat_alt)
  with True inv show ?thesis by (simp add: unreserve_eq split: sum.split)
qed (simp add: unreserve_eq inv)

lemma ga_inv_update_permission [keeps_intros]:
  assumes inv: "ga_inv s"
  shows "keeps ga_inv (update_permission orig aid p s)"
proof (cases orig)
  case (Signed who)
  have "ga_inv (s\<lparr>Permissions := (Permissions s)(aid \<mapsto> into_versions p)\<rparr>)"
    if "check_permission aid who Update s"
    using inv that unused_no_permission [of aid s who Update]
    by (auto simp: ga_inv_def unused_id_def solvent_def all_holdings_def holdings_def ledger_simps)
  then show ?thesis
    using Signed inv by (simp add: update_permission_def Let_def)
qed (simp_all add: update_permission_def inv)

lemma ga_inv_dispatch [keeps_intros]:
  assumes inv: "ga_inv s"
  shows "keeps ga_inv (ga_dispatch orig c s)"
  using inv by (cases c)
    (auto simp: create_def transfer_def mint_def burn_def create_reserved_def Let_def
      intro!: keeps_intros)

section \<open>Histories of calls\<close>

text \<open>
  One step of the pallet: a dispatched call that returns \<open>Ok\<close>, one that returns an error
  (its writes stay), or one of the functions other pallets may call.
\<close>

inductive ga_step :: "(asset_id \<Rightarrow> lock_identifier) \<Rightarrow> 'a ga_state_scheme \<Rightarrow> 'a ga_state_scheme \<Rightarrow> bool"
  for twox where
  call_ok: "ga_dispatch orig c s = Done u s' \<Longrightarrow> ga_step twox s s'"
| call_err: "ga_dispatch orig c s = Fail e s' \<Longrightarrow> ga_step twox s s'"
| do_transfer: "make_transfer_with_event aid f t n s = Done u s' \<Longrightarrow> ga_step twox s s'"
| do_mint: "mint_free aid who to_acct n s = Done u s' \<Longrightarrow> ga_step twox s s'"
| do_burn: "burn_free aid who to_acct n s = Done u s' \<Longrightarrow> ga_step twox s s'"
| do_reserve: "reserve twox aid who n s = Done lid s' \<Longrightarrow> ga_step twox s s'"
| do_unreserve: "unreserve twox aid who n lock s = Done u s' \<Longrightarrow> ga_step twox s s'"

lemma ga_step_inv: "ga_step twox s s' \<Longrightarrow> ga_inv s \<Longrightarrow> ga_inv s'"
proof (induction rule: ga_step.induct)
  case (call_ok orig c s u s')
  then show ?case using keepsD_Done [OF ga_inv_dispatch] by blast
next
  case (call_err orig c s e s')
  then show ?case using keepsD_Fail [OF ga_inv_dispatch] by blast
next
  case (do_transfer aid f t n s u s')
  then show ?case using keepsD_Done [OF ga_inv_transfer] by blast
next
  case (do_mint aid who to_acct n s u s')
  then show ?case using keepsD_Done [OF ga_inv_mint_free] by blast
next
  case (do_burn aid who to_acct n s u s')
  then show ?case using keepsD_Done [OF ga_inv_burn_free] by blast
next
  case (do_reserve aid who n s lid s')
  then show ?case using keepsD_Done [OF ga_inv_reserve] by blast
next
  case (do_unreserve aid who n lock s u s')
  then show ?case using keepsD_Done [OF ga_inv_unreserve] by blast
qed

lemma ga_steps_inv: "(ga_step twox)\<^sup>*\<^sup>* s t \<Longrightarrow> ga_inv s \<Longrightarrow> ga_inv t"
  by (induction rule: rtranclp_induct) (auto intro: ga_step_inv)

lemma ga_inv_empty: "ga_inv (empty_ga_state sys)"
  by (simp add: ga_inv_def solvent_def all_holdings_def holdings_def unused_id_def empty_ga_state_def
      free_balance_def reserved_balance_def total_issuance_def system_state.defs ga_state.defs)

section \<open>A concrete ledger\<close>

text \<open>
  One asset, id 0, created by the root key 1 with 100 units on an empty storage.  The witnesses
  run on it.
\<close>

definition demo_sys :: system_state where
  "demo_sys = \<lparr>SudoKey = 1, BlockNumber = 1, ExtrinsicIndex = Some 0, Now = 1000\<rparr>"

definition demo_permissions :: "account_id permissions_v1" where
  "demo_permissions = \<lparr>update_perm = Address 1, mint_perm = Address 1, burn_perm = Address 1\<rparr>"

definition demo_ga :: ga_state where
  "demo_ga =
     \<lparr>SudoKey = 1, BlockNumber = 1, ExtrinsicIndex = Some 0, Now = 1000,
      TotalIssuance = [0 \<mapsto> 100], FreeBalance = [(0, 1) \<mapsto> 100], ReservedBalance = Map.empty,
      Symbols = [0 \<mapsto> ''BTC''], NextAssetId = 1, Permissions = [0 \<mapsto> V1 demo_permissions],
      NextLockId = 1, Locks = Map.empty,
      GaEvents = [Created 0 1 \<lparr>initial_issuance = 100, permissions = demo_permissions\<rparr>]\<rparr>"

lemma demo_ga_created: "create Root 100 ''BTC'' (empty_ga_state demo_sys) = Done () demo_ga"
  by (simp add: create_def create_asset_eq created_def demo_ga_def demo_permissions_def demo_sys_def
      empty_ga_state_def system_state.defs ga_state.defs set_free_balance_def set_total_issuance_def
      deposit_ga_event_def into_versions_def Let_def)

lemma demo_ga_inv: "ga_inv demo_ga"
  using keepsD_Done [OF ga_inv_dispatch [of "empty_ga_state demo_sys" Root "Call_create 100 ''BTC''"]]
    demo_ga_created by (simp add: ga_inv_empty)

lemma demo_reads:
  "free_balance aid who demo_ga = (if aid = 0 \<and> who = 1 then 100 else 0)"
  "reserved_balance aid who demo_ga = 0"
  "total_issuance aid demo_ga = (if aid = 0 then 100 else 0)"
  "locks ident who demo_ga = []"
  by (simp_all add: demo_ga_def free_balance_def reserved_balance_def total_issuance_def locks_def get_or_def)

lemma demo_check_permission: "check_permission 0 who what demo_ga \<longleftrightarrow> 1 = who"
  by (cases what) (simp_all add: demo_ga_def check_permission_def get_permission_def demo_permissions_def get_or_def)

section \<open>Conservation\<close>

text \<open>C2: In every state the pallet reaches from one that satisfies its invariant, by
  dispatched calls (failing ones included) and by the functions other pallets call, the free and
  reserved balances of all accounts add up, as natural numbers, to the recorded issuance of the
  asset; no unchecked addition of the code has wrapped.\<close>

theorem ga_conservation:
  assumes "ga_inv s" and "(ga_step twox)\<^sup>*\<^sup>* s t"
  shows "(\<Sum>who\<in>UNIV. unat (free_balance aid who t) + unat (reserved_balance aid who t))
    = unat (total_issuance aid t)"
  using ga_inv_solvent [OF ga_steps_inv [OF assms(2,1)], of aid]
  by (simp add: solvent_def all_holdings_def holdings_def)

lemma ga_conservation_witness:
  "\<exists>t :: ga_state. free_balance 0 2 t = 30 \<and>
     (\<Sum>who\<in>UNIV. unat (free_balance 0 who t) + unat (reserved_balance 0 who t)) = unat (total_issuance 0 t)"
proof -
  let ?t = "moved 0 1 2 30 demo_ga"
  have "ga_dispatch (Signed 1) (Call_transfer 0 2 30) demo_ga = Done () ?t"
    by (simp add: transfer_def make_transfer_with_event_eq demo_reads word_le_nat_alt)
  then have "(ga_step (\<lambda>_. 0))\<^sup>*\<^sup>* demo_ga ?t"
    by (intro r_into_rtranclp) (rule call_ok)
  then have "(\<Sum>who\<in>UNIV. unat (free_balance 0 who ?t) + unat (reserved_balance 0 who ?t))
      = unat (total_issuance 0 ?t)"
    by (rule ga_conservation [OF demo_ga_inv])
  moreover have "free_balance 0 2 ?t = 30"
    by (simp add: ledger_simps demo_reads)
  ultimately show ?thesis by blast
qed

section \<open>Transfers\<close>

text \<open>A signed transfer of a nonzero amount within the sender's free balance succeeds,
  takes exactly that amount from the sender and gives exactly that amount to the receiver (as
  natural numbers: the receiver's unchecked addition cannot wrap), leaves every other balance
  alone and reports itself once.\<close>

theorem transfer_exact:
  assumes "ga_inv s" and "f \<noteq> t" and "n \<noteq> 0" and "n \<le> free_balance aid f s"
  shows "\<exists>s'. transfer (Signed f) aid t n s = Done () s'
    \<and> unat (free_balance aid f s') + unat n = unat (free_balance aid f s)
    \<and> unat (free_balance aid t s') = unat (free_balance aid t s) + unat n
    \<and> (\<forall>b w. (b, w) \<notin> {(aid, f), (aid, t)} \<longrightarrow> free_balance b w s' = free_balance b w s)
    \<and> (\<forall>b w. reserved_balance b w s' = reserved_balance b w s)
    \<and> GaEvents s' = GaEvents s @ [Transferred aid f t n]"
proof -
  have "holdings aid f s + holdings aid t s < 2 ^ 128"
    using assms(1,2) by (intro solvent_pair_less ga_inv_solvent)
  then have "unat (free_balance aid t s) + unat n < 2 ^ 128"
    using assms(4) by (simp add: holdings_def word_le_nat_alt)
  moreover have "transfer (Signed f) aid t n s = Done () (moved aid f t n s)"
    using assms(3,4) by (simp add: transfer_def make_transfer_with_event_eq)
  moreover have "GaEvents (moved aid f t n s) = GaEvents s @ [Transferred aid f t n]"
    using assms(2) by (simp add: moved_def deposit_ga_event_def set_free_balance_def)
  ultimately show ?thesis
    using assms(2,4) by (auto simp: ledger_simps unat_add_less unat_sub_le word_le_nat_alt)
qed

lemma transfer_exact_witness:
  "\<exists>s'. transfer (Signed 1) 0 2 30 demo_ga = Done () s' \<and> unat (free_balance 0 2 s') = 30"
  using transfer_exact [OF demo_ga_inv, of 1 2 30 0] by (auto simp: demo_reads word_le_nat_alt)

text \<open>A transfer never panics, and it returns an error exactly when the origin is not
  signed, the amount is zero or the free balance is short; the storage is then untouched.\<close>

theorem transfer_errors:
  "transfer orig aid t n s \<noteq> Panic
   \<and> (transfer orig aid t n s = Fail e s' \<longleftrightarrow>
       s' = s \<and> (case orig of
                  Signed f \<Rightarrow> (if n = 0 then e = GaError ZeroAmount
                              else free_balance aid f s < n \<and> e = GaError InsufficientBalance)
                | _ \<Rightarrow> e = BadOrigin))"
  by (cases orig) (auto simp: transfer_def make_transfer_with_event_eq ensure_def not_le)

section \<open>Who can change what\<close>

text \<open>The generic-asset pallet writes nothing beyond its own part of the storage.\<close>

lemma ga_more_simps [simp]:
  "ga_state.more (set_free_balance a w b s) = ga_state.more s"
  "ga_state.more (set_reserved_balance a w b s) = ga_state.more s"
  "ga_state.more (set_total_issuance a b s) = ga_state.more s"
  "ga_state.more (deposit_ga_event ev s) = ga_state.more s"
  by (simp_all add: set_free_balance_def set_reserved_balance_def set_total_issuance_def deposit_ga_event_def)

lemma ga_dispatch_extension: "keeps (\<lambda>t. ga_state.more t = ga_state.more s) (ga_dispatch orig c s)"
  by (cases c; cases orig)
    (auto simp: create_def transfer_def update_permission_def mint_def burn_def create_reserved_def create_asset_eq
      created_def make_transfer_with_event_eq mint_free_def burn_free_def Let_def
      intro!: keeps_intros split: option.split)

lemma create_asset_only_unused:
  assumes "ga_inv s" and "create_asset asset_id from_account options s = Done u s'"
    and "free_balance aid w s' \<noteq> free_balance aid w s \<or> total_issuance aid s' \<noteq> total_issuance aid s"
  shows "TotalIssuance s aid = None"
proof (cases asset_id)
  case (Some a)
  then show ?thesis
    using assms(2,3) by (auto simp: create_asset_eq Let_def created_def ledger_simps split: if_splits)
next
  case None
  have "unused_id (NextAssetId s) s" using assms(1) by (simp add: ga_inv_def)
  with None show ?thesis
    using assms(2,3)
    by (auto simp: create_asset_eq Let_def created_def ledger_simps unused_id_def split: if_splits)
qed

text \<open>A creation gives balances of a fresh asset only, and a transfer lowers only its sender's.\<close>

lemma create_asset_lowers_nothing:
  assumes "ga_inv s" and "create_asset i f options s = Done u t"
  shows "\<not> free_balance aid w t < free_balance aid w s"
proof
  assume less: "free_balance aid w t < free_balance aid w s"
  then have "free_balance aid w t \<noteq> free_balance aid w s" by auto
  then have "TotalIssuance s aid = None"
    by (rule create_asset_only_unused [OF assms(1) assms(2) disjI1])
  then have "holdings aid w s = 0"
    using assms(1) by (intro no_issuance_no_holdings ga_inv_solvent)
  then show False using less by (simp add: holdings_def word_less_nat_alt)
qed

lemma moved_lowers_sender:
  assumes "ga_inv s" and "n \<le> free_balance a f s" and "free_balance aid w (moved a f t n s) < free_balance aid w s"
  shows "aid = a \<and> w = f"
proof (rule ccontr)
  assume "\<not> (aid = a \<and> w = f)"
  with assms(3) have at: "aid = a" "w = t" "f \<noteq> t" by (auto simp: ledger_simps split: if_splits)
  have "holdings a f s + holdings a t s < 2 ^ 128"
    using assms(1) at(3) by (intro solvent_pair_less ga_inv_solvent)
  then have "unat (free_balance a t s) + unat n < 2 ^ 128"
    using assms(2) by (simp add: holdings_def word_le_nat_alt)
  then show False
    using assms(3) at by (simp add: ledger_simps word_less_nat_alt unat_add_less)
qed

text \<open>Only a transfer lowers the balance of its sender, and a burn that of its target.\<close>

lemma dispatch_lowers_free:
  assumes "ga_inv s" and "ga_dispatch orig c s = Done u s'"
    and "free_balance aid w s' < free_balance aid w s"
  shows "(orig = Signed w \<and> (\<exists>t n. c = Call_transfer aid t n))
    \<or> (\<exists>who n. orig = Signed who \<and> c = Call_burn aid w n \<and> check_permission aid who Burn s)"
proof (cases c)
  case (Call_create n symb)
  then show ?thesis
    using assms(2,3) create_asset_lowers_nothing [OF assms(1)]
    by (auto simp: create_def Done_iffs ensure_root_Done_iff Let_def ledger_simps)
next
  case (Call_create_reserved a options)
  then show ?thesis
    using assms(2,3) create_asset_lowers_nothing [OF assms(1)]
    by (auto simp: create_reserved_def Done_iffs ensure_root_Done_iff)
next
  case (Call_transfer a t n)
  then show ?thesis
    using assms(2,3)
    by (cases orig)
      (auto simp: transfer_def make_transfer_with_event_eq ensure_def split: if_splits
        dest: moved_lowers_sender [OF assms(1), rotated])
next
  case (Call_update_permission a p)
  then show ?thesis
    using assms(2,3) by (cases orig) (auto simp: update_permission_def Let_def ledger_simps split: if_splits)
next
  case (Call_mint a to_acct n)
  then show ?thesis
    using assms(2,3) by (cases orig)
      (auto simp: mint_def Done_iffs mint_free_Done_iff ledger_simps word_less_nat_alt unat_add_less
        split: if_splits)
next
  case (Call_burn a to_acct n)
  then show ?thesis
    using assms(2,3) by (cases orig)
      (auto simp: burn_def Done_iffs burn_free_Done_iff ledger_simps split: if_splits)
qed

text \<open>C24: A dispatched call lowers the free balance of an account only if that account signed it
  or the signer holds the burn permission of the asset.\<close>

theorem balance_lowered_only_by_owner_or_burner:
  assumes "ga_inv s" and "ga_dispatch orig c s = Done u s'"
    and "free_balance aid w s' < free_balance aid w s"
  shows "orig = Signed w \<or> (\<exists>who. orig = Signed who \<and> check_permission aid who Burn s)"
  using dispatch_lowers_free [OF assms] by blast

lemma balance_lowered_witness:
  "\<exists>s'. ga_dispatch (Signed 1) (Call_transfer 0 2 30) demo_ga = Done () s'
    \<and> (Signed 1 = Signed (1 :: account_id) \<or> (\<exists>who. Signed 1 = Signed who \<and> check_permission 0 who Burn demo_ga))"
proof -
  have "ga_dispatch (Signed 1) (Call_transfer 0 2 30) demo_ga = Done () (moved 0 1 2 30 demo_ga)"
    by (simp add: transfer_def make_transfer_with_event_eq demo_reads word_le_nat_alt)
  moreover have "free_balance 0 1 (moved 0 1 2 30 demo_ga) < free_balance 0 1 demo_ga"
    by (simp add: ledger_simps demo_reads word_less_nat_alt)
  ultimately show ?thesis
    using balance_lowered_only_by_owner_or_burner [OF demo_ga_inv, of "Signed 1" "Call_transfer 0 2 30" "()" _ 0 1]
    by blast
qed

text \<open>A dispatched call changes the recorded issuance of an asset that exists only when it is
  signed by a holder of the asset's mint or burn permission.\<close>

theorem issuance_changed_only_with_permission:
  assumes "ga_inv s" and "ga_dispatch orig c s = Done u s'"
    and "TotalIssuance s aid \<noteq> None" and "total_issuance aid s' \<noteq> total_issuance aid s"
  shows "\<exists>who. orig = Signed who \<and> (check_permission aid who Mint s \<or> check_permission aid who Burn s)"
proof (cases c)
  case (Call_create n symb)
  then obtain t options where t: "create_asset None (Some (SudoKey s)) options s = Done () t"
    and s': "s' = t\<lparr>Symbols := (Symbols t)(NextAssetId s \<mapsto> symb)\<rparr>"
    using assms(2) by (auto simp: create_def Done_iffs ensure_root_Done_iff Let_def)
  then have "total_issuance aid t \<noteq> total_issuance aid s"
    using assms(4) by (auto simp: ledger_simps)
  from create_asset_only_unused [OF assms(1) t disjI2, OF this] show ?thesis
    using assms(3) by simp
next
  case (Call_create_reserved a options)
  then have t: "create_asset (Some a) None options s = Done () s'"
    using assms(2) by (auto simp: create_reserved_def Done_iffs ensure_root_Done_iff)
  from create_asset_only_unused [OF assms(1) t disjI2, OF assms(4)] show ?thesis
    using assms(3) by simp
next
  case (Call_transfer a t n)
  then show ?thesis
    using assms(2,4) by (cases orig)
      (auto simp: transfer_def make_transfer_with_event_eq ensure_def ledger_simps split: if_splits)
next
  case (Call_update_permission a p)
  then show ?thesis
    using assms(2,4) by (cases orig) (auto simp: update_permission_def Let_def ledger_simps split: if_splits)
next
  case (Call_mint a to_acct n)
  then show ?thesis
    using assms(2,4) by (cases orig)
      (auto simp: mint_def Done_iffs mint_free_Done_iff ledger_simps split: if_splits)
next
  case (Call_burn a to_acct n)
  then show ?thesis
    using assms(2,4) by (cases orig)
      (auto simp: burn_def Done_iffs burn_free_Done_iff ledger_simps split: if_splits)
qed

lemma issuance_changed_witness:
  "\<exists>s'. ga_dispatch (Signed 1) (Call_mint 0 2 30) demo_ga = Done () s' \<and> total_issuance 0 s' = 130
    \<and> (\<exists>who. Signed 1 = Signed who \<and> (check_permission 0 who Mint demo_ga \<or> check_permission 0 who Burn demo_ga))"
proof -
  let ?t = "set_free_balance 0 2 30 (set_total_issuance 0 130 demo_ga)"
  have "mint_free 0 1 2 30 demo_ga = Done () ?t"
    by (simp add: mint_free_Done_iff demo_reads demo_check_permission)
  then have c: "ga_dispatch (Signed 1) (Call_mint 0 2 30) demo_ga = Done () (deposit_ga_event (Minted 0 2 30) ?t)"
    by (simp add: mint_def)
  moreover have d: "total_issuance 0 (deposit_ga_event (Minted 0 2 30) ?t) = 130"
    by (simp add: ledger_simps)
  moreover have "TotalIssuance demo_ga 0 \<noteq> None"
    by (simp add: demo_ga_def)
  ultimately show ?thesis
    using issuance_changed_only_with_permission [OF demo_ga_inv c, of 0] by (auto simp: demo_reads)
qed

section \<open>Minting and burning\<close>

text \<open>Under the invariant, minting fails only for a missing permission or an overflowing
  issuance, never for an overflowing free balance: the check on the account is subsumed by the
  check on the issuance.\<close>

theorem mint_free_outcome:
  assumes "ga_inv s"
  shows "mint_free aid who to_acct n s =
    (if \<not> check_permission aid who Mint s then Fail (GaError NoMintPermission) s
     else if 2 ^ 128 \<le> unat (total_issuance aid s) + unat n then Fail (GaError TotalMintingOverflow) s
     else Done () (set_free_balance aid to_acct (free_balance aid to_acct s + n)
                    (set_total_issuance aid (total_issuance aid s + n) s)))"
proof -
  have "unat (free_balance aid to_acct s) \<le> unat (total_issuance aid s)"
    using holdings_le_all [of aid to_acct s] ga_inv_solvent [OF assms, of aid]
    by (simp add: solvent_def holdings_def)
  then show ?thesis
    by (auto simp: mint_free_def checked_add_def not_le)
qed

lemma mint_free_outcome_witness:
  "mint_free 0 1 2 340282366920938463463374607431768211400 demo_ga = Fail (GaError TotalMintingOverflow) demo_ga"
  by (subst mint_free_outcome [OF demo_ga_inv]) (simp add: demo_reads demo_check_permission)

text \<open>Burning what was just minted to an account, by any holder of the burn permission, restores
  every balance and every issuance.\<close>

theorem mint_then_burn:
  assumes "mint (Signed m) aid acct n s = Done u s1" and "check_permission aid b Burn s"
  shows "\<exists>s2. burn (Signed b) aid acct n s1 = Done () s2
    \<and> (\<forall>x w. free_balance x w s2 = free_balance x w s)
    \<and> (\<forall>x w. reserved_balance x w s2 = reserved_balance x w s)
    \<and> (\<forall>x. total_issuance x s2 = total_issuance x s)"
proof -
  let ?s = "set_free_balance aid acct (free_balance aid acct s + n)
              (set_total_issuance aid (total_issuance aid s + n) s)"
  have s1: "s1 = deposit_ga_event (Minted aid acct n) ?s"
    and tot: "unat (total_issuance aid s) + unat n < 2 ^ 128"
    and fre: "unat (free_balance aid acct s) + unat n < 2 ^ 128"
    using assms(1) by (auto simp: mint_def Done_iffs mint_free_Done_iff)
  have perm: "check_permission aid b Burn s1"
    using assms(2) by (simp add: s1 check_permission_def get_permission_def)
  have le: "n \<le> total_issuance aid s1" "n \<le> free_balance aid acct s1"
    using tot fre by (simp_all add: s1 ledger_simps word_le_nat_alt unat_add_less)
  let ?t = "set_free_balance aid acct (free_balance aid acct s1 - n)
              (set_total_issuance aid (total_issuance aid s1 - n) s1)"
  have "burn_free aid b acct n s1 = Done () ?t"
    using perm le by (simp add: burn_free_Done_iff)
  then have "burn (Signed b) aid acct n s1 = Done () (deposit_ga_event (Burned aid acct n) ?t)"
    by (simp add: burn_def)
  then show ?thesis by (auto simp: s1 ledger_simps)
qed

lemma mint_then_burn_witness:
  "\<exists>s1 s2. mint (Signed 1) 0 2 30 demo_ga = Done () s1 \<and> burn (Signed 1) 0 2 30 s1 = Done () s2
    \<and> free_balance 0 2 s1 = 30 \<and> free_balance 0 2 s2 = 0"
proof -
  let ?s1 = "deposit_ga_event (Minted 0 2 30) (set_free_balance 0 2 30 (set_total_issuance 0 130 demo_ga))"
  have "mint_free 0 1 2 30 demo_ga = Done () (set_free_balance 0 2 30 (set_total_issuance 0 130 demo_ga))"
    by (simp add: mint_free_Done_iff demo_reads demo_check_permission)
  then have m: "mint (Signed 1) 0 2 30 demo_ga = Done () ?s1"
    by (simp add: mint_def)
  have "check_permission 0 1 Burn demo_ga" by (simp add: demo_check_permission)
  from mint_then_burn [OF m this] show ?thesis
    using m by (auto simp: demo_reads ledger_simps)
qed

section \<open>Reserving and unreserving\<close>

text \<open>Lock ids are handed out in increasing order, so the stored locks are below the next id.\<close>

definition lock_inv :: "'a ga_state_scheme \<Rightarrow> bool" where
  "lock_inv s \<longleftrightarrow> (\<forall>ident who. \<forall>l \<in> set (locks ident who s). lock_id l < NextLockId s)"

lemma drop_first_lock_False [simp]: "drop_first_lock False lid ls = ls"
  by (induction ls) simp_all

lemma drop_first_lock_append:
  "lid \<notin> lock_id ` set xs \<Longrightarrow> drop_first_lock True lid (xs @ ys) = xs @ drop_first_lock True lid ys"
  by (induction xs) auto

lemma drop_first_lock_absent: "lid \<notin> lock_id ` set ls \<Longrightarrow> drop_first_lock True lid ls = ls"
  by (induction ls) auto

lemma set_drop_first_lock: "set (drop_first_lock b lid ls) \<subseteq> set ls"
  by (induction b lid ls rule: drop_first_lock.induct) auto

lemma locks_remove_lock [ledger_simps]:
  "locks ident' who' (remove_lock ident who lid s) =
     (if ident' = ident \<and> who' = who \<and> length (locks ident who s) - length (drop_first_lock True lid (locks ident who s)) = 1
      then drop_first_lock True lid (locks ident who s) else locks ident' who' s)"
  by (auto simp: remove_lock_def Let_def ledger_simps)

lemma NextLockId_simps [simp]:
  "NextLockId (remove_lock ident who lid s) = NextLockId s"
  "NextLockId (set_free_balance a w b s) = NextLockId s"
  "NextLockId (set_reserved_balance a w b s) = NextLockId s"
  "NextLockId (deposit_ga_event ev s) = NextLockId s"
  by (simp_all add: remove_lock_def Let_def set_free_balance_def set_reserved_balance_def deposit_ga_event_def)

lemma lock_inv_reserve:
  assumes "lock_inv s" and "reserve twox aid who n s = Done lid s1"
    and "unat (NextLockId s) + 1 < 2 ^ 128"
  shows "lock_inv s1"
proof -
  have s1: "s1 = reserved_state twox aid who n s"
    using assms(2) by (simp add: reserve_eq split: if_splits)
  have less: "NextLockId s < NextLockId s + 1"
    using assms(3) by (simp add: word_less_nat_alt unat_add_less)
  have "lock_id l < NextLockId s + 1" if "l \<in> set (locks ident w s)" for l ident w
    using assms(1) that less by (force simp: lock_inv_def)
  then show ?thesis
    using less by (auto simp: lock_inv_def s1 reserved_state_def ledger_simps split: if_splits)
qed

lemma lock_inv_unreserve:
  assumes "lock_inv s" and "unreserve twox aid who n lock s = Done u s1"
  shows "lock_inv s1"
proof -
  obtain lid where s1: "s1 = unreserved_state twox aid who n lid s"
    using assms(2) by (auto simp: unreserve_eq split: if_splits sum.splits)
  have "set (locks ident w s1) \<subseteq> set (locks ident w s)" for ident w
    using set_drop_first_lock [of True lid] by (simp add: s1 unreserved_state_def ledger_simps)
  moreover have "NextLockId s1 = NextLockId s"
    by (simp add: s1 unreserved_state_def)
  ultimately show ?thesis
    using assms(1) by (force simp: lock_inv_def)
qed

text \<open>C26: Reserving an amount and then unreserving it under the returned lock id succeeds and restores
  the free balances, the reserved balances and every list of locks.\<close>

theorem reserve_then_unreserve:
  assumes "ga_inv s" and "lock_inv s" and "reserve twox aid who n s = Done lid s1"
  shows "\<exists>s2. unreserve twox aid who n (Some lid) s1 = Done () s2
    \<and> (\<forall>x w. free_balance x w s2 = free_balance x w s)
    \<and> (\<forall>x w. reserved_balance x w s2 = reserved_balance x w s)
    \<and> (\<forall>ident w. locks ident w s2 = locks ident w s)"
proof -
  have le: "n \<le> free_balance aid who s" and lid: "lid = NextLockId s"
    and s1: "s1 = reserved_state twox aid who n s"
    using assms(3) by (auto simp: reserve_eq split: if_splits)
  have "holdings aid who s < 2 ^ 128"
    using assms(1) by (intro solvent_holdings_less ga_inv_solvent)
  then have "unat (reserved_balance aid who s) + unat n < 2 ^ 128"
    using le by (simp add: holdings_def word_le_nat_alt)
  then have res: "n \<le> reserved_balance aid who s1"
    by (simp add: s1 reserved_state_def ledger_simps word_le_nat_alt unat_add_less)
  let ?l = "\<lparr>lock_id = lid, lock_asset_id = aid, lock_amount = n, lock_reasons = [Reserve]\<rparr>"
  have locks1: "locks (twox aid) who s1 = locks (twox aid) who s @ [?l]"
    by (simp add: s1 lid reserved_state_def ledger_simps)
  have "lid \<notin> lock_id ` set (locks (twox aid) who s)"
    using assms(2) by (force simp: lock_inv_def lid)
  then have drop: "drop_first_lock True lid (locks (twox aid) who s1) = locks (twox aid) who s"
    by (simp add: locks1 drop_first_lock_append)
  have "unreserve twox aid who n (Some lid) s1 = Done () (unreserved_state twox aid who n lid s1)"
    using res by (simp add: unreserve_eq chosen_lock_def lock_id_exists_def locks1)
  moreover have "locks ident w (unreserved_state twox aid who n lid s1) = locks ident w s" for ident w
    using drop by (simp add: unreserved_state_def ledger_simps locks1)
      (simp add: s1 reserved_state_def ledger_simps)
  moreover have "free_balance x w (unreserved_state twox aid who n lid s1) = free_balance x w s"
    "reserved_balance x w (unreserved_state twox aid who n lid s1) = reserved_balance x w s" for x w
    by (simp_all add: unreserved_state_def s1 reserved_state_def ledger_simps)
  ultimately show ?thesis by blast
qed

lemma reserve_then_unreserve_witness:
  "\<exists>s1 s2. reserve (\<lambda>_. 7) 0 1 40 demo_ga = Done 1 s1 \<and> reserved_balance 0 1 s1 = 40
    \<and> unreserve (\<lambda>_. 7) 0 1 40 (Some 1) s1 = Done () s2 \<and> free_balance 0 1 s2 = 100"
proof -
  let ?s1 = "reserved_state (\<lambda>_. 7) 0 1 40 demo_ga"
  have r: "reserve (\<lambda>_. 7) 0 1 40 demo_ga = Done 1 ?s1"
    by (simp add: reserve_eq demo_reads word_le_nat_alt) (simp add: demo_ga_def)
  have "lock_inv demo_ga" by (simp add: lock_inv_def demo_reads)
  from reserve_then_unreserve [OF demo_ga_inv this r] show ?thesis
    using r by (auto simp: demo_reads reserved_state_def ledger_simps)
qed

section \<open>Creating assets\<close>

text \<open>A root \<open>create\<close> hands out the next id and only that one: it was unused, its whole
  issuance is on the root key, which holds every permission, and every other asset keeps its
  issuance, its balances, its permissions and its symbol.\<close>

theorem create_hands_out_next_id:
  assumes "ga_inv s" and "create Root n symb s = Done u s'"
  shows "unused_id (NextAssetId s) s
    \<and> unat (NextAssetId s') = unat (NextAssetId s) + 1
    \<and> total_issuance (NextAssetId s) s' = n \<and> free_balance (NextAssetId s) (SudoKey s) s' = n
    \<and> (\<forall>w. w \<noteq> SudoKey s \<longrightarrow> free_balance (NextAssetId s) w s' = 0)
    \<and> (\<forall>what. check_permission (NextAssetId s) (SudoKey s) what s')
    \<and> symbols (NextAssetId s) s' = symb
    \<and> (\<forall>b w. b \<noteq> NextAssetId s \<longrightarrow> free_balance b w s' = free_balance b w s
         \<and> total_issuance b s' = total_issuance b s \<and> get_permission b s' = get_permission b s
         \<and> symbols b s' = symbols b s)"
proof -
  let ?a = "NextAssetId s" and ?r = "SudoKey s"
  let ?opt = "\<lparr>initial_issuance = n, permissions = \<lparr>update_perm = Address ?r, mint_perm = Address ?r,
    burn_perm = Address ?r\<rparr>\<rparr>"
  have unused: "unused_id ?a s" using assms(1) by (simp add: ga_inv_def)
  then have "holdings ?a w s = 0" for w
    using assms(1) by (intro no_issuance_no_holdings ga_inv_solvent) (simp_all add: unused_id_def)
  then have empty: "free_balance ?a w s = 0" for w
    by (simp add: holdings_def unat_eq_zero)
  let ?c = "created ?a ?r ?opt (s\<lparr>NextAssetId := ?a + 1\<rparr>)"
  have less: "unat ?a + 1 < 2 ^ 32" and s': "s' = ?c\<lparr>Symbols := (Symbols ?c)(?a \<mapsto> symb)\<rparr>"
    using assms(2) by (auto simp: create_def create_asset_eq Let_def split: if_splits)
  have syms: "symbols b s' = (if b = ?a then symb else symbols b s)" for b
    by (simp add: symbols_def s' created_def deposit_ga_event_def set_free_balance_def set_total_issuance_def)
  have perms: "get_permission b s' = (if b = ?a then V1 (permissions ?opt) else get_permission b s)" for b
    by (simp add: get_permission_def s' into_versions_def)
  have free: "free_balance b w s' = (if b = ?a \<and> w = ?r then n else free_balance b w s)" for b w
    by (simp add: s' created_def ledger_simps)
  have total: "total_issuance b s' = (if b = ?a then n else total_issuance b s)" for b
    by (simp add: s' created_def ledger_simps)
  have "unat (NextAssetId s') = unat ?a + 1"
    using less by (simp add: s' unat_add_less)
  moreover have "check_permission ?a ?r what s'" for what
    by (cases what) (simp_all add: check_permission_def perms)
  ultimately show ?thesis
    using unused by (simp add: syms perms free total empty)
qed

lemma create_hands_out_next_id_witness:
  "\<exists>s'. create Root 7 ''DUSD'' demo_ga = Done () s' \<and> free_balance 1 1 s' = 7 \<and> free_balance 0 1 s' = 100"
proof -
  obtain s' where c: "create Root 7 ''DUSD'' demo_ga = Done () s'"
    by (simp add: create_def create_asset_eq Let_def) (simp add: demo_ga_def)
  have "NextAssetId demo_ga = 1" "SudoKey demo_ga = 1" by (simp_all add: demo_ga_def)
  with create_hands_out_next_id [OF demo_ga_inv c] c show ?thesis
    by (auto simp: demo_reads)
qed

section \<open>Genesis\<close>

lemma fold_set_total:
  "total_issuance b (fold (\<lambda>aid. set_total_issuance aid v) aids s) = (if b \<in> set aids then v else total_issuance b s)"
  "free_balance b w (fold (\<lambda>aid. set_total_issuance aid v) aids s) = free_balance b w s"
  "reserved_balance b w (fold (\<lambda>aid. set_total_issuance aid v) aids s) = reserved_balance b w s"
  "Permissions (fold (\<lambda>aid. set_total_issuance aid v) aids s) = Permissions s"
  "b \<notin> set aids \<Longrightarrow> TotalIssuance (fold (\<lambda>aid. set_total_issuance aid v) aids s) b = TotalIssuance s b"
  by (induction aids arbitrary: s) (simp_all add: ledger_simps)

lemma fold_set_free:
  "free_balance b w (fold (\<lambda>acct. set_free_balance aid acct v) accts s)
     = (if b = aid \<and> w \<in> set accts then v else free_balance b w s)"
  "reserved_balance b w (fold (\<lambda>acct. set_free_balance aid acct v) accts s) = reserved_balance b w s"
  "total_issuance b (fold (\<lambda>acct. set_free_balance aid acct v) accts s) = total_issuance b s"
  "TotalIssuance (fold (\<lambda>acct. set_free_balance aid acct v) accts s) = TotalIssuance s"
  "Permissions (fold (\<lambda>acct. set_free_balance aid acct v) accts s) = Permissions s"
  "NextAssetId (fold (\<lambda>acct. set_free_balance aid acct v) accts s) = NextAssetId s"
  by (induction accts arbitrary: s) (auto simp: ledger_simps)

lemma fold_set_free_assets:
  "free_balance b w (fold (\<lambda>aid. fold (\<lambda>acct. set_free_balance aid acct v) accts) aids s)
     = (if b \<in> set aids \<and> w \<in> set accts then v else free_balance b w s)"
  "reserved_balance b w (fold (\<lambda>aid. fold (\<lambda>acct. set_free_balance aid acct v) accts) aids s) = reserved_balance b w s"
  "total_issuance b (fold (\<lambda>aid. fold (\<lambda>acct. set_free_balance aid acct v) accts) aids s) = total_issuance b s"
  "TotalIssuance (fold (\<lambda>aid. fold (\<lambda>acct. set_free_balance aid acct v) accts) aids s) = TotalIssuance s"
  "Permissions (fold (\<lambda>aid. fold (\<lambda>acct. set_free_balance aid acct v) accts) aids s) = Permissions s"
  "NextAssetId (fold (\<lambda>aid. fold (\<lambda>acct. set_free_balance aid acct v) accts) aids s) = NextAssetId s"
  by (induction aids arbitrary: s) (auto simp: fold_set_free)

lemma sum_endowed:
  assumes "distinct accts"
  shows "(\<Sum>w\<in>UNIV. unat ((if (w :: account_id) \<in> set accts then v else 0) :: balance)) = length accts * unat v"
proof -
  have "(\<Sum>w\<in>UNIV. unat ((if w \<in> set accts then v else 0) :: balance)) = (\<Sum>w\<in>set accts. unat v)"
    by (rule sum.mono_neutral_cong_right) auto
  with assms show ?thesis by (simp add: distinct_card)
qed

text \<open>A genesis configuration whose endowed accounts are pairwise distinct, whose total
  issuance fits the balance type and whose assets lie below the first free id builds either into
  a panic (a symbol's asset taken twice or out of range) or into a storage that satisfies the
  invariant of the pallet.\<close>

lemma ga_inv_genesis_build:
  assumes "distinct (gen_endowed_accounts cfg)"
    and "length (gen_endowed_accounts cfg) < 2 ^ 32"
    and "length (gen_endowed_accounts cfg) * unat (gen_initial_balance cfg) < 2 ^ 128"
    and "\<forall>aid \<in> set (gen_assets cfg). aid < gen_next_asset_id cfg"
  shows "keeps ga_inv (ga_genesis_build cfg (empty_ga_state sys))"
proof -
  let ?iss = "gen_initial_balance cfg * ucast (of_nat (length (gen_endowed_accounts cfg)) :: 32 word)"
  let ?s0 = "empty_ga_state sys"
  let ?s1 = "fold (\<lambda>aid. set_total_issuance aid ?iss) (gen_assets cfg) ?s0"
  let ?s2 = "?s1\<lparr>Symbols := fold (\<lambda>(aid, symb) m. m(aid \<mapsto> symb)) (gen_symbols cfg) (Symbols ?s1)\<rparr>"
  let ?s3 = "?s2\<lparr>NextAssetId := gen_next_asset_id cfg, NextLockId := 1\<rparr>"
  let ?s4 = "fold (\<lambda>aid. fold (\<lambda>acct. set_free_balance aid acct (gen_initial_balance cfg))
                (gen_endowed_accounts cfg)) (gen_assets cfg) ?s3"
  have zero: "free_balance b w ?s0 = 0" "reserved_balance b w ?s0 = 0" "total_issuance b ?s0 = 0"
    "TotalIssuance ?s0 b = None" "Permissions ?s0 = Map.empty" for b w
    by (simp_all add: empty_ga_state_def free_balance_def reserved_balance_def total_issuance_def
        system_state.defs ga_state.defs)
  have iss: "unat ?iss = length (gen_endowed_accounts cfg) * unat (gen_initial_balance cfg)"
    using assms(2,3) by (simp add: unat_word_ariths unsigned_ucast_eq take_bit_eq_mod unat_of_nat mult.commute)
  have free: "free_balance b w ?s4
      = (if b \<in> set (gen_assets cfg) then if w \<in> set (gen_endowed_accounts cfg) then gen_initial_balance cfg else 0
         else 0)" for b w
    by (simp add: fold_set_free_assets fold_set_total ledger_simps zero)
  have total: "total_issuance b ?s4 = (if b \<in> set (gen_assets cfg) then ?iss else 0)" for b
    by (simp add: fold_set_free_assets fold_set_total ledger_simps zero)
  have reserved: "reserved_balance b w ?s4 = 0" for b w
    by (simp add: fold_set_free_assets fold_set_total ledger_simps zero)
  have "solvent b ?s4" for b
    using iss sum_endowed [OF assms(1), of "gen_initial_balance cfg"]
    by (cases "b \<in> set (gen_assets cfg)")
      (simp_all add: solvent_def all_holdings_def holdings_def free total reserved)
  moreover have "unused_id b ?s4" if "gen_next_asset_id cfg \<le> b" for b
  proof -
    have "b \<notin> set (gen_assets cfg)" using assms(4) that by force
    then show ?thesis
      by (simp add: unused_id_def fold_set_free_assets fold_set_total zero)
  qed
  ultimately have "ga_inv ?s4" by (simp add: ga_inv_def fold_set_free_assets)
  then show ?thesis
    unfolding ga_genesis_build_def Let_def
    by (rule keeps_for_each) (intro keeps_intros)
qed

text \<open>The generic-asset section of the chain specification (cli/src/chain_spec.rs).\<close>

definition testnet_ga_genesis :: ga_genesis where
  "testnet_ga_genesis = \<lparr>gen_assets = [], gen_initial_balance = 0, gen_endowed_accounts = [],
     gen_symbols = [(0, ''DUSD''), (1, ''BTC'')], gen_next_asset_id = 5\<rparr>"

lemma testnet_ga_genesis_builds:
  "\<exists>s. ga_genesis_build testnet_ga_genesis (empty_ga_state demo_sys) = Done () s \<and> ga_inv s
    \<and> symbols 1 s = ''BTC'' \<and> check_permission 0 1 Mint s"
proof -
  obtain s where s: "ga_genesis_build testnet_ga_genesis (empty_ga_state demo_sys) = Done () s"
    and r: "symbols 1 s = ''BTC'' \<and> check_permission 0 1 Mint s"
    by (simp add: ga_genesis_build_def testnet_ga_genesis_def create_asset_eq Let_def empty_ga_state_def
        demo_sys_def system_state.defs ga_state.defs created_def deposit_ga_event_def set_free_balance_def
        set_total_issuance_def symbols_def check_permission_def get_permission_def into_versions_def)
  have "keeps ga_inv (ga_genesis_build testnet_ga_genesis (empty_ga_state demo_sys))"
    by (rule ga_inv_genesis_build) (simp_all add: testnet_ga_genesis_def)
  with s r show ?thesis by auto
qed

section \<open>The format of the permissions\<close>

lemma decode_encode_owner:
  assumes "\<And>a r. dec (enc a @ r) = Some (a, r)"
  shows "decode_owner dec (encode_owner enc ow @ r) = Some (ow, r)"
  using assms by (cases ow) simp_all

text \<open>Decoding an encoded permission record gives it back and consumes exactly its bytes,
  whatever the codec of the account type is, provided that codec does.\<close>

theorem permissions_roundtrip:
  assumes "\<And>a r. dec (enc a @ r) = Some (a, r)"
  shows "decode_permission_versions dec (encode_permission_versions enc p @ rest) = Some (p, rest)"
  by (cases p) (simp add: decode_permissions_v1_def encode_permissions_v1_def
      decode_encode_owner [of dec enc, OF assms])

lemma permissions_roundtrip_witness:
  "decode_permission_versions (\<lambda>bs. case bs of [] \<Rightarrow> None | b # r \<Rightarrow> Some (b, r))
     [0, 1, 9, 0, 1, 7, 200]
   = Some (V1 \<lparr>update_perm = Address 9, mint_perm = NoOwner, burn_perm = Address 7\<rparr>, [200])"
  using permissions_roundtrip [of "\<lambda>bs. case bs of [] \<Rightarrow> None | b # r \<Rightarrow> Some (b, r)" "\<lambda>b. [b]"
      "V1 \<lparr>update_perm = Address 9, mint_perm = NoOwner, burn_perm = Address (7 :: 8 word)\<rparr>" "[200]"]
  by (simp add: encode_permissions_v1_def)

end
