(* ===== verification/Asset_Locks.thy ===== *)
theory Asset_Locks
  imports Asset_Properties
begin

text \<open>
  The locks of the generic-asset pallet (\<open>reserve\<close>, \<open>unreserve\<close> and the functions on locks in
  generic-asset/src/lib.rs): what is reserved of an account is exactly what its locks add up to, as
  long as a lock is released with the amount it was taken for.  \<open>unreserve\<close> does not check that when
  it is given the id of a lock, and then the two part.
\<close>

section \<open>What the locks add up to\<close>

definition lock_total :: "(asset_id \<Rightarrow> lock_identifier) \<Rightarrow> asset_id \<Rightarrow> account_id \<Rightarrow> 'a ga_state_scheme \<Rightarrow> nat" where
  "lock_total twox aid who s = (\<Sum>l\<leftarrow>locks (twox aid) who s. unat (lock_amount l))"

definition covered :: "(asset_id \<Rightarrow> lock_identifier) \<Rightarrow> 'a ga_state_scheme \<Rightarrow> bool" where
  "covered twox s \<longleftrightarrow> (\<forall>aid who. unat (reserved_balance aid who s) = lock_total twox aid who s)"

definition locks_distinct :: "'a ga_state_scheme \<Rightarrow> bool" where
  "locks_distinct s \<longleftrightarrow> (\<forall>ident who. distinct (map lock_id (locks ident who s)))"

text \<open>After \<open>n\<close> reservations no more than \<open>n\<close> lock ids have been handed out, starting from 1.\<close>

definition locks_inv :: "(asset_id \<Rightarrow> lock_identifier) \<Rightarrow> nat \<Rightarrow> 'a ga_state_scheme \<Rightarrow> bool" where
  "locks_inv twox n s \<longleftrightarrow> ga_inv s \<and> lock_inv s \<and> locks_distinct s \<and> covered twox s
     \<and> unat (NextLockId s) \<le> Suc n"

lemma sum_drop_lock:
  assumes "distinct (map lock_id ls)" and "l \<in> set ls"
  shows "(\<Sum>m\<leftarrow>drop_first_lock True (lock_id l) ls. unat (lock_amount m)) + unat (lock_amount l)
      = (\<Sum>m\<leftarrow>ls. unat (lock_amount m))"
    and "length ls - length (drop_first_lock True (lock_id l) ls) = 1"
  using assms
proof (induction ls)
  case (Cons k ls)
  {
    case 1
    with Cons show ?case by (cases "k = l") (auto simp: image_iff)
  next
    case 2
    with Cons have "l \<in> set ls \<Longrightarrow> length (drop_first_lock True (lock_id l) ls) = length ls - 1 \<and> ls \<noteq> []"
      by auto
    with 2 Cons show ?case by (cases "k = l") (auto simp: image_iff Suc_diff_le)
  }
qed simp_all

lemma distinct_drop_lock:
  "distinct (map lock_id ls) \<Longrightarrow> distinct (map lock_id (drop_first_lock b lid ls))"
proof (induction b lid ls rule: drop_first_lock.induct)
  case (2 first lid v vs)
  then show ?case using set_drop_first_lock [of first lid vs] by auto
qed simp

section \<open>Reserving and releasing keep the books of the locks\<close>

lemma locks_reserved_state:
  "locks ident w (reserved_state twox aid who n s) =
     locks ident w s @ (if ident = twox aid \<and> w = who
       then [\<lparr>lock_id = NextLockId s, lock_asset_id = aid, lock_amount = n, lock_reasons = [Reserve]\<rparr>] else [])"
  by (simp add: reserved_state_def ledger_simps)

lemma locks_inv_reserve:
  assumes "inj twox" and s: "locks_inv twox n s" and "Suc (Suc n) < 2 ^ 128"
    and r: "reserve twox aid who amount s = Done lid t"
  shows "locks_inv twox (Suc n) t"
proof -
  have le: "amount \<le> free_balance aid who s" and t: "t = reserved_state twox aid who amount s"
    using r by (simp_all add: reserve_eq split: if_splits)
  have room: "unat (NextLockId s) + 1 < 2 ^ 128" and inv: "ga_inv s" "lock_inv s"
    using s assms(3) by (simp_all add: locks_inv_def)
  have fresh: "NextLockId s \<notin> lock_id ` set (locks ident w s)" for ident w
    using inv(2) by (force simp: lock_inv_def)
  have "locks_distinct t"
    using s fresh by (auto simp: locks_inv_def locks_distinct_def t locks_reserved_state)
  moreover have "holdings aid who s < 2 ^ 128"
    using inv(1) by (intro solvent_holdings_less ga_inv_solvent)
  then have "unat (reserved_balance aid who s + amount) = unat (reserved_balance aid who s) + unat amount"
    using le by (simp add: holdings_def word_le_nat_alt unat_add_less)
  then have "covered twox t"
    using s assms(1)
    by (auto simp: locks_inv_def covered_def lock_total_def t locks_reserved_state inj_eq)
      (auto simp: reserved_state_def ledger_simps)
  moreover have "NextLockId t = NextLockId s + 1"
    by (simp add: t reserved_state_def)
  then have "unat (NextLockId t) \<le> Suc (Suc n)"
    using s room by (simp add: locks_inv_def unat_add_less)
  ultimately show ?thesis
    using keepsD_Done [OF ga_inv_reserve [OF inv(1)] r] lock_inv_reserve [OF inv(2) r room]
    by (simp add: locks_inv_def)
qed

text \<open>Releasing a lock with the amount it was taken for; \<open>l\<close> is the lock that goes.\<close>

lemma locks_inv_release:
  assumes "inj twox" and s: "locks_inv twox n s"
    and l: "l \<in> set (locks (twox aid) who s)" "lock_amount l = amount"
    and u: "unreserve twox aid who amount lock s = Done u t" "chosen_lock (twox aid) who amount lock s = Inr (lock_id l)"
  shows "locks_inv twox n t"
proof -
  have t: "t = unreserved_state twox aid who amount (lock_id l) s" and le: "amount \<le> reserved_balance aid who s"
    using u by (simp_all add: unreserve_eq split: if_splits)
  have inv: "ga_inv s" "lock_inv s" "locks_distinct s" using s by (simp_all add: locks_inv_def)
  have dist: "distinct (map lock_id (locks (twox aid) who s))"
    using inv(3) by (simp add: locks_distinct_def)
  note one = sum_drop_lock [OF dist l(1)]
  have locks_t: "locks ident w t = (if ident = twox aid \<and> w = who
      then drop_first_lock True (lock_id l) (locks (twox aid) who s) else locks ident w s)" for ident w
    using one(2) by (auto simp: t unreserved_state_def ledger_simps)
  have "locks_distinct t"
    using inv(3) distinct_drop_lock [OF dist] by (simp add: locks_distinct_def locks_t)
  moreover have "covered twox t"
    using s assms(1) le l(2) one(1)
    by (auto simp: locks_inv_def covered_def lock_total_def locks_t inj_eq)
      (auto simp: t unreserved_state_def ledger_simps unat_sub_le)
  moreover have "NextLockId t = NextLockId s"
    by (simp add: t unreserved_state_def)
  ultimately show ?thesis
    using s keepsD_Done [OF ga_inv_unreserve [OF inv(1)] u(1)] lock_inv_unreserve [OF inv(2) u(1)]
    by (simp add: locks_inv_def)
qed


text \<open>Every other operation leaves the reserved balances and the locks alone.\<close>

definition same_locks :: "'a ga_state_scheme \<Rightarrow> 'a ga_state_scheme \<Rightarrow> bool" where
  "same_locks s t \<longleftrightarrow> ReservedBalance t = ReservedBalance s \<and> Locks t = Locks s \<and> NextLockId t = NextLockId s"

lemma same_locks_simps [simp]:
  "same_locks s s"
  "same_locks s (set_free_balance a w b t) = same_locks s t"
  "same_locks s (set_total_issuance a b t) = same_locks s t"
  "same_locks s (deposit_ga_event ev t) = same_locks s t"
  "same_locks s (t\<lparr>Permissions := x1\<rparr>) = same_locks s t"
  "same_locks s (t\<lparr>Symbols := x2\<rparr>) = same_locks s t"
  "same_locks s (t\<lparr>NextAssetId := x3\<rparr>) = same_locks s t"
  "same_locks s (moved a f g n t) = same_locks s t"
  "same_locks s (created a w options t) = same_locks s t"
  by (simp_all add: same_locks_def set_free_balance_def set_total_issuance_def deposit_ga_event_def moved_def
      created_def)

lemma locks_inv_same: "locks_inv twox n s \<Longrightarrow> ga_inv t \<Longrightarrow> same_locks s t \<Longrightarrow> locks_inv twox n t"
  by (simp add: locks_inv_def lock_inv_def locks_distinct_def covered_def lock_total_def same_locks_def
      locks_def reserved_balance_def)

lemma same_locks_dispatch: "keeps (same_locks s) (ga_dispatch orig c s)"
  by (cases c; cases orig)
    (auto simp: create_def transfer_def update_permission_def mint_def burn_def create_reserved_def create_asset_eq
      make_transfer_with_event_eq mint_free_def burn_free_def Let_def
      intro!: keeps_intros split: option.split)

lemma locks_inv_ga: "locks_inv twox n s \<Longrightarrow> ga_inv s"
  by (simp add: locks_inv_def)

lemma locks_inv_dispatch: "locks_inv twox n s \<Longrightarrow> keeps (locks_inv twox n) (ga_dispatch orig c s)"
  by (rule keeps_mono [OF keeps_conj [OF ga_inv_dispatch same_locks_dispatch]])
    (auto intro: locks_inv_ga locks_inv_same)

section \<open>Histories that release what they reserved\<close>

text \<open>
  The steps of the pallet in which a lock is released with its own amount: \<open>unreserve\<close> without an id
  looks for a lock of that amount, with an id the amount is the one \<open>locked_balance\<close> reports.
\<close>

inductive lock_step :: "(asset_id \<Rightarrow> lock_identifier) \<Rightarrow> 'a ga_state_scheme \<Rightarrow> 'a ga_state_scheme \<Rightarrow> bool"
  for twox where
  dispatched: "ga_dispatch orig c s = Done u t \<Longrightarrow> lock_step twox s t"
| refused: "ga_dispatch orig c s = Fail e t \<Longrightarrow> lock_step twox s t"
| transfers: "make_transfer_with_event aid f g n s = Done u t \<Longrightarrow> lock_step twox s t"
| reserves: "reserve twox aid who n s = Done lid t \<Longrightarrow> lock_step twox s t"
| releases_some: "unreserve twox aid who n None s = Done u t \<Longrightarrow> lock_step twox s t"
| releases_lock: "locked_balance twox aid who lid s = Some n \<Longrightarrow> unreserve twox aid who n (Some lid) s = Done u t
    \<Longrightarrow> lock_step twox s t"

lemma locks_inv_mono: "locks_inv twox n s \<Longrightarrow> locks_inv twox (Suc n) s"
  by (simp add: locks_inv_def)

lemma unreserve_chooses:
  assumes "unreserve twox aid who n lock s = Done u t"
  shows "\<exists>lid. chosen_lock (twox aid) who n lock s = Inr lid"
  using assms by (auto simp: unreserve_eq split: if_splits sum.splits)

lemma lock_step_inv:
  assumes "lock_step twox s t" and inj: "inj twox" and s: "locks_inv twox n s" and room: "Suc (Suc n) < 2 ^ 128"
  shows "locks_inv twox (Suc n) t"
  using assms(1)
proof cases
  case (dispatched orig c u)
  then show ?thesis using keepsD_Done [OF locks_inv_dispatch [OF s]] by (blast intro: locks_inv_mono)
next
  case (refused orig c e)
  then show ?thesis using keepsD_Fail [OF locks_inv_dispatch [OF s]] by (blast intro: locks_inv_mono)
next
  case (transfers aid f g m u)
  then have "ga_inv t" and "same_locks s t"
    using s by (auto simp: make_transfer_with_event_eq locks_inv_def ga_inv_moved split: if_splits)
  then show ?thesis using locks_inv_same [OF s] by (blast intro: locks_inv_mono)
next
  case (reserves aid who m lid)
  then show ?thesis using locks_inv_reserve [OF inj s room] by blast
next
  case (releases_some aid who m u)
  obtain l where f: "find (\<lambda>l. lock_amount l = m) (locks (twox aid) who s) = Some l"
    and c: "chosen_lock (twox aid) who m None s = Inr (lock_id l)"
    using unreserve_chooses [OF releases_some]
    by (auto simp: chosen_lock_def find_lock_id_by_amount_def split: option.splits)
  then have "l \<in> set (locks (twox aid) who s)" "lock_amount l = m"
    by (auto simp: find_Some_iff)
  then show ?thesis
    using locks_inv_release [OF inj s _ _ releases_some c] by (blast intro: locks_inv_mono)
next
  case (releases_lock aid who lid m u)
  obtain l where f: "find (\<lambda>l. lock_id l = lid) (locks (twox aid) who s) = Some l" and m: "lock_amount l = m"
    using releases_lock(1) by (auto simp: locked_balance_def generic_asset_lock_identifier_def)
  then have l: "l \<in> set (locks (twox aid) who s)" "lock_id l = lid"
    by (auto simp: find_Some_iff)
  have c: "chosen_lock (twox aid) who m (Some lid) s = Inr (lock_id l)"
    using unreserve_chooses [OF releases_lock(2)] l(2)
    by (auto simp: chosen_lock_def split: if_splits)
  show ?thesis
    using locks_inv_release [OF inj s l(1) m releases_lock(2) c] by (rule locks_inv_mono)
qed

lemma lock_steps_inv:
  "(lock_step twox ^^ k) s t \<Longrightarrow> inj twox \<Longrightarrow> locks_inv twox n s \<Longrightarrow> Suc (Suc (n + k)) \<le> 2 ^ 128
    \<Longrightarrow> locks_inv twox (n + k) t"
proof (induction k arbitrary: t)
  case (Suc k)
  then obtain r where "(lock_step twox ^^ k) s r" "lock_step twox r t" by auto
  with Suc.IH [of r] Suc.prems lock_step_inv [of twox r t "n + k"] show ?case by simp
qed simp

lemma locks_inv_empty: "locks_inv twox 0 (empty_ga_state sys)"
proof -
  have "locks ident w (empty_ga_state sys) = []" "reserved_balance aid w (empty_ga_state sys) = 0"
    "NextLockId (empty_ga_state sys) = 1" for ident w aid
    by (simp_all add: empty_ga_state_def locks_def reserved_balance_def system_state.defs ga_state.defs)
  then show ?thesis
    by (simp add: locks_inv_def ga_inv_empty lock_inv_def locks_distinct_def covered_def lock_total_def)
qed

text \<open>C25: When asset ids are hashed to different lists and locks are released with the amount they
  were taken for, then in every state that the pallet reaches from an empty storage the reserved
  balance of every account is exactly the sum of its locks, and no two locks of a list share an id.\<close>

theorem reserved_is_sum_of_locks:
  assumes "inj twox" and "(lock_step twox ^^ n) (empty_ga_state sys) t" and "n + 2 \<le> 2 ^ 128"
  shows "unat (reserved_balance aid who t) = (\<Sum>l\<leftarrow>locks (twox aid) who t. unat (lock_amount l))
    \<and> distinct (map lock_id (locks (twox aid) who t))"
proof -
  have "locks_inv twox n t"
    using lock_steps_inv [OF assms(2,1) locks_inv_empty] assms(3) by simp
  then show ?thesis
    by (simp add: locks_inv_def covered_def lock_total_def locks_distinct_def)
qed

text \<open>The runs of the witnesses hash an id to itself, as the identifiers have twice the width of an id.\<close>

definition demo_twox :: "asset_id \<Rightarrow> lock_identifier" where
  "demo_twox aid = ucast aid"

lemma inj_demo_twox: "inj demo_twox"
  by (rule injI) (simp add: demo_twox_def word_unat_eq_iff unsigned_ucast_eq take_bit_nat_eq_self
      order.strict_trans [OF unsigned_less])

text \<open>Two reservations of 40 and 25; the release of 40 without an id picks the right lock.\<close>

lemma reserved_is_sum_of_locks_witness:
  "\<exists>t :: ga_state. (lock_step demo_twox ^^ 4) (empty_ga_state demo_sys) t
    \<and> unat (reserved_balance 0 1 t) = 25
    \<and> unat (reserved_balance 0 1 t) = (\<Sum>l\<leftarrow>locks (demo_twox 0) 1 t. unat (lock_amount l))"
proof -
  let ?a = "reserved_state demo_twox 0 1 40 demo_ga"
  let ?b = "reserved_state demo_twox 0 1 25 ?a"
  have one: "NextLockId demo_ga = 1" by (simp add: demo_ga_def)
  have "lock_step demo_twox (empty_ga_state demo_sys) demo_ga"
    using dispatched [of Root "Call_create 100 ''BTC''"] demo_ga_created by simp
  moreover have "lock_step demo_twox demo_ga ?a"
    by (rule reserves [of _ 0 1 40]) (simp add: reserve_eq demo_reads word_le_nat_alt)
  moreover have "lock_step demo_twox ?a ?b"
    by (rule reserves [of _ 0 1 25]) (simp add: reserve_eq reserved_state_def ledger_simps demo_reads word_le_nat_alt)
  moreover have res: "reserved_balance 0 1 ?b = 65"
    by (simp add: reserved_state_def ledger_simps demo_reads)
  have "chosen_lock (demo_twox 0) 1 40 None ?b = Inr 1"
    by (simp only: chosen_lock_def find_lock_id_by_amount_def locks_reserved_state demo_reads) (simp add: one)
  then have u: "unreserve demo_twox 0 1 40 None ?b = Done () (unreserved_state demo_twox 0 1 40 1 ?b)"
    by (simp add: unreserve_eq res word_le_nat_alt)
  moreover have "lock_step demo_twox ?b (unreserved_state demo_twox 0 1 40 1 ?b)"
    using u by (rule releases_some)
  ultimately have run: "(lock_step demo_twox ^^ 4) (empty_ga_state demo_sys) (unreserved_state demo_twox 0 1 40 1 ?b)"
    by (auto simp: numeral_eq_Suc OO_def)
  have "reserved_balance 0 1 (unreserved_state demo_twox 0 1 40 1 ?b) = 25"
    by (simp add: unreserved_state_def ledger_simps res)
  with reserved_is_sum_of_locks [OF inj_demo_twox run, of 0 1] run show ?thesis by auto
qed

section \<open>Releasing part of a lock\<close>

text \<open>
  The amount given with an id is compared with the whole reserved balance only.  An account with one
  lock that releases part of it by its id loses the lock, keeps the rest reserved, and no call of
  \<open>unreserve\<close> gives the rest back.
\<close>

lemma partial_release_strands:
  assumes "locks (twox aid) who s = [l]" and "reserved_balance aid who s = lock_amount l" and "n < lock_amount l"
  shows "\<exists>t. unreserve twox aid who n (Some (lock_id l)) s = Done () t
    \<and> unat (reserved_balance aid who t) = unat (lock_amount l) - unat n
    \<and> (\<forall>m lock. \<exists>e. unreserve twox aid who m lock t = Fail e t)"
proof -
  let ?t = "unreserved_state twox aid who n (lock_id l) s"
  have le: "n \<le> lock_amount l" using assms(3) by simp
  have "locks (twox aid) who ?t = []"
    using assms(1) by (simp add: unreserved_state_def ledger_simps)
  then have "\<exists>e. unreserve twox aid who m lock ?t = Fail e ?t" for m lock
    by (auto simp: unreserve_eq chosen_lock_def lock_id_exists_def find_lock_id_by_amount_def split: option.split)
  moreover have "unreserve twox aid who n (Some (lock_id l)) s = Done () ?t"
    using assms le by (simp add: unreserve_eq chosen_lock_def lock_id_exists_def)
  moreover have "unat (reserved_balance aid who ?t) = unat (lock_amount l) - unat n"
    using assms(2) le by (simp add: unreserved_state_def ledger_simps unat_sub_le)
  ultimately show ?thesis by blast
qed

end
