(* ===== verification/New_Oracle.thy ===== *)
theory New_Oracle
  imports Asset_Ledger
begin

text \<open>
  The price oracle (runtime/modules/new-oracle/src/lib.rs): the storage of prices, the calls that
  feed it, the aggregation at the end of a block, the validation of unsigned calls and the
  offchain worker with its walk through a fetched JSON document.

  The JSON library, the HTTP request, the UTF-8 check and the floating-point conversions are
  not code of this repository or have no counterpart in the logic; they are the arguments
  \<open>api\<close> and \<open>http\<close>.  The price type is the runtime's \<open>u64\<close>, whose \<open>+\<close> wraps.
\<close>

section \<open>Storage\<close>

type_synonym price = "64 word"
type_synonym price_source = "string \<times> string \<times> string list"

record oracle_state = ga_state +
  CryptoPriceSources :: "(string, price_source list) linked_map"
  PriceCandidates :: "(string, price list) linked_map"
  CurrentPrice :: "(string, price) linked_map"
  NextAggregateAt :: block_number

definition PRICE_SCALE :: price where
  "PRICE_SCALE = 10000"

definition current_price :: "string \<Rightarrow> 'a oracle_state_scheme \<Rightarrow> price" where
  "current_price token s = lm_get 0 (CurrentPrice s) token"

definition price_candidates :: "string \<Rightarrow> 'a oracle_state_scheme \<Rightarrow> price list" where
  "price_candidates token s = lm_get [] (PriceCandidates s) token"

definition is_token_known :: "string \<Rightarrow> 'a oracle_state_scheme \<Rightarrow> bool" where
  "is_token_known token s = lm_contains (CurrentPrice s) token"

section \<open>Aggregation at the end of a block\<close>

text \<open>\<open>TryFrom<usize>\<close> for \<open>u64\<close>.\<close>

definition u64_try_from :: "nat \<Rightarrow> price option" where
  "u64_try_from l = (if l < 2 ^ 64 then Some (of_nat l) else None)"

definition aggregate_token :: "string \<Rightarrow> 'a oracle_state_scheme \<Rightarrow> (unit, 'a oracle_state_scheme) dispatch" where
  "aggregate_token k s =
     (let pc = price_candidates k s;
          s = s\<lparr>PriceCandidates := lm_remove k (PriceCandidates s)\<rparr>;
          l = length pc;
          t = foldl (+) 0 pc
      in unwrap_then (u64_try_from l) (\<lambda>l.
         div_then t l (\<lambda>mean.
           if lm_contains (CurrentPrice s) k
           then Done () (s\<lparr>CurrentPrice := lm_mutate 0 k (\<lambda>_. mean) (CurrentPrice s)\<rparr>)
           else Done () (s\<lparr>CurrentPrice := lm_insert k mean (CurrentPrice s)\<rparr>))))"

definition oracle_on_finalize ::
    "block_number \<Rightarrow> block_number \<Rightarrow> 'a oracle_state_scheme \<Rightarrow> (unit, 'a oracle_state_scheme) dispatch" where
  "oracle_on_finalize interval bn s =
     (if interval = 0 then Panic
      else if bn mod interval = 0 then
        and_then (for_each aggregate_token (lm_keys (PriceCandidates s)) s) (\<lambda>_ s.
          Done () (s\<lparr>NextAggregateAt := bn + interval\<rparr>))
      else Done () s)"

section \<open>Calls\<close>

definition add_source ::
    "origin \<Rightarrow> string \<Rightarrow> string \<Rightarrow> string \<Rightarrow> string list \<Rightarrow> 'a oracle_state_scheme
      \<Rightarrow> (unit, 'a oracle_state_scheme) dispatch" where
  "add_source orig token source_name source_url json_path s =
     and_then (ensure_root orig s) (\<lambda>_ s.
       if lm_contains (CryptoPriceSources s) token
       then Done () (s\<lparr>CryptoPriceSources :=
              lm_mutate [] token (\<lambda>v. v @ [(source_name, source_url, json_path)]) (CryptoPriceSources s)\<rparr>)
       else Done () (s\<lparr>CryptoPriceSources :=
              lm_insert token [(source_name, source_url, json_path)] (CryptoPriceSources s)\<rparr>))"

definition stack_price ::
    "block_number \<Rightarrow> string \<Rightarrow> price \<Rightarrow> 'a oracle_state_scheme \<Rightarrow> (unit, 'a oracle_state_scheme) dispatch" where
  "stack_price _ token price s =
     Done () (s\<lparr>PriceCandidates := lm_mutate [] token (\<lambda>v. v @ [price]) (PriceCandidates s)\<rparr>)"

definition stack_price_unsigned ::
    "origin \<Rightarrow> block_number \<Rightarrow> string \<Rightarrow> price \<Rightarrow> 'a oracle_state_scheme
      \<Rightarrow> (unit, 'a oracle_state_scheme) dispatch" where
  "stack_price_unsigned orig block_number token price s =
     and_then (ensure_none orig s) (\<lambda>_ s.
     and_then (stack_price block_number token price s) (\<lambda>_ s. Done () s))"

definition stack_price_signed ::
    "origin \<Rightarrow> block_number \<Rightarrow> string \<Rightarrow> price \<Rightarrow> 'a oracle_state_scheme
      \<Rightarrow> (unit, 'a oracle_state_scheme) dispatch" where
  "stack_price_signed orig _ _ _ s = and_then (ensure_signed orig s) (\<lambda>_ s. Done () s)"

datatype oracle_call =
    Call_add_source string string string "string list"
  | Call_stack_price_unsigned block_number string price
  | Call_stack_price_signed block_number string price

fun oracle_dispatch ::
    "origin \<Rightarrow> oracle_call \<Rightarrow> 'a oracle_state_scheme \<Rightarrow> (unit, 'a oracle_state_scheme) dispatch" where
  "oracle_dispatch orig (Call_add_source t n u p) s = add_source orig t n u p s"
| "oracle_dispatch orig (Call_stack_price_unsigned b t p) s = stack_price_unsigned orig b t p s"
| "oracle_dispatch orig (Call_stack_price_signed b t p) s = stack_price_signed orig b t p s"

section \<open>Validation of unsigned calls\<close>

record valid_transaction =
  priority :: "64 word"
  requires :: "bytes list"
  provides :: "bytes list"
  longevity :: "64 word"
  propagate :: bool

text \<open>\<open>None\<close> stands for \<open>InvalidTransaction::Call\<close>; \<open>enc\<close> encodes the triple.\<close>

fun validate_unsigned ::
    "(block_number \<times> string \<times> price \<Rightarrow> bytes) \<Rightarrow> oracle_call \<Rightarrow> valid_transaction option" where
  "validate_unsigned enc (Call_stack_price_unsigned block token price) =
     Some \<lparr>priority = 0, requires = [], provides = [enc (block, token, price)], longevity = 3,
           propagate = True\<rparr>"
| "validate_unsigned enc _ = None"

section \<open>Reading a price out of a JSON document\<close>

text \<open>
  What the worker uses of a JSON value and of floating point: the members of an object (keys
  are sequences of Unicode scalar values), the number or the bytes of a leaf, the UTF-8 check,
  the parser of decimal numbers, and the operations on \<open>f64\<close>: the conversion of a \<open>u64\<close>, the product,
  rounding, and the cast back (out of range its value is the compiler's).
\<close>

record ('j, 'f) json_api =
  get_object :: "'j \<Rightarrow> (32 word list \<times> 'j) list option"
  get_number_f64 :: "'j \<Rightarrow> 'f option"
  get_bytes :: "'j \<Rightarrow> string option"
  from_utf8 :: "string \<Rightarrow> string option"
  parse_f64 :: "string \<Rightarrow> 'f option"
  u64_as_f64 :: "64 word \<Rightarrow> 'f"
  f64_mul :: "'f \<Rightarrow> 'f \<Rightarrow> 'f"
  f64_round :: "'f \<Rightarrow> 'f"
  f64_as_u64 :: "'f \<Rightarrow> 64 word"
  parse_json :: "string \<Rightarrow> 'j option"

text \<open>\<open>c as u8\<close> keeps the low byte of the scalar value.\<close>

definition vecchars_to_vecbytes :: "32 word list \<Rightarrow> string" where
  "vecchars_to_vecbytes it = map (\<lambda>c. char_of (unat (ucast c :: 8 word))) it"

definition parse_field :: "('j, 'f) json_api \<Rightarrow> 'j \<Rightarrow> string + price" where
  "parse_field api json_data =
     (case get_number_f64 api json_data of
        Some p_f64 \<Rightarrow> Inr (f64_as_u64 api (f64_round api (f64_mul api p_f64 (u64_as_f64 api PRICE_SCALE))))
      | None \<Rightarrow>
          (case get_bytes api json_data of
             Some price_u8 \<Rightarrow>
               (case from_utf8 api price_u8 of
                  None \<Rightarrow> Inl ''parse_field: val_f64 convert to string error''
                | Some str \<Rightarrow>
                    (case parse_f64 api str of
                       None \<Rightarrow> Inl ''parse_field: val_u8 parsing to f64 error''
                     | Some val_f64 \<Rightarrow> Inr (f64_as_u64 api (f64_round api (f64_mul api val_f64 (u64_as_f64 api PRICE_SCALE))))))
           | None \<Rightarrow> Inl ''unknown data''))"

fun parse_price :: "('j, 'f) json_api \<Rightarrow> 'j \<Rightarrow> string list \<Rightarrow> string + price" where
  "parse_price api data_cur [] = parse_field api data_cur"
| "parse_price api data_cur (f # json_path) =
     (case get_object api data_cur of
        Some obj_vec \<Rightarrow>
          (case filter (\<lambda>(k, _). f = vecchars_to_vecbytes k) obj_vec of
             [] \<Rightarrow> Inl ''fetch_price: JSON does not conform to expectation''
           | (_, v) # _ \<Rightarrow> parse_price api v json_path)
      | None \<Rightarrow> Inl ''JSON does not confirm to expectation'')"

section \<open>The offchain worker\<close>

datatype http_result = Send_failed | Deadline_reached | Response_failed | Response nat string

definition fetch_json ::
    "('j, 'f) json_api \<Rightarrow> (string \<Rightarrow> http_result) \<Rightarrow> string \<Rightarrow> string + 'j" where
  "fetch_json api http url =
     (case from_utf8 api url of
        None \<Rightarrow> Inl ''Invalid Remote URL''
      | Some remote_url \<Rightarrow>
          (case http remote_url of
             Send_failed \<Rightarrow> Inl ''''
           | Deadline_reached \<Rightarrow> Inl ''deadline''
           | Response_failed \<Rightarrow> Inl ''''
           | Response code body \<Rightarrow>
               (if code \<noteq> 200 then Inl ''unexpected status code''
                else case from_utf8 api body of
                  None \<Rightarrow> Inl ''invalid UTF8 response''
                | Some str \<Rightarrow>
                    (case parse_json api str of
                       None \<Rightarrow> Inl ''invalid JSON response''
                     | Some json_data \<Rightarrow> Inr json_data))))"

text \<open>
  The worker picks a source of the token BTC with the random number \<open>r\<close> (after its cast to
  \<open>usize\<close>) and submits at most one unsigned call, which is its result.  It changes no
  storage, and it panics when there is no source.
\<close>

definition offchain_worker ::
    "('j, 'f) json_api \<Rightarrow> (string \<Rightarrow> http_result) \<Rightarrow> nat \<Rightarrow> block_number \<Rightarrow> 'a oracle_state_scheme
      \<Rightarrow> (oracle_call option, 'a oracle_state_scheme) dispatch" where
  "offchain_worker api http r block_number s =
     (let token = ''BTC'';
          sources = lm_get [] (CryptoPriceSources s) token
      in if sources = [] then Panic
         else (let source = sources ! (r mod length sources) in
           case fetch_json api http (fst (snd source)) of
             Inl e \<Rightarrow> Done None s
           | Inr json_data \<Rightarrow>
               (case parse_price api json_data (snd (snd source)) of
                  Inr price \<Rightarrow> Done (Some (Call_stack_price_unsigned block_number token price)) s
                | Inl e \<Rightarrow> Done None s)))"

end
