(* ===== verification/Oracle_Properties.thy ===== *)
theory Oracle_Properties
  imports New_Oracle
begin

text \<open>
  The properties of the oracle: what the aggregation at the end of a block does to every token,
  that it cannot panic on the candidates the pallet collects, when the published mean lies between
  the submitted prices and what happens when their sum wraps, who may write what, and the walk
  through a JSON document.
\<close>

section \<open>The aggregation, token by token\<close>

definition candidate_mean :: "price list \<Rightarrow> price" where
  "candidate_mean pc = sum_list pc div of_nat (length pc)"

lemma foldl_plus_sum_list: "foldl (+) a xs = a + sum_list (xs :: 'a::monoid_add list)"
  by (induction xs arbitrary: a) (simp_all add: add.assoc)

lemma of_nat_length_neq_0: "pc \<noteq> [] \<Longrightarrow> length pc < 2 ^ 64 \<Longrightarrow> of_nat (length pc) \<noteq> (0 :: price)"
  by (simp add: word_unat_eq_iff unat_of_nat)

lemma aggregate_token_eq:
  assumes "price_candidates k s \<noteq> []" and "length (price_candidates k s) < 2 ^ 64"
  shows "aggregate_token k s =
    Done () (s\<lparr>PriceCandidates := lm_remove k (PriceCandidates s),
              CurrentPrice := lm_insert k (candidate_mean (price_candidates k s)) (CurrentPrice s)\<rparr>)"
  using assms of_nat_length_neq_0 [OF assms]
  by (simp add: aggregate_token_def Let_def u64_try_from_def div_then_def candidate_mean_def
      foldl_plus_sum_list lm_mutate_def)

lemma aggregate_tokens:
  assumes "distinct ks"
    and "\<And>k. k \<in> set ks \<Longrightarrow> price_candidates k s \<noteq> [] \<and> length (price_candidates k s) < 2 ^ 64"
  shows "\<exists>pcs cps. for_each aggregate_token ks s = Done () (s\<lparr>PriceCandidates := pcs, CurrentPrice := cps\<rparr>)
    \<and> (\<forall>k. map_of pcs k = (if k \<in> set ks then None else map_of (PriceCandidates s) k))
    \<and> (\<forall>k. map_of cps k = (if k \<in> set ks then Some (candidate_mean (price_candidates k s))
                            else map_of (CurrentPrice s) k))"
  using assms
proof (induction ks arbitrary: s)
  case Nil
  show ?case by (intro exI [of _ "PriceCandidates s"] exI [of _ "CurrentPrice s"]) simp
next
  case (Cons k ks)
  let ?t = "s\<lparr>PriceCandidates := lm_remove k (PriceCandidates s),
              CurrentPrice := lm_insert k (candidate_mean (price_candidates k s)) (CurrentPrice s)\<rparr>"
  have first: "aggregate_token k s = Done () ?t"
    using Cons.prems(2) [of k] by (intro aggregate_token_eq) simp_all
  have others: "price_candidates j ?t = price_candidates j s" if "j \<noteq> k" for j
    using that by (simp add: price_candidates_def)
  have "price_candidates j ?t \<noteq> [] \<and> length (price_candidates j ?t) < 2 ^ 64" if "j \<in> set ks" for j
  proof -
    have "j \<noteq> k" using that Cons.prems(1) by auto
    then show ?thesis using that Cons.prems(2) [of j] by (simp add: others)
  qed
  with Cons.prems(1) obtain pcs cps where
    rest: "for_each aggregate_token ks ?t = Done () (?t\<lparr>PriceCandidates := pcs, CurrentPrice := cps\<rparr>)"
    and pcs: "\<And>j. map_of pcs j = (if j \<in> set ks then None else map_of (PriceCandidates ?t) j)"
    and cps: "\<And>j. map_of cps j = (if j \<in> set ks then Some (candidate_mean (price_candidates j ?t))
                                else map_of (CurrentPrice ?t) j)"
    using Cons.IH [of ?t] by auto
  show ?case
  proof (intro exI conjI)
    show "for_each aggregate_token (k # ks) s = Done () (s\<lparr>PriceCandidates := pcs, CurrentPrice := cps\<rparr>)"
      using rest by (simp add: first)
    show "\<forall>j. map_of pcs j = (if j \<in> set (k # ks) then None else map_of (PriceCandidates s) j)"
      by (simp add: pcs)
    show "\<forall>j. map_of cps j = (if j \<in> set (k # ks) then Some (candidate_mean (price_candidates j s))
                             else map_of (CurrentPrice s) j)"
    proof
      fix j
      show "map_of cps j = (if j \<in> set (k # ks) then Some (candidate_mean (price_candidates j s))
                            else map_of (CurrentPrice s) j)"
        using Cons.prems(1) others [of j] by (cases "j = k") (simp_all add: cps)
    qed
  qed
qed

section \<open>The invariant\<close>

text \<open>The stored candidate lists are never empty: a list is created with its first price.\<close>

definition oracle_inv :: "'a oracle_state_scheme \<Rightarrow> bool" where
  "oracle_inv s \<longleftrightarrow> lm_wf (PriceCandidates s)
     \<and> (\<forall>k. lm_contains (PriceCandidates s) k \<longrightarrow> price_candidates k s \<noteq> [])"

lemma oracle_inv_stack_price [keeps_intros]: "oracle_inv s \<Longrightarrow> keeps oracle_inv (stack_price b t p s)"
  by (auto simp: stack_price_def oracle_inv_def price_candidates_def)

lemma oracle_inv_dispatch [keeps_intros]: "oracle_inv s \<Longrightarrow> keeps oracle_inv (oracle_dispatch orig c s)"
  by (cases c)
    (auto simp: add_source_def stack_price_unsigned_def stack_price_signed_def oracle_inv_def
      price_candidates_def intro!: keeps_intros split: if_splits)

lemma oracle_on_finalize_idle:
  "interval \<noteq> 0 \<Longrightarrow> bn mod interval \<noteq> 0 \<Longrightarrow> oracle_on_finalize interval bn s = Done () s"
  by (simp add: oracle_on_finalize_def)

text \<open>The whole effect of an aggregating block.\<close>

lemma oracle_on_finalize_aggregates:
  assumes "oracle_inv s" and "interval \<noteq> 0" and "bn mod interval = 0"
    and "\<And>k. length (price_candidates k s) < 2 ^ 64"
  shows "\<exists>cps. oracle_on_finalize interval bn s
      = Done () (s\<lparr>PriceCandidates := [], CurrentPrice := cps, NextAggregateAt := bn + interval\<rparr>)
    \<and> (\<forall>k. map_of cps k = (if lm_contains (PriceCandidates s) k
                            then Some (candidate_mean (price_candidates k s))
                            else map_of (CurrentPrice s) k))"
proof -
  let ?ks = "lm_keys (PriceCandidates s)"
  have "distinct ?ks" using assms(1) by (simp add: oracle_inv_def lm.enum_distinct)
  moreover have "price_candidates k s \<noteq> [] \<and> length (price_candidates k s) < 2 ^ 64" if "k \<in> set ?ks" for k
    using assms(1,4) that by (simp add: oracle_inv_def lm_contains_iff)
  ultimately obtain pcs cps where
    run: "for_each aggregate_token ?ks s = Done () (s\<lparr>PriceCandidates := pcs, CurrentPrice := cps\<rparr>)"
    and pcs: "\<forall>k. map_of pcs k = (if k \<in> set ?ks then None else map_of (PriceCandidates s) k)"
    and cps: "\<forall>k. map_of cps k = (if k \<in> set ?ks then Some (candidate_mean (price_candidates k s))
                            else map_of (CurrentPrice s) k)"
    using aggregate_tokens [of ?ks s] by blast
  have "map_of pcs k = None" for k
    using pcs by (auto simp: lm_contains_iff [symmetric] lm_contains_def)
  then have "pcs = []"
    by (metis fun_upd_apply list.exhaust map_of.simps(2) option.distinct(1) surj_pair)
  with run cps assms(2,3) show ?thesis
    by (intro exI [of _ cps]) (simp add: oracle_on_finalize_def lm_contains_iff)
qed

section \<open>Properties\<close>

text \<open>C20: At an aggregating block the oracle never panics on the candidates it has collected; it
  publishes the mean of each token's candidates, leaves the price of every other token alone,
  empties all candidate lists and schedules the next aggregation.\<close>

theorem aggregation_publishes_means:
  assumes "oracle_inv s" and "interval \<noteq> 0" and "bn mod interval = 0"
    and "\<And>k. length (price_candidates k s) < 2 ^ 64"
  shows "\<exists>s'. oracle_on_finalize interval bn s = Done () s'
    \<and> (\<forall>k. price_candidates k s' = [])
    \<and> (\<forall>k. current_price k s' = (if lm_contains (PriceCandidates s) k
              then sum_list (price_candidates k s) div of_nat (length (price_candidates k s))
              else current_price k s))
    \<and> NextAggregateAt s' = bn + interval \<and> oracle_inv s'"
proof -
  obtain cps where run: "oracle_on_finalize interval bn s
      = Done () (s\<lparr>PriceCandidates := [], CurrentPrice := cps, NextAggregateAt := bn + interval\<rparr>)"
    and cps: "\<forall>k. map_of cps k = (if lm_contains (PriceCandidates s) k
                            then Some (candidate_mean (price_candidates k s))
                            else map_of (CurrentPrice s) k)"
    using oracle_on_finalize_aggregates [OF assms] by blast
  then show ?thesis
    by (simp add: price_candidates_def current_price_def lm_get_def get_or_def candidate_mean_def oracle_inv_def)
qed

definition demo_oracle :: oracle_state where
  "demo_oracle = ga_state.extend
     (system_state.extend \<lparr>SudoKey = 1, BlockNumber = 10, ExtrinsicIndex = None, Now = 0\<rparr>
       (ga_state.fields Map.empty Map.empty Map.empty Map.empty 0 Map.empty 1 Map.empty []))
     (oracle_state.fields [] [(''BTC'', [90000, 110000])] [(''DUSD'', 10000)] 0)"

lemma demo_oracle_simps:
  "PriceCandidates demo_oracle = [(''BTC'', [90000, 110000])]"
  "CurrentPrice demo_oracle = [(''DUSD'', 10000)]"
  "CryptoPriceSources demo_oracle = []"
  by (simp_all add: demo_oracle_def ga_state.defs system_state.defs oracle_state.defs)

lemma demo_oracle_inv: "oracle_inv demo_oracle"
  by (simp add: oracle_inv_def demo_oracle_simps lm_wf_def lm_keys_def lm_contains_def price_candidates_def
      lm_get_def get_or_def)

lemma demo_candidates: "price_candidates k demo_oracle = (if k = ''BTC'' then [90000, 110000] else [])"
  by (simp add: price_candidates_def demo_oracle_simps lm_get_def get_or_def)

lemma aggregation_publishes_means_witness:
  "\<exists>s'. oracle_on_finalize 5 10 demo_oracle = Done () s'
    \<and> current_price ''BTC'' s' = 100000 \<and> current_price ''DUSD'' s' = 10000"
proof -
  have a: "(5 :: block_number) \<noteq> 0" by simp
  have b: "(10 :: block_number) mod 5 = 0" by simp
  have c: "length (price_candidates k demo_oracle) < 2 ^ 64" for k
    by (simp add: demo_candidates)
  show ?thesis
    using aggregation_publishes_means [OF demo_oracle_inv a b c]
    by (auto simp: demo_candidates demo_oracle_simps lm_contains_def current_price_def lm_get_def get_or_def)
qed

lemma unat_sum_list_le:
  fixes xs :: "price list"
  assumes "\<forall>x \<in> set xs. x \<le> hi" and "length xs * unat hi < 2 ^ 64"
  shows "unat (sum_list xs) = sum_list (map unat xs)" and "sum_list (map unat xs) \<le> length xs * unat hi"
proof -
  have "unat (sum_list xs) = sum_list (map unat xs) \<and> sum_list (map unat xs) \<le> length xs * unat hi"
    using assms
  proof (induction xs)
    case (Cons x xs)
    then have IH: "unat (sum_list xs) = sum_list (map unat xs)" "sum_list (map unat xs) \<le> length xs * unat hi"
      and x: "unat x \<le> unat hi"
      by (auto simp: word_le_nat_alt)
    then have "unat x + unat (sum_list xs) < 2 ^ 64"
      using Cons.prems(2) by simp
    with IH x show ?case by (simp add: unat_add_less)
  qed simp
  then show "unat (sum_list xs) = sum_list (map unat xs)" "sum_list (map unat xs) \<le> length xs * unat hi"
    by simp_all
qed

lemma sum_list_ge: "\<forall>x \<in> set xs. lo \<le> x \<Longrightarrow> length xs * lo \<le> sum_list (xs :: nat list)"
  by (induction xs) auto

text \<open>As long as the number of candidates times the largest of them fits 64 bits, the mean
  published for a token lies between any bounds of its candidates.\<close>

theorem mean_between_candidates:
  assumes "pc \<noteq> []" and "\<forall>p \<in> set pc. lo \<le> p \<and> p \<le> hi" and "length pc * unat hi < 2 ^ 64"
    and "price_candidates k s = pc" and "aggregate_token k s = Done u s'"
  shows "lo \<le> current_price k s' \<and> current_price k s' \<le> hi"
proof -
  let ?n = "length pc" and ?sum = "sum_list (map unat pc)"
  have sum: "unat (sum_list pc) = ?sum" and up: "?sum \<le> ?n * unat hi"
    using unat_sum_list_le [of pc hi] assms(2,3) by auto
  have low: "?n * unat lo \<le> ?sum"
    using sum_list_ge [of "map unat pc" "unat lo"] assms(2) by (simp add: word_le_nat_alt)
  have "?n < 2 ^ 64"
  proof (rule ccontr)
    assume "\<not> ?n < 2 ^ 64"
    then have "price_candidates k s = pc \<and> u64_try_from ?n = None"
      using assms(4) by (simp add: u64_try_from_def)
    then show False using assms(5) by (simp add: aggregate_token_def Let_def)
  qed
  then have run: "current_price k s' = sum_list pc div of_nat ?n"
    and n: "unat (of_nat ?n :: price) = ?n"
    using assms(1,4,5) aggregate_token_eq [of k s]
    by (auto simp: current_price_def candidate_mean_def unat_of_nat)
  have "unat (current_price k s') = ?sum div ?n"
    by (simp add: run unat_div sum n)
  moreover have "unat lo \<le> ?sum div ?n"
    using low assms(1) by (simp add: less_eq_div_iff_mult_less_eq mult.commute)
  moreover have "?sum div ?n \<le> unat hi"
    using div_le_mono [OF up, of ?n] assms(1) by simp
  ultimately show ?thesis by (simp add: word_le_nat_alt)
qed

lemma mean_between_candidates_witness:
  "\<exists>s'. aggregate_token ''BTC'' demo_oracle = Done () s'
    \<and> 90000 \<le> current_price ''BTC'' s' \<and> current_price ''BTC'' s' \<le> 110000"
proof -
  obtain s' where run: "aggregate_token ''BTC'' demo_oracle = Done () s'"
    using aggregate_token_eq [of "''BTC''" demo_oracle] by (simp add: demo_candidates)
  have "90000 \<le> current_price ''BTC'' s' \<and> current_price ''BTC'' s' \<le> 110000"
    by (rule mean_between_candidates [OF _ _ _ _ run, of "[90000, 110000]"])
      (simp_all add: demo_candidates word_le_nat_alt)
  with run show ?thesis by blast
qed

text \<open>The sum of the candidates is taken modulo 2 to the 64: two unsigned submissions, one of
  them the largest price, make the next aggregation publish a price of zero for a token, although
  neither submission is zero.\<close>

theorem mean_wraps_to_zero:
  "\<exists>s1 s2 s3. stack_price_unsigned NoneOrigin 1 ''ETH'' 18446744073709551615 demo_oracle = Done () s1
    \<and> stack_price_unsigned NoneOrigin 1 ''ETH'' 1 s1 = Done () s2
    \<and> oracle_on_finalize 5 10 s2 = Done () s3
    \<and> is_token_known ''ETH'' s3 \<and> current_price ''ETH'' s3 = 0"
  by (simp add: stack_price_unsigned_def stack_price_def oracle_on_finalize_def aggregate_token_def
      price_candidates_def demo_oracle_simps u64_try_from_def div_then_def current_price_def
      is_token_known_def Let_def lm_mutate_def lm_insert_def lm_remove_def lm_keys_def lm_contains_def
      lm_get_def get_or_def)

text \<open>No call changes a published price; only the root adds price sources, and the candidates
  change only by an unsigned submission, which appends one price to the list of one token.  The
  signed submission does nothing.\<close>

theorem who_writes_the_oracle:
  assumes "oracle_dispatch orig c s = Done u s'"
  shows "CurrentPrice s' = CurrentPrice s
    \<and> (CryptoPriceSources s' \<noteq> CryptoPriceSources s \<longrightarrow> orig = Root)
    \<and> (PriceCandidates s' \<noteq> PriceCandidates s \<longrightarrow> orig = NoneOrigin
         \<and> (\<exists>b t p. c = Call_stack_price_unsigned b t p
              \<and> (\<forall>k. price_candidates k s' = price_candidates k s @ (if k = t then [p] else []))))"
  using assms
  by (cases c)
    (auto simp: add_source_def stack_price_unsigned_def stack_price_signed_def stack_price_def
      price_candidates_def Done_iffs origin_Done_iffs split: if_splits)

lemma who_writes_the_oracle_witness:
  "\<exists>s'. oracle_dispatch NoneOrigin (Call_stack_price_unsigned 1 ''BTC'' 95000) demo_oracle = Done () s'
    \<and> CurrentPrice s' = [(''DUSD'', 10000)] \<and> price_candidates ''BTC'' s' = [90000, 110000, 95000]"
proof -
  obtain s' where run: "oracle_dispatch NoneOrigin (Call_stack_price_unsigned 1 ''BTC'' 95000) demo_oracle = Done () s'"
    by (simp add: stack_price_unsigned_def stack_price_def)
  have "price_candidates ''BTC'' s' = [90000, 110000, 95000]"
    using run demo_candidates [of "''BTC''"]
    by (auto simp: stack_price_unsigned_def stack_price_def price_candidates_def)
  with run who_writes_the_oracle [OF run] show ?thesis
    by (auto simp: demo_oracle_simps)
qed

section \<open>The walk through a JSON document\<close>

text \<open>
  What the path walk of \<open>parse_price\<close> means: every element of the path selects the first
  member of an object whose key has the element as its low bytes.
\<close>

inductive json_at :: "('j, 'f) json_api \<Rightarrow> 'j \<Rightarrow> string list \<Rightarrow> 'j \<Rightarrow> bool" for api where
  here: "json_at api j [] j"
| into_member: "get_object api j = Some (before @ (k, v) # after) \<Longrightarrow> vecchars_to_vecbytes k = f
    \<Longrightarrow> f \<notin> (vecchars_to_vecbytes \<circ> fst) ` set before \<Longrightarrow> json_at api v path w
    \<Longrightarrow> json_at api j (f # path) w"

inductive_cases json_at_NilE: "json_at api j [] w"
inductive_cases json_at_ConsE: "json_at api j (f # path) w"

lemma filter_first_split:
  "filter P xs = y # ys \<Longrightarrow> \<exists>before after. xs = before @ y # after \<and> P y \<and> (\<forall>x\<in>set before. \<not> P x)"
  by (auto simp: filter_eq_Cons_iff)

lemma filter_after_prefix:
  "\<forall>x\<in>set before. \<not> P x \<Longrightarrow> P y \<Longrightarrow> filter P (before @ y # after) = y # filter P after"
  by (simp add: filter_empty_conv)

lemma parse_price_follows_path:
  "parse_price api j path = Inr p \<Longrightarrow> \<exists>v. json_at api j path v \<and> parse_field api v = Inr p"
proof (induction path arbitrary: j)
  case Nil
  then show ?case by (auto intro: json_at.here)
next
  case (Cons f path)
  then obtain ms k v rest where ms: "get_object api j = Some ms"
    and first: "filter (\<lambda>(k, _). f = vecchars_to_vecbytes k) ms = (k, v) # rest"
    and down: "parse_price api v path = Inr p"
    by (auto split: option.splits list.splits)
  obtain before after where "ms = before @ (k, v) # after" "f = vecchars_to_vecbytes k"
    "\<forall>(k', _) \<in> set before. f \<noteq> vecchars_to_vecbytes k'"
    using filter_first_split [OF first] by (auto simp: case_prod_unfold)
  moreover obtain w where "json_at api v path w" "parse_field api w = Inr p"
    using Cons.IH [OF down] by blast
  ultimately show ?case
    using ms by (intro exI [of _ w] conjI json_at.into_member [of api j before k v after f]) auto
qed

lemma parse_price_finds_path:
  "json_at api j path v \<Longrightarrow> parse_price api j path = parse_field api v"
proof (induction rule: json_at.induct)
  case (into_member j before k v after f path w)
  have "filter (\<lambda>(k, _). f = vecchars_to_vecbytes k) (before @ (k, v) # after)
      = (k, v) # filter (\<lambda>(k, _). f = vecchars_to_vecbytes k) after"
    using into_member by (intro filter_after_prefix) force+
  with into_member show ?case by simp
qed simp

lemma parse_field_Inr_iff:
  "parse_field api v = Inr p \<longleftrightarrow>
     (\<exists>x. (get_number_f64 api v = Some x
          \<or> get_number_f64 api v = None \<and> (\<exists>u str. get_bytes api v = Some u \<and> from_utf8 api u = Some str
              \<and> parse_f64 api str = Some x))
        \<and> p = f64_as_u64 api (f64_round api (f64_mul api x (u64_as_f64 api PRICE_SCALE))))"
  by (auto simp: parse_field_def split: option.splits)

text \<open>C33: A price is parsed out of a document exactly when the path leads, through the first member of every
  object whose key has the element as its low bytes, to a value that is a number, or that is none but bytes
  in UTF-8 that spell one; the result is that number times \<open>PRICE_SCALE\<close>, rounded and cast to 64 bits.\<close>

theorem parse_price_correct:
  "parse_price api j path = Inr p \<longleftrightarrow>
     (\<exists>v x. json_at api j path v
        \<and> (get_number_f64 api v = Some x
           \<or> get_number_f64 api v = None \<and> (\<exists>u str. get_bytes api v = Some u \<and> from_utf8 api u = Some str
               \<and> parse_f64 api str = Some x))
        \<and> p = f64_as_u64 api (f64_round api (f64_mul api x (u64_as_f64 api PRICE_SCALE))))"
proof -
  have "parse_price api j path = Inr p \<longleftrightarrow> (\<exists>v. json_at api j path v \<and> parse_field api v = Inr p)"
    using parse_price_follows_path [of api j path p] parse_price_finds_path [of api j path] by auto
  then show ?thesis
    by (auto simp: parse_field_Inr_iff)
qed

text \<open>With at least one source for BTC the offchain worker returns, changes no storage, and
  submits nothing but an unsigned price of the current block for BTC that it parsed out of the
  document of one of the sources.\<close>

theorem offchain_worker_submits_fetched_price:
  assumes "sources = lm_get [] (CryptoPriceSources s) ''BTC''" and "sources \<noteq> []"
  shows "\<exists>c. offchain_worker api http r bn s = Done c s
    \<and> (c = None \<or> (\<exists>name url path json p. (name, url, path) \<in> set sources
           \<and> fetch_json api http url = Inr json \<and> parse_price api json path = Inr p
           \<and> c = Some (Call_stack_price_unsigned bn ''BTC'' p)))"
proof -
  let ?source = "sources ! (r mod length sources)"
  have mem: "?source \<in> set sources"
    using assms(2) by simp
  obtain name url path where source: "?source = (name, url, path)"
    by (cases ?source)
  have run: "offchain_worker api http r bn s =
      (case fetch_json api http url of
         Inl e \<Rightarrow> Done None s
       | Inr json \<Rightarrow> (case parse_price api json path of
           Inr p \<Rightarrow> Done (Some (Call_stack_price_unsigned bn ''BTC'' p)) s
         | Inl e \<Rightarrow> Done None s))"
    using assms(2) unfolding offchain_worker_def Let_def assms(1) [symmetric] source by (simp split: sum.split)
  show ?thesis
    using mem unfolding run source by (auto split: sum.split)
qed

text \<open>The BTC sources of the testnet (cli/src/chain_spec.rs), and a small document of one of them.\<close>

definition testnet_sources :: "(string, price_source list) linked_map" where
  "testnet_sources =
     [(''BTC'',
       [(''coincap'', ''https://api.coincap.io/v2/assets/bitcoin'', [''data'', ''priceUsd'']),
        (''cryptocompare'', ''https://min-api.cryptocompare.com/data/price?fsym=BTC&tsyms=USD'', [''USD''])])]"

datatype demo_json = Num nat | Txt string | Obj "(string \<times> demo_json) list"

definition demo_api :: "(demo_json, nat) json_api" where
  "demo_api =
     \<lparr>get_object = (\<lambda>j. case j of Obj ms \<Rightarrow> Some (map (\<lambda>(k, v). (map (\<lambda>c. of_char c) k, v)) ms) | _ \<Rightarrow> None),
      get_number_f64 = (\<lambda>j. case j of Num n \<Rightarrow> Some n | _ \<Rightarrow> None),
      get_bytes = (\<lambda>j. case j of Txt str \<Rightarrow> Some str | _ \<Rightarrow> None), from_utf8 = Some,
      parse_f64 = (\<lambda>str. if str = ''9'' then Some 9 else None),
      u64_as_f64 = unat, f64_mul = (*), f64_round = (\<lambda>n. n), f64_as_u64 = of_nat,
      parse_json = (\<lambda>str. Some (Obj [(''USD'', Num 9)]))\<rparr>"

text \<open>The other source answers with a number in quotes, one object deeper.\<close>

lemma quoted_price_parsed:
  "parse_price demo_api (Obj [(''data'', Obj [(''priceUsd'', Txt ''9'')])]) [''data'', ''priceUsd''] = Inr 90000"
  by (simp add: demo_api_def parse_field_def vecchars_to_vecbytes_def PRICE_SCALE_def)
    (simp add: char_of_def bit_0)

lemma offchain_worker_submits_fetched_price_witness:
  "offchain_worker demo_api (\<lambda>url. Response 200 ''{USD:9}'') 5 7 (demo_oracle\<lparr>CryptoPriceSources := testnet_sources\<rparr>)
     = Done (Some (Call_stack_price_unsigned 7 ''BTC'' 90000)) (demo_oracle\<lparr>CryptoPriceSources := testnet_sources\<rparr>)
   \<and> (\<exists>name url path. (name, url, path) \<in> set (lm_get [] testnet_sources ''BTC'')
        \<and> fetch_json demo_api (\<lambda>url. Response 200 ''{USD:9}'') url = Inr (Obj [(''USD'', Num 9)]))"
proof -
  let ?s = "demo_oracle\<lparr>CryptoPriceSources := testnet_sources\<rparr>"
  let ?http = "\<lambda>url. Response 200 ''{USD:9}''"
  have ne: "lm_get [] (CryptoPriceSources ?s) ''BTC'' \<noteq> []"
    by (simp add: testnet_sources_def lm_get_def get_or_def)
  have doc: "fetch_json demo_api ?http url = Inr (Obj [(''USD'', Num 9)])" for url
    by (simp add: fetch_json_def demo_api_def)
  have pick: "lm_get [] testnet_sources ''BTC'' ! (5 mod length (lm_get [] testnet_sources ''BTC''))
      = (''cryptocompare'', ''https://min-api.cryptocompare.com/data/price?fsym=BTC&tsyms=USD'', [''USD''])"
    by (simp add: testnet_sources_def lm_get_def get_or_def mod_if)
  have price: "parse_price demo_api (Obj [(''USD'', Num 9)]) [''USD''] = Inr 90000"
    by (simp add: demo_api_def parse_field_def vecchars_to_vecbytes_def PRICE_SCALE_def)
      (simp add: char_of_def bit_0)
  have run: "offchain_worker demo_api ?http 5 7 ?s = Done (Some (Call_stack_price_unsigned 7 ''BTC'' 90000)) ?s"
    using ne by (simp add: offchain_worker_def Let_def doc pick price del: parse_price.simps)
  show ?thesis
    using offchain_worker_submits_fetched_price [OF refl ne, of demo_api ?http 5 7] run doc
    by auto
qed

end
