(* ===== verification/Loan_Model.thy ===== *)
theory Loan_Model
  imports New_Oracle
begin

text \<open>
  The deposit-and-loan pallet (runtime/modules/deposit-loan/src/lib.rs): savings against a share
  token, loans against a collateral whose price the oracle publishes, and the two hooks that run
  at the start of every block, the health check of the loans and the interest calculation.

  The pallet moves assets through the generic-asset pallet and reads prices through the oracle,
  so its storage extends theirs.  Balances are \<open>u128\<close>, prices and loan-to-value ratios
  \<open>u64\<close>; the \<open>as u32\<close> casts of the source are the truncations \<open>low_u32\<close>.  A panic in a
  pure function is \<open>None\<close>.  Where the source enumerates the loans while it writes to them,
  every loan is read when the loop reaches it.
\<close>

section \<open>Data\<close>

type_synonym loan_no = "64 word"
type_synonym ltv = "64 word"

definition SEC_PER_DAY :: balance where "SEC_PER_DAY = 86400"
definition DAYS_PER_YEAR :: balance where "DAYS_PER_YEAR = 365"
definition LTV_PREC :: balance where "LTV_PREC = 10000"
definition PRICE_PREC :: balance where "PRICE_PREC = 10000"

datatype loan_health = Well | Warning ltv | Liquidating ltv

record collateral_loan =
  cl_collateral_amount :: balance
  cl_loan_amount :: balance

record loan =
  loan_id :: loan_no
  loan_who :: account_id
  collateral_balance_original :: balance
  collateral_balance_available :: balance
  loan_balance_total :: balance
  loan_status :: loan_health

definition default_loan :: loan where
  "default_loan = \<lparr>loan_id = 0, loan_who = default_account, collateral_balance_original = 0,
     collateral_balance_available = 0, loan_balance_total = 0, loan_status = Well\<rparr>"

text \<open>\<open>TryFrom<u128>\<close> for \<open>u64\<close>, \<open>TryFrom<u64>\<close> for \<open>u32\<close>, and \<open>T::Balance::from(x as u32)\<close>.\<close>

definition ltv_try_from :: "balance \<Rightarrow> ltv option" where
  "ltv_try_from x = (if unat x < 2 ^ 64 then Some (ucast x) else None)"

definition u32_try_from :: "moment \<Rightarrow> 32 word option" where
  "u32_try_from x = (if unat x < 2 ^ 32 then Some (ucast x) else None)"

definition low_u32 :: "'w::len word \<Rightarrow> balance" where
  "low_u32 x = ucast (ucast x :: 32 word)"

definition get_ltv :: "balance \<Rightarrow> balance \<Rightarrow> price \<Rightarrow> ltv option" where
  "get_ltv collateral_amount loan_amount btc_price =
     (let btc_price_in_balance = ucast btc_price;
          divisor = collateral_amount * btc_price_in_balance
      in if divisor = 0 then None
         else ltv_try_from (loan_amount * PRICE_PREC * LTV_PREC div divisor))"

datatype loan_event =
    LoanCreated loan
  | LoanDrawn loan_no balance
  | LoanRepaid loan_no balance balance
  | Ev_Warning loan_no ltv
  | Ev_Paused "32 word" block_number "32 word"
  | Ev_Liquidating loan_no account_id balance balance
  | Liquidated loan_no balance balance balance balance
  | AddCollateral loan_no balance

section \<open>Storage\<close>

record loan_state = oracle_state +
  Paused :: bool
  CollectionAssetId :: asset_id
  CollectionAccountId :: account_id
  UserDtoken :: "(account_id, balance) linked_map"
  MarketDtoken :: balance
  TotalDtoken :: balance
  BonusTime :: moment
  LoanInterestRateCurrent :: balance
  ProfitAssetId :: asset_id
  ProfitPool :: account_id
  PawnShop :: account_id
  CollateralAssetId :: asset_id
  LoanAssetId :: asset_id
  GlobalLTVLimit :: ltv
  GlobalLiquidationThreshold :: ltv
  GlobalWarningThreshold :: ltv
  NextLoanId :: loan_no
  Loans :: "(loan_no, loan) linked_map"
  LoansByAccount :: "account_id \<rightharpoonup> loan_no list"
  TotalLoan :: balance
  TotalCollateral :: balance
  PenaltyRate :: "32 word"
  LiquidationAccount :: account_id
  LiquidatingLoans :: "loan_no list option"
  LoanCap :: "balance option"
  MinimumCollateral :: balance
  LiquidationPenalty :: "32 word"
  SavingInterestRate :: balance
  LoanEvents :: "loan_event list"

definition deposit_loan_event :: "loan_event \<Rightarrow> 'a loan_state_scheme \<Rightarrow> 'a loan_state_scheme" where
  "deposit_loan_event ev s = s\<lparr>LoanEvents := LoanEvents s @ [ev]\<rparr>"

definition get_loan_by_id :: "loan_no \<Rightarrow> 'a loan_state_scheme \<Rightarrow> loan" where
  "get_loan_by_id lid s = lm_get default_loan (Loans s) lid"

definition mutate_loan :: "loan_no \<Rightarrow> (loan \<Rightarrow> loan) \<Rightarrow> 'a loan_state_scheme \<Rightarrow> 'a loan_state_scheme" where
  "mutate_loan lid f s = s\<lparr>Loans := lm_mutate default_loan lid f (Loans s)\<rparr>"

definition mutate_loans_by_account ::
    "account_id \<Rightarrow> (loan_no list \<Rightarrow> loan_no list) \<Rightarrow> 'a loan_state_scheme \<Rightarrow> 'a loan_state_scheme" where
  "mutate_loans_by_account who f s =
     s\<lparr>LoansByAccount := (LoansByAccount s)(who \<mapsto> f (get_or [] (LoansByAccount s) who))\<rparr>"

definition user_dtoken :: "account_id \<Rightarrow> 'a loan_state_scheme \<Rightarrow> balance" where
  "user_dtoken who s = lm_get 0 (UserDtoken s) who"

definition get_liquidating_loans :: "'a loan_state_scheme \<Rightarrow> loan_no list" where
  "get_liquidating_loans s = (case LiquidatingLoans s of None \<Rightarrow> [] | Some ids \<Rightarrow> ids)"

text \<open>The price of the collateral: the oracle's price of the collateral asset's symbol.\<close>

definition collateral_price :: "'a loan_state_scheme \<Rightarrow> price" where
  "collateral_price s = current_price (symbols (CollateralAssetId s) s) s"

section \<open>Savings\<close>

definition create_staking ::
    "account_id \<Rightarrow> asset_id \<Rightarrow> balance \<Rightarrow> 'a loan_state_scheme \<Rightarrow> (unit, 'a loan_state_scheme) dispatch" where
  "create_staking who asset_id balance s =
     ensure (balance \<noteq> 0) (Other ''saving can't be zero'') s (
       let market_dtoken_amount = MarketDtoken s;
           total_dtoken_amount = TotalDtoken s;
           collection_account_id = CollectionAccountId s
       in and_then (make_transfer_with_event asset_id who collection_account_id balance s) (\<lambda>_ s.
          (\<lambda>k. if total_dtoken_amount = 0 then k balance
                else unwrap_then (checked_mul balance market_dtoken_amount) (\<lambda>x.
                       div_then x total_dtoken_amount k))
          (\<lambda>user_dtoken.
            and_then
              (if lm_contains (UserDtoken s) who
               then unwrap_then (checked_add (lm_get 0 (UserDtoken s) who) user_dtoken) (\<lambda>v.
                      Done () (s\<lparr>UserDtoken := lm_mutate 0 who (\<lambda>_. v) (UserDtoken s)\<rparr>))
               else Done () (s\<lparr>UserDtoken := lm_insert who user_dtoken (UserDtoken s)\<rparr>))
              (\<lambda>_ s.
                unwrap_then (checked_add market_dtoken_amount user_dtoken) (\<lambda>market_dtoken.
                unwrap_then (checked_add market_dtoken_amount balance) (\<lambda>total_dtoken.
                  Done () (s\<lparr>MarketDtoken := market_dtoken, TotalDtoken := total_dtoken\<rparr>)))))))"

definition make_redeem_all :: "account_id \<Rightarrow> 'a loan_state_scheme \<Rightarrow> (unit, 'a loan_state_scheme) dispatch" where
  "make_redeem_all who s =
     (let market_dtoken_amount = MarketDtoken s;
          total_dtoken_amount = TotalDtoken s;
          collection_asset_id = CollectionAssetId s;
          collection_account_id = CollectionAccountId s;
          user_dtoken_amount = user_dtoken who s
      in div_then market_dtoken_amount total_dtoken_amount (\<lambda>rate.
         div_then user_dtoken_amount rate (\<lambda>user_will_get.
         ensure (user_will_get \<le> free_balance collection_asset_id collection_account_id s)
           (Other ''saving balance is short'') s (
         ensure (user_dtoken_amount \<le> TotalDtoken s) (Other ''total dtoken is short'') s (
         ensure (user_dtoken_amount \<le> MarketDtoken s) (Other ''market dtoken is short'') s (
           let total_dtoken = TotalDtoken s - user_will_get;
               market_dtoken = MarketDtoken s - user_dtoken_amount;
               s = s\<lparr>MarketDtoken := market_dtoken, TotalDtoken := total_dtoken\<rparr>
           in make_transfer_with_event collection_asset_id collection_account_id who user_will_get s))))))"

definition make_redeem ::
    "account_id \<Rightarrow> asset_id \<Rightarrow> account_id \<Rightarrow> balance \<Rightarrow> 'a loan_state_scheme \<Rightarrow> (unit, 'a loan_state_scheme) dispatch" where
  "make_redeem who collection_asset_id collection_account_id amount s =
     (let market_dtoken_amount = MarketDtoken s;
          total_dtoken_amount = TotalDtoken s;
          user_dtoken_amount = user_dtoken who s
      in div_then market_dtoken_amount total_dtoken_amount (\<lambda>rate.
         div_then user_dtoken_amount rate (\<lambda>user_will_get.
         ensure (amount \<le> user_will_get) (Other ''redeem too much assets!'') s (
         and_then (unwrap_or_default (make_redeem_all who s)) (\<lambda>_ s.
         and_then (unwrap_or_default (create_staking who collection_asset_id (user_will_get - amount) s)) (\<lambda>_ s.
           Done () s))))))"

section \<open>Loans\<close>

definition get_next_loan_id :: "'a loan_state_scheme \<Rightarrow> loan_no \<times> 'a loan_state_scheme" where
  "get_next_loan_id s = (NextLoanId s, s\<lparr>NextLoanId := NextLoanId s + 1\<rparr>)"

definition get_collateral_loan ::
    "balance \<Rightarrow> balance \<Rightarrow> 'a loan_state_scheme \<Rightarrow> (collateral_loan, 'a loan_state_scheme) dispatch" where
  "get_collateral_loan collateral_amount loan_amount s =
     (if collateral_amount = 0 \<and> loan_amount = 0
      then Fail (LoanError InvalidCollateralLoanAmounts) s
      else
        let btc_price_in_balance = ucast (collateral_price s);
            ltv_in_balance = ucast (GlobalLTVLimit s)
        in if collateral_amount = 0 then
             div_then (loan_amount * LTV_PREC * PRICE_PREC) (btc_price_in_balance * ltv_in_balance)
               (\<lambda>must_collateral_amount.
                 Done \<lparr>cl_collateral_amount = must_collateral_amount, cl_loan_amount = loan_amount\<rparr> s)
           else if loan_amount = 0 then
             div_then (collateral_amount * btc_price_in_balance * ltv_in_balance) (LTV_PREC * PRICE_PREC)
               (\<lambda>can_loan_amount.
                 Done \<lparr>cl_collateral_amount = collateral_amount, cl_loan_amount = can_loan_amount\<rparr> s)
           else
             div_then ((loan_amount * LTV_PREC) * PRICE_PREC) (collateral_amount * btc_price_in_balance)
               (\<lambda>ratio.
                 if ltv_in_balance \<le> ratio then Fail (LoanError OverLTVLimit) s
                 else Done \<lparr>cl_collateral_amount = collateral_amount, cl_loan_amount = loan_amount\<rparr> s))"

definition apply_for_loan ::
    "account_id \<Rightarrow> balance \<Rightarrow> balance \<Rightarrow> 'a loan_state_scheme \<Rightarrow> (unit, 'a loan_state_scheme) dispatch" where
  "apply_for_loan who collateral_amount loan_amount s =
     (let collection_asset_id = CollectionAssetId s;
          collection_account_id = CollectionAccountId s
      in ensure (loan_amount \<le> free_balance collection_asset_id collection_account_id s)
           (Other ''Not enough to loan'') s (
         let collateral_asset_id = CollateralAssetId s;
             btc_price = collateral_price s;
             shop = PawnShop s;
             loan_cap = LoanCap s;
             total_loan = TotalLoan s
         in if loan_cap \<noteq> None \<and> the loan_cap \<le> total_loan then Fail (LoanError ReachLoanCap) s
            else
              and_then (get_collateral_loan collateral_amount loan_amount s) (\<lambda>cl s.
              let actual_collateral_amount = cl_collateral_amount cl;
                  actual_loan_amount = cl_loan_amount cl
              in ensure (MinimumCollateral s \<le> collateral_amount) (Other ''not reach min collateral amount'') s (
                 and_then (make_transfer_with_event collateral_asset_id who shop actual_collateral_amount s) (\<lambda>_ s.
                 let (lid, s) = get_next_loan_id s
                 in div_then loan_amount (ucast btc_price) (\<lambda>used.
                    let l = \<lparr>loan_id = lid, loan_who = who,
                             collateral_balance_original = actual_collateral_amount,
                             collateral_balance_available = actual_collateral_amount - used,
                             loan_balance_total = actual_loan_amount,
                             loan_status = Well\<rparr>
                    in and_then (make_transfer_with_event collection_asset_id collection_account_id who loan_amount s)
                       (\<lambda>_ s.
                         let s = s\<lparr>Loans := lm_insert lid l (Loans s)\<rparr>;
                             s = mutate_loans_by_account who (\<lambda>v. v @ [lid]) s;
                             s = s\<lparr>TotalLoan := TotalLoan s + actual_loan_amount\<rparr>;
                             s = s\<lparr>TotalCollateral := TotalCollateral s + actual_collateral_amount\<rparr>
                         in Done () (deposit_loan_event (LoanCreated l) s))))))))"

definition check_loan_in_liquidation :: "loan_no \<Rightarrow> 'a loan_state_scheme \<Rightarrow> bool" where
  "check_loan_in_liquidation lid s = (lid \<in> set (get_liquidating_loans s))"

text \<open>The closure \<open>revert_callback\<close> of \<open>repay_for_loan\<close>.\<close>

definition revert_repay :: "account_id \<Rightarrow> loan \<Rightarrow> 'a loan_state_scheme \<Rightarrow> 'a loan_state_scheme" where
  "revert_repay who l s =
     (let s = s\<lparr>Loans := lm_insert (loan_id l) l (Loans s)\<rparr>;
          s = mutate_loans_by_account who (\<lambda>v. v @ [loan_id l]) s;
          s = s\<lparr>TotalLoan := TotalLoan s + loan_balance_total l\<rparr>
      in s\<lparr>TotalCollateral := TotalCollateral s + collateral_balance_available l\<rparr>)"

definition repay_for_loan ::
    "account_id \<Rightarrow> loan_no \<Rightarrow> 'a loan_state_scheme \<Rightarrow> (unit, 'a loan_state_scheme) dispatch" where
  "repay_for_loan who lid s =
     (let loan_asset_id = LoanAssetId s;
          collateral_asset_id = CollateralAssetId s;
          collection_account_id = CollectionAccountId s;
          pawn_shop = PawnShop s
      in ensure (lm_contains (Loans s) lid) (Other ''invalid loan id'') s (
         let l = lm_get default_loan (Loans s) lid
         in ensure (loan_who l = who) (Other ''not owner of the loan'') s (
            ensure (loan_balance_total l \<le> free_balance loan_asset_id who s) (Other ''not enough asset to repay'') s (
            ensure (collateral_balance_available l \<le> free_balance collateral_asset_id pawn_shop s)
              (Other ''not enough collateral asset in shop'') s (
            ensure (\<not> check_loan_in_liquidation lid s) (Other ''loan is in liquidation'') s (
            let s = mutate_loans_by_account who (filter (\<lambda>ele. ele \<noteq> lid)) s
            in and_then
                 (or_else (make_transfer_with_event loan_asset_id who collection_account_id (loan_balance_total l) s)
                   (\<lambda>err s. Fail err (revert_repay who l s))) (\<lambda>_ s.
               and_then
                 (or_else (make_transfer_with_event collateral_asset_id pawn_shop who (collateral_balance_original l) s)
                   (\<lambda>err s.
                     and_then (make_transfer_with_event loan_asset_id collection_account_id who
                                 (loan_balance_total l) (revert_repay who l s))
                       (\<lambda>_ s. Fail err s))) (\<lambda>_ s.
               let s = s\<lparr>Loans := lm_remove (loan_id l) (Loans s)\<rparr>;
                   s = s\<lparr>TotalLoan := TotalLoan s - loan_balance_total l\<rparr>;
                   s = s\<lparr>TotalCollateral := TotalCollateral s - collateral_balance_original l\<rparr>
               in Done () (deposit_loan_event
                    (LoanRepaid lid (loan_balance_total l) (collateral_balance_available l)) s)))))))))"

definition add_loan_collateral ::
    "loan \<Rightarrow> account_id \<Rightarrow> balance \<Rightarrow> 'a loan_state_scheme \<Rightarrow> (unit, 'a loan_state_scheme) dispatch" where
  "add_loan_collateral l from_acct amount s =
     (let pawnshop = PawnShop s;
          collateral_asset_id = CollectionAssetId s
      in ensure (amount \<le> free_balance collateral_asset_id from_acct s)
           (Other ''not enough collateral asset in free balance'') s (
         and_then (make_transfer_with_event collateral_asset_id from_acct pawnshop amount s) (\<lambda>_ s.
         let s = mutate_loan (loan_id l)
                   (\<lambda>l. l\<lparr>collateral_balance_original := collateral_balance_original l + amount,
                          collateral_balance_available := collateral_balance_available l + amount\<rparr>) s;
             s = s\<lparr>TotalCollateral := TotalCollateral s + amount\<rparr>
         in Done () (deposit_loan_event (AddCollateral (loan_id l) amount) s))))"

definition draw_from_loan ::
    "account_id \<Rightarrow> loan_no \<Rightarrow> balance \<Rightarrow> 'a loan_state_scheme \<Rightarrow> (unit, 'a loan_state_scheme) dispatch" where
  "draw_from_loan who lid amount s =
     ensure (lm_contains (Loans s) lid) (Other ''invalid loan id'') s (
       let l = get_loan_by_id lid s
       in ensure (loan_who l = who) (Other ''can't draw from others loan'') s (
          let btc_price = collateral_price s;
              global_ltv = GlobalLTVLimit s;
              available_credit = collateral_balance_available l * low_u32 btc_price * low_u32 global_ltv
                div LTV_PREC div PRICE_PREC
          in ensure (amount \<le> available_credit) (Other ''short of available credit'') s (
             let s = mutate_loan lid (\<lambda>l. l\<lparr>loan_balance_total := loan_balance_total l + amount\<rparr>) s
             in div_then amount (low_u32 btc_price) (\<lambda>used.
                let s = mutate_loan lid (\<lambda>l. l\<lparr>collateral_balance_available :=
                                               collateral_balance_available l - used\<rparr>) s;
                    s = s\<lparr>TotalLoan := TotalLoan s + amount\<rparr>
                in Done () (deposit_loan_event (LoanDrawn lid amount) s)))))"

definition mark_loan_liquidated ::
    "loan \<Rightarrow> account_id \<Rightarrow> balance \<Rightarrow> 'a loan_state_scheme \<Rightarrow> (unit, 'a loan_state_scheme) dispatch" where
  "mark_loan_liquidated l liquidation_account auction_balance s =
     ensure (check_loan_in_liquidation (loan_id l) s) (Other ''loan id not in liquidating'') s (
       let pawnshop = PawnShop s;
           collateral_asset_id = CollateralAssetId s;
           collection_account_id = CollectionAccountId s;
           loan_asset_id = LoanAssetId s
       in ensure (auction_balance \<le> free_balance loan_asset_id liquidation_account s)
            (Other ''not enough asset to liquidate'') s (
          ensure (loan_balance_total l \<le> auction_balance) (Other ''Not enough for loan liquidate'') s (
          and_then (make_transfer_with_event loan_asset_id liquidation_account collection_account_id
                      (loan_balance_total l) s) (\<lambda>_ s.
          and_then
            (case checked_sub auction_balance (loan_balance_total l) of
               None \<Rightarrow> Done () s
             | Some leftover \<Rightarrow>
                 if 0 < leftover then
                   (let penalty = leftover * ucast (LiquidationPenalty s) div 100
                    in and_then
                         (or_else (make_transfer_with_event loan_asset_id collection_account_id (ProfitPool s) penalty s)
                           (\<lambda>err s.
                             and_then (make_transfer_with_event loan_asset_id pawnshop liquidation_account
                                         (loan_balance_total l) s)
                               (\<lambda>_ s. Fail err s))) (\<lambda>_ s.
                       or_else (make_transfer_with_event loan_asset_id collection_account_id (loan_who l)
                                  (leftover - penalty) s)
                         (\<lambda>err s.
                           and_then (make_transfer_with_event loan_asset_id (ProfitPool s) liquidation_account penalty s)
                             (\<lambda>_ s.
                           and_then (make_transfer_with_event collateral_asset_id pawnshop liquidation_account
                                       (collateral_balance_original l) s)
                             (\<lambda>_ s. Fail err s)))))
                 else Done () s)
            (\<lambda>_ s.
              let s = s\<lparr>Loans := lm_remove (loan_id l) (Loans s)\<rparr>;
                  s = mutate_loans_by_account (loan_who l) (filter (\<lambda>ele. ele \<noteq> loan_id l)) s;
                  s = s\<lparr>LiquidatingLoans :=
                          Some (filter (\<lambda>ele. ele \<noteq> loan_id l) (get_liquidating_loans s))\<rparr>
              in Done () (deposit_loan_event
                   (Liquidated (loan_id l) (collateral_balance_original l) (collateral_balance_available l)
                      auction_balance (loan_balance_total l)) s))))))"

section \<open>The hooks that run at the start of a block\<close>

definition check_loan_health :: "loan \<Rightarrow> price \<Rightarrow> ltv \<Rightarrow> ltv \<Rightarrow> loan_health option" where
  "check_loan_health l btc_price liquidation warning =
     (case get_ltv (collateral_balance_available l) (loan_balance_total l) btc_price of
        None \<Rightarrow> None
      | Some current_ltv \<Rightarrow>
          Some (if liquidation \<le> current_ltv then Liquidating current_ltv
                else if warning \<le> current_ltv then Warning current_ltv
                else Well))"

definition liquidate_loan :: "loan_no \<Rightarrow> ltv \<Rightarrow> 'a loan_state_scheme \<Rightarrow> 'a loan_state_scheme" where
  "liquidate_loan lid liquidating_ltv s =
     (let s = mutate_loan lid (\<lambda>v. v\<lparr>loan_status := Liquidating liquidating_ltv\<rparr>) s
      in case LiquidatingLoans s of
           Some v \<Rightarrow> s\<lparr>LiquidatingLoans := Some (v @ [lid])\<rparr>
         | None \<Rightarrow> s\<lparr>LiquidatingLoans := Some [lid]\<rparr>)"

definition check_one_loan ::
    "price \<Rightarrow> ltv \<Rightarrow> ltv \<Rightarrow> loan_no \<Rightarrow> 'a loan_state_scheme \<Rightarrow> (unit, 'a loan_state_scheme) dispatch" where
  "check_one_loan btc_price liquidation_thd warning_thd lid s =
     (let l = get_loan_by_id lid s
      in if check_loan_in_liquidation lid s then Done () s
         else unwrap_then (check_loan_health l btc_price liquidation_thd warning_thd) (\<lambda>health.
           case health of
             Well \<Rightarrow> Done () s
           | Warning v \<Rightarrow>
               if loan_status l \<noteq> Warning v
               then Done () (deposit_loan_event (Ev_Warning lid v)
                      (mutate_loan (loan_id l) (\<lambda>w. w\<lparr>loan_status := Warning v\<rparr>) s))
               else Done () s
           | Liquidating v \<Rightarrow>
               Done () (deposit_loan_event
                 (Ev_Liquidating lid (loan_who l) (collateral_balance_available l) (loan_balance_total l))
                 (liquidate_loan lid v s))))"

definition on_each_block :: "block_number \<Rightarrow> 'a loan_state_scheme \<Rightarrow> (unit, 'a loan_state_scheme) dispatch" where
  "on_each_block _ s =
     (let liquidation_thd = GlobalLiquidationThreshold s;
          warning_thd = GlobalWarningThreshold s;
          btc_price = collateral_price s
      in for_each (check_one_loan btc_price liquidation_thd warning_thd) (lm_keys (Loans s)) s)"

text \<open>The rate that \<open>calculate_loan_interest_rate\<close> picks for a utilisation scaled by \<open>10 ^ 8\<close>.\<close>

definition loan_interest_rate :: "128 word \<Rightarrow> 128 word" where
  "loan_interest_rate utilization_rate_x =
     (if utilization_rate_x < 400000000 then (utilization_rate_x + 50000000) div 10
      else if 80000000 \<le> utilization_rate_x then
        (30 * utilization_rate_x ^ 6 + 10 * utilization_rate_x ^ 3 * 10 ^ 24 + 6 * 10 ^ 48) div 10 ^ 42
      else (20 * utilization_rate_x * 10 ^ 8) div 10 ^ 2)"

text \<open>The body of the loop that charges the interest to one loan.\<close>

definition charge_interest ::
    "asset_id \<Rightarrow> account_id \<Rightarrow> balance \<Rightarrow> balance \<Rightarrow> loan_no \<Rightarrow> 'a loan_state_scheme
      \<Rightarrow> (unit, 'a loan_state_scheme) dispatch" where
  "charge_interest collection_asset_id collection_account_id interest_generated total_loan lid s =
     (let l = get_loan_by_id lid s
      in div_then (interest_generated * loan_balance_total l) (total_loan * 10 ^ 8) (\<lambda>amount.
         and_then (unwrap_or_default (draw_from_loan (loan_who l) lid amount s)) (\<lambda>_ s.
         and_then (unwrap_or_default
             (make_transfer_with_event collection_asset_id (loan_who l) collection_account_id amount s)) (\<lambda>_ s.
         unwrap_then (checked_add (TotalDtoken s) amount) (\<lambda>v.
           Done () (s\<lparr>TotalDtoken := v\<rparr>))))))"

definition calculate_loan_interest_rate :: "'a loan_state_scheme \<Rightarrow> (unit, 'a loan_state_scheme) dispatch" where
  "calculate_loan_interest_rate s =
     (let collection_asset_id = CollectionAssetId s;
          collection_account_id = CollectionAccountId s;
          total_loan = TotalLoan s;
          total_deposit = free_balance collection_asset_id collection_account_id s + TotalLoan s;
          current_time = Now s;
          s = s\<lparr>BonusTime := current_time\<rparr>
      in if total_deposit + total_loan \<noteq> 0 then
           unwrap_then (checked_mul total_loan (10 ^ 8)) (\<lambda>x.
           div_then x (total_deposit + total_loan) (\<lambda>utilization_rate_x.
           let loan_interest_rate_current = loan_interest_rate utilization_rate_x;
               last_bonus_time = BonusTime s
           in unwrap_then (u32_try_from (current_time - last_bonus_time)) (\<lambda>time_duration.
              let interest_generated = ucast time_duration * total_loan * loan_interest_rate_current
                    div SEC_PER_DAY div DAYS_PER_YEAR
              in and_then (for_each (charge_interest collection_asset_id collection_account_id interest_generated total_loan)
                            (lm_keys (Loans s)) s) (\<lambda>_ s.
                 let s = s\<lparr>LoanInterestRateCurrent := loan_interest_rate_current\<rparr>
                 in div_then interest_generated (low_u32 total_deposit) (\<lambda>q.
                    let current_interest_rate = q * DAYS_PER_YEAR * SEC_PER_DAY * 10 ^ 8
                    in Done () (s\<lparr>SavingInterestRate := current_interest_rate\<rparr>))))))
         else Done () s)"

definition loan_on_initialize :: "block_number \<Rightarrow> 'a loan_state_scheme \<Rightarrow> (unit, 'a loan_state_scheme) dispatch" where
  "loan_on_initialize height s =
     (if \<not> Paused s then and_then (on_each_block height s) (\<lambda>_ s. calculate_loan_interest_rate s)
      else Done () s)"

text \<open>\<open>_pause\<close>, which no call reaches: it records where the module was paused.\<close>

definition pause_at :: "32 word \<Rightarrow> 'a loan_state_scheme \<Rightarrow> (unit, 'a loan_state_scheme) dispatch" where
  "pause_at linum s =
     (let s = s\<lparr>Paused := True\<rparr>
      in unwrap_then (ExtrinsicIndex s) (\<lambda>i.
         Done () (deposit_loan_event (Ev_Paused linum (BlockNumber s) i) s)))"

end
