(* ===== verification/Loan_Calls.thy ===== *)
theory Loan_Calls
  imports Loan_Model
begin

text \<open>
  The dispatchables of the deposit-and-loan pallet, the \<open>Call\<close> enum with its dispatch, and the
  genesis configuration of the pallet.
\<close>

section \<open>Administration\<close>

definition pause :: "origin \<Rightarrow> 'a loan_state_scheme \<Rightarrow> (unit, 'a loan_state_scheme) dispatch" where
  "pause orig s = and_then (ensure_root orig s) (\<lambda>_ s. Done () (s\<lparr>Paused := True\<rparr>))"

definition resume :: "origin \<Rightarrow> 'a loan_state_scheme \<Rightarrow> (unit, 'a loan_state_scheme) dispatch" where
  "resume orig s = and_then (ensure_root orig s) (\<lambda>_ s. Done () (s\<lparr>Paused := False\<rparr>))"

definition set_collection_asset_id ::
    "origin \<Rightarrow> asset_id \<Rightarrow> 'a loan_state_scheme \<Rightarrow> (unit, 'a loan_state_scheme) dispatch" where
  "set_collection_asset_id orig aid s =
     and_then (ensure_root orig s) (\<lambda>_ s.
     ensure (asset_id_exists aid s) (Other ''invalid collection asset id'') s (
       Done () (s\<lparr>CollectionAssetId := aid\<rparr>)))"

definition set_collection_account ::
    "origin \<Rightarrow> account_id \<Rightarrow> 'a loan_state_scheme \<Rightarrow> (unit, 'a loan_state_scheme) dispatch" where
  "set_collection_account orig account s =
     and_then (ensure_root orig s) (\<lambda>_ s. Done () (s\<lparr>CollectionAccountId := account\<rparr>))"

definition set_collateral_asset_id ::
    "origin \<Rightarrow> asset_id \<Rightarrow> 'a loan_state_scheme \<Rightarrow> (unit, 'a loan_state_scheme) dispatch" where
  "set_collateral_asset_id orig aid s =
     and_then (ensure_root orig s) (\<lambda>_ s. Done () (s\<lparr>CollateralAssetId := aid\<rparr>))"

definition set_global_ltv_limit ::
    "origin \<Rightarrow> ltv \<Rightarrow> 'a loan_state_scheme \<Rightarrow> (unit, 'a loan_state_scheme) dispatch" where
  "set_global_ltv_limit orig limit s =
     and_then (ensure_root orig s) (\<lambda>_ s. Done () (s\<lparr>GlobalLTVLimit := limit\<rparr>))"

definition set_loan_asset_id ::
    "origin \<Rightarrow> asset_id \<Rightarrow> 'a loan_state_scheme \<Rightarrow> (unit, 'a loan_state_scheme) dispatch" where
  "set_loan_asset_id orig aid s =
     and_then (ensure_root orig s) (\<lambda>_ s. Done () (s\<lparr>LoanAssetId := aid\<rparr>))"

text \<open>The two setters of thresholds write the fields the way the source does.\<close>

definition set_global_liquidation_threshold ::
    "origin \<Rightarrow> ltv \<Rightarrow> 'a loan_state_scheme \<Rightarrow> (unit, 'a loan_state_scheme) dispatch" where
  "set_global_liquidation_threshold orig threshold s =
     and_then (ensure_root orig s) (\<lambda>_ s. Done () (s\<lparr>GlobalWarningThreshold := threshold\<rparr>))"

definition set_global_warning_threshold ::
    "origin \<Rightarrow> ltv \<Rightarrow> 'a loan_state_scheme \<Rightarrow> (unit, 'a loan_state_scheme) dispatch" where
  "set_global_warning_threshold orig threshold s =
     and_then (ensure_root orig s) (\<lambda>_ s. Done () (s\<lparr>GlobalLiquidationThreshold := threshold\<rparr>))"

definition set_loan_cap ::
    "origin \<Rightarrow> balance \<Rightarrow> 'a loan_state_scheme \<Rightarrow> (unit, 'a loan_state_scheme) dispatch" where
  "set_loan_cap orig balance s =
     and_then (ensure_root orig s) (\<lambda>_ s.
       if balance = 0 then Done () (s\<lparr>LoanCap := None\<rparr>) else Done () (s\<lparr>LoanCap := Some balance\<rparr>))"

definition set_liquidation_account ::
    "origin \<Rightarrow> account_id \<Rightarrow> 'a loan_state_scheme \<Rightarrow> (unit, 'a loan_state_scheme) dispatch" where
  "set_liquidation_account orig account s =
     and_then (ensure_root orig s) (\<lambda>_ s. Done () (s\<lparr>LiquidationAccount := account\<rparr>))"

definition set_profit_asset_id ::
    "origin \<Rightarrow> asset_id \<Rightarrow> 'a loan_state_scheme \<Rightarrow> (unit, 'a loan_state_scheme) dispatch" where
  "set_profit_asset_id orig aid s =
     and_then (ensure_root orig s) (\<lambda>_ s.
     ensure (asset_id_exists aid s) (Other ''invalid collection asset id'') s (
       Done () (s\<lparr>ProfitAssetId := aid\<rparr>)))"

definition set_profit_pool ::
    "origin \<Rightarrow> account_id \<Rightarrow> 'a loan_state_scheme \<Rightarrow> (unit, 'a loan_state_scheme) dispatch" where
  "set_profit_pool orig account s =
     and_then (ensure_root orig s) (\<lambda>_ s. Done () (s\<lparr>ProfitPool := account\<rparr>))"

definition set_penalty_rate ::
    "origin \<Rightarrow> 32 word \<Rightarrow> 'a loan_state_scheme \<Rightarrow> (unit, 'a loan_state_scheme) dispatch" where
  "set_penalty_rate orig rate s =
     and_then (ensure_root orig s) (\<lambda>_ s. Done () (s\<lparr>PenaltyRate := rate\<rparr>))"

section \<open>Calls of the users\<close>

definition staking ::
    "origin \<Rightarrow> asset_id \<Rightarrow> balance \<Rightarrow> 'a loan_state_scheme \<Rightarrow> (unit, 'a loan_state_scheme) dispatch" where
  "staking orig aid amount s =
     ensure (\<not> Paused s) (Other ''module is paused'') s (
     and_then (ensure_signed orig s) (\<lambda>who s.
     ensure (CollectionAssetId s = aid) (Other ''can't collect this asset'') s (
     ensure (amount \<le> free_balance aid who s) (Other ''insufficient balance'') s (
       create_staking who aid amount s))))"

definition sudo_staking ::
    "origin \<Rightarrow> asset_id \<Rightarrow> balance \<Rightarrow> account_id \<Rightarrow> 'a loan_state_scheme \<Rightarrow> (unit, 'a loan_state_scheme) dispatch" where
  "sudo_staking orig aid amount delegatee s =
     ensure (\<not> Paused s) (Other ''module is paused'') s (
     and_then (ensure_root orig s) (\<lambda>_ s.
     ensure (CollectionAssetId s = aid) (Other ''can't collect this asset'') s (
     ensure (amount \<le> free_balance aid delegatee s) (Other ''insufficient balance'') s (
       create_staking delegatee aid amount s))))"

definition redeem ::
    "origin \<Rightarrow> asset_id \<Rightarrow> balance \<Rightarrow> 'a loan_state_scheme \<Rightarrow> (unit, 'a loan_state_scheme) dispatch" where
  "redeem orig iou_asset_id iou_asset_amount s =
     ensure (\<not> Paused s) (Other ''module is paused'') s (
     and_then (ensure_signed orig s) (\<lambda>who s.
       let collection_asset_id = CollectionAssetId s;
           collection_account_id = CollectionAccountId s
       in ensure (iou_asset_amount \<le> free_balance collection_asset_id collection_account_id s)
            (Other ''Not enough to redeem'') s (
          ensure (collection_asset_id = iou_asset_id)
            (Other ''collection asset id different from iou asset id'') s (
            make_redeem who collection_asset_id collection_account_id iou_asset_amount s))))"

definition sudo_redeem ::
    "origin \<Rightarrow> asset_id \<Rightarrow> balance \<Rightarrow> account_id \<Rightarrow> 'a loan_state_scheme \<Rightarrow> (unit, 'a loan_state_scheme) dispatch" where
  "sudo_redeem orig iou_asset_id iou_asset_amount delegatee s =
     ensure (\<not> Paused s) (Other ''module is paused'') s (
     and_then (ensure_root orig s) (\<lambda>_ s.
       let collection_asset_id = CollectionAssetId s;
           collection_account_id = CollectionAccountId s
       in ensure (iou_asset_amount \<le> free_balance collection_asset_id collection_account_id s)
            (Other ''Not enough to redeem'') s (
          ensure (collection_asset_id = iou_asset_id)
            (Other ''collection asset id different from iou asset id'') s (
            make_redeem delegatee collection_asset_id collection_account_id iou_asset_amount s))))"

definition apply_loan ::
    "origin \<Rightarrow> balance \<Rightarrow> balance \<Rightarrow> 'a loan_state_scheme \<Rightarrow> (unit, 'a loan_state_scheme) dispatch" where
  "apply_loan orig collateral_amount loan_amount s =
     ensure (\<not> Paused s) (Other ''module is paused'') s (
     and_then (ensure_signed orig s) (\<lambda>who s. apply_for_loan who collateral_amount loan_amount s))"

definition repay_loan ::
    "origin \<Rightarrow> loan_no \<Rightarrow> 'a loan_state_scheme \<Rightarrow> (unit, 'a loan_state_scheme) dispatch" where
  "repay_loan orig lid s =
     ensure (\<not> Paused s) (Other ''module is paused'') s (
     and_then (ensure_signed orig s) (\<lambda>who s. repay_for_loan who lid s))"

definition mark_liquidated ::
    "origin \<Rightarrow> loan_no \<Rightarrow> balance \<Rightarrow> 'a loan_state_scheme \<Rightarrow> (unit, 'a loan_state_scheme) dispatch" where
  "mark_liquidated orig lid auction_balance s =
     ensure (\<not> Paused s) (Other ''module is paused'') s (
     and_then (ensure_signed orig s) (\<lambda>liquidation_account s.
     ensure (liquidation_account = LiquidationAccount s) (Other ''liquidation account only'') s (
     ensure (lm_contains (Loans s) lid) (Other ''loan doesn't exists'') s (
       mark_loan_liquidated (get_loan_by_id lid s) liquidation_account auction_balance s))))"

definition add_collateral ::
    "origin \<Rightarrow> loan_no \<Rightarrow> balance \<Rightarrow> 'a loan_state_scheme \<Rightarrow> (unit, 'a loan_state_scheme) dispatch" where
  "add_collateral orig lid amount s =
     ensure (\<not> Paused s) (Other ''module is paused'') s (
     and_then (ensure_signed orig s) (\<lambda>who s.
     ensure (lm_contains (Loans s) lid) (Other ''loan doesn't exists'') s (
       let l = get_loan_by_id lid s
       in ensure (who = loan_who l) (Other ''adding collateral to other's loan is not allowed'') s (
            add_loan_collateral l (loan_who l) amount s))))"

definition draw ::
    "origin \<Rightarrow> loan_no \<Rightarrow> balance \<Rightarrow> 'a loan_state_scheme \<Rightarrow> (unit, 'a loan_state_scheme) dispatch" where
  "draw orig lid amount s =
     ensure (\<not> Paused s) (Other ''module is paused'') s (
     and_then (ensure_signed orig s) (\<lambda>who s. draw_from_loan who lid amount s))"

section \<open>The call enum\<close>

datatype loan_call =
    Call_pause
  | Call_resume
  | Call_set_collection_asset_id asset_id
  | Call_set_collection_account account_id
  | Call_set_collateral_asset_id asset_id
  | Call_set_global_ltv_limit ltv
  | Call_set_loan_asset_id asset_id
  | Call_set_global_liquidation_threshold ltv
  | Call_set_global_warning_threshold ltv
  | Call_set_loan_cap balance
  | Call_set_liquidation_account account_id
  | Call_set_profit_asset_id asset_id
  | Call_set_profit_pool account_id
  | Call_set_penalty_rate "32 word"
  | Call_staking asset_id balance
  | Call_sudo_staking asset_id balance account_id
  | Call_redeem asset_id balance
  | Call_sudo_redeem asset_id balance account_id
  | Call_apply_loan balance balance
  | Call_repay_loan loan_no
  | Call_mark_liquidated loan_no balance
  | Call_add_collateral loan_no balance
  | Call_draw loan_no balance

fun loan_dispatch :: "origin \<Rightarrow> loan_call \<Rightarrow> 'a loan_state_scheme \<Rightarrow> (unit, 'a loan_state_scheme) dispatch" where
  "loan_dispatch orig Call_pause s = pause orig s"
| "loan_dispatch orig Call_resume s = resume orig s"
| "loan_dispatch orig (Call_set_collection_asset_id aid) s = set_collection_asset_id orig aid s"
| "loan_dispatch orig (Call_set_collection_account a) s = set_collection_account orig a s"
| "loan_dispatch orig (Call_set_collateral_asset_id aid) s = set_collateral_asset_id orig aid s"
| "loan_dispatch orig (Call_set_global_ltv_limit v) s = set_global_ltv_limit orig v s"
| "loan_dispatch orig (Call_set_loan_asset_id aid) s = set_loan_asset_id orig aid s"
| "loan_dispatch orig (Call_set_global_liquidation_threshold v) s = set_global_liquidation_threshold orig v s"
| "loan_dispatch orig (Call_set_global_warning_threshold v) s = set_global_warning_threshold orig v s"
| "loan_dispatch orig (Call_set_loan_cap b) s = set_loan_cap orig b s"
| "loan_dispatch orig (Call_set_liquidation_account a) s = set_liquidation_account orig a s"
| "loan_dispatch orig (Call_set_profit_asset_id aid) s = set_profit_asset_id orig aid s"
| "loan_dispatch orig (Call_set_profit_pool a) s = set_profit_pool orig a s"
| "loan_dispatch orig (Call_set_penalty_rate r) s = set_penalty_rate orig r s"
| "loan_dispatch orig (Call_staking aid n) s = staking orig aid n s"
| "loan_dispatch orig (Call_sudo_staking aid n a) s = sudo_staking orig aid n a s"
| "loan_dispatch orig (Call_redeem aid n) s = redeem orig aid n s"
| "loan_dispatch orig (Call_sudo_redeem aid n a) s = sudo_redeem orig aid n a s"
| "loan_dispatch orig (Call_apply_loan c n) s = apply_loan orig c n s"
| "loan_dispatch orig (Call_repay_loan lid) s = repay_loan orig lid s"
| "loan_dispatch orig (Call_mark_liquidated lid n) s = mark_liquidated orig lid n s"
| "loan_dispatch orig (Call_add_collateral lid n) s = add_collateral orig lid n s"
| "loan_dispatch orig (Call_draw lid n) s = draw orig lid n s"

section \<open>Genesis\<close>

record loan_genesis =
  gen_collection_asset_id :: asset_id
  gen_collection_account_id :: account_id
  gen_market_dtoken :: balance
  gen_total_dtoken :: balance
  gen_loan_interest_rate_current :: balance
  gen_profit_asset_id :: asset_id
  gen_profit_pool :: account_id
  gen_pawn_shop :: account_id
  gen_collateral_asset_id :: asset_id
  gen_loan_asset_id :: asset_id
  gen_global_ltv_limit :: ltv
  gen_global_liquidation_threshold :: ltv
  gen_global_warning_threshold :: ltv
  gen_next_loan_id :: loan_no
  gen_penalty_rate :: "32 word"
  gen_liquidation_account :: account_id
  gen_minimum_collateral :: balance
  gen_liquidation_penalty :: "32 word"
  gen_saving_interest_rate :: balance

definition loan_genesis_build :: "loan_genesis \<Rightarrow> oracle_state \<Rightarrow> loan_state" where
  "loan_genesis_build cfg s =
     oracle_state.extend s
       \<lparr>Paused = False,
        CollectionAssetId = gen_collection_asset_id cfg,
        CollectionAccountId = gen_collection_account_id cfg,
        UserDtoken = [],
        MarketDtoken = gen_market_dtoken cfg,
        TotalDtoken = gen_total_dtoken cfg,
        BonusTime = 0,
        LoanInterestRateCurrent = gen_loan_interest_rate_current cfg,
        ProfitAssetId = gen_profit_asset_id cfg,
        ProfitPool = gen_profit_pool cfg,
        PawnShop = gen_pawn_shop cfg,
        CollateralAssetId = gen_collateral_asset_id cfg,
        LoanAssetId = gen_loan_asset_id cfg,
        GlobalLTVLimit = gen_global_ltv_limit cfg,
        GlobalLiquidationThreshold = gen_global_liquidation_threshold cfg,
        GlobalWarningThreshold = gen_global_warning_threshold cfg,
        NextLoanId = gen_next_loan_id cfg,
        Loans = [],
        LoansByAccount = Map.empty,
        TotalLoan = 0,
        TotalCollateral = 0,
        PenaltyRate = gen_penalty_rate cfg,
        LiquidationAccount = gen_liquidation_account cfg,
        LiquidatingLoans = None,
        LoanCap = None,
        MinimumCollateral = gen_minimum_collateral cfg,
        LiquidationPenalty = gen_liquidation_penalty cfg,
        SavingInterestRate = gen_saving_interest_rate cfg,
        LoanEvents = []\<rparr>"

end
