(* ===== verification/Runtime.thy ===== *)
theory Runtime
  imports Asset_Properties Oracle_Properties Loan_Calls
begin

text \<open>
  The runtime that the node executes (runtime/src/lib.rs, constants.rs, impls.rs) as far as it is code of
  this repository: the units of money and time, the conversions handed to the pallets of the framework,
  the composition of the three pallets (\<open>construct_runtime!\<close>; the bridge is commented out there) with
  the hooks that run at the start and the end of a block, and the genesis of the testnet
  (cli/src/chain_spec.rs).

  Code of the framework is a parameter: the fixed-point numbers and the ratio of a \<open>Perbill\<close> in the fee
  adjustment, and the derivation of an account from a seed string in the genesis.
\<close>

section \<open>Units\<close>

definition MILLICENTS :: balance where "MILLICENTS = 1000000000"
definition CENTS :: balance where "CENTS = 1000 * MILLICENTS"
definition DOLLARS :: balance where "DOLLARS = 100 * CENTS"

definition MILLISECS_PER_BLOCK :: moment where "MILLISECS_PER_BLOCK = 3000"
definition SECS_PER_BLOCK :: moment where "SECS_PER_BLOCK = MILLISECS_PER_BLOCK div 1000"
definition SLOT_DURATION :: moment where "SLOT_DURATION = MILLISECS_PER_BLOCK"
definition MINUTES :: block_number where "MINUTES = 60 div ucast SECS_PER_BLOCK"
definition HOURS :: block_number where "HOURS = MINUTES * 60"
definition DAYS :: block_number where "DAYS = HOURS * 24"
definition EPOCH_DURATION_IN_BLOCKS :: block_number where "EPOCH_DURATION_IN_BLOCKS = 10 * MINUTES"

text \<open>The quotient of two \<open>f64\<close> that are equal is exactly one, so the number of slots is that of blocks.\<close>

definition EPOCH_DURATION_IN_SLOTS :: "64 word" where
  "EPOCH_DURATION_IN_SLOTS =
     of_nat (unat EPOCH_DURATION_IN_BLOCKS * unat MILLISECS_PER_BLOCK div unat SLOT_DURATION)"

definition ExistentialDeposit :: balance where "ExistentialDeposit = 1 * DOLLARS"
definition TransactionBaseFee :: balance where "TransactionBaseFee = 1 * CENTS"
definition TransactionByteFee :: balance where "TransactionByteFee = 10 * MILLICENTS"
definition WeightFeeCoefficient :: balance where "WeightFeeCoefficient = 1000"
definition MinimumPeriod :: moment where "MinimumPeriod = SLOT_DURATION div 2"
definition MaximumBlockWeight :: "32 word" where "MaximumBlockWeight = 1000000000"
definition AggregateInterval :: block_number where "AggregateInterval = 5"

section \<open>Conversions\<close>

text \<open>\<open>CurrencyToVoteHandler\<close>, over the total issuance of the native currency.\<close>

definition vote_factor :: "balance \<Rightarrow> balance" where
  "vote_factor issuance = max (issuance div ucast (- 1 :: 64 word)) 1"

definition to_vote :: "balance \<Rightarrow> balance \<Rightarrow> 64 word" where
  "to_vote issuance x = ucast (x div vote_factor issuance)"

definition from_vote :: "balance \<Rightarrow> 128 word \<Rightarrow> balance" where
  "from_vote issuance x = x * vote_factor issuance"

definition saturating_mul :: "balance \<Rightarrow> balance \<Rightarrow> balance" where
  "saturating_mul a b = (case checked_mul a b of Some c \<Rightarrow> c | None \<Rightarrow> - 1)"

text \<open>\<open>LinearWeightToFee\<close>.\<close>

definition weight_to_fee :: "balance \<Rightarrow> 32 word \<Rightarrow> balance" where
  "weight_to_fee coefficient w = saturating_mul (ucast w) coefficient"

text \<open>What \<open>TargetedFeeAdjustment\<close> uses of the fixed-point numbers.\<close>

record 'f fixed64 =
  from_rational :: "64 word \<Rightarrow> 64 word \<Rightarrow> 'f"
  fx_saturating_mul :: "'f \<Rightarrow> 'f \<Rightarrow> 'f"
  fx_saturating_add :: "'f \<Rightarrow> 'f \<Rightarrow> 'f"
  fx_saturating_sub :: "'f \<Rightarrow> 'f \<Rightarrow> 'f"
  fx_minus :: "'f \<Rightarrow> 'f \<Rightarrow> 'f"
  fx_max :: "'f \<Rightarrow> 'f \<Rightarrow> 'f"

definition targeted_fee_adjustment :: "'f fixed64 \<Rightarrow> (32 word \<Rightarrow> 32 word) \<Rightarrow> 32 word \<Rightarrow> 'f \<Rightarrow> 'f" where
  "targeted_fee_adjustment fx target all_extrinsics_weight multiplier =
     (let max_weight = MaximumBlockWeight;
          target_weight = ucast (target max_weight) :: 128 word;
          block_weight = ucast all_extrinsics_weight :: 128 word;
          positive = target_weight \<le> block_weight;
          diff_abs = max block_weight target_weight - min block_weight target_weight;
          diff = from_rational fx (ucast diff_abs) (ucast max_weight);
          diff_squared = fx_saturating_mul fx diff diff;
          v = from_rational fx 4 100000;
          v_squared_2 = from_rational fx 1 1000000000;
          first_term = fx_saturating_mul fx v diff;
          second_term = fx_saturating_mul fx v_squared_2 diff_squared
      in if positive then
           (let excess = fx_saturating_add fx first_term second_term
            in fx_saturating_add fx multiplier excess)
         else
           (let negative = fx_minus fx first_term second_term
            in fx_max fx (fx_saturating_sub fx multiplier negative) (from_rational fx (- 1) 1)))"

section \<open>The composition of the pallets\<close>

datatype runtime_call =
    DepositLoan loan_call
  | GenericAsset ga_call
  | NewOracle oracle_call

fun runtime_dispatch :: "origin \<Rightarrow> runtime_call \<Rightarrow> 'a loan_state_scheme \<Rightarrow> (unit, 'a loan_state_scheme) dispatch" where
  "runtime_dispatch orig (DepositLoan c) s = loan_dispatch orig c s"
| "runtime_dispatch orig (GenericAsset c) s = ga_dispatch orig c s"
| "runtime_dispatch orig (NewOracle c) s = oracle_dispatch orig c s"

definition runtime_on_initialize :: "block_number \<Rightarrow> 'a loan_state_scheme \<Rightarrow> (unit, 'a loan_state_scheme) dispatch" where
  "runtime_on_initialize n s = loan_on_initialize n s"

definition runtime_on_finalize :: "block_number \<Rightarrow> 'a loan_state_scheme \<Rightarrow> (unit, 'a loan_state_scheme) dispatch" where
  "runtime_on_finalize n s = oracle_on_finalize AggregateInterval n s"

text \<open>
  A step of the chain: the frame writes its own part of the storage (a new block number and extrinsic
  index, the timestamp, a new sudo key), a hook runs, or a call is dispatched with any origin.  An error
  keeps what was written before it.
\<close>

inductive runtime_step :: "'a loan_state_scheme \<Rightarrow> 'a loan_state_scheme \<Rightarrow> bool" where
  frame_writes: "runtime_step s (s\<lparr>SudoKey := k, BlockNumber := n, ExtrinsicIndex := i, Now := m\<rparr>)"
| initializes: "runtime_on_initialize n s = Done u t \<Longrightarrow> runtime_step s t"
| call_returns: "runtime_dispatch orig c s = Done u t \<Longrightarrow> runtime_step s t"
| call_fails: "runtime_dispatch orig c s = Fail e t \<Longrightarrow> runtime_step s t"
| finalizes: "runtime_on_finalize n s = Done u t \<Longrightarrow> runtime_step s t"

section \<open>Genesis\<close>

definition oracle_genesis_build ::
    "(string \<times> price_source list) list \<Rightarrow> (string \<times> price) list \<Rightarrow> ga_state \<Rightarrow> oracle_state" where
  "oracle_genesis_build sources prices s =
     ga_state.extend s
       \<lparr>CryptoPriceSources = fold (\<lambda>(k, v). lm_insert k v) sources [],
        PriceCandidates = [],
        CurrentPrice = fold (\<lambda>(k, v). lm_insert k v) prices [],
        NextAggregateAt = 0\<rparr>"

text \<open>The deposit-loan section of the chain specification.\<close>

definition testnet_loan_genesis :: "(string \<Rightarrow> account_id) \<Rightarrow> loan_genesis" where
  "testnet_loan_genesis seed_account =
     \<lparr>gen_collection_asset_id = 0,
      gen_collection_account_id = seed_account ''collection_account_id'',
      gen_market_dtoken = 0,
      gen_total_dtoken = 0,
      gen_loan_interest_rate_current = 0,
      gen_profit_asset_id = 0,
      gen_profit_pool = seed_account ''profit_pool'',
      gen_pawn_shop = seed_account ''pawn_shop'',
      gen_collateral_asset_id = 1,
      gen_loan_asset_id = 0,
      gen_global_ltv_limit = 66666667,
      gen_global_liquidation_threshold = 100000000,
      gen_global_warning_threshold = 50000000,
      gen_next_loan_id = 0,
      gen_penalty_rate = 50,
      gen_liquidation_account = seed_account ''liquidation_account'',
      gen_minimum_collateral = 0,
      gen_liquidation_penalty = 1300,
      gen_saving_interest_rate = 0\<rparr>"

definition testnet_genesis :: "(string \<Rightarrow> account_id) \<Rightarrow> system_state \<Rightarrow> (unit, loan_state) dispatch" where
  "testnet_genesis seed_account sys =
     (case ga_genesis_build testnet_ga_genesis (empty_ga_state sys) of
        Done _ s \<Rightarrow> Done () (loan_genesis_build (testnet_loan_genesis seed_account)
                      (oracle_genesis_build testnet_sources [(''DUSD'', 1 * PRICE_SCALE)] s))
      | Fail e _ \<Rightarrow> Panic
      | Panic \<Rightarrow> Panic)"

end
