(* ===== verification/Loan_Book.thy ===== *)
theory Loan_Book
  imports Loan_Calls
begin

text \<open>
  The invariants of the deposit-and-loan pallet.  The loan book is well formed: every loan is
  stored under its own id, below the next id, and listed exactly once under its owner; a loan is in
  the list of liquidating loans exactly when its status says so.  Every call and both hooks keep
  this on every return, together with the invariant of the assets they move.  The totals of the
  book match its entries; which operations keep that is the subject of Loan_Properties.
\<close>

section \<open>The fields of the pallet do not matter to the ledger\<close>

lemma moved_loan_fields [simp]:
  "CryptoPriceSources (moved a f t n s) = CryptoPriceSources s"
  "PriceCandidates (moved a f t n s) = PriceCandidates s"
  "CurrentPrice (moved a f t n s) = CurrentPrice s"
  "NextAggregateAt (moved a f t n s) = NextAggregateAt s"
  "Paused (moved a f t n s) = Paused s"
  "CollectionAssetId (moved a f t n s) = CollectionAssetId s"
  "CollectionAccountId (moved a f t n s) = CollectionAccountId s"
  "UserDtoken (moved a f t n s) = UserDtoken s"
  "MarketDtoken (moved a f t n s) = MarketDtoken s"
  "TotalDtoken (moved a f t n s) = TotalDtoken s"
  "BonusTime (moved a f t n s) = BonusTime s"
  "LoanInterestRateCurrent (moved a f t n s) = LoanInterestRateCurrent s"
  "ProfitAssetId (moved a f t n s) = ProfitAssetId s"
  "ProfitPool (moved a f t n s) = ProfitPool s"
  "PawnShop (moved a f t n s) = PawnShop s"
  "CollateralAssetId (moved a f t n s) = CollateralAssetId s"
  "LoanAssetId (moved a f t n s) = LoanAssetId s"
  "GlobalLTVLimit (moved a f t n s) = GlobalLTVLimit s"
  "GlobalLiquidationThreshold (moved a f t n s) = GlobalLiquidationThreshold s"
  "GlobalWarningThreshold (moved a f t n s) = GlobalWarningThreshold s"
  "NextLoanId (moved a f t n s) = NextLoanId s"
  "Loans (moved a f t n s) = Loans s"
  "LoansByAccount (moved a f t n s) = LoansByAccount s"
  "TotalLoan (moved a f t n s) = TotalLoan s"
  "TotalCollateral (moved a f t n s) = TotalCollateral s"
  "PenaltyRate (moved a f t n s) = PenaltyRate s"
  "LiquidationAccount (moved a f t n s) = LiquidationAccount s"
  "LiquidatingLoans (moved a f t n s) = LiquidatingLoans s"
  "LoanCap (moved a f t n s) = LoanCap s"
  "MinimumCollateral (moved a f t n s) = MinimumCollateral s"
  "LiquidationPenalty (moved a f t n s) = LiquidationPenalty s"
  "SavingInterestRate (moved a f t n s) = SavingInterestRate s"
  "LoanEvents (moved a f t n s) = LoanEvents s"
  by (simp_all add: moved_def deposit_ga_event_def set_free_balance_def)

lemma free_balance_ignores [simp]:
  "free_balance aid who (s\<lparr>Paused := x_Paused\<rparr>) = free_balance aid who s"
  "free_balance aid who (s\<lparr>CollectionAssetId := x_CollectionAssetId\<rparr>) = free_balance aid who s"
  "free_balance aid who (s\<lparr>CollectionAccountId := x_CollectionAccountId\<rparr>) = free_balance aid who s"
  "free_balance aid who (s\<lparr>UserDtoken := x_UserDtoken\<rparr>) = free_balance aid who s"
  "free_balance aid who (s\<lparr>MarketDtoken := x_MarketDtoken\<rparr>) = free_balance aid who s"
  "free_balance aid who (s\<lparr>TotalDtoken := x_TotalDtoken\<rparr>) = free_balance aid who s"
  "free_balance aid who (s\<lparr>BonusTime := x_BonusTime\<rparr>) = free_balance aid who s"
  "free_balance aid who (s\<lparr>LoanInterestRateCurrent := x_LoanInterestRateCurrent\<rparr>) = free_balance aid who s"
  "free_balance aid who (s\<lparr>ProfitAssetId := x_ProfitAssetId\<rparr>) = free_balance aid who s"
  "free_balance aid who (s\<lparr>ProfitPool := x_ProfitPool\<rparr>) = free_balance aid who s"
  "free_balance aid who (s\<lparr>PawnShop := x_PawnShop\<rparr>) = free_balance aid who s"
  "free_balance aid who (s\<lparr>CollateralAssetId := x_CollateralAssetId\<rparr>) = free_balance aid who s"
  "free_balance aid who (s\<lparr>LoanAssetId := x_LoanAssetId\<rparr>) = free_balance aid who s"
  "free_balance aid who (s\<lparr>GlobalLTVLimit := x_GlobalLTVLimit\<rparr>) = free_balance aid who s"
  "free_balance aid who (s\<lparr>GlobalLiquidationThreshold := x_GlobalLiquidationThreshold\<rparr>) = free_balance aid who s"
  "free_balance aid who (s\<lparr>GlobalWarningThreshold := x_GlobalWarningThreshold\<rparr>) = free_balance aid who s"
  "free_balance aid who (s\<lparr>NextLoanId := x_NextLoanId\<rparr>) = free_balance aid who s"
  "free_balance aid who (s\<lparr>Loans := x_Loans\<rparr>) = free_balance aid who s"
  "free_balance aid who (s\<lparr>LoansByAccount := x_LoansByAccount\<rparr>) = free_balance aid who s"
  "free_balance aid who (s\<lparr>TotalLoan := x_TotalLoan\<rparr>) = free_balance aid who s"
  "free_balance aid who (s\<lparr>TotalCollateral := x_TotalCollateral\<rparr>) = free_balance aid who s"
  "free_balance aid who (s\<lparr>PenaltyRate := x_PenaltyRate\<rparr>) = free_balance aid who s"
  "free_balance aid who (s\<lparr>LiquidationAccount := x_LiquidationAccount\<rparr>) = free_balance aid who s"
  "free_balance aid who (s\<lparr>LiquidatingLoans := x_LiquidatingLoans\<rparr>) = free_balance aid who s"
  "free_balance aid who (s\<lparr>LoanCap := x_LoanCap\<rparr>) = free_balance aid who s"
  "free_balance aid who (s\<lparr>MinimumCollateral := x_MinimumCollateral\<rparr>) = free_balance aid who s"
  "free_balance aid who (s\<lparr>LiquidationPenalty := x_LiquidationPenalty\<rparr>) = free_balance aid who s"
  "free_balance aid who (s\<lparr>SavingInterestRate := x_SavingInterestRate\<rparr>) = free_balance aid who s"
  "free_balance aid who (s\<lparr>LoanEvents := x_LoanEvents\<rparr>) = free_balance aid who s"
  by (simp_all add: free_balance_def)

lemma ga_inv_ignores_loan_fields [simp]:
  "ga_inv (s\<lparr>Paused := x_Paused\<rparr>) = ga_inv s"
  "ga_inv (s\<lparr>CollectionAssetId := x_CollectionAssetId\<rparr>) = ga_inv s"
  "ga_inv (s\<lparr>CollectionAccountId := x_CollectionAccountId\<rparr>) = ga_inv s"
  "ga_inv (s\<lparr>UserDtoken := x_UserDtoken\<rparr>) = ga_inv s"
  "ga_inv (s\<lparr>MarketDtoken := x_MarketDtoken\<rparr>) = ga_inv s"
  "ga_inv (s\<lparr>TotalDtoken := x_TotalDtoken\<rparr>) = ga_inv s"
  "ga_inv (s\<lparr>BonusTime := x_BonusTime\<rparr>) = ga_inv s"
  "ga_inv (s\<lparr>LoanInterestRateCurrent := x_LoanInterestRateCurrent\<rparr>) = ga_inv s"
  "ga_inv (s\<lparr>ProfitAssetId := x_ProfitAssetId\<rparr>) = ga_inv s"
  "ga_inv (s\<lparr>ProfitPool := x_ProfitPool\<rparr>) = ga_inv s"
  "ga_inv (s\<lparr>PawnShop := x_PawnShop\<rparr>) = ga_inv s"
  "ga_inv (s\<lparr>CollateralAssetId := x_CollateralAssetId\<rparr>) = ga_inv s"
  "ga_inv (s\<lparr>LoanAssetId := x_LoanAssetId\<rparr>) = ga_inv s"
  "ga_inv (s\<lparr>GlobalLTVLimit := x_GlobalLTVLimit\<rparr>) = ga_inv s"
  "ga_inv (s\<lparr>GlobalLiquidationThreshold := x_GlobalLiquidationThreshold\<rparr>) = ga_inv s"
  "ga_inv (s\<lparr>GlobalWarningThreshold := x_GlobalWarningThreshold\<rparr>) = ga_inv s"
  "ga_inv (s\<lparr>NextLoanId := x_NextLoanId\<rparr>) = ga_inv s"
  "ga_inv (s\<lparr>Loans := x_Loans\<rparr>) = ga_inv s"
  "ga_inv (s\<lparr>LoansByAccount := x_LoansByAccount\<rparr>) = ga_inv s"
  "ga_inv (s\<lparr>TotalLoan := x_TotalLoan\<rparr>) = ga_inv s"
  "ga_inv (s\<lparr>TotalCollateral := x_TotalCollateral\<rparr>) = ga_inv s"
  "ga_inv (s\<lparr>PenaltyRate := x_PenaltyRate\<rparr>) = ga_inv s"
  "ga_inv (s\<lparr>LiquidationAccount := x_LiquidationAccount\<rparr>) = ga_inv s"
  "ga_inv (s\<lparr>LiquidatingLoans := x_LiquidatingLoans\<rparr>) = ga_inv s"
  "ga_inv (s\<lparr>LoanCap := x_LoanCap\<rparr>) = ga_inv s"
  "ga_inv (s\<lparr>MinimumCollateral := x_MinimumCollateral\<rparr>) = ga_inv s"
  "ga_inv (s\<lparr>LiquidationPenalty := x_LiquidationPenalty\<rparr>) = ga_inv s"
  "ga_inv (s\<lparr>SavingInterestRate := x_SavingInterestRate\<rparr>) = ga_inv s"
  "ga_inv (s\<lparr>LoanEvents := x_LoanEvents\<rparr>) = ga_inv s"
  by (simp_all add: ga_inv_def unused_id_def solvent_def all_holdings_def holdings_def
      free_balance_def reserved_balance_def total_issuance_def)

section \<open>The loan book\<close>

fun is_liquidating :: "loan_health \<Rightarrow> bool" where
  "is_liquidating (Liquidating v) = True"
| "is_liquidating _ = False"

definition loans_of :: "(account_id \<rightharpoonup> loan_no list) \<Rightarrow> account_id \<Rightarrow> loan_no list" where
  "loans_of m who = get_or [] m who"

definition owner_in :: "(loan_no, loan) linked_map \<Rightarrow> loan_no \<Rightarrow> account_id option" where
  "owner_in ls lid = map_option loan_who (map_of ls lid)"

definition in_liquidation :: "(loan_no, loan) linked_map \<Rightarrow> loan_no \<Rightarrow> bool" where
  "in_liquidation ls lid = (case map_of ls lid of Some l \<Rightarrow> is_liquidating (loan_status l) | None \<Rightarrow> False)"

definition book_ok ::
    "(loan_no, loan) linked_map \<Rightarrow> (account_id \<rightharpoonup> loan_no list) \<Rightarrow> loan_no list \<Rightarrow> loan_no \<Rightarrow> bool" where
  "book_ok ls by_account liquidating next_id \<longleftrightarrow> lm_wf ls
     \<and> (\<forall>lid l. map_of ls lid = Some l \<longrightarrow> loan_id l = lid \<and> lid < next_id)
     \<and> (\<forall>who. distinct (loans_of by_account who))
     \<and> (\<forall>who lid. lid \<in> set (loans_of by_account who) \<longleftrightarrow> owner_in ls lid = Some who)
     \<and> (\<forall>lid. lid \<in> set liquidating \<longleftrightarrow> in_liquidation ls lid)"

definition book_wf :: "'a loan_state_scheme \<Rightarrow> bool" where
  "book_wf s \<longleftrightarrow> book_ok (Loans s) (LoansByAccount s) (get_liquidating_loans s) (NextLoanId s)"

definition totals_match :: "'a loan_state_scheme \<Rightarrow> bool" where
  "totals_match s \<longleftrightarrow> TotalLoan s = total_of loan_balance_total (map_of (Loans s))
     \<and> TotalCollateral s = total_of collateral_balance_original (map_of (Loans s))"

definition loan_inv :: "'a loan_state_scheme \<Rightarrow> bool" where
  "loan_inv s \<longleftrightarrow> ga_inv s \<and> book_wf s"

lemma loans_of_upd: "loans_of (m(who \<mapsto> v)) w = (if w = who then v else loans_of m w)"
  by (simp add: loans_of_def)

lemma owner_in_upd:
  "owner_in (lm_insert lid l ls) k = (if k = lid then Some (loan_who l) else owner_in ls k)"
  "owner_in (lm_remove lid ls) k = (if k = lid then None else owner_in ls k)"
  by (simp_all add: owner_in_def)

lemma in_liquidation_upd:
  "in_liquidation (lm_insert lid l ls) k = (if k = lid then is_liquidating (loan_status l) else in_liquidation ls k)"
  "in_liquidation (lm_remove lid ls) k = (if k = lid then False else in_liquidation ls k)"
  by (simp_all add: in_liquidation_def)

lemmas book_upds = loans_of_upd owner_in_upd in_liquidation_upd

lemma book_okD:
  assumes "book_ok ls ba liq nxt" and "map_of ls lid = Some l"
  shows "loan_id l = lid" "lid < nxt" "lid \<in> set (loans_of ba (loan_who l))"
    "owner_in ls lid = Some (loan_who l)" "in_liquidation ls lid = is_liquidating (loan_status l)"
    "lid \<in> set liq \<longleftrightarrow> is_liquidating (loan_status l)"
  using assms by (auto simp: book_ok_def owner_in_def in_liquidation_def)

lemma book_ok_weaken: "book_ok ls ba liq nxt \<Longrightarrow> nxt \<le> nxt' \<Longrightarrow> book_ok ls ba liq nxt'"
  unfolding book_ok_def by (auto intro: less_le_trans)

text \<open>Changing a loan without changing its id, its owner or whether it is in liquidation.\<close>

lemma book_ok_mutate:
  assumes ok: "book_ok ls ba liq nxt" and present: "lm_contains ls lid"
    and same: "\<And>l. loan_id (f l) = loan_id l \<and> loan_who (f l) = loan_who l
      \<and> is_liquidating (loan_status (f l)) = is_liquidating (loan_status l)"
  shows "book_ok (lm_mutate default_loan lid f ls) ba liq nxt"
proof -
  have old: "map_of ls lid = Some (lm_get default_loan ls lid)"
    using present by (rule map_of_lm_get)
  show ?thesis
    using ok same book_okD [OF ok old]
    unfolding book_ok_def by (simp add: lm_mutate_def book_upds)
qed

text \<open>A new loan, entered under the next id.\<close>

lemma book_ok_insert:
  assumes ok: "book_ok ls ba liq nxt" and less: "nxt < nxt'"
    and l: "loan_id l = nxt" "loan_who l = who" "\<not> is_liquidating (loan_status l)"
  shows "book_ok (lm_insert nxt l ls) (ba(who \<mapsto> loans_of ba who @ [nxt])) liq nxt'"
proof -
  have fresh: "map_of ls nxt = None"
    using book_okD(2) [OF ok] by (cases "map_of ls nxt") auto
  then have "owner_in ls nxt = None" "\<not> in_liquidation ls nxt"
    by (simp_all add: owner_in_def in_liquidation_def)
  moreover have "lid < nxt'" if "map_of ls lid = Some l'" for lid l'
    using book_okD(2) [OF ok that] less by (rule less_trans)
  ultimately show ?thesis
    using ok l less unfolding book_ok_def by (simp add: book_upds)
qed

text \<open>A loan leaves the book.\<close>

lemma book_ok_remove:
  assumes ok: "book_ok ls ba liq nxt" and present: "map_of ls lid = Some l"
  shows "book_ok (lm_remove lid ls) (ba(loan_who l \<mapsto> filter (\<lambda>ele. ele \<noteq> lid) (loans_of ba (loan_who l))))
    (filter (\<lambda>ele. ele \<noteq> lid) liq) nxt"
  using ok book_okD [OF ok present] unfolding book_ok_def by (simp add: book_upds)

lemma book_ok_remove_healthy:
  assumes ok: "book_ok ls ba liq nxt" and present: "map_of ls lid = Some l" and "lid \<notin> set liq"
  shows "book_ok (lm_remove lid ls) (ba(loan_who l \<mapsto> filter (\<lambda>ele. ele \<noteq> lid) (loans_of ba (loan_who l)))) liq nxt"
proof -
  have "filter (\<lambda>ele. ele \<noteq> lid) liq = liq"
    using assms(3) by (auto simp: filter_id_conv)
  with book_ok_remove [OF ok present] show ?thesis by simp
qed

text \<open>Taking a listed loan out of its owner's list and putting it back at the end.\<close>

lemma book_ok_relist:
  assumes ok: "book_ok ls ba liq nxt" and present: "map_of ls lid = Some l"
  shows "book_ok (lm_insert lid l ls)
    (ba(loan_who l \<mapsto> filter (\<lambda>ele. ele \<noteq> lid) (loans_of ba (loan_who l)) @ [lid])) liq nxt"
  using ok book_okD [OF ok present] unfolding book_ok_def by (simp add: book_upds)

text \<open>A loan goes into liquidation.\<close>

lemma book_ok_liquidate:
  assumes ok: "book_ok ls ba liq nxt" and present: "lm_contains ls lid"
  shows "book_ok (lm_mutate default_loan lid (\<lambda>l. l\<lparr>loan_status := Liquidating v\<rparr>) ls) ba (liq @ [lid]) nxt"
proof -
  have old: "map_of ls lid = Some (lm_get default_loan ls lid)"
    using present by (rule map_of_lm_get)
  show ?thesis
    using ok book_okD [OF ok old]
    unfolding book_ok_def by (simp add: lm_mutate_def book_upds)
qed

section \<open>Every operation keeps the invariant\<close>

lemma loans_of_get: "get_or [] m who = loans_of m who"
  by (simp add: loans_of_def)

lemma loan_invD: "loan_inv s \<Longrightarrow> ga_inv s" "loan_inv s \<Longrightarrow> book_wf s"
  by (simp_all add: loan_inv_def)

lemma loan_inv_ignores [simp]:
  "loan_inv (s\<lparr>Paused := x_Paused\<rparr>) = loan_inv s"
  "loan_inv (s\<lparr>CollectionAssetId := x_CollectionAssetId\<rparr>) = loan_inv s"
  "loan_inv (s\<lparr>CollectionAccountId := x_CollectionAccountId\<rparr>) = loan_inv s"
  "loan_inv (s\<lparr>UserDtoken := x_UserDtoken\<rparr>) = loan_inv s"
  "loan_inv (s\<lparr>MarketDtoken := x_MarketDtoken\<rparr>) = loan_inv s"
  "loan_inv (s\<lparr>TotalDtoken := x_TotalDtoken\<rparr>) = loan_inv s"
  "loan_inv (s\<lparr>BonusTime := x_BonusTime\<rparr>) = loan_inv s"
  "loan_inv (s\<lparr>LoanInterestRateCurrent := x_LoanInterestRateCurrent\<rparr>) = loan_inv s"
  "loan_inv (s\<lparr>ProfitAssetId := x_ProfitAssetId\<rparr>) = loan_inv s"
  "loan_inv (s\<lparr>ProfitPool := x_ProfitPool\<rparr>) = loan_inv s"
  "loan_inv (s\<lparr>PawnShop := x_PawnShop\<rparr>) = loan_inv s"
  "loan_inv (s\<lparr>CollateralAssetId := x_CollateralAssetId\<rparr>) = loan_inv s"
  "loan_inv (s\<lparr>LoanAssetId := x_LoanAssetId\<rparr>) = loan_inv s"
  "loan_inv (s\<lparr>GlobalLTVLimit := x_GlobalLTVLimit\<rparr>) = loan_inv s"
  "loan_inv (s\<lparr>GlobalLiquidationThreshold := x_GlobalLiquidationThreshold\<rparr>) = loan_inv s"
  "loan_inv (s\<lparr>GlobalWarningThreshold := x_GlobalWarningThreshold\<rparr>) = loan_inv s"
  "loan_inv (s\<lparr>TotalLoan := x_TotalLoan\<rparr>) = loan_inv s"
  "loan_inv (s\<lparr>TotalCollateral := x_TotalCollateral\<rparr>) = loan_inv s"
  "loan_inv (s\<lparr>PenaltyRate := x_PenaltyRate\<rparr>) = loan_inv s"
  "loan_inv (s\<lparr>LiquidationAccount := x_LiquidationAccount\<rparr>) = loan_inv s"
  "loan_inv (s\<lparr>LoanCap := x_LoanCap\<rparr>) = loan_inv s"
  "loan_inv (s\<lparr>MinimumCollateral := x_MinimumCollateral\<rparr>) = loan_inv s"
  "loan_inv (s\<lparr>LiquidationPenalty := x_LiquidationPenalty\<rparr>) = loan_inv s"
  "loan_inv (s\<lparr>SavingInterestRate := x_SavingInterestRate\<rparr>) = loan_inv s"
  "loan_inv (s\<lparr>LoanEvents := x_LoanEvents\<rparr>) = loan_inv s"
  by (simp_all add: loan_inv_def book_wf_def get_liquidating_loans_def)

lemma get_liquidating_loans_moved [simp]:
  "get_liquidating_loans (moved a f t n s) = get_liquidating_loans s"
  by (simp add: get_liquidating_loans_def)

lemma book_wf_moved [simp]: "book_wf (moved a f t n s) = book_wf s"
  by (simp add: book_wf_def)

lemma loan_inv_event [simp]: "loan_inv (deposit_loan_event ev s) = loan_inv s"
  by (simp add: deposit_loan_event_def)

lemma loan_inv_transfer [keeps_intros]: "loan_inv s \<Longrightarrow> keeps loan_inv (make_transfer_with_event aid f t n s)"
  by (simp add: loan_inv_def make_transfer_with_event_eq ga_inv_moved)

lemma loan_inv_mutate_loan:
  assumes "loan_inv s" and "lm_contains (Loans s) lid"
    and "\<And>l. loan_id (f l) = loan_id l \<and> loan_who (f l) = loan_who l
      \<and> is_liquidating (loan_status (f l)) = is_liquidating (loan_status l)"
  shows "loan_inv (mutate_loan lid f s)"
  using assms book_ok_mutate [OF _ assms(2,3)]
  by (simp add: loan_inv_def book_wf_def mutate_loan_def get_liquidating_loans_def)

lemma loan_contains_mutate [simp]: "lm_contains (Loans (mutate_loan lid f s)) k \<longleftrightarrow> k = lid \<or> lm_contains (Loans s) k"
  by (simp add: mutate_loan_def)

lemma loan_inv_create_staking [keeps_intros]: "loan_inv s \<Longrightarrow> keeps loan_inv (create_staking who aid n s)"
  unfolding create_staking_def Let_def
  by (auto intro!: keeps_intros)

lemma loan_inv_make_redeem_all [keeps_intros]: "loan_inv s \<Longrightarrow> keeps loan_inv (make_redeem_all who s)"
  unfolding make_redeem_all_def Let_def by (auto intro!: keeps_intros)

lemma loan_inv_make_redeem [keeps_intros]: "loan_inv s \<Longrightarrow> keeps loan_inv (make_redeem who aid acct n s)"
  unfolding make_redeem_def Let_def by (auto intro!: keeps_intros)

lemma get_collateral_loan_pure:
  "get_collateral_loan c n s = Done cl t \<Longrightarrow> t = s"
  "get_collateral_loan c n s = Fail e t \<Longrightarrow> t = s"
  by (auto simp: get_collateral_loan_def div_then_def Let_def split: if_splits)

text \<open>A loan is entered into the book after its number was taken.\<close>

lemma loan_inv_new_loan:
  assumes "loan_inv s" and "NextLoanId s + 1 \<noteq> 0"
    and "ga_inv t" and "Loans t = Loans s" "LoansByAccount t = LoansByAccount s"
    and "LiquidatingLoans t = LiquidatingLoans s" and "NextLoanId t = NextLoanId s + 1"
    and "loan_id l = NextLoanId s" "loan_who l = who" "\<not> is_liquidating (loan_status l)"
  shows "loan_inv (mutate_loans_by_account who (\<lambda>v. v @ [NextLoanId s]) (t\<lparr>Loans := lm_insert (NextLoanId s) l (Loans t)\<rparr>))"
proof -
  have "NextLoanId s < NextLoanId s + 1"
    using assms(2) by (rule word_less_plus_1)
  then have "book_ok (lm_insert (NextLoanId s) l (Loans s))
      ((LoansByAccount s)(who \<mapsto> loans_of (LoansByAccount s) who @ [NextLoanId s]))
      (get_liquidating_loans s) (NextLoanId s + 1)"
    using assms by (intro book_ok_insert) (simp_all add: loan_inv_def book_wf_def)
  then show ?thesis
    using assms(3-7)
    by (simp add: loan_inv_def book_wf_def mutate_loans_by_account_def loans_of_get get_liquidating_loans_def)
qed

lemma loan_inv_bump_id: "loan_inv s \<Longrightarrow> NextLoanId s + 1 \<noteq> 0 \<Longrightarrow> loan_inv (s\<lparr>NextLoanId := NextLoanId s + 1\<rparr>)"
  using book_ok_weaken [of "Loans s" "LoansByAccount s" "get_liquidating_loans s" "NextLoanId s" "NextLoanId s + 1"]
    word_less_plus_1 [of "NextLoanId s"]
  by (auto simp: loan_inv_def book_wf_def get_liquidating_loans_def)

text \<open>The part of \<open>apply_for_loan\<close> that runs once the amounts are agreed.\<close>

definition open_loan ::
    "account_id \<Rightarrow> balance \<Rightarrow> collateral_loan \<Rightarrow> 'a loan_state_scheme \<Rightarrow> (unit, 'a loan_state_scheme) dispatch" where
  "open_loan who n cl s =
     and_then (make_transfer_with_event (CollateralAssetId s) who (PawnShop s) (cl_collateral_amount cl) s) (\<lambda>_ t.
     div_then n (ucast (collateral_price s)) (\<lambda>used.
       let l = \<lparr>loan_id = NextLoanId s, loan_who = who,
                collateral_balance_original = cl_collateral_amount cl,
                collateral_balance_available = cl_collateral_amount cl - used,
                loan_balance_total = cl_loan_amount cl, loan_status = Well\<rparr>
       in and_then (make_transfer_with_event (CollectionAssetId s) (CollectionAccountId s) who n
                      (t\<lparr>NextLoanId := NextLoanId s + 1\<rparr>)) (\<lambda>_ t.
            let t = mutate_loans_by_account who (\<lambda>v. v @ [NextLoanId s])
                      (t\<lparr>Loans := lm_insert (NextLoanId s) l (Loans t)\<rparr>)
            in Done () (deposit_loan_event (LoanCreated l)
                 (t\<lparr>TotalLoan := TotalLoan s + cl_loan_amount cl,
                   TotalCollateral := TotalCollateral s + cl_collateral_amount cl\<rparr>)))))"

lemma mutate_loans_by_account_fields [simp]:
  "TotalLoan (mutate_loans_by_account who f s) = TotalLoan s"
  "TotalCollateral (mutate_loans_by_account who f s) = TotalCollateral s"
  "Loans (mutate_loans_by_account who f s) = Loans s"
  "NextLoanId (mutate_loans_by_account who f s) = NextLoanId s"
  "LiquidatingLoans (mutate_loans_by_account who f s) = LiquidatingLoans s"
  "free_balance aid w (mutate_loans_by_account who f s) = free_balance aid w s"
  "ga_inv (mutate_loans_by_account who f s) = ga_inv s"
  by (simp_all add: mutate_loans_by_account_def)

lemma apply_for_loan_eq:
  "apply_for_loan who c n s =
     (if \<not> n \<le> free_balance (CollectionAssetId s) (CollectionAccountId s) s then Fail (Other ''Not enough to loan'') s
      else if LoanCap s \<noteq> None \<and> the (LoanCap s) \<le> TotalLoan s then Fail (LoanError ReachLoanCap) s
      else case get_collateral_loan c n s of
             Fail e _ \<Rightarrow> Fail e s
           | Panic \<Rightarrow> Panic
           | Done cl _ \<Rightarrow> if \<not> MinimumCollateral s \<le> c then Fail (Other ''not reach min collateral amount'') s
                        else open_loan who n cl s)"
proof (cases "get_collateral_loan c n s")
  case (Done cl t)
  then have "t = s" by (rule get_collateral_loan_pure)
  with Done show ?thesis
    by (simp add: apply_for_loan_def open_loan_def get_next_loan_id_def make_transfer_with_event_eq
        Let_def exec_defs)
next
  case (Fail e t)
  then have "t = s" by (rule get_collateral_loan_pure)
  with Fail show ?thesis by (simp add: apply_for_loan_def Let_def exec_defs)
qed (simp add: apply_for_loan_def Let_def exec_defs)

lemma loan_inv_open_loan [keeps_intros]:
  assumes inv: "loan_inv s" and room: "NextLoanId s + 1 \<noteq> 0"
  shows "keeps loan_inv (open_loan who n cl s)"
proof (cases "cl_collateral_amount cl \<le> free_balance (CollateralAssetId s) who s")
  case True
  let ?m = "moved (CollateralAssetId s) who (PawnShop s) (cl_collateral_amount cl) s"
  let ?t = "?m\<lparr>NextLoanId := NextLoanId s + 1\<rparr>"
  have taken: "loan_inv ?t"
    using loan_inv_bump_id [of ?m] inv room True by (simp add: loan_inv_def ga_inv_moved)
  let ?u = "moved (CollectionAssetId s) (CollectionAccountId s) who n ?t"
  have "loan_inv (mutate_loans_by_account who (\<lambda>v. v @ [NextLoanId s])
          (?u\<lparr>Loans := lm_insert (NextLoanId s) l (Loans s)\<rparr>))"
    if "n \<le> free_balance (CollectionAssetId s) (CollectionAccountId s) ?t"
      "loan_id l = NextLoanId s" "loan_who l = who" "loan_status l = Well" for l
  proof -
    have "ga_inv ?u" using taken that(1) by (intro ga_inv_moved) (simp_all add: loan_inv_def)
    from loan_inv_new_loan [OF inv room this, of l who] that show ?thesis by simp
  qed
  with taken True show ?thesis
    by (auto simp: open_loan_def make_transfer_with_event_eq Let_def intro!: keeps_intros)
next
  case False
  then show ?thesis using inv by (simp add: open_loan_def make_transfer_with_event_eq)
qed

lemma loan_inv_apply_for_loan [keeps_intros]:
  assumes inv: "loan_inv s" and room: "NextLoanId s + 1 \<noteq> 0"
  shows "keeps loan_inv (apply_for_loan who c n s)"
  using inv loan_inv_open_loan [OF assms]
  by (auto simp: apply_for_loan_eq split: outcome.split)

text \<open>Writes to the loan book commute with transfers.\<close>

lemma moved_commutes:
  "moved a f t n (s\<lparr>LoansByAccount := x\<rparr>) = (moved a f t n s)\<lparr>LoansByAccount := x\<rparr>"
  "moved a f t n (s\<lparr>Loans := y\<rparr>) = (moved a f t n s)\<lparr>Loans := y\<rparr>"
  "moved a f t n (s\<lparr>TotalLoan := z\<rparr>) = (moved a f t n s)\<lparr>TotalLoan := z\<rparr>"
  "moved a f t n (s\<lparr>TotalCollateral := z\<rparr>) = (moved a f t n s)\<lparr>TotalCollateral := z\<rparr>"
  by (simp_all add: moved_def deposit_ga_event_def set_free_balance_def free_balance_def)

lemma moved_mutate_loans:
  "moved a f t n (mutate_loans_by_account who g s) = mutate_loans_by_account who g (moved a f t n s)"
  by (simp add: mutate_loans_by_account_def moved_commutes)

lemma mutate_loans_by_account_more [simp]:
  "LoanAssetId (mutate_loans_by_account who f s) = LoanAssetId s"
  "CollateralAssetId (mutate_loans_by_account who f s) = CollateralAssetId s"
  "CollectionAccountId (mutate_loans_by_account who f s) = CollectionAccountId s"
  "PawnShop (mutate_loans_by_account who f s) = PawnShop s"
  by (simp_all add: mutate_loans_by_account_def)

lemma loans_after_relist:
  assumes "loan_inv s" and "map_of (Loans s) lid = Some l"
  shows "loan_inv (s\<lparr>Loans := lm_insert lid l (Loans s),
      LoansByAccount := (LoansByAccount s)(loan_who l \<mapsto>
        filter (\<lambda>ele. ele \<noteq> lid) (loans_of (LoansByAccount s) (loan_who l)) @ [lid])\<rparr>)"
  using assms book_ok_relist [OF _ assms(2)]
  by (simp add: loan_inv_def book_wf_def get_liquidating_loans_def)

text \<open>
  The three ways out of a repayment: one of the checks fails, the collateral cannot be handed
  back, or the loan is closed.  The first of the two transfers was checked before.
\<close>

definition closed_loan :: "account_id \<Rightarrow> loan \<Rightarrow> 'a loan_state_scheme \<Rightarrow> 'a loan_state_scheme" where
  "closed_loan who l s =
     (let s = mutate_loans_by_account who (filter (\<lambda>ele. ele \<noteq> loan_id l)) s;
          s = moved (LoanAssetId s) who (CollectionAccountId s) (loan_balance_total l) s;
          s = moved (CollateralAssetId s) (PawnShop s) who (collateral_balance_original l) s
      in deposit_loan_event (LoanRepaid (loan_id l) (loan_balance_total l) (collateral_balance_available l))
           (s\<lparr>Loans := lm_remove (loan_id l) (Loans s),
             TotalLoan := TotalLoan s - loan_balance_total l,
             TotalCollateral := TotalCollateral s - collateral_balance_original l\<rparr>))"

definition failed_repay :: "account_id \<Rightarrow> loan \<Rightarrow> 'a loan_state_scheme \<Rightarrow> (unit, 'a loan_state_scheme) dispatch" where
  "failed_repay who l s =
     (let s = mutate_loans_by_account who (filter (\<lambda>ele. ele \<noteq> loan_id l)) s;
          s = moved (LoanAssetId s) who (CollectionAccountId s) (loan_balance_total l) s
      in and_then (make_transfer_with_event (LoanAssetId s) (CollectionAccountId s) who (loan_balance_total l)
                     (revert_repay who l s))
           (\<lambda>_ s. Fail (GaError InsufficientBalance) s))"

definition repay_checks :: "account_id \<Rightarrow> loan_no \<Rightarrow> 'a loan_state_scheme \<Rightarrow> dispatch_error option" where
  "repay_checks who lid s =
     (let l = get_loan_by_id lid s in
      if \<not> lm_contains (Loans s) lid then Some (Other ''invalid loan id'')
      else if loan_who l \<noteq> who then Some (Other ''not owner of the loan'')
      else if \<not> loan_balance_total l \<le> free_balance (LoanAssetId s) who s then Some (Other ''not enough asset to repay'')
      else if \<not> collateral_balance_available l \<le> free_balance (CollateralAssetId s) (PawnShop s) s
        then Some (Other ''not enough collateral asset in shop'')
      else if check_loan_in_liquidation lid s then Some (Other ''loan is in liquidation'')
      else None)"

lemma repay_for_loan_eq:
  assumes ids: "lm_contains (Loans s) lid \<Longrightarrow> loan_id (get_loan_by_id lid s) = lid"
  shows "repay_for_loan who lid s =
     (case repay_checks who lid s of
        Some e \<Rightarrow> Fail e s
      | None \<Rightarrow>
          let l = get_loan_by_id lid s in
          if collateral_balance_original l
               \<le> free_balance (CollateralAssetId s) (PawnShop s)
                   (moved (LoanAssetId s) who (CollectionAccountId s) (loan_balance_total l) s)
          then Done () (closed_loan who l s)
          else failed_repay who l s)"
  using ids
  by (auto simp: repay_for_loan_def repay_checks_def Let_def ensure_def get_loan_by_id_def
      closed_loan_def failed_repay_def make_transfer_with_event_eq moved_mutate_loans)

lemma map_of_get_loan: "lm_contains (Loans s) lid \<Longrightarrow> map_of (Loans s) lid = Some (get_loan_by_id lid s)"
  by (simp add: get_loan_by_id_def map_of_lm_get)

lemma loan_inv_ids:
  assumes "loan_inv s" and "lm_contains (Loans s) lid"
  shows "loan_id (get_loan_by_id lid s) = lid"
  using assms book_okD(1) [OF _ map_of_get_loan [OF assms(2)]]
  by (auto simp: loan_inv_def book_wf_def)

lemma repay_checks_None:
  assumes "repay_checks who lid s = None"
  shows "lm_contains (Loans s) lid" "loan_who (get_loan_by_id lid s) = who"
    "loan_balance_total (get_loan_by_id lid s) \<le> free_balance (LoanAssetId s) who s"
    "collateral_balance_available (get_loan_by_id lid s) \<le> free_balance (CollateralAssetId s) (PawnShop s) s"
    "lid \<notin> set (get_liquidating_loans s)"
  using assms by (auto simp: repay_checks_def Let_def check_loan_in_liquidation_def split: if_splits)

lemma loan_inv_closed_loan:
  assumes inv: "loan_inv s" and ok: "repay_checks who lid s = None" and l: "l = get_loan_by_id lid s"
    and shop: "collateral_balance_original l
               \<le> free_balance (CollateralAssetId s) (PawnShop s)
                   (moved (LoanAssetId s) who (CollectionAccountId s) (loan_balance_total l) s)"
  shows "loan_inv (closed_loan who l s)"
proof -
  have lid: "loan_id l = lid" and present: "map_of (Loans s) lid = Some l"
    using loan_inv_ids [OF inv repay_checks_None(1) [OF ok]] map_of_get_loan [OF repay_checks_None(1) [OF ok]]
    by (simp_all add: l)
  let ?m = "moved (LoanAssetId s) who (CollectionAccountId s) (loan_balance_total l) s"
  let ?m2 = "moved (CollateralAssetId s) (PawnShop s) who (collateral_balance_original l) ?m"
  have "ga_inv ?m"
    using inv repay_checks_None(3) [OF ok] by (simp add: loan_inv_def l ga_inv_moved)
  then have ga: "ga_inv ?m2"
    using shop by (rule ga_inv_moved)
  have "book_ok (lm_remove lid (Loans s))
      ((LoansByAccount s)(who \<mapsto> filter (\<lambda>ele. ele \<noteq> lid) (loans_of (LoansByAccount s) who)))
      (get_liquidating_loans s) (NextLoanId s)"
    using book_ok_remove_healthy [OF _ present repay_checks_None(5) [OF ok]] inv repay_checks_None(2) [OF ok]
    by (simp add: loan_inv_def book_wf_def l)
  with ga show ?thesis
    by (simp add: closed_loan_def Let_def lid moved_commutes loan_inv_def book_wf_def
        mutate_loans_by_account_def loans_of_get get_liquidating_loans_def deposit_loan_event_def)
qed

lemma loan_inv_revert_repay:
  assumes inv: "loan_inv s" and ok: "repay_checks who lid s = None" and l: "l = get_loan_by_id lid s"
  shows "loan_inv (revert_repay who l
    (moved (LoanAssetId s) who (CollectionAccountId s) (loan_balance_total l)
      (mutate_loans_by_account who (filter (\<lambda>ele. ele \<noteq> lid)) s)))"
proof -
  have lid: "loan_id l = lid" and present: "map_of (Loans s) lid = Some l"
    using loan_inv_ids [OF inv repay_checks_None(1) [OF ok]] map_of_get_loan [OF repay_checks_None(1) [OF ok]]
    by (simp_all add: l)
  let ?m = "moved (LoanAssetId s) who (CollectionAccountId s) (loan_balance_total l) s"
  have "loan_inv ?m"
    using inv repay_checks_None(3) [OF ok] by (simp add: loan_inv_def l ga_inv_moved)
  from loans_after_relist [OF this, of lid l] present repay_checks_None(2) [OF ok]
  show ?thesis
    by (simp add: revert_repay_def Let_def lid lid [unfolded l] moved_commutes mutate_loans_by_account_def
        loans_of_get l loans_of_upd)
qed

lemma loan_inv_repay_for_loan [keeps_intros]:
  assumes inv: "loan_inv s"
  shows "keeps loan_inv (repay_for_loan who lid s)"
proof (cases "repay_checks who lid s")
  case None
  let ?l = "get_loan_by_id lid s"
  have lid: "loan_id ?l = lid"
    using loan_inv_ids [OF inv repay_checks_None(1) [OF None]] .
  have "keeps loan_inv (failed_repay who ?l s)"
    unfolding failed_repay_def Let_def lid
    by (auto intro!: keeps_intros loan_inv_revert_repay [OF inv None refl])
  with None show ?thesis
    using loan_inv_closed_loan [OF inv None refl]
    by (simp add: repay_for_loan_eq loan_inv_ids [OF inv] Let_def)
qed (simp add: repay_for_loan_eq loan_inv_ids [OF inv] inv)

lemma loan_inv_moved: "loan_inv s \<Longrightarrow> n \<le> free_balance a f s \<Longrightarrow> loan_inv (moved a f t n s)"
  by (simp add: loan_inv_def ga_inv_moved)

lemma loan_inv_add_loan_collateral [keeps_intros]:
  "loan_inv s \<Longrightarrow> lm_contains (Loans s) (loan_id l) \<Longrightarrow> keeps loan_inv (add_loan_collateral l w n s)"
  unfolding add_loan_collateral_def Let_def
  by (auto simp: make_transfer_with_event_eq intro!: keeps_ensure loan_inv_mutate_loan loan_inv_moved)

lemma loan_inv_draw_from_loan [keeps_intros]: "loan_inv s \<Longrightarrow> keeps loan_inv (draw_from_loan who lid n s)"
  unfolding draw_from_loan_def Let_def
  by (auto intro!: keeps_intros loan_inv_mutate_loan)

text \<open>A loan that was in liquidation leaves the book.\<close>

lemma loan_inv_after_liquidation:
  assumes inv: "loan_inv s" and present: "map_of (Loans s) lid = Some l"
  shows "loan_inv (mutate_loans_by_account (loan_who l) (filter (\<lambda>ele. ele \<noteq> lid))
      (s\<lparr>Loans := lm_remove lid (Loans s)\<rparr>)
      \<lparr>LiquidatingLoans := Some (filter (\<lambda>ele. ele \<noteq> lid) (get_liquidating_loans s))\<rparr>)"
  using inv book_ok_remove [OF _ present]
  by (simp add: loan_inv_def book_wf_def mutate_loans_by_account_def loans_of_get get_liquidating_loans_def)

lemma get_liquidating_loans_frame [simp]:
  "get_liquidating_loans (mutate_loans_by_account who f s) = get_liquidating_loans s"
  "get_liquidating_loans (s\<lparr>Loans := x\<rparr>) = get_liquidating_loans s"
  by (simp_all add: get_liquidating_loans_def)

lemma loan_inv_mark_loan_liquidated [keeps_intros]:
  assumes inv: "loan_inv s" and present: "map_of (Loans s) lid = Some l"
  shows "keeps loan_inv (mark_loan_liquidated l w n s)"
proof -
  let ?P = "\<lambda>s. loan_inv s \<and> map_of (Loans s) (loan_id l) = Some l"
  have transfer: "?P s \<Longrightarrow> keeps ?P (make_transfer_with_event a f t m s)" for a f t m and s :: "'a loan_state_scheme"
    by (simp add: make_transfer_with_event_eq loan_inv_def ga_inv_moved)
  have start: "?P s"
    using inv present book_okD(1) [OF _ present] by (auto simp: loan_inv_def book_wf_def)
  have finish: "keeps ?P r \<Longrightarrow> (\<And>s. ?P s \<Longrightarrow> keeps loan_inv (k s)) \<Longrightarrow> keeps loan_inv (and_then r (\<lambda>_ s. k s))"
    for r :: "(unit, 'a loan_state_scheme) dispatch" and k :: "'a loan_state_scheme \<Rightarrow> (unit, 'a loan_state_scheme) dispatch"
    by (cases r) auto
  show ?thesis
    unfolding mark_loan_liquidated_def Let_def
    by (intro keeps_ensure inv finish transfer start)
      (auto split: option.split intro!: keeps_intros transfer loan_inv_after_liquidation)
qed

text \<open>Every call keeps the invariant; opening a loan needs a number to give to it.\<close>

lemmas admin_defs = pause_def resume_def set_collection_asset_id_def set_collection_account_def
  set_collateral_asset_id_def set_global_ltv_limit_def set_loan_asset_id_def
  set_global_liquidation_threshold_def set_global_warning_threshold_def set_loan_cap_def
  set_liquidation_account_def set_profit_asset_id_def set_profit_pool_def set_penalty_rate_def

lemmas user_defs = staking_def sudo_staking_def redeem_def sudo_redeem_def apply_loan_def repay_loan_def
  mark_liquidated_def add_collateral_def draw_def

lemma loan_inv_mark_stored_loan:
  "loan_inv s \<Longrightarrow> lm_contains (Loans s) lid \<Longrightarrow> keeps loan_inv (mark_loan_liquidated (get_loan_by_id lid s) w n s)"
  by (rule loan_inv_mark_loan_liquidated [OF _ map_of_get_loan])

lemma loan_inv_dispatch [keeps_intros]:
  assumes inv: "loan_inv s" and room: "NextLoanId s + 1 \<noteq> 0"
  shows "keeps loan_inv (loan_dispatch orig c s)"
proof -
  have signed: "keeps loan_inv (k who s) \<Longrightarrow> orig = Signed who \<Longrightarrow> keeps loan_inv (and_then (ensure_signed orig s) k)"
    for k :: "account_id \<Rightarrow> 'a loan_state_scheme \<Rightarrow> (unit, 'a loan_state_scheme) dispatch" and who
    by simp
  show ?thesis
    using inv room
    by (cases c; cases orig)
      (auto simp: admin_defs user_defs Let_def ensure_root_and_then loan_inv_ids
        intro!: keeps_ensure loan_inv_create_staking loan_inv_make_redeem loan_inv_apply_for_loan
          loan_inv_repay_for_loan loan_inv_mark_stored_loan loan_inv_add_loan_collateral loan_inv_draw_from_loan)
qed

section \<open>The hooks\<close>

lemma loan_inv_liquidate_loan: "loan_inv s \<Longrightarrow> lm_contains (Loans s) lid \<Longrightarrow> loan_inv (liquidate_loan lid v s)"
  using book_ok_liquidate [of "Loans s" "LoansByAccount s" "get_liquidating_loans s" "NextLoanId s" lid v]
  by (auto simp: loan_inv_def book_wf_def liquidate_loan_def mutate_loan_def get_liquidating_loans_def Let_def
      split: option.splits)

lemma check_one_loan_present:
  assumes inv: "loan_inv s" and present: "lm_contains (Loans s) lid"
  shows "keeps loan_inv (check_one_loan p lt wt lid s)"
proof (cases "check_loan_in_liquidation lid s")
  case False
  have healthy: "\<not> is_liquidating (loan_status (get_loan_by_id lid s))"
    using False inv book_okD(6) [OF _ map_of_get_loan [OF present]]
    by (auto simp: loan_inv_def book_wf_def check_loan_in_liquidation_def)
  have warned: "loan_inv (mutate_loan lid (\<lambda>w. w\<lparr>loan_status := Warning v\<rparr>) s)" for v
  proof -
    have "mutate_loan lid (\<lambda>w. w\<lparr>loan_status := Warning v\<rparr>) s
        = mutate_loan lid (\<lambda>w. if is_liquidating (loan_status w) then w else w\<lparr>loan_status := Warning v\<rparr>) s"
      using healthy by (simp add: mutate_loan_def lm_mutate_def get_loan_by_id_def)
    also have "loan_inv \<dots>" by (rule loan_inv_mutate_loan [OF inv present]) simp
    finally show ?thesis .
  qed
  show ?thesis
    using False inv present warned
    by (auto simp: check_one_loan_def Let_def loan_inv_ids loan_inv_liquidate_loan
        intro!: keeps_unwrap_then split: loan_health.split)
qed (simp add: check_one_loan_def inv Let_def)

lemma loans_after_event [simp]: "Loans (deposit_loan_event ev s) = Loans s"
  by (simp add: deposit_loan_event_def)

lemma loans_after_liquidate [simp]:
  "Loans (liquidate_loan lid v s) = lm_mutate default_loan lid (\<lambda>l. l\<lparr>loan_status := Liquidating v\<rparr>) (Loans s)"
  by (simp add: liquidate_loan_def mutate_loan_def Let_def split: option.split)

lemma contains_check_one_loan:
  assumes "check_one_loan p lt wt lid s = Done u t" and "lm_contains (Loans s) lid"
    and "loan_id (get_loan_by_id lid s) = lid"
  shows "lm_contains (Loans t) k \<longleftrightarrow> lm_contains (Loans s) k"
proof (cases "check_loan_health (get_loan_by_id lid s) p lt wt")
  case None
  then show ?thesis using assms by (simp add: check_one_loan_def Let_def split: if_splits)
next
  case (Some health)
  then show ?thesis
    using assms by (cases health) (auto simp: check_one_loan_def Let_def split: if_splits)
qed

lemma loan_inv_on_each_block [keeps_intros]:
  assumes inv: "loan_inv s"
  shows "keeps loan_inv (on_each_block h s)"
proof -
  let ?ks = "lm_keys (Loans s)"
  let ?P = "\<lambda>t. loan_inv t \<and> (\<forall>k\<in>set ?ks. lm_contains (Loans t) k)"
  have "keeps ?P (check_one_loan p lt wt k t)" if "k \<in> set ?ks" "?P t" for p lt wt k and t :: "'a loan_state_scheme"
  proof (cases "check_one_loan p lt wt k t")
    case (Done u t')
    then show ?thesis
      using that check_one_loan_present [of t k p lt wt] contains_check_one_loan [OF Done] loan_inv_ids [of t k]
      by auto
  next
    case (Fail e t')
    then show ?thesis
      by (auto simp: check_one_loan_def Let_def unwrap_then_def split: if_splits option.splits loan_health.splits)
  qed simp
  then have "keeps ?P (on_each_block h s)"
    using inv unfolding on_each_block_def Let_def
    by (intro keeps_for_each) (auto simp: lm_contains_iff)
  then show ?thesis by (rule keeps_mono) simp
qed

lemma loan_inv_charge_interest [keeps_intros]: "loan_inv s \<Longrightarrow> keeps loan_inv (charge_interest aid acct i n lid s)"
  unfolding charge_interest_def Let_def by (auto intro!: keeps_intros)

lemma loan_inv_calculate [keeps_intros]: "loan_inv s \<Longrightarrow> keeps loan_inv (calculate_loan_interest_rate s)"
  unfolding calculate_loan_interest_rate_def Let_def by (auto intro!: keeps_intros)

lemma loan_inv_on_initialize [keeps_intros]: "loan_inv s \<Longrightarrow> keeps loan_inv (loan_on_initialize h s)"
  unfolding loan_on_initialize_def by (auto intro!: keeps_intros)

end
