(* ===== verification/Loan_Properties.thy ===== *)
theory Loan_Properties
  imports Loan_Book
begin

text \<open>
  The properties of the deposit-and-loan pallet: what its calls and its hooks keep, the
  bookkeeping of loans from their opening to their repayment or liquidation, the health of
  loans, the interest, and the savings.
\<close>

section \<open>A concrete state\<close>

text \<open>
  DUSD is asset 0, collected and lent from account 10; BTC is asset 1, pawned at account 11; the
  loan-to-value ratios are scaled by \<open>LTV_PREC\<close> and one BTC costs 2 DUSD.  The borrower 3
  holds 10000 BTC, the pallet a million DUSD.
\<close>

definition demo_loans :: loan_state where
  "demo_loans =
     \<lparr>SudoKey = 1, BlockNumber = 1, ExtrinsicIndex = Some 0, Now = 1000,
      TotalIssuance = [0 \<mapsto> 1000000, 1 \<mapsto> 10000],
      FreeBalance = [(0, 10) \<mapsto> 1000000, (1, 3) \<mapsto> 10000],
      ReservedBalance = Map.empty, Symbols = [0 \<mapsto> ''DUSD'', 1 \<mapsto> ''BTC''], NextAssetId = 2,
      Permissions = Map.empty, NextLockId = 1, Locks = Map.empty, GaEvents = [],
      CryptoPriceSources = [], PriceCandidates = [], CurrentPrice = [(''BTC'', 20000)],
      NextAggregateAt = 0,
      Paused = False, CollectionAssetId = 0, CollectionAccountId = 10, UserDtoken = [],
      MarketDtoken = 0, TotalDtoken = 0, BonusTime = 0, LoanInterestRateCurrent = 0,
      ProfitAssetId = 0, ProfitPool = 12, PawnShop = 11, CollateralAssetId = 1, LoanAssetId = 0,
      GlobalLTVLimit = 6667, GlobalLiquidationThreshold = 9000, GlobalWarningThreshold = 8000,
      NextLoanId = 0, Loans = [], LoansByAccount = Map.empty, TotalLoan = 0, TotalCollateral = 0,
      PenaltyRate = 50, LiquidationAccount = 13, LiquidatingLoans = None, LoanCap = None,
      MinimumCollateral = 0, LiquidationPenalty = 13, SavingInterestRate = 0, LoanEvents = []\<rparr>"

lemma demo_loans_config [simp]:
  "Paused demo_loans = False"
  "CollectionAssetId demo_loans = 0"
  "CollectionAccountId demo_loans = 10"
  "UserDtoken demo_loans = []"
  "MarketDtoken demo_loans = 0"
  "TotalDtoken demo_loans = 0"
  "PawnShop demo_loans = 11"
  "CollateralAssetId demo_loans = 1"
  "LoanAssetId demo_loans = 0"
  "GlobalLTVLimit demo_loans = 6667"
  "GlobalLiquidationThreshold demo_loans = 9000"
  "GlobalWarningThreshold demo_loans = 8000"
  by (simp_all add: demo_loans_def)

lemma demo_loans_book [simp]:
  "NextLoanId demo_loans = 0"
  "Loans demo_loans = []"
  "LoansByAccount demo_loans = Map.empty"
  "TotalLoan demo_loans = 0"
  "TotalCollateral demo_loans = 0"
  "LiquidationAccount demo_loans = 13"
  "LiquidatingLoans demo_loans = None"
  "LoanCap demo_loans = None"
  "MinimumCollateral demo_loans = 0"
  "LiquidationPenalty demo_loans = 13"
  "ProfitPool demo_loans = 12"
  "Now demo_loans = 1000"
  by (simp_all add: demo_loans_def)

lemma demo_loans_assets [simp]:
  "Symbols demo_loans = [0 \<mapsto> ''DUSD'', 1 \<mapsto> ''BTC'']"
  "CurrentPrice demo_loans = [(''BTC'', 20000)]"
  "BonusTime demo_loans = 0"
  "TotalIssuance demo_loans = [0 \<mapsto> 1000000, 1 \<mapsto> 10000]"
  "FreeBalance demo_loans = [(0, 10) \<mapsto> 1000000, (1, 3) \<mapsto> 10000]"
  "ReservedBalance demo_loans = Map.empty"
  "NextAssetId demo_loans = 2"
  "Permissions demo_loans = Map.empty"
  by (simp_all add: demo_loans_def)

lemma demo_loans_reads:
  "free_balance aid who demo_loans = (if aid = 1 \<and> who = 3 then 10000 else if aid = 0 \<and> who = 10 then 1000000 else 0)"
  "reserved_balance aid who demo_loans = 0"
  "total_issuance aid demo_loans = (if aid = 1 then 10000 else if aid = 0 then 1000000 else 0)"
  by (simp_all add: free_balance_def reserved_balance_def total_issuance_def)

lemma demo_price [simp]: "collateral_price demo_loans = 20000"
  by (simp add: collateral_price_def symbols_def current_price_def lm_get_def get_or_def)

lemma demo_loans_inv: "loan_inv demo_loans"
proof -
  have "holdings aid who demo_loans =
      (if who = (if aid = 1 then 3 else 10) then unat (total_issuance aid demo_loans) else 0)" for aid who
    by (simp add: holdings_def demo_loans_reads)
  then have "all_holdings aid demo_loans = unat (total_issuance aid demo_loans)" for aid
    by (simp add: all_holdings_def)
  moreover have "unused_id aid demo_loans" if "2 \<le> aid" for aid
    using that by (auto simp: unused_id_def word_le_nat_alt)
  ultimately have "ga_inv demo_loans"
    by (simp add: ga_inv_def solvent_def)
  moreover have "book_wf demo_loans"
    by (simp add: book_wf_def book_ok_def get_liquidating_loans_def loans_of_def owner_in_def in_liquidation_def)
  ultimately show ?thesis by (simp add: loan_inv_def)
qed

lemma demo_totals: "totals_match demo_loans"
  by (simp add: totals_match_def)

section \<open>The invariant of the pallet\<close>

text \<open>Whatever a call or a block hook of the pallet returns, success or error, the storage
  it leaves keeps both the conservation of every asset and the well-formedness of the loan book: each
  loan under its own id below the next one, listed exactly once under its owner, and marked as
  liquidating exactly when it is in the list of liquidating loans.  Opening a loan needs a loan
  id to be left.\<close>

theorem loan_pallet_keeps_invariant:
  assumes "ga_inv s" and "book_wf s" and "NextLoanId s + 1 \<noteq> 0"
  shows "keeps (\<lambda>s. ga_inv s \<and> book_wf s) (loan_dispatch orig c s)
    \<and> keeps (\<lambda>s. ga_inv s \<and> book_wf s) (loan_on_initialize h s)"
  using loan_inv_dispatch [of s orig c] loan_inv_on_initialize [of s h] assms
  unfolding loan_inv_def [abs_def] by simp

lemma loan_pallet_keeps_invariant_witness:
  "keeps (\<lambda>s. ga_inv s \<and> book_wf s) (loan_dispatch (Signed 3) (Call_apply_loan 1000 800) demo_loans)
   \<and> keeps (\<lambda>s. ga_inv s \<and> book_wf s) (loan_on_initialize 1 demo_loans)"
  using loan_pallet_keeps_invariant [of demo_loans "Signed 3" "Call_apply_loan 1000 800" 1] demo_loans_inv
  by (simp add: loan_inv_def del: loan_dispatch.simps)

section \<open>The totals of the book\<close>

text \<open>What a successful opening of a loan leaves.\<close>

definition new_loan :: "account_id \<Rightarrow> balance \<Rightarrow> collateral_loan \<Rightarrow> 'a loan_state_scheme \<Rightarrow> loan" where
  "new_loan who n cl s =
     \<lparr>loan_id = NextLoanId s, loan_who = who, collateral_balance_original = cl_collateral_amount cl,
      collateral_balance_available = cl_collateral_amount cl - n div ucast (collateral_price s),
      loan_balance_total = cl_loan_amount cl, loan_status = Well\<rparr>"

definition pledged :: "account_id \<Rightarrow> balance \<Rightarrow> 'a loan_state_scheme \<Rightarrow> 'a loan_state_scheme" where
  "pledged who c s = moved (CollateralAssetId s) who (PawnShop s) c s"

definition opened :: "account_id \<Rightarrow> balance \<Rightarrow> collateral_loan \<Rightarrow> 'a loan_state_scheme \<Rightarrow> 'a loan_state_scheme" where
  "opened who n cl s =
     (let l = new_loan who n cl s;
          t = moved (CollectionAssetId s) (CollectionAccountId s) who n
                ((pledged who (cl_collateral_amount cl) s)\<lparr>NextLoanId := NextLoanId s + 1\<rparr>)
      in deposit_loan_event (LoanCreated l)
           ((mutate_loans_by_account who (\<lambda>v. v @ [NextLoanId s])
              (t\<lparr>Loans := lm_insert (NextLoanId s) l (Loans s)\<rparr>))
            \<lparr>TotalLoan := TotalLoan s + cl_loan_amount cl,
             TotalCollateral := TotalCollateral s + cl_collateral_amount cl\<rparr>))"

lemma unat_ucast_64 [simp]: "unat (ucast (x :: 64 word) :: balance) = unat x"
proof -
  have "unat x < 2 ^ 128" using unat_less_2p [of x] by simp
  then show ?thesis by (simp add: unsigned_ucast_eq take_bit_eq_mod)
qed

lemma ucast_price_0 [simp]: "(ucast (p :: 64 word) :: balance) = 0 \<longleftrightarrow> p = 0"
  by (simp add: word_unat_eq_iff)

lemma open_loan_Done_iff:
  "open_loan who n cl s = Done u s' \<longleftrightarrow>
     cl_collateral_amount cl \<le> free_balance (CollateralAssetId s) who s \<and> collateral_price s \<noteq> 0
     \<and> n \<le> free_balance (CollectionAssetId s) (CollectionAccountId s) (pledged who (cl_collateral_amount cl) s)
     \<and> s' = opened who n cl s"
  by (auto simp: open_loan_def opened_def new_loan_def pledged_def make_transfer_with_event_eq div_then_def
      mutate_loans_by_account_def Let_def)

lemma opened_fields [simp]:
  "Loans (opened who n cl s) = lm_insert (NextLoanId s) (new_loan who n cl s) (Loans s)"
  "TotalLoan (opened who n cl s) = TotalLoan s + cl_loan_amount cl"
  "TotalCollateral (opened who n cl s) = TotalCollateral s + cl_collateral_amount cl"
  "NextLoanId (opened who n cl s) = NextLoanId s + 1"
  by (simp_all add: opened_def deposit_loan_event_def mutate_loans_by_account_def Let_def pledged_def)

lemma apply_for_loan_Done_iff:
  "apply_for_loan who c n s = Done u s' \<longleftrightarrow>
     n \<le> free_balance (CollectionAssetId s) (CollectionAccountId s) s
     \<and> (LoanCap s = None \<or> TotalLoan s < the (LoanCap s)) \<and> MinimumCollateral s \<le> c
     \<and> (\<exists>cl. get_collateral_loan c n s = Done cl s \<and> open_loan who n cl s = Done u s')"
  using get_collateral_loan_pure [of c n s]
  by (auto simp: apply_for_loan_eq not_le split: outcome.splits)

lemma fresh_loan_id: "book_wf s \<Longrightarrow> map_of (Loans s) (NextLoanId s) = None"
  using book_okD(2) [of "Loans s" _ _ "NextLoanId s" "NextLoanId s"]
  by (cases "map_of (Loans s) (NextLoanId s)") (auto simp: book_wf_def)

lemma totals_opened: "book_wf s \<Longrightarrow> totals_match s \<Longrightarrow> totals_match (opened who n cl s)"
  by (simp add: totals_match_def new_loan_def add.commute lm.total_ins_fresh [OF fresh_loan_id, simplified])

text \<open>Replacing a stored loan.\<close>

lemma totals_mutate:
  assumes "lm_contains (Loans s) lid"
  shows "total_of g (map_of (Loans (mutate_loan lid f s)))
    = total_of g (map_of (Loans s)) + (g (f (get_loan_by_id lid s)) - g (get_loan_by_id lid s) :: balance)"
  using lm.total_ins_present [OF map_of_get_loan [OF assms], of g "f (get_loan_by_id lid s)"]
  by (simp add: mutate_loan_def lm_mutate_def get_loan_by_id_def algebra_simps)

text \<open>Most operations touch neither the loans nor their totals.\<close>

definition book_is :: "(loan_no, loan) linked_map \<times> balance \<times> balance \<Rightarrow> 'a loan_state_scheme \<Rightarrow> bool" where
  "book_is b s \<longleftrightarrow> (Loans s, TotalLoan s, TotalCollateral s) = b"

lemma book_is_transfer [keeps_intros]: "book_is b s \<Longrightarrow> keeps (book_is b) (make_transfer_with_event a f t n s)"
  by (simp add: make_transfer_with_event_eq book_is_def)

lemma book_is_savings [keeps_intros]:
  "book_is b s \<Longrightarrow> keeps (book_is b) (create_staking who aid n s)"
  "book_is b s \<Longrightarrow> keeps (book_is b) (make_redeem_all who s)"
  "book_is b s \<Longrightarrow> keeps (book_is b) (make_redeem who aid acct n s)"
proof -
  show staking: "book_is b s \<Longrightarrow> keeps (book_is b) (create_staking who aid n s)" for n s
    unfolding create_staking_def Let_def by (auto intro!: keeps_intros simp: book_is_def)
  show redeem: "book_is b s \<Longrightarrow> keeps (book_is b) (make_redeem_all who s)" for s
    unfolding make_redeem_all_def Let_def by (auto intro!: keeps_intros simp: book_is_def)
  show "book_is b s \<Longrightarrow> keeps (book_is b) (make_redeem who aid acct n s)"
    unfolding make_redeem_def Let_def by (auto intro!: keeps_intros staking redeem)
qed

lemma totals_book_is: "book_is (Loans s, TotalLoan s, TotalCollateral s) t \<Longrightarrow> totals_match t = totals_match s"
  by (simp add: book_is_def totals_match_def)

lemma book_is_self: "book_is (Loans s, TotalLoan s, TotalCollateral s) s"
  by (simp add: book_is_def)

lemma totals_apply:
  "book_wf s \<Longrightarrow> totals_match s \<Longrightarrow> apply_for_loan who c n s = Done u s' \<Longrightarrow> totals_match s'"
  by (auto simp: apply_for_loan_Done_iff open_loan_Done_iff totals_opened)

lemma repay_for_loan_Done_iff:
  assumes "loan_inv s"
  shows "repay_for_loan who lid s = Done u s' \<longleftrightarrow>
    repay_checks who lid s = None
    \<and> collateral_balance_original (get_loan_by_id lid s) \<le> free_balance (CollateralAssetId s) (PawnShop s)
         (moved (LoanAssetId s) who (CollectionAccountId s) (loan_balance_total (get_loan_by_id lid s)) s)
    \<and> s' = closed_loan who (get_loan_by_id lid s) s"
  by (auto simp: repay_for_loan_eq [OF loan_inv_ids [OF assms]] failed_repay_def Let_def and_then_Done_iff
      split: option.split)

lemma closed_loan_fields [simp]:
  "Loans (closed_loan who l s) = lm_remove (loan_id l) (Loans s)"
  "TotalLoan (closed_loan who l s) = TotalLoan s - loan_balance_total l"
  "TotalCollateral (closed_loan who l s) = TotalCollateral s - collateral_balance_original l"
  by (simp_all add: closed_loan_def deposit_loan_event_def Let_def)

lemma totals_repay:
  assumes inv: "loan_inv s" and tot: "totals_match s" and run: "repay_for_loan who lid s = Done u s'"
  shows "totals_match s'"
proof -
  let ?l = "get_loan_by_id lid s"
  have ok: "repay_checks who lid s = None" and s': "s' = closed_loan who ?l s"
    using run by (simp_all add: repay_for_loan_Done_iff [OF inv])
  have id: "loan_id ?l = lid" and present: "map_of (Loans s) lid = Some ?l"
    using loan_inv_ids [OF inv repay_checks_None(1) [OF ok]] map_of_get_loan [OF repay_checks_None(1) [OF ok]]
    by simp_all
  show ?thesis
    using tot lm.total_rem [OF present, of loan_balance_total] lm.total_rem [OF present, of collateral_balance_original]
    by (simp add: s' totals_match_def id)
qed

lemma totals_add_collateral:
  assumes "loan_inv s" and "totals_match s" and present: "lm_contains (Loans s) lid"
    and run: "add_loan_collateral (get_loan_by_id lid s) w n s = Done u s'"
  shows "totals_match s'"
proof -
  let ?m = "moved (CollectionAssetId s) w (PawnShop s) n s"
  let ?f = "\<lambda>l. l\<lparr>collateral_balance_original := collateral_balance_original l + n,
                collateral_balance_available := collateral_balance_available l + n\<rparr>"
  have id: "loan_id (get_loan_by_id lid s) = lid" using assms(1) present by (rule loan_inv_ids)
  have "lm_contains (Loans ?m) lid" using present by simp
  from totals_mutate [OF this, of loan_balance_total ?f] totals_mutate [OF this, of collateral_balance_original ?f]
  show ?thesis
    using run assms(2)
    by (auto simp: add_loan_collateral_def make_transfer_with_event_eq Let_def id totals_match_def
        deposit_loan_event_def mutate_loan_def ensure_def split: if_splits)
qed

lemma totals_draw:
  assumes "totals_match s" and run: "draw_from_loan who lid n s = Done u s'"
  shows "totals_match s'"
proof -
  have present: "lm_contains (Loans s) lid"
    using run by (simp add: draw_from_loan_def ensure_def split: if_splits)
  let ?f = "\<lambda>l. l\<lparr>loan_balance_total := loan_balance_total l + n\<rparr>"
  let ?t = "mutate_loan lid ?f s"
  let ?g = "\<lambda>l. l\<lparr>collateral_balance_available := collateral_balance_available l - n div low_u32 (collateral_price s)\<rparr>"
  have present2: "lm_contains (Loans ?t) lid" by simp
  show ?thesis
    using run assms(1) totals_mutate [OF present, of loan_balance_total ?f]
      totals_mutate [OF present, of collateral_balance_original ?f]
      totals_mutate [OF present2, of loan_balance_total ?g]
      totals_mutate [OF present2, of collateral_balance_original ?g]
    by (auto simp: draw_from_loan_def Let_def ensure_def div_then_def totals_match_def
        deposit_loan_event_def mutate_loan_def split: if_splits)
qed

lemma totals_savings:
  "totals_match s \<Longrightarrow> create_staking who aid n s = Done u s' \<Longrightarrow> totals_match s'"
  "totals_match s \<Longrightarrow> make_redeem who aid acct n s = Done u s' \<Longrightarrow> totals_match s'"
  using keepsD_Done [OF book_is_savings(1) [OF book_is_self]] keepsD_Done [OF book_is_savings(3) [OF book_is_self]]
    totals_book_is by blast+

lemma totals_ignore [simp]:
  "totals_match (s\<lparr>Paused := x_Paused\<rparr>) = totals_match s"
  "totals_match (s\<lparr>CollectionAssetId := x_CollectionAssetId\<rparr>) = totals_match s"
  "totals_match (s\<lparr>CollectionAccountId := x_CollectionAccountId\<rparr>) = totals_match s"
  "totals_match (s\<lparr>CollateralAssetId := x_CollateralAssetId\<rparr>) = totals_match s"
  "totals_match (s\<lparr>GlobalLTVLimit := x_GlobalLTVLimit\<rparr>) = totals_match s"
  "totals_match (s\<lparr>LoanAssetId := x_LoanAssetId\<rparr>) = totals_match s"
  "totals_match (s\<lparr>GlobalWarningThreshold := x_GlobalWarningThreshold\<rparr>) = totals_match s"
  "totals_match (s\<lparr>GlobalLiquidationThreshold := x_GlobalLiquidationThreshold\<rparr>) = totals_match s"
  "totals_match (s\<lparr>LoanCap := x_LoanCap\<rparr>) = totals_match s"
  "totals_match (s\<lparr>LiquidationAccount := x_LiquidationAccount\<rparr>) = totals_match s"
  "totals_match (s\<lparr>ProfitAssetId := x_ProfitAssetId\<rparr>) = totals_match s"
  "totals_match (s\<lparr>ProfitPool := x_ProfitPool\<rparr>) = totals_match s"
  "totals_match (s\<lparr>PenaltyRate := x_PenaltyRate\<rparr>) = totals_match s"
  by (simp_all add: totals_match_def)

text \<open>C19: The recorded total of all loans and the recorded total of all collateral stay equal to the
  sums over the loan book (modulo the width of a balance) on every successful call except the
  marking of a loan as liquidated.\<close>

theorem totals_follow_book:
  assumes "loan_inv s" and "totals_match s" and "loan_dispatch orig c s = Done u s'"
    and "\<And>lid n. c \<noteq> Call_mark_liquidated lid n"
  shows "totals_match s'"
  using assms(2-4)
  by (cases c)
    (auto simp: admin_defs user_defs Let_def Done_iffs origin_Done_iffs
      dest: totals_savings [OF assms(2)] totals_apply [OF loan_invD(2) [OF assms(1)] assms(2)]
        totals_repay [OF assms(1,2)] totals_add_collateral [OF assms(1,2)] totals_draw [OF assms(2)]
      split: if_splits)

text \<open>The demonstration loan: 1000 BTC pledged for 800 DUSD.\<close>

definition demo_lent :: loan_state where
  "demo_lent = opened 3 800 \<lparr>cl_collateral_amount = 1000, cl_loan_amount = 800\<rparr> demo_loans"

lemma demo_terms: "get_collateral_loan 1000 800 demo_loans
    = Done \<lparr>cl_collateral_amount = 1000, cl_loan_amount = 800\<rparr> demo_loans"
  by (simp add: get_collateral_loan_def Let_def div_then_def LTV_PREC_def PRICE_PREC_def word_le_nat_alt)

lemma demo_apply: "apply_for_loan 3 1000 800 demo_loans = Done () demo_lent"
  by (simp add: apply_for_loan_Done_iff demo_terms open_loan_Done_iff demo_lent_def demo_loans_reads
      pledged_def ledger_simps word_le_nat_alt)

lemma demo_apply_call: "loan_dispatch (Signed 3) (Call_apply_loan 1000 800) demo_loans = Done () demo_lent"
  by (simp add: apply_loan_def demo_apply)

lemma demo_lent_inv: "loan_inv demo_lent"
  using keepsD_Done [OF loan_inv_apply_for_loan [OF demo_loans_inv] demo_apply] by simp

lemma totals_follow_book_witness: "totals_match demo_lent \<and> TotalLoan demo_lent = 800"
  using totals_follow_book [OF demo_loans_inv demo_totals demo_apply_call]
  by (simp add: demo_lent_def)

section \<open>Opening a loan\<close>

text \<open>The balances after an opening, when the two assets differ.\<close>

lemma free_balance_deposit_loan_event [simp]: "free_balance aid w (deposit_loan_event ev s) = free_balance aid w s"
  by (simp add: deposit_loan_event_def)

lemma free_balance_opened:
  assumes "CollateralAssetId s \<noteq> CollectionAssetId s"
  shows "free_balance aid w (opened who n cl s) =
     (if aid = CollateralAssetId s \<and> who \<noteq> PawnShop s \<and> w = who
        then free_balance aid who s - cl_collateral_amount cl
      else if aid = CollateralAssetId s \<and> who \<noteq> PawnShop s \<and> w = PawnShop s
        then free_balance aid w s + cl_collateral_amount cl
      else if aid = CollectionAssetId s \<and> who \<noteq> CollectionAccountId s \<and> w = CollectionAccountId s
        then free_balance aid w s - n
      else if aid = CollectionAssetId s \<and> who \<noteq> CollectionAccountId s \<and> w = who
        then free_balance aid w s + n
      else free_balance aid w s)"
  using assms by (auto simp: opened_def pledged_def Let_def ledger_simps)

lemma pledge_leaves_collection:
  "CollateralAssetId s \<noteq> CollectionAssetId s \<Longrightarrow>
     free_balance (CollectionAssetId s) w (pledged who c s) = free_balance (CollectionAssetId s) w s"
  by (simp add: pledged_def ledger_simps)

lemma get_collateral_loan_both:
  assumes "c \<noteq> 0" and "n \<noteq> 0" and "get_collateral_loan c n s = Done cl s"
  shows "cl = \<lparr>cl_collateral_amount = c, cl_loan_amount = n\<rparr>" and "c * ucast (collateral_price s) \<noteq> 0"
    and "(n * LTV_PREC) * PRICE_PREC div (c * ucast (collateral_price s)) < ucast (GlobalLTVLimit s)"
  using assms by (auto simp: get_collateral_loan_def Let_def div_then_def not_le split: if_splits)

text \<open>C15: A loan asked for with both amounts given opens only below the global limit of the
  loan-to-value ratio (as natural numbers, when the two products fit a balance).  It is entered in
  the book under the next id with these amounts, the borrower pays the collateral to the pawn
  shop and receives the loan from the collection account, and nobody else's balance changes.\<close>

theorem apply_loan_effect:
  assumes "apply_loan (Signed who) c n s = Done u s'" and "c \<noteq> 0" and "n \<noteq> 0"
    and "unat n * 10 ^ 8 < 2 ^ 128" and "unat c * unat (collateral_price s) < 2 ^ 128"
    and "CollateralAssetId s \<noteq> CollectionAssetId s" and "who \<notin> {PawnShop s, CollectionAccountId s}"
  shows "unat n * 10 ^ 8 div (unat c * unat (collateral_price s)) < unat (GlobalLTVLimit s)
    \<and> Loans s' = lm_insert (NextLoanId s)
        \<lparr>loan_id = NextLoanId s, loan_who = who, collateral_balance_original = c,
         collateral_balance_available = c - n div ucast (collateral_price s),
         loan_balance_total = n, loan_status = Well\<rparr> (Loans s)
    \<and> NextLoanId s' = NextLoanId s + 1
    \<and> TotalLoan s' = TotalLoan s + n \<and> TotalCollateral s' = TotalCollateral s + c
    \<and> (\<forall>aid w. free_balance aid w s' =
         (if (aid, w) = (CollateralAssetId s, who) then free_balance aid w s - c
          else if (aid, w) = (CollateralAssetId s, PawnShop s) then free_balance aid w s + c
          else if (aid, w) = (CollectionAssetId s, CollectionAccountId s) then free_balance aid w s - n
          else if (aid, w) = (CollectionAssetId s, who) then free_balance aid w s + n
          else free_balance aid w s))"
proof -
  have run: "apply_for_loan who c n s = Done u s'"
    using assms(1) by (simp add: apply_loan_def ensure_def split: if_splits)
  then obtain cl where terms: "get_collateral_loan c n s = Done cl s" and "open_loan who n cl s = Done u s'"
    by (auto simp: apply_for_loan_Done_iff)
  then have cl: "cl = \<lparr>cl_collateral_amount = c, cl_loan_amount = n\<rparr>" and s': "s' = opened who n cl s"
    and limit: "(n * LTV_PREC) * PRICE_PREC div (c * ucast (collateral_price s)) < ucast (GlobalLTVLimit s)"
    using get_collateral_loan_both [OF assms(2,3)] by (auto simp: open_loan_Done_iff)
  have price: "unat (ucast (collateral_price s) :: balance) = unat (collateral_price s)"
    and lim: "unat (ucast (GlobalLTVLimit s) :: balance) = unat (GlobalLTVLimit s)"
    by simp_all
  have num: "unat (n * 100000000) = unat n * 10 ^ 8"
    using assms(4) by (simp add: unat_mult_less)
  have den: "unat (c * ucast (collateral_price s)) = unat c * unat (collateral_price s)"
    using assms(5) price by (simp add: unat_mult_less)
  have "unat n * 10 ^ 8 div (unat c * unat (collateral_price s)) < unat (GlobalLTVLimit s)"
    using limit by (simp add: LTV_PREC_def PRICE_PREC_def word_less_nat_alt unat_div num den lim mult.assoc)
  then show ?thesis
    using assms(6,7) by (auto simp: s' cl new_loan_def free_balance_opened)
qed

lemma apply_loan_effect_witness:
  "unat (800 :: balance) * 10 ^ 8 div (unat (1000 :: balance) * unat (20000 :: price)) < unat (6667 :: ltv)
   \<and> free_balance 0 3 demo_lent = 800 \<and> free_balance 1 11 demo_lent = 1000"
  using apply_loan_effect [of 3 1000 800 demo_loans "()" demo_lent] demo_apply
  by (simp add: apply_loan_def demo_loans_reads)

lemma get_collateral_loan_zero:
  assumes "c \<noteq> 0" and "get_collateral_loan c 0 s = Done cl s"
  shows "cl = \<lparr>cl_collateral_amount = c,
    cl_loan_amount = c * ucast (collateral_price s) * ucast (GlobalLTVLimit s) div (LTV_PREC * PRICE_PREC)\<rparr>"
  using assms by (auto simp: get_collateral_loan_def Let_def div_then_def split: if_splits)

text \<open>C16: Asking for a loan by naming the collateral only (a loan amount of zero, which asks the pallet to work
  out how much can be lent) books the whole debt that the limit allows but pays out the amount that was
  asked for, which is nothing: when such a call succeeds, the pledged collateral, which is not zero, has moved
  from the borrower to the pawn shop and no other balance of any asset, the lent one included, has changed,
  and the totals have grown by the debt and by the collateral.  The debt is the product of the
  collateral, the price and the limit, which must fit a balance, divided by the scales; the two assets are
  different, and the borrower is not the pawn shop.\<close>

theorem loan_by_collateral_pays_nothing:
  assumes "apply_loan (Signed who) c 0 s = Done u s'" and "c \<noteq> 0"
    and "CollateralAssetId s \<noteq> CollectionAssetId s" and "who \<noteq> PawnShop s"
    and fits: "unat c * unat (collateral_price s) * unat (GlobalLTVLimit s) < 2 ^ 128"
  shows "\<exists>debt. unat debt = unat c * unat (collateral_price s) * unat (GlobalLTVLimit s) div 10 ^ 8
    \<and> map_of (Loans s') = (map_of (Loans s))(NextLoanId s \<mapsto>
        \<lparr>loan_id = NextLoanId s, loan_who = who, collateral_balance_original = c, collateral_balance_available = c,
         loan_balance_total = debt, loan_status = Well\<rparr>)
    \<and> TotalLoan s' = TotalLoan s + debt \<and> TotalCollateral s' = TotalCollateral s + c
    \<and> free_balance (CollateralAssetId s) who s' = free_balance (CollateralAssetId s) who s - c
    \<and> free_balance (CollateralAssetId s) (PawnShop s) s' = free_balance (CollateralAssetId s) (PawnShop s) s + c
    \<and> (\<forall>w. w \<notin> {who, PawnShop s} \<longrightarrow> free_balance (CollateralAssetId s) w s' = free_balance (CollateralAssetId s) w s)
    \<and> (\<forall>a w. a \<noteq> CollateralAssetId s \<longrightarrow> free_balance a w s' = free_balance a w s)"
proof -
  let ?p = "ucast (collateral_price s) :: balance" and ?l = "ucast (GlobalLTVLimit s) :: balance"
  have "apply_for_loan who c 0 s = Done u s'"
    using assms(1) by (simp add: apply_loan_def ensure_def split: if_splits)
  then obtain cl where terms: "get_collateral_loan c 0 s = Done cl s" and run: "open_loan who 0 cl s = Done u s'"
    by (auto simp: apply_for_loan_Done_iff)
  have s': "s' = opened who 0 cl s" using run by (simp add: open_loan_Done_iff)
  have price: "collateral_price s \<noteq> 0" using run by (simp add: open_loan_Done_iff)
  have debt: "unat (cl_loan_amount cl) = unat c * unat (collateral_price s) * unat (GlobalLTVLimit s) div 10 ^ 8"
  proof (cases "GlobalLTVLimit s = 0")
    case False
    then have "1 \<le> unat (GlobalLTVLimit s)"
      by (simp add: Suc_le_eq unat_gt_0)
    from le_less_trans [OF mult_le_mono2 [OF this, of "unat c * unat (collateral_price s)"] fits]
    have "unat (c * ?p) = unat c * unat (collateral_price s)"
      by (subst unat_mult_less) simp_all
    then have "unat (c * ?p * ?l) = unat c * unat (collateral_price s) * unat (GlobalLTVLimit s)"
      using fits by (subst unat_mult_less) simp_all
    then show ?thesis
      by (simp add: get_collateral_loan_zero [OF assms(2) terms] unat_div LTV_PREC_def PRICE_PREC_def)
  qed (simp add: get_collateral_loan_zero [OF assms(2) terms])
  have c: "cl_collateral_amount cl = c" by (simp add: get_collateral_loan_zero [OF assms(2) terms])
  show ?thesis
    using debt assms(3,4) c
    by (intro exI [of _ "cl_loan_amount cl"]) (simp add: s' new_loan_def free_balance_opened)
qed

text \<open>At 2 DUSD for a BTC and a limit of 66.67 %, 1000 BTC make a debt of 1333 DUSD that is never paid out.\<close>

lemma loan_by_collateral_pays_nothing_witness:
  "\<exists>s'. apply_loan (Signed 3) 1000 0 demo_loans = Done () s' \<and> free_balance 0 3 s' = 0
    \<and> free_balance 1 11 s' = 1000 \<and> TotalCollateral s' = 1000
    \<and> unat (loan_balance_total (the (map_of (Loans s') 0))) = 1333"
proof -
  have "get_collateral_loan 1000 0 demo_loans
      = Done \<lparr>cl_collateral_amount = 1000, cl_loan_amount = 1333\<rparr> demo_loans"
    by (simp add: get_collateral_loan_def Let_def div_then_def LTV_PREC_def PRICE_PREC_def)
  then obtain s' where run: "apply_loan (Signed 3) 1000 0 demo_loans = Done () s'"
    by (simp add: apply_loan_def apply_for_loan_eq open_loan_Done_iff open_loan_def make_transfer_with_event_eq Let_def
        div_then_def demo_loans_reads word_le_nat_alt)
  from loan_by_collateral_pays_nothing [OF run] run show ?thesis
    by (auto simp: demo_loans_reads)
qed

section \<open>Opening and repaying\<close>

lemma lm_remove_insert_fresh: "map_of m k = None \<Longrightarrow> lm_remove k (lm_insert k v m) = m"
  by (simp add: lm_remove_def lm_insert_def lm_contains_def delete_id map_of_eq_None_iff)

lemma opened_config [simp]:
  "Paused (opened who n cl s) = Paused s"
  "LoanAssetId (opened who n cl s) = LoanAssetId s"
  "CollateralAssetId (opened who n cl s) = CollateralAssetId s"
  "CollectionAssetId (opened who n cl s) = CollectionAssetId s"
  "CollectionAccountId (opened who n cl s) = CollectionAccountId s"
  "PawnShop (opened who n cl s) = PawnShop s"
  "get_liquidating_loans (opened who n cl s) = get_liquidating_loans s"
  "LoansByAccount (opened who n cl s) = (LoansByAccount s)(who \<mapsto> loans_of (LoansByAccount s) who @ [NextLoanId s])"
  by (simp_all add: opened_def deposit_loan_event_def mutate_loans_by_account_def Let_def pledged_def
      get_liquidating_loans_def loans_of_get)

lemma get_loan_opened [simp]: "get_loan_by_id (NextLoanId s) (opened who n cl s) = new_loan who n cl s"
  by (simp add: get_loan_by_id_def)

lemma free_balance_closed_loan:
  "free_balance aid w (closed_loan who l s) =
     free_balance aid w (moved (CollateralAssetId s) (PawnShop s) who (collateral_balance_original l)
       (moved (LoanAssetId s) who (CollectionAccountId s) (loan_balance_total l) s))"
  by (simp add: closed_loan_def Let_def moved_mutate_loans)

lemma closed_loan_accounts:
  "loans_of (LoansByAccount (closed_loan who l s)) w =
     (if w = who then filter (\<lambda>ele. ele \<noteq> loan_id l) (loans_of (LoansByAccount s) who)
      else loans_of (LoansByAccount s) w)"
  by (simp add: closed_loan_def Let_def deposit_loan_event_def mutate_loans_by_account_def loans_of_get loans_of_upd)

text \<open>A receiver's balance does not wrap, because the asset is solvent.\<close>

lemma receiver_fits:
  assumes "ga_inv s" and "f \<noteq> t" and "n \<le> free_balance aid f s"
  shows "n \<le> free_balance aid t s + n"
proof -
  have "unat (free_balance aid t s) + unat n < 2 ^ 128"
    using solvent_pair_less [OF ga_inv_solvent [OF assms(1)] assms(2), of aid] assms(3)
    by (simp add: holdings_def word_le_nat_alt)
  then show ?thesis by (simp add: word_le_nat_alt unat_add_less)
qed

text \<open>C18: Right after a loan was opened by naming both the collateral and the amount, neither of them zero,
  its borrower can repay it; that restores every balance, the loan book, everybody's list of loans and both
  totals to what they were before.  The loan and the collection asset are the same and the collateral asset
  is another; the borrower is neither the pawn shop nor the collection account; and the amount divided by
  the price, which is booked as the used part of the collateral, is at most the collateral.\<close>

theorem apply_then_repay:
  assumes inv: "loan_inv s" and request: "apply_loan (Signed who) c n s = Done u s1" and nz: "c \<noteq> 0" "n \<noteq> 0"
    and assets: "CollateralAssetId s \<noteq> CollectionAssetId s" "LoanAssetId s = CollectionAssetId s"
    and who: "who \<notin> {PawnShop s, CollectionAccountId s}"
    and used: "n div ucast (collateral_price s) \<le> c"
  shows "\<exists>s2. repay_loan (Signed who) (NextLoanId s) s1 = Done () s2
    \<and> (\<forall>aid w. free_balance aid w s2 = free_balance aid w s)
    \<and> Loans s2 = Loans s \<and> TotalLoan s2 = TotalLoan s \<and> TotalCollateral s2 = TotalCollateral s
    \<and> (\<forall>w. get_or [] (LoansByAccount s2) w = get_or [] (LoansByAccount s) w)"
proof -
  have ne: "who \<noteq> PawnShop s" "who \<noteq> CollectionAccountId s" "PawnShop s \<noteq> who" "CollectionAccountId s \<noteq> who"
    using who by auto
  let ?nid = "NextLoanId s" and ?cl = "\<lparr>cl_collateral_amount = c, cl_loan_amount = n\<rparr>"
  have run: "apply_for_loan who c n s = Done u s1" and active: "\<not> Paused s"
    using request by (simp_all add: apply_loan_def ensure_def split: if_splits)
  then obtain cl where terms: "get_collateral_loan c n s = Done cl s" and op: "open_loan who n cl s = Done u s1"
    and enough: "n \<le> free_balance (CollectionAssetId s) (CollectionAccountId s) s"
    by (auto simp: apply_for_loan_Done_iff)
  have cl: "cl = ?cl" using get_collateral_loan_both [OF nz terms] by simp
  have s1: "s1 = opened who n ?cl s" and pledge: "c \<le> free_balance (CollateralAssetId s) who s"
    using op by (simp_all add: open_loan_Done_iff cl)
  have ga: "ga_inv s" and book: "book_wf s" using inv by (simp_all add: loan_inv_def)
  have fresh: "map_of (Loans s) ?nid = None" using book by (rule fresh_loan_id)
  then have unlisted: "?nid \<notin> set (get_liquidating_loans s)" "?nid \<notin> set (loans_of (LoansByAccount s) who)"
    using book by (auto simp: book_wf_def book_ok_def in_liquidation_def owner_in_def)
  let ?l = "new_loan who n ?cl s"
  have c_back: "c \<le> free_balance (CollateralAssetId s) (PawnShop s) s + c"
    using receiver_fits [OF ga _ pledge, of "PawnShop s"] who by simp
  have n_back: "n \<le> free_balance (CollectionAssetId s) who s + n"
    using receiver_fits [OF ga _ enough, of who] who by auto
  have "c - n div ucast (collateral_price s) \<le> c"
    using used by (simp add: word_le_nat_alt unat_sub_le)
  then have "collateral_balance_available ?l \<le> free_balance (CollateralAssetId s) (PawnShop s) s + c"
    using c_back by (simp add: new_loan_def)
  then have ok: "repay_checks who ?nid s1 = None"
    using assets ne n_back unlisted
    by (simp add: repay_checks_def Let_def s1 free_balance_opened check_loan_in_liquidation_def)
      (simp add: new_loan_def)
  have ids: "loan_id (get_loan_by_id ?nid s1) = ?nid"
    by (simp add: s1 new_loan_def)
  have "repay_for_loan who ?nid s1 = Done () (closed_loan who ?l s1)"
    using ok assets ne c_back
    unfolding repay_for_loan_eq [OF ids]
    by (simp add: Let_def s1 ledger_simps free_balance_opened new_loan_def)
  moreover have "free_balance aid w (closed_loan who ?l s1) = free_balance aid w s" for aid w
    using assets ne by (simp add: free_balance_closed_loan s1 ledger_simps free_balance_opened new_loan_def)
  moreover have "Loans (closed_loan who ?l s1) = Loans s"
    using fresh by (simp add: s1 lm_remove_insert_fresh) (simp add: new_loan_def lm_remove_insert_fresh)
  moreover have "loans_of (LoansByAccount (closed_loan who ?l s1)) w = loans_of (LoansByAccount s) w" for w
    using unlisted(2) by (auto simp: closed_loan_accounts s1 loans_of_upd new_loan_def filter_id_conv)
  ultimately show ?thesis
    using active by (simp add: repay_loan_def s1 loans_of_get new_loan_def)
qed

lemma apply_then_repay_witness:
  "\<exists>s2. repay_loan (Signed 3) 0 demo_lent = Done () s2 \<and> Loans s2 = [] \<and> free_balance 1 3 s2 = 10000"
  using apply_then_repay [OF demo_loans_inv, of 3 1000 800 "()" demo_lent] demo_apply
  by (auto simp: apply_loan_def demo_loans_reads word_le_nat_alt)

end
