(* ===== verification/Loan_Lifecycle.thy ===== *)
theory Loan_Lifecycle
  imports Loan_Properties
begin

text \<open>
  What happens to a loan after it was opened: the outcomes of a repayment, collateral added to it,
  drawing from it, its health under a price, the health check of a block, and its liquidation.
\<close>

section \<open>Repaying\<close>

lemma revert_repay_totals:
  "TotalLoan (revert_repay who l s) = TotalLoan s + loan_balance_total l"
  "TotalCollateral (revert_repay who l s) = TotalCollateral s + collateral_balance_available l"
  "Loans (revert_repay who l s) = lm_insert (loan_id l) l (Loans s)"
  "free_balance aid w (revert_repay who l s) = free_balance aid w s"
  by (simp_all add: revert_repay_def Let_def)

lemma revert_repay_config [simp]:
  "LoanAssetId (revert_repay who l s) = LoanAssetId s"
  "CollectionAccountId (revert_repay who l s) = CollectionAccountId s"
  by (simp_all add: revert_repay_def Let_def)

text \<open>What a failed clean-up leaves: the borrower's payment is undone and the loan is listed again.\<close>

lemma failed_repay_eq:
  assumes inv: "loan_inv s" and ok: "repay_checks who lid s = None" and l: "l = get_loan_by_id lid s"
  shows "\<exists>t. failed_repay who l s = Fail (GaError InsufficientBalance) t
    \<and> map_of (Loans t) = map_of (Loans s) \<and> (\<forall>aid w. free_balance aid w t = free_balance aid w s)
    \<and> TotalLoan t = TotalLoan s + loan_balance_total l
    \<and> TotalCollateral t = TotalCollateral s + collateral_balance_available l"
proof -
  let ?n = "loan_balance_total l"
  let ?m = "moved (LoanAssetId s) who (CollectionAccountId s) ?n s"
  let ?t = "revert_repay who l (mutate_loans_by_account who (filter (\<lambda>ele. ele \<noteq> loan_id l)) ?m)"
  have id: "loan_id l = lid" and present: "map_of (Loans s) lid = Some l"
    using loan_inv_ids [OF inv repay_checks_None(1) [OF ok]] map_of_get_loan [OF repay_checks_None(1) [OF ok]]
    by (simp_all add: l)
  have paid: "?n \<le> free_balance (LoanAssetId s) who s"
    using repay_checks_None(3) [OF ok] by (simp add: l)
  have ga: "ga_inv s" using inv by (simp add: loan_inv_def)
  have refund: "?n \<le> free_balance (LoanAssetId s) (CollectionAccountId s) ?t"
    using receiver_fits [OF ga _ paid, of "CollectionAccountId s"] paid
    by (auto simp: revert_repay_totals ledger_simps)
  then have "failed_repay who l s
      = Fail (GaError InsufficientBalance) (moved (LoanAssetId s) (CollectionAccountId s) who ?n ?t)"
    by (simp add: failed_repay_def make_transfer_with_event_eq moved_mutate_loans Let_def)
  moreover have "map_of (Loans s) = (map_of (Loans s))(lid \<mapsto> l)"
    using present by (simp add: fun_upd_idem)
  ultimately show ?thesis
    using id by (simp add: revert_repay_totals ledger_simps)
qed

text \<open>C17: With the pallet running and a loan asset that is not the collateral asset, repaying a loan succeeds
  exactly when the loan is in the book and not in liquidation, the caller owns it and holds the debt, and
  the pawn shop holds both the available and the whole pledged collateral.  A success closes the loan: it
  leaves the book, the debt moves from the caller to the collection account and the pledged collateral from
  the pawn shop to the caller, nothing else moves, and both totals shrink.  A failure reports the first
  obstacle and changes no loan and no balance; only a shop that is short of the pledged collateral leaves
  anything else changed.  The call never panics.\<close>

theorem repay_loan_outcomes:
  assumes inv: "loan_inv s" and active: "\<not> Paused s" and assets: "LoanAssetId s \<noteq> CollateralAssetId s"
    and l: "l = get_loan_by_id lid s" and r: "r = repay_loan (Signed who) lid s"
    and shop: "shop = free_balance (CollateralAssetId s) (PawnShop s) s"
  shows "((\<exists>s'. r = Done () s') \<longleftrightarrow>
        lm_contains (Loans s) lid \<and> lid \<notin> set (get_liquidating_loans s) \<and> loan_who l = who
        \<and> loan_balance_total l \<le> free_balance (LoanAssetId s) who s
        \<and> collateral_balance_available l \<le> shop \<and> collateral_balance_original l \<le> shop)
    \<and> (\<forall>s'. r = Done () s' \<longrightarrow>
        map_of (Loans s') = (map_of (Loans s))(lid := None)
        \<and> TotalLoan s' = TotalLoan s - loan_balance_total l
        \<and> TotalCollateral s' = TotalCollateral s - collateral_balance_original l
        \<and> (\<forall>a w. free_balance a w s' = free_balance a w s
            - (if a = LoanAssetId s \<and> w = who then loan_balance_total l else 0)
            + (if a = LoanAssetId s \<and> w = CollectionAccountId s then loan_balance_total l else 0)
            - (if a = CollateralAssetId s \<and> w = PawnShop s then collateral_balance_original l else 0)
            + (if a = CollateralAssetId s \<and> w = who then collateral_balance_original l else 0)))
    \<and> (\<forall>e s'. r = Fail e s' \<longrightarrow>
        e = (if \<not> lm_contains (Loans s) lid then Other ''invalid loan id''
             else if loan_who l \<noteq> who then Other ''not owner of the loan''
             else if free_balance (LoanAssetId s) who s < loan_balance_total l then Other ''not enough asset to repay''
             else if shop < collateral_balance_available l then Other ''not enough collateral asset in shop''
             else if lid \<in> set (get_liquidating_loans s) then Other ''loan is in liquidation''
             else GaError InsufficientBalance)
        \<and> map_of (Loans s') = map_of (Loans s) \<and> (\<forall>a w. free_balance a w s' = free_balance a w s)
        \<and> (e = GaError InsufficientBalance \<or> s' = s))
    \<and> r \<noteq> Panic"
proof (cases "repay_checks who lid s")
  case (Some e)
  then have "r = Fail e s"
    using active by (simp add: r repay_loan_def repay_for_loan_eq [OF loan_inv_ids [OF inv]])
  with Some show ?thesis
    by (auto simp: repay_checks_def Let_def l shop check_loan_in_liquidation_def not_le split: if_splits)
next
  case None
  note ok = repay_checks_None [OF None, folded l]
  have run: "r = (if collateral_balance_original l \<le> shop then Done () (closed_loan who l s) else failed_repay who l s)"
    using active None assets
    by (simp add: r repay_loan_def repay_for_loan_eq [OF loan_inv_ids [OF inv]] Let_def l shop ledger_simps)
  have id: "loan_id l = lid"
    using loan_inv_ids [OF inv ok(1)] by (simp add: l)
  show ?thesis
  proof (cases "collateral_balance_original l \<le> shop")
    case True
    then have "r = Done () (closed_loan who l s)" using run by simp
    with ok True show ?thesis
      using assets by (auto simp: shop id free_balance_closed_loan ledger_simps)
  next
    case False
    then obtain t where "r = Fail (GaError InsufficientBalance) t" "map_of (Loans t) = map_of (Loans s)"
      "\<forall>aid w. free_balance aid w t = free_balance aid w s"
      using run failed_repay_eq [OF inv None l] by auto
    with ok False show ?thesis by (auto simp: shop not_le [symmetric])
  qed
qed

lemma demo_no_liquidation [simp]: "get_liquidating_loans demo_loans = []"
  by (simp add: get_liquidating_loans_def)

text \<open>Account 3 repays its loan of 800; account 4 cannot.\<close>

lemma repay_loan_outcomes_witness:
  "(\<exists>s'. repay_loan (Signed 3) 0 demo_lent = Done () s') \<and> (\<nexists>s'. repay_loan (Signed 4) 0 demo_lent = Done () s')"
proof -
  have facts: "\<not> Paused demo_lent" "LoanAssetId demo_lent \<noteq> CollateralAssetId demo_lent"
    "lm_contains (Loans demo_lent) 0" "get_liquidating_loans demo_lent = []"
    "free_balance (LoanAssetId demo_lent) 3 demo_lent = 800"
    "free_balance (CollateralAssetId demo_lent) (PawnShop demo_lent) demo_lent = 1000"
    "get_loan_by_id 0 demo_lent = \<lparr>loan_id = 0, loan_who = 3, collateral_balance_original = 1000,
       collateral_balance_available = 1000, loan_balance_total = 800, loan_status = Well\<rparr>"
    by (simp_all add: demo_lent_def get_loan_by_id_def new_loan_def free_balance_opened demo_loans_reads)
  note outcomes = repay_loan_outcomes [where lid = 0, OF demo_lent_inv facts(1,2) refl refl refl, THEN conjunct1]
  show ?thesis
    using outcomes [of 3] outcomes [of 4] by (simp add: facts)
qed

text \<open>C36: When the pawn shop holds the available collateral of a loan but not the original one, the
  repayment fails and undoes the borrower's payment, yet the clean-up adds the loan to both totals
  although they had not been reduced: the recorded totals no longer match the unchanged book.\<close>

theorem failed_repay_inflates_totals:
  assumes inv: "loan_inv s" and "\<not> Paused s" and ok: "repay_checks who lid s = None"
    and l: "l = get_loan_by_id lid s" and assets: "LoanAssetId s \<noteq> CollateralAssetId s"
    and short: "free_balance (CollateralAssetId s) (PawnShop s) s < collateral_balance_original l"
  shows "\<exists>s'. repay_loan (Signed who) lid s = Fail (GaError InsufficientBalance) s'
    \<and> map_of (Loans s') = map_of (Loans s)
    \<and> (\<forall>aid w. free_balance aid w s' = free_balance aid w s)
    \<and> TotalLoan s' = TotalLoan s + loan_balance_total l
    \<and> TotalCollateral s' = TotalCollateral s + collateral_balance_available l"
proof -
  have "\<not> collateral_balance_original l \<le> free_balance (CollateralAssetId s) (PawnShop s)
      (moved (LoanAssetId s) who (CollectionAccountId s) (loan_balance_total l) s)"
    using short assets by (simp add: ledger_simps not_le)
  then have "repay_loan (Signed who) lid s = failed_repay who l s"
    using assms(2) ok by (simp add: repay_loan_def repay_for_loan_eq [OF loan_inv_ids [OF inv]] Let_def l [symmetric])
  then show ?thesis
    using failed_repay_eq [OF inv ok l] by simp
qed

text \<open>The pawn shop's owner moves one BTC away; the loan of 40000 DUSD left two BTC of slack.\<close>

definition demo_large :: loan_state where
  "demo_large = moved 1 11 5 1 (opened 3 40000 \<lparr>cl_collateral_amount = 9000, cl_loan_amount = 40000\<rparr> demo_loans)"

lemma demo_large_inv: "loan_inv demo_large"
proof -
  have "open_loan 3 40000 \<lparr>cl_collateral_amount = 9000, cl_loan_amount = 40000\<rparr> demo_loans
      = Done () (opened 3 40000 \<lparr>cl_collateral_amount = 9000, cl_loan_amount = 40000\<rparr> demo_loans)"
    by (simp add: open_loan_Done_iff demo_loans_reads pledged_def ledger_simps word_le_nat_alt)
  from keepsD_Done [OF loan_inv_open_loan [OF demo_loans_inv] this]
  show ?thesis
    unfolding demo_large_def by (intro loan_inv_moved) (simp_all add: free_balance_opened demo_loans_reads word_le_nat_alt)
qed

lemma demo_large_facts:
  "get_loan_by_id 0 demo_large = \<lparr>loan_id = 0, loan_who = 3, collateral_balance_original = 9000,
     collateral_balance_available = 8998, loan_balance_total = 40000, loan_status = Well\<rparr>"
  "lm_contains (Loans demo_large) 0" "TotalLoan demo_large = 40000" "\<not> Paused demo_large"
  "LoanAssetId demo_large = 0" "CollateralAssetId demo_large = 1" "PawnShop demo_large = 11"
  "free_balance 1 11 demo_large = 8999" "free_balance 0 3 demo_large = 40000"
  "get_liquidating_loans demo_large = []"
  by (simp_all add: demo_large_def get_loan_by_id_def new_loan_def ledger_simps free_balance_opened
      demo_loans_reads)

lemma failed_repay_inflates_totals_witness:
  "\<exists>s'. repay_loan (Signed 3) 0 demo_large = Fail (GaError InsufficientBalance) s' \<and> TotalLoan s' = 80000"
proof -
  have "repay_checks 3 0 demo_large = None"
    by (simp add: repay_checks_def demo_large_facts check_loan_in_liquidation_def word_le_nat_alt)
  from failed_repay_inflates_totals [OF demo_large_inv demo_large_facts(4) this refl] show ?thesis
    by (auto simp: demo_large_facts word_less_nat_alt)
qed

section \<open>Drawing and adding collateral\<close>

lemma free_balance_mutate_loan [simp]: "free_balance aid w (mutate_loan lid f s) = free_balance aid w s"
  by (simp add: mutate_loan_def)

text \<open>Drawing from a loan raises the borrower's debt and the total by the amount drawn and
  lowers the available collateral, but pays nothing to anybody: all balances stay the same.\<close>

theorem draw_pays_nobody:
  assumes "draw (Signed who) lid n s = Done u s'"
  shows "(\<forall>aid w. free_balance aid w s' = free_balance aid w s)
    \<and> loan_balance_total (get_loan_by_id lid s') = loan_balance_total (get_loan_by_id lid s) + n
    \<and> collateral_balance_available (get_loan_by_id lid s')
        = collateral_balance_available (get_loan_by_id lid s) - n div low_u32 (collateral_price s)
    \<and> TotalLoan s' = TotalLoan s + n \<and> loan_who (get_loan_by_id lid s) = who
    \<and> (\<forall>k. k \<noteq> lid \<longrightarrow> get_loan_by_id k s' = get_loan_by_id k s)"
  using assms
  by (auto simp: draw_def draw_from_loan_def Let_def ensure_def div_then_def deposit_loan_event_def
      mutate_loan_def get_loan_by_id_def split: if_splits)

lemma draw_pays_nobody_witness:
  "\<exists>s'. draw (Signed 3) 0 300 demo_lent = Done () s' \<and> loan_balance_total (get_loan_by_id 0 s') = 1100
    \<and> free_balance 0 3 s' = free_balance 0 3 demo_lent"
proof -
  have price: "collateral_price demo_lent = 20000"
    by (simp add: demo_lent_def opened_def Let_def collateral_price_def symbols_def current_price_def
        deposit_loan_event_def mutate_loans_by_account_def pledged_def lm_get_def get_or_def)
  have loan: "get_loan_by_id 0 demo_lent = \<lparr>loan_id = 0, loan_who = 3, collateral_balance_original = 1000,
     collateral_balance_available = 1000, loan_balance_total = 800, loan_status = Well\<rparr>"
    "lm_contains (Loans demo_lent) 0" "\<not> Paused demo_lent" "GlobalLTVLimit demo_lent = 6667"
    by (simp_all add: demo_lent_def get_loan_by_id_def new_loan_def)
      (simp add: opened_def Let_def deposit_loan_event_def mutate_loans_by_account_def pledged_def)
  have "low_u32 (20000 :: price) = 20000" "low_u32 (6667 :: ltv) = 6667"
    by (simp_all add: low_u32_def word_unat_eq_iff unsigned_ucast_eq take_bit_eq_mod)
  then obtain s' where run: "draw (Signed 3) 0 300 demo_lent = Done () s'"
    by (simp add: draw_def draw_from_loan_def ensure_def div_then_def Let_def loan price LTV_PREC_def
        PRICE_PREC_def word_le_nat_alt)
  from draw_pays_nobody [OF run] run show ?thesis
    by (simp add: loan)
qed

text \<open>Collateral that is added to a loan is taken in the collection asset, not in the
  collateral asset: the loan's books count it as collateral, but no balance of the collateral
  asset changes.\<close>

theorem add_collateral_takes_collection_asset:
  assumes "add_collateral (Signed who) lid n s = Done u s'" and "loan_inv s"
    and "who \<noteq> PawnShop s" and "CollateralAssetId s \<noteq> CollectionAssetId s"
  shows "free_balance (CollectionAssetId s) who s' = free_balance (CollectionAssetId s) who s - n
    \<and> free_balance (CollectionAssetId s) (PawnShop s) s' = free_balance (CollectionAssetId s) (PawnShop s) s + n
    \<and> (\<forall>w. free_balance (CollateralAssetId s) w s' = free_balance (CollateralAssetId s) w s)
    \<and> collateral_balance_original (get_loan_by_id lid s') = collateral_balance_original (get_loan_by_id lid s) + n
    \<and> collateral_balance_available (get_loan_by_id lid s') = collateral_balance_available (get_loan_by_id lid s) + n"
proof -
  have present: "lm_contains (Loans s) lid" and who: "loan_who (get_loan_by_id lid s) = who"
    using assms(1) by (auto simp: add_collateral_def ensure_def Let_def split: if_splits)
  have id: "loan_id (get_loan_by_id lid s) = lid"
    using assms(2) present by (rule loan_inv_ids)
  show ?thesis
    using assms(1,3,4) who
    by (auto simp: add_collateral_def add_loan_collateral_def ensure_def Let_def id make_transfer_with_event_eq
        deposit_loan_event_def ledger_simps split: if_splits)
      (simp_all add: mutate_loan_def get_loan_by_id_def)
qed

lemma add_collateral_takes_collection_asset_witness:
  "\<exists>s'. add_collateral (Signed 3) 0 500 demo_lent = Done () s'
    \<and> collateral_balance_original (get_loan_by_id 0 s') = 1500 \<and> free_balance 1 3 s' = free_balance 1 3 demo_lent"
proof -
  have facts: "lm_contains (Loans demo_lent) 0" "\<not> Paused demo_lent" "CollectionAssetId demo_lent = 0"
    "CollateralAssetId demo_lent = 1" "PawnShop demo_lent = 11" "free_balance 0 3 demo_lent = 800"
    by (simp_all add: demo_lent_def free_balance_opened demo_loans_reads)
  have loan: "loan_who (get_loan_by_id 0 demo_lent) = 3" "collateral_balance_original (get_loan_by_id 0 demo_lent) = 1000"
    by (simp_all add: demo_lent_def get_loan_by_id_def new_loan_def)
  obtain s' where run: "add_collateral (Signed 3) 0 500 demo_lent = Done () s'"
    by (simp add: add_collateral_def add_loan_collateral_def Let_def facts loan make_transfer_with_event_eq word_le_nat_alt)
  from add_collateral_takes_collection_asset [OF run demo_lent_inv] run show ?thesis
    by (simp add: facts loan)
qed

section \<open>The health of a loan\<close>

text \<open>
  Health states are ordered by how bad they are: first by kind, then by the ratio they report.
\<close>

fun health_rank :: "loan_health \<Rightarrow> nat \<times> ltv" where
  "health_rank Well = (0, 0)"
| "health_rank (Warning v) = (1, v)"
| "health_rank (Liquidating v) = (2, v)"

lemma health_rank_inj: "health_rank x = health_rank y \<Longrightarrow> x = y"
  by (cases x; cases y) simp_all

lemma health_rank_eqI:
  "fst (health_rank x) = fst (health_rank y) \<Longrightarrow> snd (health_rank x) = snd (health_rank y) \<Longrightarrow> x = y"
  by (rule health_rank_inj) (simp add: prod_eq_iff)

instantiation loan_health :: linorder
begin

definition less_eq_loan_health :: "loan_health \<Rightarrow> loan_health \<Rightarrow> bool" where
  "less_eq_loan_health x y \<longleftrightarrow> fst (health_rank x) < fst (health_rank y)
     \<or> fst (health_rank x) = fst (health_rank y) \<and> snd (health_rank x) \<le> snd (health_rank y)"

definition less_loan_health :: "loan_health \<Rightarrow> loan_health \<Rightarrow> bool" where
  "less_loan_health x y \<longleftrightarrow> x \<le> y \<and> \<not> y \<le> (x :: loan_health)"

instance
  by standard (auto simp: less_eq_loan_health_def less_loan_health_def intro: health_rank_eqI health_rank_eqI [symmetric])

end

lemma health_le_simps:
  "Well \<le> h"
  "Warning v \<le> Warning w \<longleftrightarrow> v \<le> w"
  "Warning v \<le> Liquidating w"
  "Liquidating v \<le> Liquidating w \<longleftrightarrow> v \<le> w"
  by (simp_all add: less_eq_loan_health_def) (cases h; simp)

text \<open>Without wrap-around the ratio is the mathematical one.\<close>

lemma unat_get_ltv:
  assumes "get_ltv c n p = Some v" and "unat n * 10 ^ 8 < 2 ^ 128" and "unat c * unat p < 2 ^ 128"
  shows "unat v = unat n * 10 ^ 8 div (unat c * unat p)" and "0 < unat c * unat p"
proof -
  have num: "unat (n * 100000000) = unat n * 10 ^ 8"
    using assms(2) by (simp add: unat_mult_less)
  have den: "unat (c * ucast p) = unat c * unat p"
    using assms(3) by (simp add: unat_mult_less)
  have "c * ucast p \<noteq> 0"
    and "ltv_try_from (n * 100000000 div (c * ucast p)) = Some v"
    using assms(1) by (simp_all add: get_ltv_def Let_def PRICE_PREC_def LTV_PREC_def mult.assoc split: if_splits)
  then show "0 < unat c * unat p" "unat v = unat n * 10 ^ 8 div (unat c * unat p)"
    by (auto simp: den [symmetric] unat_gt_0 ltv_try_from_def unat_div num unsigned_ucast_eq take_bit_eq_mod
        split: if_splits)
qed

text \<open>C35: The health of a loan never improves when the price of its collateral falls, as long as
  the products of the ratio fit a balance.\<close>

theorem health_worsens_as_price_falls:
  assumes "check_loan_health l p lt wt = Some h" and "check_loan_health l p' lt wt = Some h'" and "p' \<le> p"
    and fits: "unat (loan_balance_total l) * 10 ^ 8 < 2 ^ 128"
      "unat (collateral_balance_available l) * unat p < 2 ^ 128"
  shows "h \<le> h'"
proof -
  let ?c = "collateral_balance_available l" and ?n = "loan_balance_total l"
  obtain v v' where v: "get_ltv ?c ?n p = Some v" and v': "get_ltv ?c ?n p' = Some v'"
    using assms(1,2) by (auto simp: check_loan_health_def split: option.splits)
  have le: "unat ?c * unat p' \<le> unat ?c * unat p"
    using assms(3) by (simp add: word_le_nat_alt)
  then have fits': "unat ?c * unat p' < 2 ^ 128" using fits(2) by (rule le_less_trans)
  have "unat v \<le> unat v'"
    using unat_get_ltv [OF v fits] unat_get_ltv [OF v' fits(1) fits'] le by (simp add: div_le_mono2)
  then have "v \<le> v'" by (simp add: word_le_nat_alt)
  then show ?thesis
    using assms(1,2) v v' by (auto simp: check_loan_health_def health_le_simps split: if_splits)
qed

lemma health_worsens_as_price_falls_witness:
  "check_loan_health (new_loan 3 800 \<lparr>cl_collateral_amount = 1000, cl_loan_amount = 800\<rparr> demo_loans) 20000 9000 8000 = Some Well
   \<and> check_loan_health (new_loan 3 800 \<lparr>cl_collateral_amount = 1000, cl_loan_amount = 800\<rparr> demo_loans) 8500 9000 8000 = Some (Liquidating 9411)
   \<and> Well \<le> Liquidating 9411"
proof -
  let ?l = "new_loan 3 800 \<lparr>cl_collateral_amount = 1000, cl_loan_amount = 800\<rparr> demo_loans"
  have a: "check_loan_health ?l 20000 9000 8000 = Some Well"
    "check_loan_health ?l 8500 9000 8000 = Some (Liquidating 9411)"
    by (simp_all add: check_loan_health_def new_loan_def get_ltv_def ltv_try_from_def Let_def PRICE_PREC_def
        LTV_PREC_def word_le_nat_alt)
  from health_worsens_as_price_falls [OF this] a show ?thesis
    by (simp add: new_loan_def word_le_nat_alt)
qed

section \<open>The health check of a block\<close>

definition checked_loan :: "price \<Rightarrow> ltv \<Rightarrow> ltv \<Rightarrow> loan \<Rightarrow> loan" where
  "checked_loan p lt wt l =
     (if is_liquidating (loan_status l) then l
      else case check_loan_health l p lt wt of
             Some (Warning v) \<Rightarrow> l\<lparr>loan_status := Warning v\<rparr>
           | Some (Liquidating v) \<Rightarrow> l\<lparr>loan_status := Liquidating v\<rparr>
           | _ \<Rightarrow> l)"

definition checkable :: "price \<Rightarrow> loan \<Rightarrow> bool" where
  "checkable p l \<longleftrightarrow> is_liquidating (loan_status l)
     \<or> get_ltv (collateral_balance_available l) (loan_balance_total l) p \<noteq> None"

lemma check_one_loan_effect:
  assumes inv: "loan_inv s" and present: "map_of (Loans s) k = Some l" and ok: "checkable p l"
  shows "\<exists>t. check_one_loan p lt wt k s = Done () t
    \<and> map_of (Loans t) = (map_of (Loans s))(k \<mapsto> checked_loan p lt wt l) \<and> loan_inv t"
proof -
  have here: "lm_contains (Loans s) k" and get: "get_loan_by_id k s = l"
    using present by (simp_all add: lm_contains_def get_loan_by_id_def lm_get_def)
  have id: "loan_id l = k" and liq: "check_loan_in_liquidation k s \<longleftrightarrow> is_liquidating (loan_status l)"
    using inv book_okD(1,6) [OF _ present] by (auto simp: loan_inv_def book_wf_def check_loan_in_liquidation_def)
  have same: "(map_of (Loans s))(k \<mapsto> l) = map_of (Loans s)"
    using present by (simp add: fun_upd_idem)
  have mut: "map_of (Loans (mutate_loan k f s)) = (map_of (Loans s))(k \<mapsto> f l)" for f
    using present by (simp add: mutate_loan_def lm_mutate_def lm_get_def)
  have run: "\<exists>t. check_one_loan p lt wt k s = Done () t
    \<and> map_of (Loans t) = (map_of (Loans s))(k \<mapsto> checked_loan p lt wt l)"
  proof (cases "is_liquidating (loan_status l)")
    case True
    then show ?thesis by (simp add: check_one_loan_def Let_def liq checked_loan_def same)
  next
    case False
    then obtain h where h: "check_loan_health l p lt wt = Some h"
      using ok by (auto simp: checkable_def check_loan_health_def)
    have warned: "loan_status l = Warning v \<Longrightarrow> l\<lparr>loan_status := Warning v\<rparr> = l" for v
      by (cases l) simp
    show ?thesis
      using False h warned present
      by (cases h) (auto simp: check_one_loan_def Let_def liq get id checked_loan_def same mut lm_mutate_def lm_get_def)
  qed
  then show ?thesis
    using check_one_loan_present [OF inv here, of p lt wt] by auto
qed

lemma check_loans_effect:
  assumes "loan_inv s" and "distinct ks"
    and "\<And>k. k \<in> set ks \<Longrightarrow> \<exists>l. map_of (Loans s) k = Some l \<and> checkable p l"
  shows "\<exists>t. for_each (check_one_loan p lt wt) ks s = Done () t \<and> loan_inv t
    \<and> (\<forall>k. map_of (Loans t) k = (if k \<in> set ks then map_option (checked_loan p lt wt) (map_of (Loans s) k)
                                else map_of (Loans s) k))"
  using assms
proof (induction ks arbitrary: s)
  case (Cons k ks)
  obtain l where "map_of (Loans s) k = Some l" "checkable p l"
    using Cons.prems(3) [of k] by auto
  then obtain t where first: "check_one_loan p lt wt k s = Done () t" "loan_inv t"
    and t: "map_of (Loans t) = (map_of (Loans s))(k \<mapsto> checked_loan p lt wt l)" and l: "map_of (Loans s) k = Some l"
    using check_one_loan_effect [OF Cons.prems(1)] by blast
  have "\<exists>l. map_of (Loans t) j = Some l \<and> checkable p l" if "j \<in> set ks" for j
    using Cons.prems(2) Cons.prems(3) [of j] that by (auto simp: t)
  with Cons.IH [OF first(2)] Cons.prems(2) obtain t' where
    "for_each (check_one_loan p lt wt) ks t = Done () t'" "loan_inv t'"
    "\<forall>j. map_of (Loans t') j = (if j \<in> set ks then map_option (checked_loan p lt wt) (map_of (Loans t) j)
                                else map_of (Loans t) j)"
    by auto
  with first t l Cons.prems(2) show ?case by auto
qed simp

text \<open>C21: The health check at the start of a block returns when the ratio of every loan that is not
  in liquidation can be computed; it gives each of these loans the status its ratio calls for at the
  current price (one that is healthy again keeps its old warning), leaves the others alone,
  and afterwards the list of liquidating loans holds exactly the loans with that status.\<close>

theorem health_check_effect:
  assumes "loan_inv s" and "\<And>lid l. map_of (Loans s) lid = Some l \<Longrightarrow> checkable (collateral_price s) l"
  shows "\<exists>s'. on_each_block h s = Done () s'
    \<and> (\<forall>lid. map_of (Loans s') lid
         = map_option (checked_loan (collateral_price s) (GlobalLiquidationThreshold s) (GlobalWarningThreshold s))
             (map_of (Loans s) lid))
    \<and> set (get_liquidating_loans s') = {lid. \<exists>l. map_of (Loans s') lid = Some l \<and> is_liquidating (loan_status l)}"
proof -
  have keys: "distinct (lm_keys (Loans s))" and present: "k \<in> set (lm_keys (Loans s)) \<longleftrightarrow> map_of (Loans s) k \<noteq> None" for k
    using assms(1) by (simp_all add: loan_inv_def book_wf_def book_ok_def lm.enum_distinct lm_contains_iff [symmetric]
        lm_contains_def)
  obtain t where run: "for_each (check_one_loan (collateral_price s) (GlobalLiquidationThreshold s)
      (GlobalWarningThreshold s)) (lm_keys (Loans s)) s = Done () t" and inv: "loan_inv t"
    and loans: "\<forall>k. map_of (Loans t) k = (if k \<in> set (lm_keys (Loans s))
        then map_option (checked_loan (collateral_price s) (GlobalLiquidationThreshold s) (GlobalWarningThreshold s))
               (map_of (Loans s) k)
        else map_of (Loans s) k)"
    using check_loans_effect [OF assms(1) keys, of "collateral_price s" "GlobalLiquidationThreshold s"
        "GlobalWarningThreshold s"] present assms(2) by blast
  have "set (get_liquidating_loans t) = {lid. \<exists>l. map_of (Loans t) lid = Some l \<and> is_liquidating (loan_status l)}"
  proof -
    have "set (get_liquidating_loans t) = {lid. in_liquidation (Loans t) lid}"
      using inv by (auto simp: loan_inv_def book_wf_def book_ok_def)
    then show ?thesis by (auto simp: in_liquidation_def split: option.splits)
  qed
  with run loans present show ?thesis
    by (auto simp: on_each_block_def Let_def)
qed

lemma demo_lent_loans: "Loans demo_lent = [(0, \<lparr>loan_id = 0, loan_who = 3, collateral_balance_original = 1000,
     collateral_balance_available = 1000, loan_balance_total = 800, loan_status = Well\<rparr>)]"
  by (simp add: demo_lent_def new_loan_def lm_insert_def)

lemma demo_lent_thresholds [simp]:
  "GlobalLiquidationThreshold demo_lent = 9000" "GlobalWarningThreshold demo_lent = 8000"
  "CollateralAssetId demo_lent = 1" "Symbols demo_lent = [0 \<mapsto> ''DUSD'', 1 \<mapsto> ''BTC'']"
  by (simp_all add: demo_lent_def)
    (simp_all add: opened_def Let_def deposit_loan_event_def mutate_loans_by_account_def pledged_def)

lemma loan_inv_ignores_prices [simp]: "loan_inv (s\<lparr>CurrentPrice := x\<rparr>) = loan_inv s"
  by (simp add: loan_inv_def book_wf_def get_liquidating_loans_def ga_inv_def unused_id_def solvent_def
      all_holdings_def holdings_def free_balance_def reserved_balance_def total_issuance_def)

text \<open>The price of a BTC falls from 2 to 0.85 DUSD.\<close>

definition demo_fallen :: loan_state where
  "demo_fallen = demo_lent\<lparr>CurrentPrice := [(''BTC'', 8500)]\<rparr>"

lemma demo_fallen_price [simp]: "collateral_price demo_fallen = 8500"
  by (simp add: demo_fallen_def collateral_price_def symbols_def current_price_def lm_get_def)

lemma demo_fallen_fields [simp]:
  "Loans demo_fallen = Loans demo_lent" "GlobalLiquidationThreshold demo_fallen = 9000"
  "GlobalWarningThreshold demo_fallen = 8000"
  by (simp_all add: demo_fallen_def)

lemma health_check_effect_witness:
  "\<exists>s'. on_each_block 1 demo_fallen = Done () s' \<and> set (get_liquidating_loans s') = {0}"
proof -
  have inv: "loan_inv demo_fallen" using demo_lent_inv by (simp add: demo_fallen_def)
  have check: "checkable (collateral_price demo_fallen) l" if "map_of (Loans demo_fallen) lid = Some l" for lid l
    using that by (auto simp: demo_lent_loans checkable_def get_ltv_def ltv_try_from_def Let_def PRICE_PREC_def
        LTV_PREC_def split: if_splits)
  have "checked_loan 8500 9000 8000 \<lparr>loan_id = 0, loan_who = 3, collateral_balance_original = 1000,
      collateral_balance_available = 1000, loan_balance_total = 800, loan_status = Well\<rparr>
    = \<lparr>loan_id = 0, loan_who = 3, collateral_balance_original = 1000,
      collateral_balance_available = 1000, loan_balance_total = 800, loan_status = Liquidating 9411\<rparr>"
    by (simp add: checked_loan_def check_loan_health_def get_ltv_def ltv_try_from_def Let_def PRICE_PREC_def
        LTV_PREC_def word_le_nat_alt)
  then show ?thesis
    using health_check_effect [OF inv, where h = 1, OF check, of "\<lambda>lid l. lid"]
    by (auto simp: demo_lent_loans split: if_splits)
qed

section \<open>Liquidation\<close>

text \<open>The transfers of a liquidation, without the bookkeeping.\<close>

definition settlement :: "loan \<Rightarrow> account_id \<Rightarrow> balance \<Rightarrow> 'a loan_state_scheme \<Rightarrow> (unit, 'a loan_state_scheme) dispatch" where
  "settlement l w n s =
     and_then (make_transfer_with_event (LoanAssetId s) w (CollectionAccountId s) (loan_balance_total l) s) (\<lambda>_ t.
       case checked_sub n (loan_balance_total l) of
         None \<Rightarrow> Done () t
       | Some leftover \<Rightarrow>
           if 0 < leftover then
             (let penalty = leftover * ucast (LiquidationPenalty t) div 100
              in and_then
                   (or_else (make_transfer_with_event (LoanAssetId s) (CollectionAccountId s) (ProfitPool t) penalty t)
                     (\<lambda>err t. and_then (make_transfer_with_event (LoanAssetId s) (PawnShop s) w (loan_balance_total l) t)
                         (\<lambda>_ t. Fail err t))) (\<lambda>_ t.
                 or_else (make_transfer_with_event (LoanAssetId s) (CollectionAccountId s) (loan_who l) (leftover - penalty) t)
                   (\<lambda>err t. and_then (make_transfer_with_event (LoanAssetId s) (ProfitPool t) w penalty t)
                       (\<lambda>_ t. and_then (make_transfer_with_event (CollateralAssetId s) (PawnShop s) w
                                 (collateral_balance_original l) t)
                       (\<lambda>_ t. Fail err t)))))
           else Done () t)"

definition liquidated :: "loan \<Rightarrow> balance \<Rightarrow> 'a loan_state_scheme \<Rightarrow> 'a loan_state_scheme" where
  "liquidated l n s =
     deposit_loan_event (Liquidated (loan_id l) (collateral_balance_original l) (collateral_balance_available l)
         n (loan_balance_total l))
       ((mutate_loans_by_account (loan_who l) (filter (\<lambda>ele. ele \<noteq> loan_id l)) (s\<lparr>Loans := lm_remove (loan_id l) (Loans s)\<rparr>))
        \<lparr>LiquidatingLoans := Some (filter (\<lambda>ele. ele \<noteq> loan_id l) (get_liquidating_loans s))\<rparr>)"

lemma mark_loan_liquidated_eq:
  "mark_loan_liquidated l w n s =
     ensure (check_loan_in_liquidation (loan_id l) s) (Other ''loan id not in liquidating'') s (
     ensure (n \<le> free_balance (LoanAssetId s) w s) (Other ''not enough asset to liquidate'') s (
     ensure (loan_balance_total l \<le> n) (Other ''Not enough for loan liquidate'') s (
       and_then (settlement l w n s) (\<lambda>_ t. Done () (liquidated l n t)))))"
  by (simp add: mark_loan_liquidated_def settlement_def liquidated_def Let_def and_then_assoc)

lemma liquidated_fields [simp]:
  "Loans (liquidated l n s) = lm_remove (loan_id l) (Loans s)"
  "TotalLoan (liquidated l n s) = TotalLoan s"
  "TotalCollateral (liquidated l n s) = TotalCollateral s"
  "free_balance aid w (liquidated l n s) = free_balance aid w s"
  by (simp_all add: liquidated_def deposit_loan_event_def)

lemma book_is_settlement: "book_is b s \<Longrightarrow> keeps (book_is b) (settlement l w n s)"
  unfolding settlement_def Let_def by (auto intro!: keeps_intros split: option.split)

lemma mark_loan_liquidated_book:
  assumes "mark_loan_liquidated l w n s = Done u s'"
  shows "Loans s' = lm_remove (loan_id l) (Loans s)" "TotalLoan s' = TotalLoan s"
    "TotalCollateral s' = TotalCollateral s"
proof -
  obtain t where run: "settlement l w n s = Done () t" and s': "s' = liquidated l n t"
    using assms by (auto simp: mark_loan_liquidated_eq Done_iffs)
  show "Loans s' = lm_remove (loan_id l) (Loans s)" "TotalLoan s' = TotalLoan s"
    "TotalCollateral s' = TotalCollateral s"
    using keepsD_Done [OF book_is_settlement [OF book_is_self] run] by (simp_all add: book_is_def s')
qed

text \<open>Marking a loan as liquidated removes it from the book but leaves both recorded totals as
  they were, so for a loan with a debt they no longer match the book.\<close>

theorem liquidation_keeps_totals:
  assumes "loan_inv s" and "totals_match s" and "mark_liquidated (Signed w) lid n s = Done u s'"
    and "loan_balance_total (get_loan_by_id lid s) \<noteq> 0"
  shows "map_of (Loans s') lid = None \<and> TotalLoan s' = TotalLoan s \<and> TotalCollateral s' = TotalCollateral s
    \<and> \<not> totals_match s'"
proof -
  let ?l = "get_loan_by_id lid s"
  have run: "mark_loan_liquidated ?l w n s = Done u s'" and present: "lm_contains (Loans s) lid"
    using assms(3) by (simp_all add: mark_liquidated_def ensure_def split: if_splits)
  have id: "loan_id ?l = lid" using assms(1) present by (rule loan_inv_ids)
  have "TotalLoan s = loan_balance_total ?l + total_of loan_balance_total (map_of (lm_remove lid (Loans s)))"
    using assms(2) lm.total_rem [OF map_of_get_loan [OF present], of loan_balance_total]
    by (simp add: totals_match_def)
  then show ?thesis
    using mark_loan_liquidated_book [OF run] assms(4) by (simp add: id totals_match_def)
qed

lemma totals_liquidation_fields [simp]:
  "Paused demo_lent = False" "LoanAssetId demo_lent = 0" "CollectionAccountId demo_lent = 10"
  "LiquidationAccount demo_lent = 13" "ProfitPool demo_lent = 12" "LiquidationPenalty demo_lent = 13"
  by (simp_all add: demo_lent_def)
    (simp_all add: opened_def Let_def deposit_loan_event_def mutate_loans_by_account_def pledged_def)

text \<open>
  The demonstration loan in liquidation; the liquidation account 13 raised 1000 DUSD for the
  collateral.
\<close>

definition demo_auction :: loan_state where
  "demo_auction = moved 0 10 13 1000 (liquidate_loan 0 9411 demo_lent)"

lemma liquidate_loan_fields [simp]:
  "Paused (liquidate_loan lid v s) = Paused s" "LoanAssetId (liquidate_loan lid v s) = LoanAssetId s"
  "CollectionAccountId (liquidate_loan lid v s) = CollectionAccountId s"
  "LiquidationAccount (liquidate_loan lid v s) = LiquidationAccount s"
  "ProfitPool (liquidate_loan lid v s) = ProfitPool s"
  "LiquidationPenalty (liquidate_loan lid v s) = LiquidationPenalty s"
  "TotalLoan (liquidate_loan lid v s) = TotalLoan s"
  "TotalCollateral (liquidate_loan lid v s) = TotalCollateral s"
  "free_balance aid w (liquidate_loan lid v s) = free_balance aid w s"
  "get_liquidating_loans (liquidate_loan lid v s) = get_liquidating_loans s @ [lid]"
  by (simp_all add: liquidate_loan_def mutate_loan_def Let_def get_liquidating_loans_def split: option.split)

lemma demo_auction_fields [simp]:
  "Paused demo_auction = False" "LoanAssetId demo_auction = 0" "CollectionAccountId demo_auction = 10"
  "LiquidationAccount demo_auction = 13" "ProfitPool demo_auction = 12" "LiquidationPenalty demo_auction = 13"
  "get_liquidating_loans demo_auction = [0]" "TotalLoan demo_auction = 800" "TotalCollateral demo_auction = 1000"
  by (simp_all add: demo_auction_def) (simp_all add: demo_lent_def)

lemma demo_auction_loans:
  "Loans demo_auction = [(0, \<lparr>loan_id = 0, loan_who = 3, collateral_balance_original = 1000,
     collateral_balance_available = 1000, loan_balance_total = 800, loan_status = Liquidating 9411\<rparr>)]"
  by (simp add: demo_auction_def demo_lent_loans lm_mutate_def lm_insert_def lm_get_def lm_contains_def)

lemma demo_auction_loan:
  "get_loan_by_id 0 demo_auction = \<lparr>loan_id = 0, loan_who = 3, collateral_balance_original = 1000,
     collateral_balance_available = 1000, loan_balance_total = 800, loan_status = Liquidating 9411\<rparr>"
  "lm_contains (Loans demo_auction) 0"
  by (simp_all add: get_loan_by_id_def demo_auction_loans lm_get_def lm_contains_def)

lemma demo_auction_balances:
  "free_balance 0 10 demo_auction = 998200" "free_balance 0 13 demo_auction = 1000"
  "free_balance 0 3 demo_auction = 800" "free_balance 0 12 demo_auction = 0"
  by (simp_all add: demo_auction_def demo_lent_def ledger_simps free_balance_opened demo_loans_reads)

lemma demo_auction_inv: "loan_inv demo_auction" "totals_match demo_auction"
proof -
  show "loan_inv demo_auction"
    unfolding demo_auction_def
    by (intro loan_inv_moved loan_inv_liquidate_loan demo_lent_inv)
      (simp_all add: demo_lent_def free_balance_opened demo_loans_reads word_le_nat_alt)
  show "totals_match demo_auction"
    by (simp add: totals_match_def demo_auction_loans total_of_def)
qed

lemma liquidation_keeps_totals_witness:
  "\<exists>s'. mark_liquidated (Signed 13) 0 800 demo_auction = Done () s' \<and> TotalLoan s' = 800 \<and> \<not> totals_match s'"
proof -
  obtain s' where run: "mark_liquidated (Signed 13) 0 800 demo_auction = Done () s'"
    by (simp add: mark_liquidated_def mark_loan_liquidated_eq settlement_def make_transfer_with_event_eq
        check_loan_in_liquidation_def demo_auction_loan demo_auction_balances checked_sub_def word_le_nat_alt)
  from liquidation_keeps_totals [OF demo_auction_inv run] run show ?thesis
    by (simp add: demo_auction_loan)
qed

text \<open>C22: When the auction of a loan in liquidation raised more than the debt and the penalty is at
  most all of the surplus, the liquidation account pays only the debt; the surplus is paid out of the
  collection account, the penalty part of it to the profit pool and the rest to the borrower, so the
  savings lose what the liquidation account keeps.  The four accounts are different, and the collection
  account with the debt paid in can pay out the surplus.  No balance of any other asset changes, so the
  collateral of the loan that leaves the book stays in the pawn shop.\<close>

theorem liquidation_settlement:
  assumes inv: "loan_inv s" and "\<not> Paused s" and "lm_contains (Loans s) lid" and "lid \<in> set (get_liquidating_loans s)"
    and l: "l = get_loan_by_id lid s" and w: "w = LiquidationAccount s" and a: "a = LoanAssetId s"
    and accounts: "distinct [w, CollectionAccountId s, ProfitPool s, loan_who l]"
    and raised: "n \<le> free_balance a w s" "loan_balance_total l < n"
    and surplus: "surplus = n - loan_balance_total l"
    and penalty: "penalty = surplus * ucast (LiquidationPenalty s) div 100" "penalty \<le> surplus"
    and covered: "unat surplus \<le> unat (free_balance a (CollectionAccountId s) s) + unat (loan_balance_total l)"
  shows "\<exists>s'. mark_liquidated (Signed w) lid n s = Done () s'
    \<and> free_balance a w s' = free_balance a w s - loan_balance_total l
    \<and> free_balance a (CollectionAccountId s) s' = free_balance a (CollectionAccountId s) s + loan_balance_total l - surplus
    \<and> free_balance a (ProfitPool s) s' = free_balance a (ProfitPool s) s + penalty
    \<and> free_balance a (loan_who l) s' = free_balance a (loan_who l) s + (surplus - penalty)
    \<and> (\<forall>b acct. b \<noteq> a \<longrightarrow> free_balance b acct s' = free_balance b acct s)
    \<and> map_of (Loans s') = (map_of (Loans s))(lid := None)"
proof -
  let ?c = "CollectionAccountId s" and ?d = "loan_balance_total l"
  have ga: "ga_inv s" using inv by (simp add: loan_inv_def)
  have id: "loan_id l = lid" using loan_inv_ids [OF inv assms(3)] by (simp add: l)
  have debt: "?d \<le> n" using raised(2) by simp
  then have pays: "?d \<le> free_balance a w s" using raised(1) by simp
  have sum: "unat (free_balance a ?c s + ?d) = unat (free_balance a ?c s) + unat ?d"
    using solvent_pair_less [OF ga_inv_solvent [OF ga], of w ?c a] accounts pays
    by (intro unat_add_less) (simp add: holdings_def word_le_nat_alt)
  then have all: "surplus \<le> free_balance a ?c s + ?d"
    using covered by (simp add: word_le_nat_alt)
  then have pen: "penalty \<le> free_balance a ?c s + ?d"
    using penalty(2) by (rule order_trans [rotated])
  have rest: "surplus - penalty \<le> free_balance a ?c s + ?d - penalty"
    using all pen penalty(2) by (simp add: word_le_nat_alt unat_sub_le diff_le_mono)
  have pos: "0 < surplus" using raised(2) by (simp add: surplus word_gt_0)
  have sub: "checked_sub n ?d = Some surplus"
    using debt by (simp add: checked_sub_def surplus)
  have ne: "?c \<noteq> w" "ProfitPool s \<noteq> w" "loan_who l \<noteq> w" "ProfitPool s \<noteq> ?c" "loan_who l \<noteq> ?c"
    "loan_who l \<noteq> ProfitPool s"
    using accounts by auto
  let ?t = "moved a ?c (loan_who l) (surplus - penalty) (moved a ?c (ProfitPool s) penalty (moved a w ?c ?d s))"
  have "settlement l w n s = Done () ?t"
    using accounts ne pays pen rest pos
    by (simp add: settlement_def make_transfer_with_event_eq a [symmetric] sub Let_def penalty(1) [symmetric] ledger_simps)
  then have "mark_liquidated (Signed w) lid n s = Done () (liquidated l n ?t)"
    using assms(2-4) raised(1) debt
    by (simp add: mark_liquidated_def mark_loan_liquidated_eq l [symmetric] a [symmetric] w [symmetric] id
        check_loan_in_liquidation_def)
  moreover have "free_balance a ?c s + ?d - penalty - (surplus - penalty) = free_balance a ?c s + ?d - surplus"
    by (simp add: algebra_simps)
  ultimately show ?thesis
    using accounts by (auto simp: ledger_simps id)
qed

lemma liquidation_settlement_witness:
  "\<exists>s'. mark_liquidated (Signed 13) 0 1000 demo_auction = Done () s' \<and> free_balance 0 10 s' = 998800
    \<and> free_balance 0 12 s' = 26 \<and> free_balance 0 3 s' = 974
    \<and> free_balance 1 11 s' = free_balance 1 11 demo_auction"
proof -
  obtain s' where "mark_liquidated (Signed 13) 0 1000 demo_auction = Done () s'" "free_balance 0 10 s' = 998800"
    "free_balance 0 12 s' = 26" "free_balance 0 3 s' = 974"
    "\<forall>b acct. b \<noteq> 0 \<longrightarrow> free_balance b acct s' = free_balance b acct demo_auction"
    using liquidation_settlement [OF demo_auction_inv(1), of 0 _ 13 0 1000 200 26]
    by (auto simp: demo_auction_loan demo_auction_balances word_le_nat_alt word_less_nat_alt)
  then show ?thesis by auto
qed

lemma penalty_of_testnet:
  "0 < surplus \<Longrightarrow> unat surplus * 1300 < 2 ^ 128 \<Longrightarrow> surplus < surplus * 1300 div (100 :: balance)"
  by (simp add: word_less_nat_alt unat_div unat_mult_less)

text \<open>C23: When the penalty, which is worked out modulo \<open>2 ^ 128\<close>, exceeds the surplus of an auction (at the
  rate of 1300 per cent that the testnet starts with it does unless the surplus is so large that the product
  wraps around, lemma \<open>penalty_of_testnet\<close>), settling the loan fails on the subtraction that wraps around,
  after money has moved, provided that the collection account with the debt paid in can pay the penalty, the
  pawn shop holds what the loan pledged, the loan asset is not the collateral asset, and the liquidation
  account, the collection account, the profit pool and the borrower are four accounts, the first of them not
  the pawn shop: the liquidation account has paid the debt but received the penalty out of the collection
  account and the loan's whole collateral out of the pawn shop, and the loan is still in the book and in
  liquidation.\<close>

theorem failed_settlement_pays_liquidator:
  assumes inv: "loan_inv s" and "\<not> Paused s" and present: "lm_contains (Loans s) lid"
    and "lid \<in> set (get_liquidating_loans s)"
    and l: "l = get_loan_by_id lid s" and w: "w = LiquidationAccount s" and a: "a = LoanAssetId s"
    and b: "b = CollateralAssetId s" "a \<noteq> b"
    and accounts: "distinct [w, CollectionAccountId s, ProfitPool s, loan_who l]" "PawnShop s \<noteq> w"
    and raised: "n \<le> free_balance a w s" "loan_balance_total l < n"
    and surplus: "surplus = n - loan_balance_total l"
    and penalty: "penalty = surplus * ucast (LiquidationPenalty s) div 100" "surplus < penalty"
    and covered: "unat penalty \<le> unat (free_balance a (CollectionAccountId s) s) + unat (loan_balance_total l)"
    and shop: "collateral_balance_original l \<le> free_balance b (PawnShop s) s"
  shows "\<exists>s'. mark_liquidated (Signed w) lid n s = Fail (GaError InsufficientBalance) s'
    \<and> free_balance a w s' = free_balance a w s - loan_balance_total l + penalty
    \<and> free_balance a (CollectionAccountId s) s' = free_balance a (CollectionAccountId s) s + loan_balance_total l - penalty
    \<and> free_balance b w s' = free_balance b w s + collateral_balance_original l
    \<and> free_balance b (PawnShop s) s' = free_balance b (PawnShop s) s - collateral_balance_original l
    \<and> map_of (Loans s') lid = Some l \<and> lid \<in> set (get_liquidating_loans s')"
proof -
  let ?c = "CollectionAccountId s" and ?d = "loan_balance_total l" and ?p = "ProfitPool s"
  have ga: "ga_inv s" using inv by (simp add: loan_inv_def)
  have id: "loan_id l = lid" using loan_inv_ids [OF inv present] by (simp add: l)
  have debt: "?d \<le> n" using raised(2) by simp
  then have pays: "?d \<le> free_balance a w s" using raised(1) by simp
  have sum: "unat (free_balance a ?c s + ?d) = unat (free_balance a ?c s) + unat ?d"
    using solvent_pair_less [OF ga_inv_solvent [OF ga], of w ?c a] accounts pays
    by (intro unat_add_less) (simp add: holdings_def word_le_nat_alt)
  then have pen: "penalty \<le> free_balance a ?c s + ?d"
    using covered by (simp add: word_le_nat_alt)
  have short: "\<not> surplus - penalty \<le> free_balance a ?c s + ?d - penalty"
  proof -
    let ?x = "free_balance a ?c s + ?d"
    have "unat (surplus - penalty) = unat surplus + 2 ^ 128 - unat penalty"
      using penalty(2) by (simp add: unat_sub_if' word_less_nat_alt)
    moreover have "unat (?x - penalty) = unat ?x - unat penalty" using pen by (rule unat_sub_le)
    ultimately show ?thesis
      using unat_less_2p [of ?x] unat_less_2p [of penalty] pen
      by (simp add: word_le_nat_alt)
  qed
  have pos: "0 < surplus" using raised(2) by (simp add: surplus word_gt_0)
  have sub: "checked_sub n ?d = Some surplus"
    using debt by (simp add: checked_sub_def surplus)
  have ne: "?c \<noteq> w" "?p \<noteq> w" "loan_who l \<noteq> w" "?p \<noteq> ?c" "loan_who l \<noteq> ?c" "loan_who l \<noteq> ?p"
    using accounts(1) by auto
  have refund: "penalty \<le> free_balance a ?p s + penalty"
    using receiver_fits [OF ga_inv_moved [OF ga pays, of ?c], of ?c ?p penalty a] pen ne
    by (simp add: ledger_simps)
  let ?t = "moved b (PawnShop s) w (collateral_balance_original l)
    (moved a ?p w penalty (moved a ?c ?p penalty (moved a w ?c ?d s)))"
  have "settlement l w n s = Fail (GaError InsufficientBalance) ?t"
    using accounts ne pays pen short pos refund shop b(2)
    by (simp add: settlement_def make_transfer_with_event_eq a [symmetric] b(1) [symmetric] sub Let_def
        penalty(1) [symmetric] ledger_simps)
  then have "mark_liquidated (Signed w) lid n s = Fail (GaError InsufficientBalance) ?t"
    using assms(2-4) raised(1) debt
    by (simp add: mark_liquidated_def mark_loan_liquidated_eq l [symmetric] a [symmetric] w [symmetric] id
        check_loan_in_liquidation_def)
  then show ?thesis
    using ne accounts(2) b(2) assms(4) map_of_get_loan [OF present] by (simp add: ledger_simps l)
qed

text \<open>The auction of before at the penalty of the testnet: the account 13 raised 1000 DUSD for a debt of 800, and
  ends with 2800 DUSD and the 1000 BTC.\<close>

definition demo_penalised :: loan_state where
  "demo_penalised = demo_auction\<lparr>LiquidationPenalty := 1300\<rparr>"

lemma demo_penalised_facts:
  "Paused demo_penalised = False" "LoanAssetId demo_penalised = 0" "CollectionAccountId demo_penalised = 10"
  "LiquidationAccount demo_penalised = 13" "ProfitPool demo_penalised = 12" "LiquidationPenalty demo_penalised = 1300"
  "CollateralAssetId demo_penalised = 1" "PawnShop demo_penalised = 11"
  "get_liquidating_loans demo_penalised = [0]" "lm_contains (Loans demo_penalised) 0"
  "free_balance 0 10 demo_penalised = 998200" "free_balance 0 13 demo_penalised = 1000"
  "free_balance 1 11 demo_penalised = 1000" "free_balance 1 13 demo_penalised = 0" "loan_inv demo_penalised"
  "get_loan_by_id 0 demo_penalised = get_loan_by_id 0 demo_auction"
proof -
  have "get_liquidating_loans demo_penalised = get_liquidating_loans demo_auction"
    by (simp only: demo_penalised_def get_liquidating_loans_def) simp
  then show "get_liquidating_loans demo_penalised = [0]" by simp
  have "CollateralAssetId demo_auction = 1" "PawnShop demo_auction = 11"
    by (simp_all add: demo_auction_def) (simp_all add: demo_lent_def liquidate_loan_def mutate_loan_def Let_def split: option.split)
  then show "CollateralAssetId demo_penalised = 1" "PawnShop demo_penalised = 11"
    by (simp_all add: demo_penalised_def)
  have "free_balance 1 11 demo_auction = 1000" "free_balance 1 13 demo_auction = 0"
    by (simp_all add: demo_auction_def demo_lent_def ledger_simps free_balance_opened demo_loans_reads)
  then show "free_balance 1 11 demo_penalised = 1000" "free_balance 1 13 demo_penalised = 0"
    by (simp_all add: demo_penalised_def)
qed (use demo_auction_inv demo_auction_loan demo_auction_balances in
    \<open>simp_all add: demo_penalised_def get_loan_by_id_def\<close>)

lemma failed_settlement_pays_liquidator_witness:
  "\<exists>s'. mark_liquidated (Signed 13) 0 1000 demo_penalised = Fail (GaError InsufficientBalance) s'
    \<and> free_balance 0 13 s' = 2800 \<and> free_balance 1 13 s' = 1000 \<and> 0 \<in> set (get_liquidating_loans s')"
  using failed_settlement_pays_liquidator [where s = demo_penalised and w = 13 and n = 1000 and lid = 0 and a = 0
      and b = 1, OF demo_penalised_facts(15) _ demo_penalised_facts(10) _ refl _ _ _ _ _ _ _ _ refl refl]
  by (auto simp: demo_penalised_facts demo_auction_loan word_le_nat_alt word_less_nat_alt)

end
