(* ===== verification/Loan_Frame.thy ===== *)
theory Loan_Frame
  imports Loan_Book
begin

text \<open>
  What the operations of the loan pallet leave alone.  A storage property \<open>P\<close> that does not read the
  fields an operation writes is kept by it; the interfaces below list the fields, group by group, and
  their lemmas are proved once.  A theory that needs a frame property of the pallet (the thresholds, the
  number of loans handed out, the storage of the oracle) interprets the interface on it.
\<close>

section \<open>The user operations\<close>

locale loan_frame =
  fixes P :: "'a loan_state_scheme \<Rightarrow> bool"
  assumes moved_keeps: "P (moved a f t n s) = P s"
    and book_keeps: "P (s\<lparr>Loans := x1\<rparr>) = P s" "P (s\<lparr>LoansByAccount := x2\<rparr>) = P s"
      "P (s\<lparr>LiquidatingLoans := x3\<rparr>) = P s" "P (s\<lparr>LoanEvents := x4\<rparr>) = P s"
    and totals_keep: "P (s\<lparr>TotalLoan := x5\<rparr>) = P s" "P (s\<lparr>TotalCollateral := x6\<rparr>) = P s"
    and savings_keep: "P (s\<lparr>UserDtoken := x7\<rparr>) = P s" "P (s\<lparr>MarketDtoken := x8\<rparr>) = P s"
      "P (s\<lparr>TotalDtoken := x9\<rparr>) = P s"
begin

lemmas writes_keep = moved_keeps book_keeps totals_keep savings_keep

lemma keeps_transfer: "P s \<Longrightarrow> keeps P (make_transfer_with_event a f t n s)"
  by (simp add: make_transfer_with_event_eq moved_keeps)

lemma helpers_keep:
  "P (mutate_loan lid f s) = P s" "P (mutate_loans_by_account who g s) = P s"
  "P (deposit_loan_event ev s) = P s" "P (revert_repay who l s) = P s" "P (liquidate_loan lid v s) = P s"
  by (simp_all add: mutate_loan_def mutate_loans_by_account_def deposit_loan_event_def revert_repay_def
      liquidate_loan_def Let_def writes_keep split: option.split)

lemma keeps_savings:
  assumes "P s"
  shows "keeps P (create_staking who aid n s)" "keeps P (make_redeem_all who s)"
  unfolding create_staking_def make_redeem_all_def Let_def
  using assms by (auto intro!: keeps_intros keeps_transfer simp: writes_keep)

lemma keeps_redeem: "P s \<Longrightarrow> keeps P (make_redeem who aid acct n s)"
  unfolding make_redeem_def Let_def by (auto intro!: keeps_intros keeps_transfer keeps_savings)

lemma keeps_loans:
  assumes "P s"
  shows "keeps P (repay_for_loan who lid s)" "keeps P (add_loan_collateral l who n s)"
    "keeps P (draw_from_loan who lid n s)" "keeps P (mark_loan_liquidated l who n s)"
  unfolding repay_for_loan_def add_loan_collateral_def draw_from_loan_def mark_loan_liquidated_def Let_def
  using assms by (auto intro!: keeps_intros keeps_transfer simp: writes_keep helpers_keep split: option.split)

text \<open>Opening a loan, up to the number it takes.\<close>

lemma keeps_open_loan:
  assumes "\<And>v. P (s\<lparr>NextLoanId := v\<rparr>) = Q s" "P s" "Q s"
  shows "keeps P (apply_for_loan who c n s)"
proof -
  have num: "P ((moved a f t m s)\<lparr>NextLoanId := v\<rparr>) = Q s" for a f t m v
  proof -
    have "(moved a f t m s)\<lparr>NextLoanId := v\<rparr> = moved a f t m (s\<lparr>NextLoanId := v\<rparr>)"
      by (simp add: moved_def set_free_balance_def deposit_ga_event_def)
    then show ?thesis by (simp add: moved_keeps assms(1))
  qed
  show ?thesis
    using assms(2,3)
    by (auto simp: apply_for_loan_eq open_loan_def Let_def make_transfer_with_event_eq num moved_keeps helpers_keep
        writes_keep intro!: keeps_intros split: outcome.split)
qed

end

section \<open>The hooks, the setters and the numbering\<close>

locale loan_frame_hooks = loan_frame P for P :: "'a loan_state_scheme \<Rightarrow> bool" +
  assumes rates_keep: "P (s\<lparr>BonusTime := y1\<rparr>) = P s" "P (s\<lparr>LoanInterestRateCurrent := y2\<rparr>) = P s"
      "P (s\<lparr>SavingInterestRate := y3\<rparr>) = P s"
begin

lemma keeps_on_initialize: "P s \<Longrightarrow> keeps P (loan_on_initialize h s)"
  unfolding loan_on_initialize_def on_each_block_def check_one_loan_def calculate_loan_interest_rate_def
    charge_interest_def Let_def
  by (auto intro!: keeps_intros keeps_transfer keeps_loans simp: writes_keep helpers_keep rates_keep
      split: loan_health.split)

end

locale loan_frame_config = loan_frame_hooks P for P :: "'a loan_state_scheme \<Rightarrow> bool" +
  assumes config_keeps: "P (s\<lparr>Paused := z1\<rparr>) = P s" "P (s\<lparr>CollectionAssetId := z2\<rparr>) = P s"
      "P (s\<lparr>CollectionAccountId := z3\<rparr>) = P s" "P (s\<lparr>CollateralAssetId := z4\<rparr>) = P s"
      "P (s\<lparr>GlobalLTVLimit := z5\<rparr>) = P s" "P (s\<lparr>LoanAssetId := z6\<rparr>) = P s"
      "P (s\<lparr>GlobalLiquidationThreshold := z7\<rparr>) = P s" "P (s\<lparr>GlobalWarningThreshold := z8\<rparr>) = P s"
      "P (s\<lparr>LoanCap := z9\<rparr>) = P s" "P (s\<lparr>LiquidationAccount := z10\<rparr>) = P s"
      "P (s\<lparr>ProfitAssetId := z11\<rparr>) = P s" "P (s\<lparr>ProfitPool := z12\<rparr>) = P s" "P (s\<lparr>PenaltyRate := z13\<rparr>) = P s"
begin

lemma keeps_dispatch_but_apply:
  assumes "P s" and "\<And>m n. c = Call_apply_loan m n \<Longrightarrow> keeps P (loan_dispatch orig c s)"
  shows "keeps P (loan_dispatch orig c s)"
  using assms
  by (cases c; cases orig)
    (auto simp: admin_defs user_defs Let_def config_keeps
      intro!: keeps_ensure keeps_savings keeps_redeem keeps_loans)

end

locale loan_frame_all = loan_frame_config P for P :: "'a loan_state_scheme \<Rightarrow> bool" +
  assumes numbering_keeps: "P (s\<lparr>NextLoanId := w\<rparr>) = P s"
begin

lemma keeps_apply: "P s \<Longrightarrow> keeps P (apply_for_loan who c n s)"
  by (rule keeps_open_loan [where Q = P]) (simp_all add: numbering_keeps)

lemma keeps_dispatch:
  assumes "P s"
  shows "keeps P (loan_dispatch orig c s)"
proof (rule keeps_dispatch_but_apply [OF assms])
  show "keeps P (loan_dispatch orig c s)" if "c = Call_apply_loan m n" for m n
    using assms that by (cases orig) (auto simp: apply_loan_def intro!: keeps_ensure keeps_apply)
qed

end

section \<open>The numbering of the loans\<close>

interpretation numbering: loan_frame_config "\<lambda>s. NextLoanId s = k" for k
  by unfold_locales simp_all

text \<open>A call hands out at most one number.\<close>

definition next_loan_within :: "loan_no \<Rightarrow> 'a loan_state_scheme \<Rightarrow> bool" where
  "next_loan_within k s \<longleftrightarrow> NextLoanId s = k \<or> NextLoanId s = k + 1"

lemma next_loan_dispatch: "keeps (next_loan_within (NextLoanId s)) (loan_dispatch orig c s)"
proof (cases "\<exists>m n. c = Call_apply_loan m n")
  case True
  let ?P = "next_loan_within (NextLoanId s)"
  have start: "?P s" by (simp add: next_loan_within_def)
  have open_keeps: "keeps ?P (apply_for_loan who m n s)" for who m n
    by (auto simp: apply_for_loan_eq open_loan_def Let_def make_transfer_with_event_eq next_loan_within_def
        mutate_loans_by_account_def deposit_loan_event_def intro!: keeps_intros split: outcome.split)
  obtain m n where c: "c = Call_apply_loan m n" using True by blast
  show ?thesis
    unfolding c loan_dispatch.simps apply_loan_def
    by (cases orig) (simp_all add: keeps_ensure start open_keeps)
next
  case False
  have "keeps (\<lambda>t. NextLoanId t = NextLoanId s) (loan_dispatch orig c s)"
    by (rule numbering.keeps_dispatch_but_apply) (use False in auto)
  then show ?thesis by (rule keeps_mono) (simp add: next_loan_within_def)
qed

lemma next_loan_on_initialize: "keeps (\<lambda>t. NextLoanId t = NextLoanId s) (loan_on_initialize h s)"
  by (rule numbering.keeps_on_initialize) simp

end
