(* ===== verification/Loan_Savings.thy ===== *)
theory Loan_Savings
  imports Loan_Lifecycle Loan_Frame
begin

text \<open>
  Who governs the pallet and when it runs at all, the interest that is computed at the start of
  every block, and the savings: the share a deposit buys and what a redemption does to it.
\<close>

section \<open>The thresholds and the switch\<close>

definition thresholds_are :: "ltv \<times> ltv \<Rightarrow> 'a loan_state_scheme \<Rightarrow> bool" where
  "thresholds_are p s \<longleftrightarrow> (GlobalLiquidationThreshold s, GlobalWarningThreshold s) = p"

interpretation thresholds: loan_frame_hooks "thresholds_are p" for p
  by unfold_locales (simp_all add: thresholds_are_def)

lemma thresholds_are_apply: "thresholds_are p s \<Longrightarrow> keeps (thresholds_are p) (apply_for_loan who c n s)"
  by (rule thresholds.keeps_open_loan [where Q = "thresholds_are p"]) (simp_all add: thresholds_are_def)

text \<open>A successful call that changes the liquidation threshold is the root's call of
  \<open>set_global_warning_threshold\<close>, and one that changes the warning threshold is the root's call of
  \<open>set_global_liquidation_threshold\<close>: the two setters write each other's field.\<close>

theorem thresholds_written_by_other_setter:
  assumes "loan_dispatch orig c s = Done u s'"
  shows "(GlobalLiquidationThreshold s' \<noteq> GlobalLiquidationThreshold s \<longrightarrow>
      orig = Root \<and> c = Call_set_global_warning_threshold (GlobalLiquidationThreshold s'))
    \<and> (GlobalWarningThreshold s' \<noteq> GlobalWarningThreshold s \<longrightarrow>
      orig = Root \<and> c = Call_set_global_liquidation_threshold (GlobalWarningThreshold s'))"
proof -
  let ?p = "(GlobalLiquidationThreshold s, GlobalWarningThreshold s)"
  have start: "thresholds_are ?p s" by (simp add: thresholds_are_def)
  have same: "?thesis" if "thresholds_are ?p s'"
    using that by (simp add: thresholds_are_def)
  note kept = keepsD_Done [OF thresholds.keeps_savings(1) [OF start]] keepsD_Done [OF thresholds.keeps_redeem [OF start]]
    keepsD_Done [OF thresholds_are_apply [OF start]] keepsD_Done [OF thresholds.keeps_loans(1) [OF start]]
    keepsD_Done [OF thresholds.keeps_loans(2) [OF start]] keepsD_Done [OF thresholds.keeps_loans(3) [OF start]]
    keepsD_Done [OF thresholds.keeps_loans(4) [OF start]]
  show ?thesis
  proof (cases c)
    case (Call_staking aid n) then show ?thesis using assms
      by (intro same) (auto simp: staking_def Done_iffs origin_Done_iffs dest: kept)
  next
    case (Call_sudo_staking aid n w) then show ?thesis using assms
      by (intro same) (auto simp: sudo_staking_def Done_iffs origin_Done_iffs dest: kept)
  next
    case (Call_redeem aid n) then show ?thesis using assms
      by (intro same) (auto simp: redeem_def Let_def Done_iffs origin_Done_iffs dest: kept)
  next
    case (Call_sudo_redeem aid n w) then show ?thesis using assms
      by (intro same) (auto simp: sudo_redeem_def Let_def Done_iffs origin_Done_iffs dest: kept)
  next
    case (Call_apply_loan m n) then show ?thesis using assms
      by (intro same) (auto simp: apply_loan_def Done_iffs origin_Done_iffs dest: kept)
  next
    case (Call_repay_loan lid) then show ?thesis using assms
      by (intro same) (auto simp: repay_loan_def Done_iffs origin_Done_iffs dest: kept)
  next
    case (Call_mark_liquidated lid n) then show ?thesis using assms
      by (intro same) (auto simp: mark_liquidated_def Done_iffs origin_Done_iffs dest: kept)
  next
    case (Call_add_collateral lid n) then show ?thesis using assms
      by (intro same) (auto simp: add_collateral_def Let_def Done_iffs origin_Done_iffs dest: kept)
  next
    case (Call_draw lid n) then show ?thesis using assms
      by (intro same) (auto simp: draw_def Done_iffs origin_Done_iffs dest: kept)
  qed (use assms in \<open>auto simp: admin_defs Done_iffs origin_Done_iffs split: if_splits\<close>)
qed

lemma thresholds_written_by_other_setter_witness:
  "\<exists>s'. loan_dispatch Root (Call_set_global_liquidation_threshold 8500) demo_loans = Done () s'
    \<and> GlobalWarningThreshold s' = 8500 \<and> GlobalLiquidationThreshold s' = 9000"
proof -
  obtain s' where run: "loan_dispatch Root (Call_set_global_liquidation_threshold 8500) demo_loans = Done () s'"
    and moved: "GlobalWarningThreshold s' = 8500"
    by (simp add: set_global_liquidation_threshold_def)
  from thresholds_written_by_other_setter [OF run] run moved show ?thesis by auto
qed

fun user_call :: "loan_call \<Rightarrow> bool" where
  "user_call (Call_staking _ _) = True"
| "user_call (Call_sudo_staking _ _ _) = True"
| "user_call (Call_redeem _ _) = True"
| "user_call (Call_sudo_redeem _ _ _) = True"
| "user_call (Call_apply_loan _ _) = True"
| "user_call (Call_repay_loan _) = True"
| "user_call (Call_mark_liquidated _ _) = True"
| "user_call (Call_add_collateral _ _) = True"
| "user_call (Call_draw _ _) = True"
| "user_call _ = False"

text \<open>While the pallet is paused every call of its users returns an error without touching the
  storage, whoever makes it, and the hooks do nothing; only the root's calls of the administration
  still work, and \<open>resume\<close> ends the pause.\<close>

theorem paused_blocks_users:
  assumes "Paused s"
  shows "(if user_call c then loan_dispatch orig c s = Fail (Other ''module is paused'') s
          else loan_dispatch orig c s \<noteq> Panic \<and> (orig \<noteq> Root \<longrightarrow> loan_dispatch orig c s = Fail BadOrigin s))
    \<and> loan_on_initialize h s = Done () s
    \<and> (\<exists>s'. loan_dispatch Root Call_resume s = Done () s' \<and> \<not> Paused s')"
proof -
  have "if user_call c then loan_dispatch orig c s = Fail (Other ''module is paused'') s
        else loan_dispatch orig c s \<noteq> Panic \<and> (orig \<noteq> Root \<longrightarrow> loan_dispatch orig c s = Fail BadOrigin s)"
    using assms by (cases c) (simp_all add: admin_defs user_defs ensure_root_and_then ensure_def)
  then show ?thesis using assms by (simp add: loan_on_initialize_def resume_def)
qed

lemma paused_blocks_users_witness:
  "loan_dispatch (Signed 3) (Call_draw 0 1) (demo_loans\<lparr>Paused := True\<rparr>)
     = Fail (Other ''module is paused'') (demo_loans\<lparr>Paused := True\<rparr>)"
  using paused_blocks_users [of "demo_loans\<lparr>Paused := True\<rparr>" "Call_draw 0 1" "Signed 3"] by simp

section \<open>Interest\<close>

lemma loan_interest_rate_first_tier:
  assumes "unat x \<le> 50000000"
  shows "unat (loan_interest_rate x) = (unat x + 50000000) div 10"
proof -
  have "x < 400000000" using assms by (simp add: word_less_nat_alt)
  moreover have "unat (x + 50000000) = unat x + 50000000"
    using assms by (simp add: unat_add_less)
  ultimately show ?thesis by (simp add: loan_interest_rate_def unat_div)
qed

text \<open>The total deposit counts the loans once more, so the utilisation is at most one half.\<close>

lemma utilization_at_most_half:
  assumes "unat free + 2 * unat lent < 2 ^ 128" and "checked_mul lent (10 ^ 8) = Some x" and "free + lent + lent \<noteq> (0 :: balance)"
  shows "unat (x div (free + lent + lent)) \<le> 50000000"
proof -
  have x: "unat x = unat lent * 10 ^ 8"
    using assms(2) by (auto simp: checked_mul_Some_iff unat_mult_less)
  have "unat (free + lent) = unat free + unat lent"
    using assms(1) by (intro unat_add_less) simp
  then have d: "unat (free + lent + lent) = unat free + 2 * unat lent"
    using assms(1) by (subst unat_add_less) simp_all
  then have "0 < unat free + 2 * unat lent"
    using assms(3) by (metis unat_gt_0)
  moreover have "unat lent * 10 ^ 8 \<le> 50000000 * (unat free + 2 * unat lent)"
    by simp
  then have "unat lent * 10 ^ 8 div m \<le> 50000000 * m div m" if "m = unat free + 2 * unat lent" for m
    unfolding that by (rule div_le_mono)
  ultimately have "unat lent * 10 ^ 8 div (unat free + 2 * unat lent) \<le> 50000000"
    by (metis nonzero_mult_div_cancel_right less_not_refl)
  then show ?thesis by (simp only: unat_div x d)
qed

text \<open>What the interest of a block changes: nothing, since the time of the last bonus is set to the
  current time before the elapsed time is computed.\<close>

definition same_wealth :: "'a loan_state_scheme \<Rightarrow> 'a loan_state_scheme \<Rightarrow> bool" where
  "same_wealth s t \<longleftrightarrow> (\<forall>lid. get_loan_by_id lid t = get_loan_by_id lid s) \<and> TotalLoan t = TotalLoan s
     \<and> TotalDtoken t = TotalDtoken s \<and> BonusTime t = BonusTime s
     \<and> (\<forall>aid w. free_balance aid w t = free_balance aid w s)"

lemma same_wealth_refl: "same_wealth s s"
  by (simp add: same_wealth_def)

lemma same_wealth_transfer_0: "same_wealth s t \<Longrightarrow> keeps (same_wealth s) (make_transfer_with_event a f w 0 t)"
  by (simp add: make_transfer_with_event_eq same_wealth_def ledger_simps get_loan_by_id_def)

lemma same_wealth_draw_0: "same_wealth s t \<Longrightarrow> keeps (same_wealth s) (draw_from_loan who lid 0 t)"
  by (simp add: draw_from_loan_def ensure_def Let_def div_then_def same_wealth_def deposit_loan_event_def
      get_loan_by_id_def mutate_loan_def)

lemma same_wealth_charge_0:
  assumes "same_wealth s t"
  shows "keeps (same_wealth s) (charge_interest aid acct 0 n lid t)"
proof -
  have "keeps (same_wealth s) (unwrap_then (checked_add (TotalDtoken t') 0) (\<lambda>v. Done () (t'\<lparr>TotalDtoken := v\<rparr>)))"
    if "same_wealth s t'" for t' :: "'a loan_state_scheme"
    using that by (simp add: checked_add_def same_wealth_def get_loan_by_id_def unat_less_2p)
  then show ?thesis
    using assms unfolding charge_interest_def Let_def
    by (auto simp: div_then_def intro!: keeps_and_then keeps_unwrap_or_default same_wealth_draw_0 same_wealth_transfer_0)
qed

text \<open>The state the calculation leaves, when it returns.\<close>

lemma calculate_Done:
  assumes "calculate_loan_interest_rate s = Done u s'"
    and "free_balance (CollectionAssetId s) (CollectionAccountId s) s + TotalLoan s + TotalLoan s \<noteq> 0"
  shows "\<exists>t x. same_wealth (s\<lparr>BonusTime := Now s\<rparr>) t \<and> checked_mul (TotalLoan s) (10 ^ 8) = Some x
    \<and> s' = t\<lparr>LoanInterestRateCurrent := loan_interest_rate
                (x div (free_balance (CollectionAssetId s) (CollectionAccountId s) s + TotalLoan s + TotalLoan s)),
             SavingInterestRate := 0\<rparr>"
proof -
  let ?s = "s\<lparr>BonusTime := Now s\<rparr>"
  have loop: "keeps (same_wealth ?s) (for_each (charge_interest a w 0 (TotalLoan s)) ks ?s)" for a w ks
    by (intro keeps_for_each same_wealth_charge_0 same_wealth_refl)
  have zero: "u32_try_from 0 = Some 0" by (simp add: u32_try_from_def)
  show ?thesis
    using assms
    by (auto simp: calculate_loan_interest_rate_def Let_def Done_iffs zero SEC_PER_DAY_def DAYS_PER_YEAR_def
        dest!: keepsD_Done [OF loop])
qed

text \<open>C34: When the interest calculation of a block returns, the annual rate it publishes (scaled by
  \<open>10 ^ 8\<close>) is that of the first tier: a tenth of the sum of the utilisation and one half, which lies between
  five and ten percent, because the utilisation counts the loans twice and never exceeds one half.  This
  holds as long as something was deposited or lent and the collection account's balance with twice the
  total of the loans fits a balance; beyond that the sums wrap around.\<close>

theorem loan_rate_bounds:
  assumes "calculate_loan_interest_rate s = Done u s'"
    and "free = free_balance (CollectionAssetId s) (CollectionAccountId s) s"
    and "unat free + 2 * unat (TotalLoan s) < 2 ^ 128" and "free \<noteq> 0 \<or> TotalLoan s \<noteq> 0"
  shows "unat (LoanInterestRateCurrent s')
      = (unat (TotalLoan s) * 10 ^ 8 div (unat free + 2 * unat (TotalLoan s)) + 5 * 10 ^ 7) div 10
    \<and> 5000000 \<le> unat (LoanInterestRateCurrent s') \<and> unat (LoanInterestRateCurrent s') \<le> 10000000"
proof -
  let ?d = "free + TotalLoan s + TotalLoan s"
  have "unat (free + TotalLoan s) = unat free + unat (TotalLoan s)"
    using assms(3) by (intro unat_add_less) simp
  then have d: "unat ?d = unat free + 2 * unat (TotalLoan s)"
    using assms(3) by (subst unat_add_less) simp_all
  then have "?d \<noteq> 0" using assms(4) by (auto simp: word_unat_eq_iff)
  then obtain t x where x: "checked_mul (TotalLoan s) (10 ^ 8) = Some x"
    and rate: "LoanInterestRateCurrent s' = loan_interest_rate (x div ?d)"
    using calculate_Done [OF assms(1)] by (auto simp: assms(2))
  then have half: "unat (x div ?d) \<le> 50000000"
    using utilization_at_most_half [OF assms(3)] \<open>?d \<noteq> 0\<close> x by blast
  have "unat (x div ?d) = unat (TotalLoan s) * 10 ^ 8 div (unat free + 2 * unat (TotalLoan s))"
  proof -
    have "unat x = unat (TotalLoan s) * 10 ^ 8"
      using x by (auto simp: checked_mul_Some_iff unat_mult_less)
    with d show ?thesis by (simp only: unat_div)
  qed
  moreover have "(unat (x div ?d) + 50000000) div 10 \<le> (50000000 + 50000000) div 10"
    using half by (intro div_le_mono) simp
  ultimately show ?thesis
    using loan_interest_rate_first_tier [OF half] rate by simp
qed

text \<open>C30: The interest calculation never charges anything, however much time has passed since it
  last ran: when it returns, every loan, the total of all loans, the total of the savings and every
  balance are what they were, the clock is set to the current time, and the published interest rate of
  savings is zero.  Only when nothing was deposited or lent (the balance of the collection account and
  twice the total of the loans add up to zero as words) is that rate left as it was.\<close>

theorem no_interest_accrues:
  assumes "calculate_loan_interest_rate s = Done u s'"
  shows "(\<forall>lid. get_loan_by_id lid s' = get_loan_by_id lid s) \<and> TotalLoan s' = TotalLoan s
    \<and> TotalDtoken s' = TotalDtoken s \<and> (\<forall>aid w. free_balance aid w s' = free_balance aid w s)
    \<and> BonusTime s' = Now s
    \<and> SavingInterestRate s' =
        (if free_balance (CollectionAssetId s) (CollectionAccountId s) s + TotalLoan s + TotalLoan s = 0
         then SavingInterestRate s else 0)"
proof (cases "free_balance (CollectionAssetId s) (CollectionAccountId s) s + TotalLoan s + TotalLoan s = 0")
  case True
  then show ?thesis
    using assms by (auto simp: calculate_loan_interest_rate_def Let_def get_loan_by_id_def)
next
  case False
  with calculate_Done [OF assms this] show ?thesis
    by (auto simp: same_wealth_def get_loan_by_id_def)
qed

text \<open>
  The demonstration loan a year later.  The calculation reads the price through \<open>draw_from_loan\<close>, so
  the witness needs the fields it uses.
\<close>

definition demo_later :: loan_state where
  "demo_later = demo_lent\<lparr>Now := 31536000\<rparr>"

lemma later_frame [simp]:
  "free_balance aid w (s\<lparr>Now := x\<rparr>) = free_balance aid w s"
  "get_loan_by_id lid (s\<lparr>Now := x\<rparr>) = get_loan_by_id lid s"
  "collateral_price (s\<lparr>Now := x\<rparr>) = collateral_price s"
  by (simp_all add: free_balance_def get_loan_by_id_def collateral_price_def symbols_def current_price_def)

lemma demo_lent_facts [simp]:
  "collateral_price demo_lent = 20000" "CollectionAssetId demo_lent = 0" "GlobalLTVLimit demo_lent = 6667"
  "TotalLoan demo_lent = 800" "TotalDtoken demo_lent = 0" "free_balance 0 10 demo_lent = 999200"
  "free_balance 0 3 demo_lent = 800"
  by (simp_all add: demo_lent_def free_balance_opened demo_loans_reads)
    (simp_all add: opened_def Let_def deposit_loan_event_def mutate_loans_by_account_def pledged_def
      collateral_price_def symbols_def current_price_def lm_get_def)

lemma demo_later_runs: "\<exists>s'. calculate_loan_interest_rate demo_later = Done () s'"
proof -
  have low: "low_u32 (20000 :: price) = 20000" "low_u32 (6667 :: ltv) = 6667" "low_u32 (1000000 :: balance) = 1000000"
    by (simp_all add: low_u32_def word_unat_eq_iff unsigned_ucast_eq take_bit_eq_mod)
  have price: "collateral_price (demo_lent\<lparr>Now := x, BonusTime := y\<rparr>) = 20000" for x y
    using demo_lent_facts(1) by (simp add: collateral_price_def symbols_def current_price_def)
  show ?thesis
    by (simp add: demo_later_def calculate_loan_interest_rate_def Let_def u32_try_from_def checked_mul_def
        div_then_def demo_lent_loans lm_keys_def charge_interest_def get_loan_by_id_def lm_get_def low
        draw_from_loan_def lm_contains_def SEC_PER_DAY_def DAYS_PER_YEAR_def LTV_PREC_def PRICE_PREC_def price
        mutate_loan_def deposit_loan_event_def make_transfer_with_event_eq checked_add_def)
qed

lemma loan_rate_bounds_witness:
  "\<exists>s'. calculate_loan_interest_rate demo_later = Done () s' \<and> 5000000 \<le> unat (LoanInterestRateCurrent s')
    \<and> unat (LoanInterestRateCurrent s') = 5007993"
proof -
  obtain s' where run: "calculate_loan_interest_rate demo_later = Done () s'"
    using demo_later_runs by blast
  from loan_rate_bounds [OF run refl] run show ?thesis by (simp add: demo_later_def)
qed

lemma no_interest_accrues_witness:
  "\<exists>s'. calculate_loan_interest_rate demo_later = Done () s' \<and> TotalLoan s' = 800
    \<and> free_balance 0 10 s' = 999200"
proof -
  obtain s' where run: "calculate_loan_interest_rate demo_later = Done () s'"
    using demo_later_runs by blast
  from no_interest_accrues [OF run] run show ?thesis by (simp add: demo_later_def)
qed

section \<open>Savings\<close>

text \<open>The share a deposit of \<open>n\<close> buys.\<close>

definition bought_share :: "balance \<Rightarrow> 'a loan_state_scheme \<Rightarrow> balance" where
  "bought_share n s = (if TotalDtoken s = 0 then n else n * MarketDtoken s div TotalDtoken s)"

lemma user_dtoken_write:
  "user_dtoken w (s\<lparr>UserDtoken := lm_mutate 0 who f (UserDtoken s')\<rparr>)
     = (if w = who then f (user_dtoken who s') else user_dtoken w s')"
  "user_dtoken w (s\<lparr>UserDtoken := lm_insert who v (UserDtoken s')\<rparr>) = (if w = who then v else user_dtoken w s')"
  by (simp_all add: user_dtoken_def)

lemma user_dtoken_frame [simp]:
  "user_dtoken w (moved a f t n s) = user_dtoken w s"
  "user_dtoken w (s\<lparr>MarketDtoken := x\<rparr>) = user_dtoken w s"
  "user_dtoken w (s\<lparr>TotalDtoken := x\<rparr>) = user_dtoken w s"
  by (simp_all add: user_dtoken_def)

lemma create_staking_Done:
  assumes "create_staking who aid n s = Done u s'"
  shows "n \<noteq> 0" "n \<le> free_balance aid who s"
    "unat (user_dtoken who s') = unat (user_dtoken who s) + unat (bought_share n s)"
    "\<And>w. w \<noteq> who \<Longrightarrow> user_dtoken w s' = user_dtoken w s"
    "unat (MarketDtoken s') = unat (MarketDtoken s) + unat (bought_share n s)"
    "unat (TotalDtoken s') = unat (MarketDtoken s) + unat n"
    "\<And>a w. free_balance a w s' = free_balance a w (moved aid who (CollectionAccountId s) n s)"
proof -
  have absent: "user_dtoken who s = 0" if "\<not> lm_contains (UserDtoken s) who"
    using that by (simp add: user_dtoken_def lm_get_absent)
  note facts = assms [unfolded create_staking_def Let_def]
  show "n \<noteq> 0" "n \<le> free_balance aid who s"
    "unat (user_dtoken who s') = unat (user_dtoken who s) + unat (bought_share n s)"
    "\<And>w. w \<noteq> who \<Longrightarrow> user_dtoken w s' = user_dtoken w s"
    "unat (MarketDtoken s') = unat (MarketDtoken s) + unat (bought_share n s)"
    "unat (TotalDtoken s') = unat (MarketDtoken s) + unat n"
    "\<And>a w. free_balance a w s' = free_balance a w (moved aid who (CollectionAccountId s) n s)"
    using facts
    by (auto simp: Done_iffs make_transfer_with_event_eq bought_share_def checked_add_Some_iff checked_mul_Some_iff
        user_dtoken_write absent user_dtoken_def [symmetric] split: if_splits)
qed

text \<open>A deposit moves its amount to the collection account and credits the depositor with a
  share: the amount itself when the recorded savings are zero, else its proportion of the market. The
  recorded savings are set to the outstanding shares plus the amount, not raised by the amount.\<close>

theorem staking_effect:
  assumes "staking (Signed who) aid n s = Done u s'" and "who \<noteq> CollectionAccountId s"
  shows "aid = CollectionAssetId s \<and> n \<noteq> 0
    \<and> unat (user_dtoken who s') = unat (user_dtoken who s) + unat (bought_share n s)
    \<and> (\<forall>w. w \<noteq> who \<longrightarrow> user_dtoken w s' = user_dtoken w s)
    \<and> unat (MarketDtoken s') = unat (MarketDtoken s) + unat (bought_share n s)
    \<and> unat (TotalDtoken s') = unat (MarketDtoken s) + unat n
    \<and> free_balance aid who s' = free_balance aid who s - n
    \<and> free_balance aid (CollectionAccountId s) s' = free_balance aid (CollectionAccountId s) s + n"
proof -
  have "create_staking who aid n s = Done u s'" and "aid = CollectionAssetId s"
    using assms(1) by (auto simp: staking_def ensure_def split: if_splits)
  then show ?thesis
    using create_staking_Done [of who aid n s u s'] assms(2) by (auto simp: ledger_simps)
qed

text \<open>The savings earned something: 1000 shares stand for 1500 DUSD.\<close>

definition demo_savings :: loan_state where
  "demo_savings = (moved 0 10 3 2000 demo_loans)
     \<lparr>UserDtoken := [(3, 500), (4, 500)], MarketDtoken := 1000, TotalDtoken := 1500\<rparr>"

lemma demo_savings_facts [simp]:
  "Paused demo_savings = False" "CollectionAssetId demo_savings = 0" "CollectionAccountId demo_savings = 10"
  "UserDtoken demo_savings = [(3, 500), (4, 500)]" "MarketDtoken demo_savings = 1000"
  "TotalDtoken demo_savings = 1500" "free_balance 0 3 demo_savings = 2000"
  "free_balance 0 10 demo_savings = 998000"
  by (simp_all add: demo_savings_def ledger_simps demo_loans_reads)

lemma staking_effect_witness:
  "\<exists>s'. staking (Signed 3) 0 300 demo_savings = Done () s' \<and> unat (user_dtoken 3 s') = 700
    \<and> unat (TotalDtoken s') = 1300"
proof -
  obtain s' where run: "staking (Signed 3) 0 300 demo_savings = Done () s'"
    by (simp add: staking_def create_staking_def Let_def make_transfer_with_event_eq checked_mul_def checked_add_def
        div_then_def lm_contains_def lm_get_def word_le_nat_alt)
  from staking_effect [OF run] run show ?thesis
    by (simp add: bought_share_def user_dtoken_def lm_get_def)
qed

lemma make_redeem_all_shares: "keeps (\<lambda>t. \<forall>w. user_dtoken w t = user_dtoken w s) (make_redeem_all who s)"
  by (simp add: make_redeem_all_def Let_def div_then_def ensure_def make_transfer_with_event_eq)

lemma create_staking_shares:
  "keeps (\<lambda>t. user_dtoken who s \<le> user_dtoken who t \<and> (\<forall>w. w \<noteq> who \<longrightarrow> user_dtoken w t = user_dtoken w s))
     (create_staking who aid n s)"
proof (cases "create_staking who aid n s")
  case (Done u t)
  then show ?thesis using create_staking_Done [OF Done] by (simp add: word_le_nat_alt)
next
  case (Fail e t)
  then have "\<forall>w. user_dtoken w t = user_dtoken w s"
    by (auto simp: create_staking_def Let_def ensure_def make_transfer_with_event_eq div_then_def unwrap_then_def
        split: if_splits option.splits)
  with Fail show ?thesis by simp
qed simp

text \<open>A redemption never lowers the share of the user who redeems, nor anybody else's: the
  shares are deducted from the market's total only, so the same share can be redeemed again.\<close>

theorem redeem_keeps_share:
  assumes "redeem (Signed who) aid n s = Done u s'"
  shows "user_dtoken who s \<le> user_dtoken who s' \<and> (\<forall>w. w \<noteq> who \<longrightarrow> user_dtoken w s' = user_dtoken w s)"
proof -
  have run: "make_redeem who (CollectionAssetId s) (CollectionAccountId s) n s = Done u s'"
    using assms by (auto simp: redeem_def Let_def ensure_def split: if_splits)
  then obtain t x where all: "unwrap_or_default (make_redeem_all who s) = Done () t"
    and stake: "unwrap_or_default (create_staking who (CollectionAssetId s) x t) = Done () s'"
    by (auto simp: make_redeem_def Let_def Done_iffs)
  have "\<forall>w. user_dtoken w t = user_dtoken w s"
    using keepsD_Done [OF keeps_unwrap_or_default [OF make_redeem_all_shares] all] .
  moreover have "user_dtoken who t \<le> user_dtoken who s' \<and> (\<forall>w. w \<noteq> who \<longrightarrow> user_dtoken w s' = user_dtoken w t)"
    using keepsD_Done [OF keeps_unwrap_or_default [OF create_staking_shares] stake] .
  ultimately show ?thesis by simp
qed

text \<open>
  Accounts 3 and 4 saved 500 DUSD each; account 3 redeems its 500 twice and ends with all that was saved.
\<close>

definition demo_pair :: loan_state where
  "demo_pair = demo_loans\<lparr>UserDtoken := [(3, 500), (4, 500)], MarketDtoken := 1000, TotalDtoken := 1000\<rparr>"

lemma demo_pair_facts [simp]:
  "Paused demo_pair = False" "CollectionAssetId demo_pair = 0" "CollectionAccountId demo_pair = 10"
  "UserDtoken demo_pair = [(3, 500), (4, 500)]" "MarketDtoken demo_pair = 1000" "TotalDtoken demo_pair = 1000"
  "free_balance 0 10 demo_pair = 1000000" "free_balance 0 3 demo_pair = 0"
  by (simp_all add: demo_pair_def demo_loans_reads)

lemma redeem_keeps_share_witness:
  "\<exists>s1 s2. redeem (Signed 3) 0 500 demo_pair = Done () s1 \<and> redeem (Signed 3) 0 500 s1 = Done () s2
    \<and> user_dtoken 3 demo_pair \<le> user_dtoken 3 s1 \<and> user_dtoken 3 s1 \<le> user_dtoken 3 s2
    \<and> free_balance 0 3 s2 = 1000"
proof -
  let ?s1 = "moved 0 10 3 500 (demo_pair\<lparr>MarketDtoken := 500, TotalDtoken := 500\<rparr>)"
  let ?s2 = "moved 0 10 3 500 (?s1\<lparr>MarketDtoken := 0, TotalDtoken := 0\<rparr>)"
  have share: "user_dtoken 3 demo_pair = 500" by (simp add: user_dtoken_def lm_get_def)
  have one: "redeem (Signed 3) 0 500 demo_pair = Done () ?s1"
    by (simp add: redeem_def make_redeem_def make_redeem_all_def create_staking_def Let_def share div_then_def
        make_transfer_with_event_eq word_le_nat_alt)
  have two: "redeem (Signed 3) 0 500 ?s1 = Done () ?s2"
    by (simp add: redeem_def make_redeem_def make_redeem_all_def create_staking_def Let_def share div_then_def
        make_transfer_with_event_eq word_le_nat_alt ledger_simps)
  show ?thesis
    using one two redeem_keeps_share [OF one] redeem_keeps_share [OF two]
    by (intro exI [of _ ?s1] exI [of _ ?s2]) (simp add: ledger_simps)
qed

end
