(* ===== verification/Runtime_Properties.thy ===== *)
theory Runtime_Properties
  imports Runtime Loan_Savings
begin

text \<open>
  What holds of the composed runtime: the invariants of the pallets are kept together by every step of
  the chain, from the genesis of the testnet on, and what the composition lets an outsider do to the
  chain through the oracle.
\<close>

section \<open>Each pallet leaves the others alone\<close>

interpretation oracle_part: loan_frame_all
  "\<lambda>s. (CryptoPriceSources s, PriceCandidates s, CurrentPrice s, NextAggregateAt s) = p" for p
  by unfold_locales (simp_all add: moved_def set_free_balance_def deposit_ga_event_def)

lemma same_extension_fields:
  fixes s t :: "'a loan_state_scheme"
  assumes "ga_state.more t = ga_state.more s"
  shows "Loans t = Loans s" "LoansByAccount t = LoansByAccount s" "LiquidatingLoans t = LiquidatingLoans s"
    "NextLoanId t = NextLoanId s" "PriceCandidates t = PriceCandidates s"
  using assms by (cases s; cases t; simp)+

lemma ga_inv_frame_fields [simp]:
  "ga_inv (s\<lparr>SudoKey := k, BlockNumber := n, ExtrinsicIndex := i, Now := m\<rparr>) = ga_inv s"
  by (simp add: ga_inv_def unused_id_def solvent_def all_holdings_def holdings_def free_balance_def
      reserved_balance_def total_issuance_def)

lemma loan_inv_oracle_fields [simp]:
  "loan_inv (s\<lparr>CryptoPriceSources := x1\<rparr>) = loan_inv s" "loan_inv (s\<lparr>PriceCandidates := x2\<rparr>) = loan_inv s"
  "loan_inv (s\<lparr>CurrentPrice := x3\<rparr>) = loan_inv s" "loan_inv (s\<lparr>NextAggregateAt := x4\<rparr>) = loan_inv s"
  by (simp_all add: loan_inv_def book_wf_def get_liquidating_loans_def ga_inv_def unused_id_def solvent_def
      all_holdings_def holdings_def free_balance_def reserved_balance_def total_issuance_def)

section \<open>The invariant of the chain\<close>

text \<open>After \<open>n\<close> steps: every invariant, and no more loans numbered and prices stacked than steps.\<close>

definition runtime_inv :: "nat \<Rightarrow> 'a loan_state_scheme \<Rightarrow> bool" where
  "runtime_inv n s \<longleftrightarrow> loan_inv s \<and> oracle_inv s \<and> unat (NextLoanId s) \<le> n
     \<and> (\<forall>k. length (price_candidates k s) \<le> n)"

lemma runtime_inv_same:
  assumes "runtime_inv n s" and "loan_inv t" and "PriceCandidates t = PriceCandidates s" and "NextLoanId t = NextLoanId s"
  shows "runtime_inv (Suc n) t"
  using assms by (auto simp: runtime_inv_def oracle_inv_def price_candidates_def le_SucI)

lemma runtime_inv_loan_call:
  assumes inv: "runtime_inv n s" and room: "Suc n < 2 ^ 64"
  shows "keeps (runtime_inv (Suc n)) (loan_dispatch orig c s)"
proof -
  have fits: "unat (NextLoanId s) + unat (1 :: loan_no) < 2 ^ 64"
    using inv room by (simp add: runtime_inv_def)
  then have next_id: "unat (NextLoanId s + 1) = unat (NextLoanId s) + 1"
    by (subst unat_add_less) simp_all
  then have "NextLoanId s + 1 \<noteq> 0" by (metis Suc_eq_plus1 nat.distinct(1) unat_0)
  then have "keeps loan_inv (loan_dispatch orig c s)"
    using inv by (simp add: runtime_inv_def loan_inv_dispatch)
  moreover have "keeps (\<lambda>t. (CryptoPriceSources t, PriceCandidates t, CurrentPrice t, NextAggregateAt t)
      = (CryptoPriceSources s, PriceCandidates s, CurrentPrice s, NextAggregateAt s)) (loan_dispatch orig c s)"
    by (rule oracle_part.keeps_dispatch) simp
  moreover note next_loan_dispatch [of s orig c]
  ultimately have "keeps (\<lambda>t. loan_inv t \<and> (PriceCandidates t = PriceCandidates s \<and> next_loan_within (NextLoanId s) t))
      (loan_dispatch orig c s)"
    by (intro keeps_conj) (auto elim: keeps_mono)
  then show ?thesis
    by (rule keeps_mono)
      (use inv next_id in \<open>auto simp: runtime_inv_def next_loan_within_def oracle_inv_def price_candidates_def le_SucI\<close>)
qed

lemma runtime_inv_initialize:
  assumes inv: "runtime_inv n s"
  shows "keeps (runtime_inv (Suc n)) (runtime_on_initialize h s)"
proof -
  have "keeps loan_inv (loan_on_initialize h s)"
    using inv by (simp add: runtime_inv_def loan_inv_on_initialize)
  moreover have "keeps (\<lambda>t. (CryptoPriceSources t, PriceCandidates t, CurrentPrice t, NextAggregateAt t)
      = (CryptoPriceSources s, PriceCandidates s, CurrentPrice s, NextAggregateAt s)) (loan_on_initialize h s)"
    by (rule oracle_part.keeps_on_initialize) simp
  moreover note next_loan_on_initialize [of s h]
  ultimately have "keeps (\<lambda>t. loan_inv t \<and> (PriceCandidates t = PriceCandidates s \<and> NextLoanId t = NextLoanId s))
      (loan_on_initialize h s)"
    by (intro keeps_conj) (auto elim: keeps_mono)
  then show ?thesis
    unfolding runtime_on_initialize_def
    by (rule keeps_mono) (use inv in \<open>auto intro: runtime_inv_same\<close>)
qed

lemma runtime_inv_ga_call:
  assumes inv: "runtime_inv n s"
  shows "keeps (runtime_inv (Suc n)) (ga_dispatch orig c s)"
proof -
  have "keeps ga_inv (ga_dispatch orig c s)"
    using inv by (simp add: runtime_inv_def loan_inv_def ga_inv_dispatch)
  then have "keeps (\<lambda>t. ga_inv t \<and> ga_state.more t = ga_state.more s) (ga_dispatch orig c s)"
    by (rule keeps_conj) (rule ga_dispatch_extension)
  then show ?thesis
  proof (rule keeps_mono)
    fix t
    assume t: "ga_inv t \<and> ga_state.more t = ga_state.more s"
    note same = same_extension_fields [OF conjunct2 [OF t]]
    have "loan_inv t"
      using t inv by (simp add: runtime_inv_def loan_inv_def book_wf_def get_liquidating_loans_def same)
    then show "runtime_inv (Suc n) t"
      by (rule runtime_inv_same [OF inv]) (simp_all add: same)
  qed
qed

lemma runtime_inv_oracle_call:
  assumes inv: "runtime_inv n s"
  shows "keeps (runtime_inv (Suc n)) (oracle_dispatch orig c s)"
proof -
  have "keeps oracle_inv (oracle_dispatch orig c s)"
    using inv by (simp add: runtime_inv_def oracle_inv_dispatch)
  moreover have "keeps (\<lambda>t. loan_inv t \<and> NextLoanId t = NextLoanId s \<and> (\<forall>k. length (price_candidates k t) \<le> Suc n))
      (oracle_dispatch orig c s)"
    using inv
    by (cases c; cases orig)
      (auto simp: runtime_inv_def add_source_def stack_price_unsigned_def stack_price_signed_def stack_price_def
        price_candidates_def le_SucI)
  ultimately have "keeps (\<lambda>t. oracle_inv t \<and> (loan_inv t \<and> NextLoanId t = NextLoanId s
      \<and> (\<forall>k. length (price_candidates k t) \<le> Suc n))) (oracle_dispatch orig c s)"
    by (rule keeps_conj)
  then show ?thesis
    by (rule keeps_mono) (use inv in \<open>auto simp: runtime_inv_def\<close>)
qed

lemma runtime_finalize_returns:
  assumes "runtime_inv n s" and "n < 2 ^ 64"
  shows "\<exists>t. runtime_on_finalize h s = Done () t \<and> runtime_inv n t"
proof (cases "h mod AggregateInterval = 0")
  case True
  have "length (price_candidates k s) < 2 ^ 64" for k
    using assms by (meson order.strict_trans1 runtime_inv_def)
  with True oracle_on_finalize_aggregates [of s AggregateInterval h] assms(1)
  show ?thesis
    by (auto simp: runtime_inv_def runtime_on_finalize_def AggregateInterval_def oracle_inv_def price_candidates_def
        lm_wf_def lm_keys_def lm_contains_def lm_get_def)
next
  case False
  then show ?thesis
    using assms(1) by (simp add: runtime_on_finalize_def oracle_on_finalize_idle AggregateInterval_def)
qed

lemma runtime_inv_mono: "runtime_inv n s \<Longrightarrow> n \<le> m \<Longrightarrow> runtime_inv m s"
  by (auto simp: runtime_inv_def intro: le_trans)

lemma runtime_step_inv:
  assumes "runtime_step s t" and inv: "runtime_inv n s" and room: "Suc n < 2 ^ 64"
  shows "runtime_inv (Suc n) t"
  using assms(1)
proof cases
  case (frame_writes k b i m)
  have "loan_inv t"
    using inv by (simp add: frame_writes runtime_inv_def loan_inv_def book_wf_def get_liquidating_loans_def)
  then show ?thesis by (rule runtime_inv_same [OF inv]) (simp_all add: frame_writes)
next
  case (initializes h u)
  then show ?thesis using keepsD_Done [OF runtime_inv_initialize [OF inv]] by blast
next
  case (call_returns orig c u)
  then show ?thesis
    using keepsD_Done [OF runtime_inv_loan_call [OF inv room]] keepsD_Done [OF runtime_inv_ga_call [OF inv]]
      keepsD_Done [OF runtime_inv_oracle_call [OF inv]]
    by (cases c) auto
next
  case (call_fails orig c e)
  then show ?thesis
    using keepsD_Fail [OF runtime_inv_loan_call [OF inv room]] keepsD_Fail [OF runtime_inv_ga_call [OF inv]]
      keepsD_Fail [OF runtime_inv_oracle_call [OF inv]]
    by (cases c) auto
next
  case (finalizes h u)
  then show ?thesis
    using runtime_finalize_returns [OF inv, of h] room by (auto intro: runtime_inv_mono)
qed

lemma runtime_steps_inv:
  "(runtime_step ^^ k) s t \<Longrightarrow> runtime_inv n s \<Longrightarrow> n + k < 2 ^ 64 \<Longrightarrow> runtime_inv (n + k) t"
proof (induction k arbitrary: t)
  case (Suc k)
  then obtain r where "(runtime_step ^^ k) s r" "runtime_step r t" by auto
  with Suc.IH [of r] Suc.prems runtime_step_inv [of r t "n + k"] show ?case by simp
qed simp

section \<open>From the genesis of the testnet on\<close>

lemma testnet_genesis_inv:
  assumes "testnet_genesis seed_account sys = Done u s"
  shows "runtime_inv 0 s"
proof -
  obtain g where g: "ga_genesis_build testnet_ga_genesis (empty_ga_state sys) = Done () g"
    and s: "s = loan_genesis_build (testnet_loan_genesis seed_account)
              (oracle_genesis_build testnet_sources [(''DUSD'', 1 * PRICE_SCALE)] g)"
    using assms by (auto simp: testnet_genesis_def split: outcome.splits)
  have "keeps ga_inv (ga_genesis_build testnet_ga_genesis (empty_ga_state sys))"
    by (rule ga_inv_genesis_build) (simp_all add: testnet_ga_genesis_def)
  then have ga: "ga_inv g" by (simp add: g)
  have fields: "TotalIssuance s = TotalIssuance g" "FreeBalance s = FreeBalance g"
    "ReservedBalance s = ReservedBalance g" "NextAssetId s = NextAssetId g" "Permissions s = Permissions g"
    "PriceCandidates s = []" "Loans s = []" "LoansByAccount s = Map.empty" "LiquidatingLoans s = None" "NextLoanId s = 0"
    by (simp_all add: s loan_genesis_build_def oracle_genesis_build_def oracle_state.defs ga_state.defs
        testnet_loan_genesis_def)
  have "ga_inv s"
    using ga by (simp add: ga_inv_def unused_id_def solvent_def all_holdings_def holdings_def free_balance_def
        reserved_balance_def total_issuance_def fields)
  then show ?thesis
    by (simp add: runtime_inv_def loan_inv_def book_wf_def book_ok_def oracle_inv_def price_candidates_def
        get_liquidating_loans_def loans_of_def owner_in_def in_liquidation_def fields lm_get_def lm_wf_def lm_keys_def
        lm_contains_def)
qed

text \<open>C1: However the chain runs from the genesis of the testnet, in every state it reaches within
  \<open>2 ^ 64 - 1\<close> steps (hooks, calls of the three pallets by anybody, failing ones included, and writes of
  the frame) every asset is conserved, the loan book is well formed, and the block can be finalised: the
  oracle does not panic on whatever prices were submitted.\<close>

theorem chain_keeps_invariants:
  assumes "testnet_genesis seed_account sys = Done u s" and "(runtime_step ^^ n) s t" and "n < 2 ^ 64"
  shows "(\<Sum>who\<in>UNIV. unat (free_balance aid who t) + unat (reserved_balance aid who t))
      = unat (total_issuance aid t)
    \<and> book_wf t \<and> (\<exists>t'. runtime_on_finalize h t = Done () t')"
proof -
  have inv: "runtime_inv n t"
    using runtime_steps_inv [OF assms(2) testnet_genesis_inv [OF assms(1)]] assms(3) by simp
  then have "solvent aid t" and "book_wf t"
    by (simp_all add: runtime_inv_def loan_inv_def ga_inv_def)
  with runtime_finalize_returns [OF inv assms(3), of h] show ?thesis
    by (auto simp: solvent_def all_holdings_def holdings_def)
qed

text \<open>Accounts derived from seeds by their length, and the root 1: it mints 100 DUSD to account 3.\<close>

definition demo_seed :: "string \<Rightarrow> account_id" where
  "demo_seed name = of_nat (length name)"

lemma testnet_genesis_runs:
  "\<exists>s. testnet_genesis demo_seed demo_sys = Done () s \<and> check_permission 0 1 Mint s \<and> SudoKey s = 1
    \<and> total_issuance aid s = 0 \<and> free_balance aid w s = 0 \<and> symbols 1 s = ''BTC''"
  by (simp add: testnet_genesis_def ga_genesis_build_def testnet_ga_genesis_def create_asset_eq Let_def
      empty_ga_state_def demo_sys_def system_state.defs ga_state.defs created_def deposit_ga_event_def
      set_free_balance_def set_total_issuance_def symbols_def check_permission_def get_permission_def
      into_versions_def loan_genesis_build_def oracle_genesis_build_def oracle_state.defs total_issuance_def
      free_balance_def)

lemma chain_keeps_invariants_witness:
  "\<exists>s t :: loan_state. testnet_genesis demo_seed demo_sys = Done () s \<and> (runtime_step ^^ 1) s t
    \<and> free_balance 0 3 t = 100
    \<and> (\<Sum>who\<in>UNIV. unat (free_balance 0 who t) + unat (reserved_balance 0 who t)) = unat (total_issuance 0 t)"
proof -
  obtain s where s: "testnet_genesis demo_seed demo_sys = Done () s" "check_permission 0 1 Mint s"
    "total_issuance 0 s = 0" "free_balance 0 3 s = 0"
    using testnet_genesis_runs [of 0 3] by blast
  obtain t where t: "runtime_dispatch (Signed 1) (GenericAsset (Call_mint 0 3 100)) s = Done () t"
    and bal: "free_balance 0 3 t = 100"
    using s by (simp add: mint_def mint_free_def checked_add_def ledger_simps)
  have run: "(runtime_step ^^ 1) s t"
    using call_returns [OF t] by (auto simp: OO_def)
  from chain_keeps_invariants [OF s(1) run, of 0] run bal s(1) show ?thesis by auto
qed

section \<open>What an outsider can do through the oracle\<close>

lemma for_each_Panic:
  assumes "\<And>x. x \<in> set xs \<Longrightarrow> f x s = Done () s \<or> f x s = Panic" and "\<exists>x\<in>set xs. f x s = Panic"
  shows "for_each f xs s = Panic"
  using assms
proof (induction xs)
  case (Cons x xs)
  show ?case
  proof (cases "f x s = Panic")
    case False
    then have done_x: "f x s = Done () s" using Cons.prems(1) [of x] by auto
    have "for_each f xs s = Panic"
      by (rule Cons.IH) (use Cons.prems False in auto)
    with done_x show ?thesis by simp
  qed simp
qed simp

lemma zero_price_check:
  "check_one_loan 0 lt wt lid s = (if check_loan_in_liquidation lid s then Done () s else Panic)"
  by (simp add: check_one_loan_def check_loan_health_def get_ltv_def Let_def)

lemma zero_price_halts:
  assumes "\<not> Paused s" and "collateral_price s = 0"
    and "lm_contains (Loans s) lid" and "lid \<notin> set (get_liquidating_loans s)"
  shows "loan_on_initialize h s = Panic"
proof -
  have "for_each (check_one_loan 0 lt wt) (lm_keys (Loans s)) s = Panic" for lt wt
    by (rule for_each_Panic)
      (use assms(3,4) in \<open>auto simp: zero_price_check check_loan_in_liquidation_def lm_contains_iff\<close>)
  then show ?thesis
    using assms(1,2) by (simp add: loan_on_initialize_def on_each_block_def)
qed

lemma oracle_inv_push:
  "oracle_inv s \<Longrightarrow> oracle_inv (s\<lparr>PriceCandidates := lm_mutate [] tok (\<lambda>xs. xs @ [v]) (PriceCandidates s)\<rparr>)"
  using oracle_inv_stack_price [of s] by (simp add: stack_price_def)

text \<open>C10: Anybody can stop the chain while the pallet is not paused and some loan is open and not in
  liquidation: whatever prices of the collateral are waiting (fewer than \<open>2 ^ 64 - 2\<close>, and fewer
  than \<open>2 ^ 64\<close> of any other token, in a storage without repeated keys), an unsigned submission of any price \<open>p\<close> and another of the price that makes the sum wrap
  around to zero, as the last two before an aggregation is due, make it publish a price of zero, and after
  that the hook at the start of a block panics, whatever the number of the block, in the division by that
  price.\<close>

theorem outsiders_can_halt_chain:
  assumes inv: "oracle_inv s" and small: "\<forall>k. length (price_candidates k s) < 2 ^ 64"
    and running: "\<not> Paused s" "lm_contains (Loans s) lid" "lid \<notin> set (get_liquidating_loans s)"
    and waiting: "length (price_candidates (symbols (CollateralAssetId s) s) s) + 2 < 2 ^ 64"
    and due: "h mod AggregateInterval = 0"
    and last: "q = - (sum_list (price_candidates (symbols (CollateralAssetId s) s) s) + p)"
  shows "\<exists>s1 s2 s3.
      runtime_dispatch NoneOrigin (NewOracle (Call_stack_price_unsigned b (symbols (CollateralAssetId s) s) p)) s = Done () s1
    \<and> runtime_dispatch NoneOrigin (NewOracle (Call_stack_price_unsigned b (symbols (CollateralAssetId s) s) q)) s1 = Done () s2
    \<and> runtime_on_finalize h s2 = Done () s3 \<and> (\<forall>h'. runtime_on_initialize h' s3 = Panic)"
proof -
  let ?tok = "symbols (CollateralAssetId s) s"
  let ?push = "\<lambda>v s. s\<lparr>PriceCandidates := lm_mutate [] ?tok (\<lambda>xs. xs @ [v]) (PriceCandidates s)\<rparr>"
  let ?s1 = "?push p s" and ?s2 = "?push q (?push p s)" and ?qs = "price_candidates (symbols (CollateralAssetId s) s) s"
  have one: "runtime_dispatch NoneOrigin (NewOracle (Call_stack_price_unsigned b ?tok p)) s = Done () ?s1"
    and two: "runtime_dispatch NoneOrigin (NewOracle (Call_stack_price_unsigned b ?tok q)) ?s1 = Done () ?s2"
    by (simp_all add: stack_price_unsigned_def stack_price_def)
  have inv2: "oracle_inv ?s2"
    by (intro oracle_inv_push inv)
  have cands: "price_candidates ?tok ?s2 = ?qs @ [p, q]" "lm_contains (PriceCandidates ?s2) ?tok"
    by (simp_all add: price_candidates_def)
  have zero: "candidate_mean (?qs @ [p, q]) = 0"
    by (simp add: candidate_mean_def last)
  have lens: "length (price_candidates k ?s2) < 2 ^ 64" for k
    using small waiting cands(1) by (cases "k = ?tok") (simp_all add: price_candidates_def)
  from oracle_on_finalize_aggregates [of ?s2 AggregateInterval h, OF inv2 _ due lens] cands
  obtain cps where
    run: "runtime_on_finalize h ?s2
      = Done () (?s2\<lparr>PriceCandidates := [], CurrentPrice := cps, NextAggregateAt := h + AggregateInterval\<rparr>)"
    and cps: "map_of cps ?tok = Some (candidate_mean (?qs @ [p, q]))"
    unfolding runtime_on_finalize_def by (auto simp: AggregateInterval_def)
  let ?s3 = "?s2\<lparr>PriceCandidates := [], CurrentPrice := cps, NextAggregateAt := h + AggregateInterval\<rparr>"
  have "collateral_price ?s3 = 0"
    using cps zero by (simp add: collateral_price_def current_price_def symbols_def lm_get_def)
  then have "loan_on_initialize h' ?s3 = Panic" for h'
    using running by (intro zero_price_halts [of _ lid]) (simp_all add: get_liquidating_loans_def)
  with one two run show ?thesis by (auto simp: runtime_on_initialize_def)
qed

lemma demo_lent_runtime:
  "oracle_inv demo_lent" "\<forall>k. length (price_candidates k demo_lent) < 2 ^ 64"
  "\<not> Paused demo_lent" "lm_contains (Loans demo_lent) 0" "0 \<notin> set (get_liquidating_loans demo_lent)"
  "price_candidates tok demo_lent = []" "CollateralAssetId demo_lent = 1" "symbols 1 demo_lent = ''BTC''"
proof -
  have fields: "PriceCandidates demo_lent = []" "CollateralAssetId demo_lent = 1" "Symbols demo_lent = Symbols demo_loans"
    "LiquidatingLoans demo_lent = None"
    by (simp_all add: demo_lent_def opened_def Let_def deposit_loan_event_def mutate_loans_by_account_def pledged_def)
      (simp_all add: demo_loans_def moved_def set_free_balance_def deposit_ga_event_def)
  then show "oracle_inv demo_lent" "\<forall>k. length (price_candidates k demo_lent) < 2 ^ 64"
    "price_candidates tok demo_lent = []" "CollateralAssetId demo_lent = 1" "symbols 1 demo_lent = ''BTC''"
    "\<not> Paused demo_lent" "lm_contains (Loans demo_lent) 0" "0 \<notin> set (get_liquidating_loans demo_lent)"
    by (simp_all add: oracle_inv_def lm_wf_def lm_keys_def lm_contains_def price_candidates_def lm_get_def symbols_def
        demo_lent_loans get_liquidating_loans_def)
qed

text \<open>One fetched price of 7 DUSD is already waiting.\<close>

lemma outsiders_can_halt_chain_witness:
  "\<exists>(s0 :: loan_state) s1 s2 s3. price_candidates ''BTC'' s0 = [70000]
    \<and> runtime_dispatch NoneOrigin (NewOracle (Call_stack_price_unsigned 1 ''BTC'' 90000)) s0 = Done () s1
    \<and> runtime_dispatch NoneOrigin (NewOracle (Call_stack_price_unsigned 1 ''BTC'' (- 160000))) s1 = Done () s2
    \<and> runtime_on_finalize 5 s2 = Done () s3 \<and> (\<forall>h'. runtime_on_initialize h' s3 = Panic)"
proof -
  let ?s = "demo_lent\<lparr>PriceCandidates := lm_mutate [] ''BTC'' (\<lambda>xs. xs @ [70000]) (PriceCandidates demo_lent)\<rparr>"
  have waiting: "price_candidates k ?s = (if k = ''BTC'' then [70000] else [])" for k
    using demo_lent_runtime(6) by (simp add: price_candidates_def)
  have reads: "\<not> Paused ?s" "lm_contains (Loans ?s) 0" "0 \<notin> set (get_liquidating_loans ?s)"
    "CollateralAssetId ?s = 1" "symbols 1 ?s = ''BTC''"
    using demo_lent_runtime by (simp_all add: get_liquidating_loans_def symbols_def)
  have small: "\<forall>k. length (price_candidates k ?s) < 2 ^ 64"
    by (simp add: waiting)
  have "\<exists>s1 s2 s3.
      runtime_dispatch NoneOrigin (NewOracle (Call_stack_price_unsigned 1 ''BTC'' 90000)) ?s = Done () s1
    \<and> runtime_dispatch NoneOrigin (NewOracle (Call_stack_price_unsigned 1 ''BTC'' (- 160000))) s1 = Done () s2
    \<and> runtime_on_finalize 5 s2 = Done () s3 \<and> (\<forall>h'. runtime_on_initialize h' s3 = Panic)"
    using outsiders_can_halt_chain [OF oracle_inv_push [OF demo_lent_runtime(1)] small reads(1-3), of 5 "- 160000" 90000 1]
    by (simp add: reads waiting AggregateInterval_def del: runtime_dispatch.simps)
  moreover have "price_candidates ''BTC'' ?s = [70000]"
    using waiting by simp
  ultimately show ?thesis by blast
qed

section \<open>Votes\<close>

text \<open>The factor is rounded down, so the votes of a large holder can exceed 64 bits; the conversion then
  drops the high bits.  Here one account holds the whole issuance and gets no vote.\<close>

lemma votes_of_whole_issuance: "to_vote (2 ^ 64) (2 ^ 64) = 0"
  by code_simp

lemma votes_exact:
  assumes "unat x < unat (vote_factor issuance) * 2 ^ 64"
  shows "unat (to_vote issuance x) = unat x div unat (vote_factor issuance)"
proof -
  have "unat x div unat (vote_factor issuance) < 2 ^ 64"
    using assms by (simp add: less_mult_imp_div_less mult.commute)
  then show ?thesis
    by (simp add: to_vote_def unsigned_ucast_eq unat_div take_bit_nat_eq_self)
qed

section \<open>The limits of the testnet\<close>

text \<open>With the limit that the chain specification of the testnet sets, a loan of 6666 times the value
  of its collateral at the oracle's price passes the check of the loan-to-value ratio, whatever the
  collateral and the price are (as long as the products fit a balance).\<close>

theorem testnet_limit_allows_6666_times_value:
  assumes "GlobalLTVLimit s = gen_global_ltv_limit (testnet_loan_genesis seed_account)"
    and "c \<noteq> 0" and "collateral_price s \<noteq> 0"
    and "unat c * unat (collateral_price s) * 66666667 < 2 ^ 128"
    and "n \<noteq> 0" and "unat n \<le> 6666 * (unat c * unat (collateral_price s) div unat PRICE_PREC)"
  shows "get_collateral_loan c n s = Done \<lparr>cl_collateral_amount = c, cl_loan_amount = n\<rparr> s"
proof -
  let ?p = "ucast (collateral_price s) :: balance" and ?v = "unat c * unat (collateral_price s)"
  have p: "unat ?p = unat (collateral_price s)" by (simp add: unat_ucast_64)
  have v: "unat (c * ?p) = ?v"
    using assms(4) by (subst unat_mult_less) (simp_all add: p)
  have pos: "0 < ?v" using assms(2,3) by (simp add: unat_gt_0)
  have n: "unat n * 10000 \<le> 6666 * ?v"
    using assms(6) by (simp add: PRICE_PREC_def)
  have big: "unat n * 10000 * 10000 < 2 ^ 128" using n assms(4) by simp
  have n1: "unat (n * LTV_PREC) = unat n * 10000"
    using big by (subst unat_mult_less) (simp_all add: LTV_PREC_def)
  have n2: "unat (n * LTV_PREC * PRICE_PREC) = unat n * 10000 * 10000"
    using big by (subst unat_mult_less) (simp_all add: n1, simp_all add: PRICE_PREC_def)
  have "unat n * 10000 * 10000 div ?v \<le> 66660000 * ?v div ?v"
    using n by (intro div_le_mono) simp
  then have "unat ((n * LTV_PREC) * PRICE_PREC div (c * ?p)) \<le> 66660000"
    using pos by (simp add: unat_div n2 v)
  moreover have "c * ?p \<noteq> 0" using v pos by (metis less_not_refl unat_0)
  ultimately show ?thesis
    using assms(1,2,5)
    by (simp add: get_collateral_loan_def Let_def div_then_def testnet_loan_genesis_def word_le_nat_alt)
qed

text \<open>A collateral of 1000 units at 2 DUSD each, and a loan of 13 million.\<close>

lemma testnet_limit_allows_6666_times_value_witness:
  "get_collateral_loan 1000 13000000 (demo_loans\<lparr>GlobalLTVLimit := 66666667\<rparr>)
    = Done \<lparr>cl_collateral_amount = 1000, cl_loan_amount = 13000000\<rparr> (demo_loans\<lparr>GlobalLTVLimit := 66666667\<rparr>)"
proof -
  have price: "collateral_price (demo_loans\<lparr>GlobalLTVLimit := 66666667\<rparr>) = 20000"
    using demo_price by (simp add: collateral_price_def current_price_def symbols_def)
  show ?thesis
    by (rule testnet_limit_allows_6666_times_value [of _ demo_seed])
      (simp_all add: price PRICE_PREC_def testnet_loan_genesis_def)
qed

end
