(* ===== verification/Runtime_Liveness.thy ===== *)
theory Runtime_Liveness
  imports Runtime_Properties "HOL-Library.Sublist"
begin

text \<open>
  Progress of the composed runtime (runtime/src/lib.rs, new-oracle/src/lib.rs): prices that were
  submitted are aggregated.  A block is any sequence of writes of the frame, hooks at its start and
  calls, and then the hook at its end; the theory shows that whatever five consecutive blocks
  contain, one of them publishes the candidates that were stacked before them.
\<close>

section \<open>What a block does before its end\<close>

inductive body_step :: "'a loan_state_scheme \<Rightarrow> 'a loan_state_scheme \<Rightarrow> bool" where
  frame: "body_step s (s\<lparr>SudoKey := k, BlockNumber := n, ExtrinsicIndex := i, Now := m\<rparr>)"
| starts: "runtime_on_initialize n s = Done u t \<Longrightarrow> body_step s t"
| returns: "runtime_dispatch orig c s = Done u t \<Longrightarrow> body_step s t"
| fails: "runtime_dispatch orig c s = Fail e t \<Longrightarrow> body_step s t"

lemma body_step_runtime: "body_step s t \<Longrightarrow> runtime_step s t"
  by (induction rule: body_step.induct) (auto intro: runtime_step.intros)

lemma body_steps_runtime: "(body_step ^^ k) s t \<Longrightarrow> (runtime_step ^^ k) s t"
  by (induction k arbitrary: t) (auto intro: body_step_runtime relcomppI)

section \<open>Candidates only grow inside a block\<close>

definition grown :: "string \<Rightarrow> price list \<Rightarrow> 'a oracle_state_scheme \<Rightarrow> bool" where
  "grown tok ps s \<longleftrightarrow> prefix ps (price_candidates tok s)"

lemma grown_same: "grown tok ps s \<Longrightarrow> PriceCandidates t = PriceCandidates s \<Longrightarrow> grown tok ps t"
  by (simp add: grown_def price_candidates_def)

lemma grown_ga: "grown tok ps s \<Longrightarrow> keeps (grown tok ps) (ga_dispatch orig c s)"
  for s :: "'a loan_state_scheme"
  by (rule keeps_mono [OF ga_dispatch_extension]) (auto intro: grown_same same_extension_fields(5))

lemma grown_oracle: "grown tok ps s \<Longrightarrow> keeps (grown tok ps) (oracle_dispatch orig c s)"
  by (cases c; cases orig)
    (auto simp: grown_def add_source_def stack_price_unsigned_def stack_price_signed_def stack_price_def
      price_candidates_def)

lemma grown_loan:
  assumes "grown tok ps s"
  shows "keeps (grown tok ps) (loan_dispatch orig c s)" and "keeps (grown tok ps) (loan_on_initialize h s)"
proof -
  let ?p = "(CryptoPriceSources s, PriceCandidates s, CurrentPrice s, NextAggregateAt s)"
  have "keeps (\<lambda>t. (CryptoPriceSources t, PriceCandidates t, CurrentPrice t, NextAggregateAt t) = ?p)
      (loan_dispatch orig c s)"
    by (rule oracle_part.keeps_dispatch) simp
  then show "keeps (grown tok ps) (loan_dispatch orig c s)"
    by (rule keeps_mono) (use assms in \<open>auto intro: grown_same\<close>)
  have "keeps (\<lambda>t. (CryptoPriceSources t, PriceCandidates t, CurrentPrice t, NextAggregateAt t) = ?p)
      (loan_on_initialize h s)"
    by (rule oracle_part.keeps_on_initialize) simp
  then show "keeps (grown tok ps) (loan_on_initialize h s)"
    by (rule keeps_mono) (use assms in \<open>auto intro: grown_same\<close>)
qed

lemma grown_dispatch: "grown tok ps s \<Longrightarrow> keeps (grown tok ps) (runtime_dispatch orig c s)"
  by (cases c) (simp_all add: grown_ga grown_oracle grown_loan)

lemma body_step_grows: "body_step s t \<Longrightarrow> grown tok ps s \<Longrightarrow> grown tok ps t"
proof (induction rule: body_step.induct)
  case (frame s k n i m)
  then show ?case by (rule grown_same) simp
next
  case (starts n s u t)
  then show ?case using grown_loan(2) [OF starts(2)] by (auto simp: runtime_on_initialize_def dest: keepsD_Done)
next
  case (returns orig c s u t)
  then show ?case using keepsD_Done [OF grown_dispatch] by blast
next
  case (fails orig c s e t)
  then show ?case using keepsD_Fail [OF grown_dispatch] by blast
qed

lemma body_steps_grow: "(body_step ^^ k) s t \<Longrightarrow> grown tok ps s \<Longrightarrow> grown tok ps t"
  by (induction k arbitrary: t) (auto intro: body_step_grows)

section \<open>Five consecutive blocks\<close>

text \<open>\<open>2 ^ 32 - 1\<close> is divisible by 5, so the block numbers need no bound: the next multiple of 5 after
  a 32-bit number is a 32-bit number.\<close>

lemma multiple_of_five_below:
  fixes x :: nat
  assumes "x < 4294967296"
  shows "\<exists>i < 5. x + i < 4294967296 \<and> (x + i) mod 5 = 0"
proof -
  obtain q r where x: "x = 5 * q + r" and r: "r < 5"
    using that [of "x div 5" "x mod 5"] by simp
  show ?thesis
  proof (cases "r = 0")
    case True
    with x assms show ?thesis by (intro exI [of _ 0]) simp
  next
    case False
    with x assms have "q + 1 \<le> 858993459" by linarith
    moreover have "x + (5 - r) = 5 * (q + 1)" using x r by simp
    ultimately show ?thesis using False by (intro exI [of _ "5 - r"]) simp
  qed
qed

lemma aggregates_within_five: "\<exists>i < 5. (h + of_nat i) mod AggregateInterval = (0 :: block_number)"
proof -
  obtain i where i: "i < 5" "unat h + i < 4294967296" "(unat h + i) mod 5 = 0"
    using multiple_of_five_below [of "unat h"] unat_less_2p [of h] by auto
  have j: "unat (of_nat i :: block_number) = i" using i(1) by (simp add: unat_of_nat)
  have sum: "unat (h + of_nat i) = unat h + i"
    using i(2) by (subst unat_add_less) (simp_all only: j, simp)
  have five: "unat AggregateInterval = 5" by (simp add: AggregateInterval_def)
  have "unat ((h + of_nat i) mod AggregateInterval) = 0"
    by (simp only: unat_mod sum five i(3))
  then have "(h + of_nat i) mod AggregateInterval = 0" by (simp only: unat_eq_zero)
  with i(1) show ?thesis by (intro exI [of _ i] conjI)
qed

lemma finalize_publishes:
  assumes "runtime_inv n s" and "n < 2 ^ 64" and "h mod AggregateInterval = 0" and "price_candidates tok s \<noteq> []"
  shows "\<exists>t. runtime_on_finalize h s = Done () t \<and> price_candidates tok t = []
    \<and> current_price tok t = candidate_mean (price_candidates tok s)"
proof -
  have "length (price_candidates k s) < 2 ^ 64" for k
    using assms(1,2) by (meson order.strict_trans1 runtime_inv_def)
  moreover have "lm_contains (PriceCandidates s) tok"
    using assms(4) by (auto simp: price_candidates_def lm_get_def get_or_def lm_contains_def split: option.splits)
  ultimately show ?thesis
    using oracle_on_finalize_aggregates [of s AggregateInterval h] assms(1,3)
    by (auto simp: runtime_inv_def runtime_on_finalize_def AggregateInterval_def price_candidates_def
        current_price_def lm_get_def get_or_def)
qed

lemma finalize_idle: "h mod AggregateInterval \<noteq> 0 \<Longrightarrow> runtime_on_finalize h s = Done () s"
  by (simp add: runtime_on_finalize_def oracle_on_finalize_idle AggregateInterval_def)

text \<open>A block of which the number is not a multiple of the interval, seen as a whole.\<close>

lemma idle_block:
  assumes inv: "runtime_inv n s" and "grown tok ps s" and body: "(body_step ^^ m) s r" and "n + m < 2 ^ 64"
    and "h mod AggregateInterval \<noteq> 0" and "\<And>t. runtime_on_finalize h r = Done () t \<Longrightarrow> s' = t"
  shows "runtime_inv (n + m) s' \<and> grown tok ps s'"
proof -
  have "s' = r" using assms(5,6) finalize_idle by blast
  then show ?thesis
    using runtime_steps_inv [OF body_steps_runtime [OF body] inv assms(4)] body_steps_grow [OF body assms(2)] by simp
qed

lemma idle_blocks:
  assumes "runtime_inv n (st 0)" and "grown tok ps (st 0)"
    and "\<And>i. i < 5 \<Longrightarrow> (body_step ^^ m i) (st i) (pre i)"
    and "\<And>i t. i < 5 \<Longrightarrow> runtime_on_finalize (h + of_nat i) (pre i) = Done () t \<Longrightarrow> st (Suc i) = t"
    and "n + (\<Sum>i<5. m i) < 2 ^ 64"
    and "j < 5" and "\<And>i. i < j \<Longrightarrow> (h + of_nat i) mod AggregateInterval \<noteq> 0"
  shows "runtime_inv (n + (\<Sum>i<j. m i)) (st j) \<and> grown tok ps (st j)"
  using assms(6,7)
proof (induction j)
  case 0
  then show ?case using assms(1,2) by simp
next
  case (Suc j)
  have IH: "runtime_inv (n + (\<Sum>i<j. m i)) (st j)" "grown tok ps (st j)"
    using Suc.IH Suc.prems by simp_all
  have "(\<Sum>i<Suc j. m i) \<le> (\<Sum>i<5. m i)"
    using Suc.prems(1) by (intro sum_mono2) auto
  then have room: "n + (\<Sum>i<j. m i) + m j < 2 ^ 64" using assms(5) by simp
  have "runtime_inv (n + (\<Sum>i<j. m i) + m j) (st (Suc j)) \<and> grown tok ps (st (Suc j))"
  proof (rule idle_block [OF IH assms(3) room])
    show "j < 5" using Suc.prems(1) by simp
    show "(h + of_nat j) mod AggregateInterval \<noteq> 0" by (rule Suc.prems(2)) simp
    show "st (Suc j) = t" if "runtime_on_finalize (h + of_nat j) (pre j) = Done () t" for t
      using that Suc.prems(1) by (intro assms(4)) simp_all
  qed
  then show ?case by (simp add: add.assoc)
qed

text \<open>C11: Prices that are waiting for a token are published within five consecutive blocks, whatever
  the blocks contain: in one of them the hook at the end returns, the new price of the token is the mean
  of its candidates, the ones that were waiting at the start among them, and no candidate is left.\<close>

theorem candidates_published_within_five_blocks:
  assumes "testnet_genesis seed_account sys = Done u g" and "(runtime_step ^^ n) g (st 0)"
    and "price_candidates tok (st 0) \<noteq> []"
    and "\<And>i. i < 5 \<Longrightarrow> (body_step ^^ m i) (st i) (pre i)"
    and "\<And>i t. i < 5 \<Longrightarrow> runtime_on_finalize (h + of_nat i) (pre i) = Done () t \<Longrightarrow> st (Suc i) = t"
    and "n + (\<Sum>i<5. m i) < 2 ^ 64"
  shows "\<exists>i < 5. runtime_on_finalize (h + of_nat i) (pre i) = Done () (st (Suc i))
    \<and> prefix (price_candidates tok (st 0)) (price_candidates tok (pre i))
    \<and> current_price tok (st (Suc i))
        = sum_list (price_candidates tok (pre i)) div of_nat (length (price_candidates tok (pre i)))
    \<and> price_candidates tok (st (Suc i)) = []"
proof -
  let ?P = "\<lambda>i. i < 5 \<and> (h + of_nat i) mod AggregateInterval = (0 :: block_number)"
  define j where "j = (LEAST i. ?P i)"
  have j: "j < 5" "(h + of_nat j) mod AggregateInterval = 0"
    using LeastI_ex [of ?P] aggregates_within_five [of h] by (simp_all add: j_def)
  have before: "(h + of_nat i) mod AggregateInterval \<noteq> 0" if "i < j" for i
    using not_less_Least [of i ?P] that j(1) by (simp add: j_def)
  have n: "n < 2 ^ 64" using assms(6) by simp
  have inv0: "runtime_inv n (st 0)"
    using runtime_steps_inv [OF assms(2) testnet_genesis_inv [OF assms(1)]] n by simp
  have at: "runtime_inv (n + (\<Sum>i<j. m i)) (st j) \<and> grown tok (price_candidates tok (st 0)) (st j)"
    by (rule idle_blocks [where pre = pre and h = h, OF inv0 _ assms(4,5,6) j(1) before]) (simp_all add: grown_def)
  have "(\<Sum>i<Suc j. m i) \<le> (\<Sum>i<5. m i)"
    using j(1) by (intro sum_mono2) auto
  then have room: "n + (\<Sum>i<j. m i) + m j < 2 ^ 64" using assms(6) by simp
  have inv: "runtime_inv (n + (\<Sum>i<j. m i) + m j) (pre j)"
    using runtime_steps_inv [OF body_steps_runtime [OF assms(4) [OF j(1)]]] at room by blast
  have pre: "prefix (price_candidates tok (st 0)) (price_candidates tok (pre j))"
    using body_steps_grow [OF assms(4) [OF j(1)]] at by (auto simp: grown_def)
  then have "price_candidates tok (pre j) \<noteq> []" using assms(3) by auto
  from finalize_publishes [OF inv room j(2) this] assms(5) [OF j(1)] pre j(1) show ?thesis
    by (intro exI [of _ j]) (auto simp: candidate_mean_def)
qed

text \<open>One price is stacked before block 1; blocks 1 to 5 are empty, and block 5 publishes it.\<close>

lemma candidates_published_within_five_blocks_witness:
  "\<exists>g s t :: loan_state. testnet_genesis demo_seed demo_sys = Done () g
    \<and> runtime_dispatch NoneOrigin (NewOracle (Call_stack_price_unsigned 1 ''BTC'' 90000)) g = Done () s
    \<and> price_candidates ''BTC'' s = [90000] \<and> runtime_on_finalize 5 s = Done () t
    \<and> current_price ''BTC'' t = 90000 \<and> price_candidates ''BTC'' t = []"
proof -
  obtain g :: loan_state where g: "testnet_genesis demo_seed demo_sys = Done () g"
    using testnet_genesis_runs [of 0 0] by blast
  have "PriceCandidates g = []"
    using g by (auto simp: testnet_genesis_def loan_genesis_build_def oracle_genesis_build_def oracle_state.defs
        ga_state.defs split: outcome.splits)
  then obtain s where s: "runtime_dispatch NoneOrigin (NewOracle (Call_stack_price_unsigned 1 ''BTC'' 90000)) g = Done () s"
    and wait: "price_candidates ''BTC'' s = [90000]"
    by (simp add: stack_price_unsigned_def stack_price_def price_candidates_def lm_mutate_def lm_get_def)
  have run: "(runtime_step ^^ 1) g s"
    using call_returns [OF s] by (auto simp: OO_def)
  have "runtime_inv 1 s"
    using runtime_steps_inv [OF run testnet_genesis_inv [OF g]] by simp
  then obtain t where t: "runtime_on_finalize 5 s = Done () t"
    using runtime_finalize_returns [of 1 s 5] by auto
  define st where "st i = (if i < 5 then s else t)" for i :: nat
  have ends: "st (Suc i) = t'" if "i < 5" "runtime_on_finalize (1 + of_nat i) s = Done () t'" for i t'
  proof -
    have "i = 0 \<or> i = 1 \<or> i = 2 \<or> i = 3 \<or> i = 4" using that(1) by linarith
    then show ?thesis
      using that(2) t by (auto simp: st_def finalize_idle AggregateInterval_def)
  qed
  have "\<exists>i<5. runtime_on_finalize (1 + of_nat i) s = Done () (st (Suc i))
      \<and> prefix (price_candidates ''BTC'' (st 0)) (price_candidates ''BTC'' s)
      \<and> current_price ''BTC'' (st (Suc i))
          = sum_list (price_candidates ''BTC'' s) div of_nat (length (price_candidates ''BTC'' s))
      \<and> price_candidates ''BTC'' (st (Suc i)) = []"
    using candidates_published_within_five_blocks [where pre = "\<lambda>_. s" and m = "\<lambda>_. 0" and st = st
        and n = 1 and h = 1 and tok = "''BTC''", OF g] run wait ends by (simp add: st_def)
  then obtain i where i: "i < 5" "current_price ''BTC'' (st (Suc i)) = 90000" "price_candidates ''BTC'' (st (Suc i)) = []"
    using wait by auto
  then have "st (Suc i) = t" using wait by (auto simp: st_def split: if_splits)
  with i g s wait t show ?thesis by auto
qed

end
