(* ===== verification/Block_Start.thy ===== *)
theory Block_Start
  imports Runtime_Properties
begin

text \<open>
  When a block cannot be started (deposit-loan/src/lib.rs, \<open>on_initialize\<close>).  The hook at the start of a
  block returns no error: it returns or it panics, and a panic there keeps the chain from producing any
  further block.  The theory says exactly in which states it panics.
\<close>

section \<open>Loops that panic on one element, or on every element\<close>

lemma for_each_uniform:
  assumes "\<And>x t. x \<in> set xs \<Longrightarrow> I t \<Longrightarrow> if b then f x t = Panic else \<exists>t'. f x t = Done () t' \<and> I t'" and "I s"
  shows "if xs \<noteq> [] \<and> b then for_each f xs s = Panic else \<exists>t. for_each f xs s = Done () t \<and> I t"
proof (cases b)
  case True
  then show ?thesis
    using assms(1) [OF _ assms(2)] assms(2) by (cases xs) simp_all
next
  case False
  have "I s \<Longrightarrow> \<exists>t. for_each f xs s = Done () t \<and> I t"
    using assms(1) False by (induction xs arbitrary: s) (simp, fastforce)
  then show ?thesis using assms(2) False by simp
qed

section \<open>What the hook reads\<close>

text \<open>The health check changes the status of loans only, and interest over no time changes no amount.\<close>

definition hook_view ::
    "'a loan_state_scheme \<Rightarrow> bool \<times> balance \<times> asset_id \<times> account_id \<times> price \<times> ((asset_id \<times> account_id) \<Rightarrow> balance) \<times> loan_no set" where
  "hook_view s = (Paused s, TotalLoan s, CollectionAssetId s, CollectionAccountId s, collateral_price s,
     (\<lambda>(a, w). free_balance a w s), dom (map_of (Loans s)))"

lemma hook_view_sel:
  assumes "hook_view t = hook_view s"
  shows "Paused t = Paused s" "TotalLoan t = TotalLoan s" "CollectionAssetId t = CollectionAssetId s"
    "CollectionAccountId t = CollectionAccountId s" "collateral_price t = collateral_price s"
    "free_balance a w t = free_balance a w s" "dom (map_of (Loans t)) = dom (map_of (Loans s))"
    "lm_contains (Loans t) k = lm_contains (Loans s) k" "Loans t = [] \<longleftrightarrow> Loans s = []"
proof -
  show "Paused t = Paused s" "TotalLoan t = TotalLoan s" "CollectionAssetId t = CollectionAssetId s"
    "CollectionAccountId t = CollectionAccountId s" "collateral_price t = collateral_price s"
    and dom: "dom (map_of (Loans t)) = dom (map_of (Loans s))"
    using assms by (simp_all add: hook_view_def)
  show "free_balance a w t = free_balance a w s"
    using assms by (auto simp: hook_view_def dest: fun_cong [of _ _ "(a, w)"])
  show "lm_contains (Loans t) k = lm_contains (Loans s) k"
    using dom by (auto simp: lm_contains_def)
  have "m = [] \<longleftrightarrow> dom (map_of m) = {}" for m :: "(loan_no \<times> loan) list"
    by (cases m) auto
  with dom show "Loans t = [] \<longleftrightarrow> Loans s = []" by metis
qed

lemma price_writes [simp]:
  "collateral_price (s\<lparr>Loans := x1\<rparr>) = collateral_price s" "collateral_price (s\<lparr>LiquidatingLoans := x2\<rparr>) = collateral_price s"
  "collateral_price (s\<lparr>LoanEvents := x3\<rparr>) = collateral_price s" "collateral_price (s\<lparr>TotalLoan := x4\<rparr>) = collateral_price s"
  "collateral_price (s\<lparr>TotalDtoken := x5\<rparr>) = collateral_price s" "collateral_price (s\<lparr>BonusTime := x6\<rparr>) = collateral_price s"
  "collateral_price (moved a f t n s) = collateral_price s"
  by (simp_all add: collateral_price_def symbols_def current_price_def moved_def set_free_balance_def deposit_ga_event_def)

lemma view_writes [simp]:
  "hook_view (s\<lparr>LiquidatingLoans := x1\<rparr>) = hook_view s" "hook_view (deposit_loan_event ev s) = hook_view s"
  "hook_view (s\<lparr>TotalDtoken := x2\<rparr>) = hook_view s" "hook_view (s\<lparr>BonusTime := x3\<rparr>) = hook_view s"
  "hook_view (moved a f t 0 s) = hook_view s"
  by (auto simp: hook_view_def deposit_loan_event_def ledger_simps fun_eq_iff)

lemma view_mutate:
  assumes "lm_contains (Loans s) lid"
  shows "hook_view (mutate_loan lid f s) = hook_view s"
  using assms
  by (auto simp: hook_view_def mutate_loan_def lm_mutate_def lm_contains_def)

lemma view_liquidate:
  assumes "lm_contains (Loans s) lid"
  shows "hook_view (liquidate_loan lid v s) = hook_view s"
  using view_mutate [OF assms] by (simp add: liquidate_loan_def Let_def split: option.split)

section \<open>The health check\<close>

lemma uncheckable_panics:
  assumes inv: "loan_inv s" and l: "map_of (Loans s) k = Some l" and "\<not> checkable p l"
  shows "check_one_loan p lt wt k s = Panic"
  using assms(3) book_okD(6) [OF _ l] inv
  by (auto simp: checkable_def check_one_loan_def Let_def check_loan_in_liquidation_def check_loan_health_def
      get_loan_by_id_def lm_get_def l loan_inv_def book_wf_def)

lemma check_one_view:
  assumes "loan_inv s" and "lm_contains (Loans s) k" and "check_one_loan p lt wt k s = Done u t"
  shows "hook_view t = hook_view s"
  using assms
  by (auto simp: check_one_loan_def Let_def loan_inv_ids view_mutate view_liquidate unwrap_then_def
      split: if_splits option.splits loan_health.splits)

lemma check_loans_panic_or_view:
  assumes "loan_inv s" and "distinct ks" and "\<And>k. k \<in> set ks \<Longrightarrow> lm_contains (Loans s) k"
  shows "if \<forall>k\<in>set ks. checkable p (get_loan_by_id k s)
    then \<exists>t. for_each (check_one_loan p lt wt) ks s = Done () t \<and> hook_view t = hook_view s
    else for_each (check_one_loan p lt wt) ks s = Panic"
  using assms
proof (induction ks arbitrary: s)
  case (Cons k ks)
  let ?l = "get_loan_by_id k s"
  have l: "map_of (Loans s) k = Some ?l" using Cons.prems(3) [of k] by (simp add: map_of_get_loan)
  show ?case
  proof (cases "checkable p ?l")
    case True
    obtain t where t: "check_one_loan p lt wt k s = Done () t" "loan_inv t"
      and loans: "map_of (Loans t) = (map_of (Loans s))(k \<mapsto> checked_loan p lt wt ?l)"
      using check_one_loan_effect [OF Cons.prems(1) l True, of lt wt] by blast
    have view: "hook_view t = hook_view s"
      using check_one_view [OF Cons.prems(1) _ t(1)] Cons.prems(3) [of k] by simp
    have same: "get_loan_by_id j t = get_loan_by_id j s" if "j \<in> set ks" for j
      using that Cons.prems(2) loans by (auto simp: get_loan_by_id_def lm_get_def get_or_def)
    have "if \<forall>k\<in>set ks. checkable p (get_loan_by_id k t)
        then \<exists>t'. for_each (check_one_loan p lt wt) ks t = Done () t' \<and> hook_view t' = hook_view t
        else for_each (check_one_loan p lt wt) ks t = Panic"
      using Cons.prems(2,3) t(2) hook_view_sel(8) [OF view] by (intro Cons.IH) auto
    then show ?thesis
      using True t(1) view same by (auto split: if_splits)
  next
    case False
    then show ?thesis using uncheckable_panics [OF Cons.prems(1) l] by simp
  qed
qed simp

section \<open>The interest\<close>

text \<open>Interest over no time draws nothing from a loan, but it divides by the total of the loans and by
  the low half of the price.\<close>

lemma draw_nothing:
  assumes "lm_contains (Loans s) lid"
  shows "if low_u32 (collateral_price s) = 0
    then draw_from_loan (loan_who (get_loan_by_id lid s)) lid 0 s = Panic
    else \<exists>t. draw_from_loan (loan_who (get_loan_by_id lid s)) lid 0 s = Done () t \<and> hook_view t = hook_view s"
proof -
  have "insert lid (dom (map_of (Loans s))) = dom (map_of (Loans s))"
    using assms by (auto simp: lm_contains_def)
  then show ?thesis
    using assms
    by (auto simp: draw_from_loan_def Let_def div_then_def)
      (simp add: mutate_loan_def, simp add: hook_view_def lm_mutate_def)
qed

lemma checked_add_0: "checked_add x 0 = Some x"
  by (simp add: checked_add_Some_iff)

lemma charge_nothing:
  assumes "lm_contains (Loans s) lid"
  shows "if n * 10 ^ 8 = 0 \<or> low_u32 (collateral_price s) = 0 then charge_interest aid acct 0 n lid s = Panic
    else \<exists>t. charge_interest aid acct 0 n lid s = Done () t \<and> hook_view t = hook_view s"
  using draw_nothing [OF assms]
  by (auto simp: charge_interest_def Let_def div_then_def make_transfer_with_event_eq checked_add_0
      split: if_splits)

lemma charge_loop:
  assumes "\<And>k. k \<in> set ks \<Longrightarrow> lm_contains (Loans s) k"
  shows "if ks \<noteq> [] \<and> (n * 10 ^ 8 = 0 \<or> low_u32 (collateral_price s) = 0)
    then for_each (charge_interest aid acct 0 n) ks s = Panic
    else \<exists>t. for_each (charge_interest aid acct 0 n) ks s = Done () t \<and> hook_view t = hook_view s"
proof (rule for_each_uniform)
  fix k and t :: "'a loan_state_scheme"
  assume "k \<in> set ks" and view: "hook_view t = hook_view s"
  then have "lm_contains (Loans t) k" using assms hook_view_sel(8) [OF view] by blast
  from charge_nothing [OF this, of n aid acct] view hook_view_sel(5) [OF view]
  show "if n * 10 ^ 8 = 0 \<or> low_u32 (collateral_price s) = 0 then charge_interest aid acct 0 n k t = Panic
      else \<exists>t'. charge_interest aid acct 0 n k t = Done () t' \<and> hook_view t' = hook_view s"
    by auto
qed simp

text \<open>The deposits the utilisation is computed from: what is left in the collection account, and the loans.\<close>

definition total_deposits :: "'a loan_state_scheme \<Rightarrow> balance" where
  "total_deposits s = free_balance (CollectionAssetId s) (CollectionAccountId s) s + TotalLoan s"

definition interest_panics :: "'a loan_state_scheme \<Rightarrow> bool" where
  "interest_panics s \<longleftrightarrow> total_deposits s + TotalLoan s \<noteq> 0
     \<and> (2 ^ 128 \<le> unat (TotalLoan s) * 10 ^ 8
       \<or> Loans s \<noteq> [] \<and> (TotalLoan s = 0 \<or> low_u32 (collateral_price s) = 0)
       \<or> low_u32 (total_deposits s) = 0)"

lemma keys_empty: "lm_keys m = [] \<longleftrightarrow> m = []"
  by (simp add: lm_keys_def)

lemma interest_cases:
  "if interest_panics s then calculate_loan_interest_rate s = Panic
   else \<exists>t. calculate_loan_interest_rate s = Done () t"
proof (cases "total_deposits s + TotalLoan s = 0")
  case True
  then show ?thesis
    by (simp add: interest_panics_def calculate_loan_interest_rate_def Let_def total_deposits_def)
next
  case False
  let ?s = "s\<lparr>BonusTime := Now s\<rparr>"
  have zero: "u32_try_from 0 = Some 0" by (simp add: u32_try_from_def)
  have fits: "checked_mul (TotalLoan s) (10 ^ 8)
      = (if unat (TotalLoan s) * 10 ^ 8 < 2 ^ 128 then Some (TotalLoan s * 10 ^ 8) else None)"
    by (simp add: checked_mul_def)
  show ?thesis
  proof (cases "unat (TotalLoan s) * 10 ^ 8 < 2 ^ 128")
    case True
    have "TotalLoan s * 10 ^ 8 = 0 \<longleftrightarrow> TotalLoan s = 0"
      using True unat_mult_less [of "TotalLoan s" "10 ^ 8"] by (auto simp: word_unat_eq_iff)
    moreover have "k \<in> set (lm_keys (Loans s)) \<Longrightarrow> lm_contains (Loans ?s) k" for k
      by (simp add: lm_contains_iff)
    ultimately have "if Loans s \<noteq> [] \<and> (TotalLoan s = 0 \<or> low_u32 (collateral_price s) = 0)
      then for_each (charge_interest (CollectionAssetId s) (CollectionAccountId s) 0 (TotalLoan s)) (lm_keys (Loans s)) ?s = Panic
      else \<exists>t. for_each (charge_interest (CollectionAssetId s) (CollectionAccountId s) 0 (TotalLoan s)) (lm_keys (Loans s)) ?s = Done () t"
      using charge_loop [of "lm_keys (Loans s)" ?s "TotalLoan s" "CollectionAssetId s" "CollectionAccountId s"]
      by (auto simp: keys_empty split: if_splits)
    then show ?thesis
      using False True fits zero
      by (auto simp: interest_panics_def calculate_loan_interest_rate_def Let_def total_deposits_def div_then_def
          SEC_PER_DAY_def DAYS_PER_YEAR_def split: if_splits)
  next
    case over: False
    then show ?thesis
      using False fits
      by (simp add: interest_panics_def calculate_loan_interest_rate_def Let_def total_deposits_def not_less)
  qed
qed

section \<open>The hook\<close>

lemma view_panics:
  assumes "hook_view t = hook_view s"
  shows "interest_panics t = interest_panics s"
  using hook_view_sel [OF assms] by (simp add: interest_panics_def total_deposits_def)

text \<open>C5: A block cannot be started exactly in the following states of a running module, and in every
  other state the hook returns: a loan that is not in liquidation has no ratio at the current price (its
  available collateral times the price is zero, or the ratio exceeds 64 bits); or, as soon as anything is
  saved or lent, the total of the loans times \<open>10 ^ 8\<close> exceeds 128 bits, or there are loans but their
  total or the low 32 bits of the price are zero, or the low 32 bits of the deposits are zero.\<close>

theorem block_start_panics_iff:
  assumes inv: "loan_inv s"
  shows "if \<not> Paused s
      \<and> ((\<exists>lid l. map_of (Loans s) lid = Some l \<and> lid \<notin> set (get_liquidating_loans s)
            \<and> get_ltv (collateral_balance_available l) (loan_balance_total l) (collateral_price s) = None)
        \<or> total_deposits s + TotalLoan s \<noteq> 0
          \<and> (2 ^ 128 \<le> unat (TotalLoan s) * 10 ^ 8
            \<or> Loans s \<noteq> [] \<and> (TotalLoan s = 0 \<or> low_u32 (collateral_price s) = 0)
            \<or> low_u32 (total_deposits s) = 0))
    then runtime_on_initialize h s = Panic
    else \<exists>t. runtime_on_initialize h s = Done () t"
proof (cases "Paused s")
  case False
  let ?ks = "lm_keys (Loans s)" and ?p = "collateral_price s"
  have distinct: "distinct ?ks" and present: "k \<in> set ?ks \<Longrightarrow> lm_contains (Loans s) k" for k
    using inv by (simp_all add: loan_inv_def book_wf_def book_ok_def lm.enum_distinct lm_contains_iff)
  have "(\<forall>k\<in>set ?ks. checkable ?p (get_loan_by_id k s))
      \<longleftrightarrow> \<not> (\<exists>lid l. map_of (Loans s) lid = Some l \<and> lid \<notin> set (get_liquidating_loans s)
            \<and> get_ltv (collateral_balance_available l) (loan_balance_total l) ?p = None)"
  proof -
    have "map_of (Loans s) lid = Some l \<longleftrightarrow> lid \<in> set ?ks \<and> l = get_loan_by_id lid s" for lid l
      by (auto simp: lm_contains_iff [symmetric] map_of_get_loan) (auto simp: lm_contains_def get_loan_by_id_def lm_get_def)
    moreover have "lid \<in> set (get_liquidating_loans s) \<longleftrightarrow> is_liquidating (loan_status (get_loan_by_id lid s))"
      if "lid \<in> set ?ks" for lid
      using book_okD(6) [OF _ map_of_get_loan [OF present [OF that]]] inv by (auto simp: loan_inv_def book_wf_def)
    ultimately show ?thesis by (auto simp: checkable_def)
  qed
  moreover note check_loans_panic_or_view [OF inv distinct present, of ?p "GlobalLiquidationThreshold s" "GlobalWarningThreshold s"]
  moreover have "if interest_panics s then calculate_loan_interest_rate t = Panic
      else \<exists>t'. calculate_loan_interest_rate t = Done () t'" if "hook_view t = hook_view s" for t
    using interest_cases [of t] view_panics [OF that] by simp
  ultimately show ?thesis
    using False
    by (auto simp: runtime_on_initialize_def loan_on_initialize_def on_each_block_def Let_def interest_panics_def
        split: if_splits)
qed (simp add: runtime_on_initialize_def loan_on_initialize_def)

text \<open>A BTC costs one DUSD.  Whoever pledges a single unit of it and asks for whatever it is worth is lent
  nothing, but a loan is entered in the book; when it is the only one the total of the loans is zero, and
  the next block cannot be started.\<close>

definition demo_cheap :: loan_state where
  "demo_cheap = demo_loans\<lparr>CurrentPrice := [(''BTC'', 10000)]\<rparr>"

lemma demo_cheap_facts:
  "collateral_price demo_cheap = 10000" "loan_inv demo_cheap" "Loans demo_cheap = []" "TotalLoan demo_cheap = 0"
  "free_balance aid w demo_cheap = free_balance aid w demo_loans" "CollateralAssetId demo_cheap = 1"
  "CollectionAssetId demo_cheap = 0" "CollectionAccountId demo_cheap = 10" "PawnShop demo_cheap = 11"
  "GlobalLTVLimit demo_cheap = 6667" "MinimumCollateral demo_cheap = 0" "LoanCap demo_cheap = None"
  "\<not> Paused demo_cheap" "NextLoanId demo_cheap = 0" "get_liquidating_loans demo_cheap = []"
  using demo_loans_inv
  by (simp_all add: demo_cheap_def collateral_price_def symbols_def current_price_def lm_get_def free_balance_def
      get_liquidating_loans_def)

lemma block_start_panics_iff_witness:
  "\<exists>t. apply_loan (Signed 3) 1 0 demo_cheap = Done () t \<and> runtime_on_initialize 1 t = Panic"
proof -
  let ?cl = "\<lparr>cl_collateral_amount = 1, cl_loan_amount = 0\<rparr>"
  let ?t = "opened 3 0 ?cl demo_cheap"
  have cl: "get_collateral_loan 1 0 demo_cheap = Done ?cl demo_cheap"
    by (simp add: get_collateral_loan_def demo_cheap_facts div_then_def LTV_PREC_def PRICE_PREC_def)
  have opens: "open_loan 3 0 ?cl demo_cheap = Done () ?t"
    by (simp add: open_loan_Done_iff demo_cheap_facts demo_loans_reads)
  have run: "apply_for_loan 3 1 0 demo_cheap = Done () ?t"
    using cl opens by (simp add: apply_for_loan_eq demo_cheap_facts)
  have inv: "loan_inv ?t"
    using keepsD_Done [OF loan_inv_open_loan [OF demo_cheap_facts(2)] opens] by (simp add: demo_cheap_facts)
  have fields: "CollectionAssetId ?t = 0" "CollectionAccountId ?t = 10" "\<not> Paused ?t" "Loans ?t \<noteq> []"
    by (simp_all add: demo_cheap_facts lm_insert_def)
  have "total_deposits ?t = 1000000"
    by (simp add: total_deposits_def fields free_balance_opened demo_cheap_facts demo_loans_reads)
  then have "runtime_on_initialize 1 ?t = Panic"
    using block_start_panics_iff [OF inv, of 1] fields by (simp add: demo_cheap_facts)
  then show ?thesis
    using run by (auto simp: apply_loan_def demo_cheap_facts)
qed

end
