(* ===== verification/Savings_Par.thy ===== *)
theory Savings_Par
  imports Runtime_Properties
begin

text \<open>
  What a share of the savings is worth (deposit-loan/src/lib.rs).  The pallet keeps the shares it handed out
  (\<open>MarketDtoken\<close>) apart from what they stand for (\<open>TotalDtoken\<close>) and values a share by the quotient of the
  two.  From the genesis of the testnet on the two never differ, whatever is called: a share is worth one unit
  for ever.  A redemption lowers both and leaves the share of the user, so a single saver can take out all
  that the others saved.
\<close>

section \<open>The two totals are always equal\<close>

definition at_par :: "'a loan_state_scheme \<Rightarrow> bool" where
  "at_par s \<longleftrightarrow> MarketDtoken s = TotalDtoken s"

lemma par_writes [simp]:
  "at_par (moved a f t n s) = at_par s" "at_par (s\<lparr>UserDtoken := x1\<rparr>) = at_par s"
  "at_par (s\<lparr>Loans := x2\<rparr>) = at_par s" "at_par (s\<lparr>LoansByAccount := x3\<rparr>) = at_par s"
  "at_par (s\<lparr>LiquidatingLoans := x4\<rparr>) = at_par s" "at_par (s\<lparr>TotalLoan := x5\<rparr>) = at_par s"
  "at_par (s\<lparr>TotalCollateral := x6\<rparr>) = at_par s" "at_par (s\<lparr>NextLoanId := x7\<rparr>) = at_par s"
  "at_par (s\<lparr>BonusTime := x8\<rparr>) = at_par s" "at_par (s\<lparr>LoanInterestRateCurrent := x9\<rparr>) = at_par s"
  "at_par (s\<lparr>SavingInterestRate := x10\<rparr>) = at_par s" "at_par (s\<lparr>LoanEvents := x11\<rparr>) = at_par s"
  "at_par (s\<lparr>MarketDtoken := v, TotalDtoken := v\<rparr>)"
  by (simp_all add: at_par_def)

lemma par_admin [simp]:
  "at_par (s\<lparr>Paused := y1\<rparr>) = at_par s" "at_par (s\<lparr>CollectionAssetId := y2\<rparr>) = at_par s"
  "at_par (s\<lparr>CollectionAccountId := y3\<rparr>) = at_par s" "at_par (s\<lparr>CollateralAssetId := y4\<rparr>) = at_par s"
  "at_par (s\<lparr>GlobalLTVLimit := y5\<rparr>) = at_par s" "at_par (s\<lparr>LoanAssetId := y6\<rparr>) = at_par s"
  "at_par (s\<lparr>GlobalLiquidationThreshold := y7\<rparr>) = at_par s" "at_par (s\<lparr>GlobalWarningThreshold := y8\<rparr>) = at_par s"
  "at_par (s\<lparr>LoanCap := y9\<rparr>) = at_par s" "at_par (s\<lparr>LiquidationAccount := y10\<rparr>) = at_par s"
  "at_par (s\<lparr>ProfitAssetId := y11\<rparr>) = at_par s" "at_par (s\<lparr>ProfitPool := y12\<rparr>) = at_par s"
  "at_par (s\<lparr>PenaltyRate := y13\<rparr>) = at_par s"
  by (simp_all add: at_par_def)

lemma par_frame [simp]:
  "at_par (s\<lparr>CryptoPriceSources := x1\<rparr>) = at_par s" "at_par (s\<lparr>PriceCandidates := x2\<rparr>) = at_par s"
  "at_par (s\<lparr>CurrentPrice := x3\<rparr>) = at_par s" "at_par (s\<lparr>NextAggregateAt := x4\<rparr>) = at_par s"
  "at_par (s\<lparr>SudoKey := k, BlockNumber := n, ExtrinsicIndex := i, Now := m\<rparr>) = at_par s"
  by (simp_all add: at_par_def)

lemma par_helpers [simp]:
  "at_par (mutate_loan lid f s) = at_par s" "at_par (mutate_loans_by_account who g s) = at_par s"
  "at_par (deposit_loan_event ev s) = at_par s" "at_par (revert_repay who l s) = at_par s"
  "at_par (liquidate_loan lid v s) = at_par s"
  by (simp_all add: mutate_loan_def mutate_loans_by_account_def deposit_loan_event_def revert_repay_def
      liquidate_loan_def Let_def split: option.split)

lemma par_transfer [simp]: "at_par s \<Longrightarrow> keeps at_par (make_transfer_with_event a f t n s)"
  by (simp add: make_transfer_with_event_eq)

text \<open>At par, the share that an amount buys is the amount, and the rate of a redemption is one.\<close>

lemma staking_multiplies:
  assumes "create_staking who aid n s = Done u t" and "TotalDtoken s \<noteq> 0"
  shows "unat n * unat (MarketDtoken s) < 2 ^ 128"
proof -
  have "checked_mul n (MarketDtoken s) \<noteq> None"
    using assms by (auto simp: create_staking_def Let_def and_then_Done_iff ensure_Done_iff unwrap_then_Done_iff)
  then show ?thesis by (simp add: checked_mul_def split: if_splits)
qed

lemma par_bought:
  assumes "at_par s" and "create_staking who aid n s = Done u t"
  shows "bought_share n s = n"
proof (cases "TotalDtoken s = 0")
  case False
  then have "unat (n * MarketDtoken s) = unat n * unat (MarketDtoken s)" and "unat (MarketDtoken s) \<noteq> 0"
    using staking_multiplies [OF assms(2)] assms(1) by (simp_all add: at_par_def unat_mult_less unat_eq_zero)
  then have "unat (n * MarketDtoken s div MarketDtoken s) = unat n" by (simp add: unat_div)
  then have "n * MarketDtoken s div MarketDtoken s = n" by (simp add: word_unat_eq_iff)
  then show ?thesis using False assms(1) by (simp add: bought_share_def at_par_def)
qed (simp add: bought_share_def)

lemma par_staking:
  assumes "at_par s"
  shows "keeps at_par (create_staking who aid n s)"
proof (cases "create_staking who aid n s")
  case (Done u t)
  have "unat (MarketDtoken t) = unat (TotalDtoken t)"
    using create_staking_Done(5,6) [OF Done] par_bought [OF assms Done] by simp
  then show ?thesis using Done by (simp add: at_par_def word_unat_eq_iff)
next
  case (Fail e t)
  then have "at_par t"
    using assms
    by (auto simp: create_staking_def Let_def ensure_def make_transfer_with_event_eq div_then_def unwrap_then_def
        split: if_splits option.splits)
  with Fail show ?thesis by simp
qed simp

lemma div_same_word: "(x :: 'w::len word) \<noteq> 0 \<Longrightarrow> x div x = 1"
  by (simp add: word_unat_eq_iff unat_div)

lemma par_redeem_all: "at_par s \<Longrightarrow> keeps at_par (make_redeem_all who s)"
  unfolding make_redeem_all_def Let_def
  by (auto intro!: keeps_intros simp: at_par_def div_same_word user_dtoken_def)

lemma par_redeem: "at_par s \<Longrightarrow> keeps at_par (make_redeem who aid acct n s)"
  unfolding make_redeem_def Let_def
  by (auto intro!: keeps_intros par_staking par_redeem_all)

lemma par_loans:
  assumes "at_par s"
  shows "keeps at_par (repay_for_loan who lid s)" "keeps at_par (add_loan_collateral l who n s)"
    "keeps at_par (draw_from_loan who lid n s)" "keeps at_par (mark_loan_liquidated l who n s)"
    "keeps at_par (apply_for_loan who c n s)"
  unfolding repay_for_loan_def add_loan_collateral_def draw_from_loan_def mark_loan_liquidated_def Let_def
    apply_for_loan_eq open_loan_def
  using assms by (auto intro!: keeps_intros split: option.split outcome.split)

lemma par_loan_call: "at_par s \<Longrightarrow> keeps at_par (loan_dispatch orig c s)"
  by (cases c; cases orig)
    (auto simp: admin_defs user_defs Let_def intro!: keeps_ensure par_staking par_redeem par_loans)

text \<open>The interest is computed for a time span of zero, so nothing is added to what the shares stand for.\<close>

lemma par_charge_0: "at_par s \<Longrightarrow> keeps at_par (charge_interest aid acct 0 n lid s)"
  unfolding charge_interest_def Let_def
  by (auto intro!: keeps_and_then keeps_unwrap_or_default keeps_div_then par_loans simp: at_par_def unwrap_then_def
      checked_add_def div_then_def unat_less_2p split: option.split)

lemma par_interest: "at_par s \<Longrightarrow> keeps at_par (calculate_loan_interest_rate s)"
  unfolding calculate_loan_interest_rate_def Let_def
  by (auto intro!: keeps_intros par_charge_0 simp: u32_try_from_def)

lemma par_initialize: "at_par s \<Longrightarrow> keeps at_par (loan_on_initialize h s)"
  unfolding loan_on_initialize_def on_each_block_def check_one_loan_def Let_def
  by (auto intro!: keeps_intros par_interest split: loan_health.split)

lemma par_extension: "ga_state.more t = ga_state.more s \<Longrightarrow> at_par t = at_par s"
  for s t :: "'a loan_state_scheme"
  by (cases s; cases t) (simp add: at_par_def)

lemma par_ga: "at_par s \<Longrightarrow> keeps at_par (ga_dispatch orig c s)"
  by (rule keeps_mono [OF ga_dispatch_extension]) (drule par_extension, simp)

lemma par_oracle: "at_par s \<Longrightarrow> keeps at_par (oracle_dispatch orig c s)"
  by (cases c; cases orig)
    (simp_all add: add_source_def stack_price_unsigned_def stack_price_signed_def stack_price_def ensure_def)

lemma par_dispatch: "at_par s \<Longrightarrow> keeps at_par (runtime_dispatch orig c s)"
  by (cases c) (simp_all add: par_loan_call par_ga par_oracle)

lemma par_finalize:
  assumes "runtime_inv n s" and "n < 2 ^ 64" and "runtime_on_finalize h s = Done u t" and "at_par s"
  shows "at_par t"
proof (cases "h mod AggregateInterval = 0")
  case True
  have "length (price_candidates k s) < 2 ^ 64" for k
    using assms by (meson order.strict_trans1 runtime_inv_def)
  with True oracle_on_finalize_aggregates [of s AggregateInterval h] assms(1,3,4)
  show ?thesis
    by (auto simp: runtime_inv_def runtime_on_finalize_def AggregateInterval_def)
next
  case False
  then show ?thesis
    using assms(3,4) by (simp add: runtime_on_finalize_def oracle_on_finalize_idle AggregateInterval_def)
qed

lemma par_step:
  assumes "runtime_step s t" and "runtime_inv n s" and "n < 2 ^ 64" and "at_par s"
  shows "at_par t"
  using assms(1)
proof cases
  case (initializes h u)
  then show ?thesis using keepsD_Done [OF par_initialize [OF assms(4)]] by (simp add: runtime_on_initialize_def)
next
  case (call_returns orig c u)
  then show ?thesis using keepsD_Done [OF par_dispatch [OF assms(4)]] by blast
next
  case (call_fails orig c e)
  then show ?thesis using keepsD_Fail [OF par_dispatch [OF assms(4)]] by blast
next
  case (finalizes h u)
  then show ?thesis using par_finalize assms(2-4) by blast
qed (simp add: assms(4))

lemma par_steps:
  "(runtime_step ^^ k) s t \<Longrightarrow> runtime_inv n s \<Longrightarrow> n + k < 2 ^ 64 \<Longrightarrow> at_par s \<Longrightarrow> at_par t"
proof (induction k arbitrary: t)
  case (Suc k)
  then obtain r where r: "(runtime_step ^^ k) s r" "runtime_step r t" by auto
  have "runtime_inv (n + k) r" using runtime_steps_inv [OF r(1)] Suc.prems by simp
  with Suc.IH [OF r(1)] Suc.prems r(2) show ?case by (intro par_step [of r t "n + k"]) simp_all
qed simp

lemma testnet_genesis_par: "testnet_genesis seed_account sys = Done u g \<Longrightarrow> at_par g"
  by (auto simp: testnet_genesis_def at_par_def loan_genesis_build_def oracle_genesis_build_def oracle_state.defs
      testnet_loan_genesis_def split: outcome.splits)

section \<open>One saver takes what the others saved\<close>

definition redeemed :: "account_id \<Rightarrow> balance \<Rightarrow> 'a loan_state_scheme \<Rightarrow> 'a loan_state_scheme" where
  "redeemed who v s = moved (CollectionAssetId s) (CollectionAccountId s) who v
     (s\<lparr>MarketDtoken := MarketDtoken s - v, TotalDtoken := TotalDtoken s - v\<rparr>)"

lemma redeem_share:
  assumes par: "at_par s" and "\<not> Paused s" and share: "user_dtoken who s = v"
    and v: "v \<noteq> 0" "v \<le> MarketDtoken s" "v \<le> free_balance (CollectionAssetId s) (CollectionAccountId s) s"
  shows "redeem (Signed who) (CollectionAssetId s) v s = Done () (redeemed who v s)"
proof -
  have market: "MarketDtoken s = TotalDtoken s" "TotalDtoken s \<noteq> 0"
    using par v(1,2) by (auto simp: at_par_def)
  then have all: "make_redeem_all who s = Done () (redeemed who v s)"
    using v(2,3) by (simp add: make_redeem_all_def Let_def div_then_def div_same_word share make_transfer_with_event_eq
        redeemed_def)
  then show ?thesis
    using assms(2) v(3) market
    by (simp add: redeem_def make_redeem_def Let_def div_then_def div_same_word share create_staking_def)
qed

lemma redeemed_fields:
  "Paused (redeemed who v s) = Paused s" "CollectionAssetId (redeemed who v s) = CollectionAssetId s"
  "CollectionAccountId (redeemed who v s) = CollectionAccountId s" "user_dtoken w (redeemed who v s) = user_dtoken w s"
  "MarketDtoken (redeemed who v s) = MarketDtoken s - v" "at_par s \<Longrightarrow> at_par (redeemed who v s)"
  by (simp_all add: redeemed_def at_par_def)

lemma redeemed_balances:
  assumes inv: "ga_inv s" and who: "who \<noteq> CollectionAccountId s"
    and v: "v \<le> free_balance (CollectionAssetId s) (CollectionAccountId s) s"
  shows "unat (free_balance (CollectionAssetId s) who (redeemed who v s)) = unat (free_balance (CollectionAssetId s) who s) + unat v"
    and "unat (free_balance (CollectionAssetId s) (CollectionAccountId s) (redeemed who v s))
      = unat (free_balance (CollectionAssetId s) (CollectionAccountId s) s) - unat v"
    and "ga_inv (redeemed who v s)"
proof -
  have "unat (free_balance (CollectionAssetId s) who s) + unat v < 2 ^ 128"
    using solvent_pair_less [OF ga_inv_solvent [OF inv] who, of "CollectionAssetId s"] v
    by (simp add: holdings_def word_le_nat_alt)
  then show "unat (free_balance (CollectionAssetId s) who (redeemed who v s)) = unat (free_balance (CollectionAssetId s) who s) + unat v"
    using who by (simp add: redeemed_def ledger_simps unat_add_less)
  show "unat (free_balance (CollectionAssetId s) (CollectionAccountId s) (redeemed who v s))
      = unat (free_balance (CollectionAssetId s) (CollectionAccountId s) s) - unat v"
    using who v by (simp add: redeemed_def ledger_simps unat_sub_le)
  show "ga_inv (redeemed who v s)"
    using inv v by (simp add: redeemed_def ga_inv_moved)
qed

lemma redeem_times:
  assumes "ga_inv s" and "at_par s" and "\<not> Paused s" and "who \<noteq> CollectionAccountId s"
    and "user_dtoken who s = v" and "v \<noteq> 0" and "k * unat v \<le> unat (MarketDtoken s)"
    and "k * unat v \<le> unat (free_balance (CollectionAssetId s) (CollectionAccountId s) s)"
  shows "\<exists>t. for_each (\<lambda>_. redeem (Signed who) (CollectionAssetId s) v) (replicate k ()) s = Done () t
    \<and> unat (free_balance (CollectionAssetId s) who t) = unat (free_balance (CollectionAssetId s) who s) + k * unat v
    \<and> unat (MarketDtoken t) = unat (MarketDtoken s) - k * unat v \<and> user_dtoken who t = v"
  using assms
proof (induction k arbitrary: s)
  case (Suc k)
  let ?r = "redeemed who v s"
  have v: "v \<le> MarketDtoken s" "v \<le> free_balance (CollectionAssetId s) (CollectionAccountId s) s"
    using Suc.prems(7,8) by (simp_all add: word_le_nat_alt)
  note balances = redeemed_balances [OF Suc.prems(1,4) v(2)]
  have market: "unat (MarketDtoken ?r) = unat (MarketDtoken s) - unat v"
    using v(1) by (simp add: redeemed_fields unat_sub_le)
  have one: "redeem (Signed who) (CollectionAssetId s) v s = Done () ?r"
    using redeem_share [OF Suc.prems(2,3,5,6) v] .
  have "k * unat v \<le> unat (MarketDtoken ?r)"
    and "k * unat v \<le> unat (free_balance (CollectionAssetId ?r) (CollectionAccountId ?r) ?r)"
    using Suc.prems(7,8) by (simp_all add: market balances(2) redeemed_fields(2,3))
  with Suc.IH [of ?r] balances(3) Suc.prems(2-6)
  obtain t where "for_each (\<lambda>_. redeem (Signed who) (CollectionAssetId s) v) (replicate k ()) ?r = Done () t"
    and "unat (free_balance (CollectionAssetId s) who t) = unat (free_balance (CollectionAssetId s) who ?r) + k * unat v"
    and "unat (MarketDtoken t) = unat (MarketDtoken ?r) - k * unat v" "user_dtoken who t = v"
    by (auto simp: redeemed_fields)
  then show ?case
    by (simp add: one market balances(1))
qed simp

text \<open>C31: However the chain runs from the genesis of the testnet, the shares of the savings and what they
  stand for are the same number: a share never earns anything.  A deposit therefore buys as many shares as
  it has units, whoever makes it and whenever.\<close>

theorem shares_stay_at_par:
  assumes "testnet_genesis seed_account sys = Done u g" and "(runtime_step ^^ n) g s" and "n < 2 ^ 64"
  shows "MarketDtoken s = TotalDtoken s
    \<and> (\<forall>who aid m s'. staking (Signed who) aid m s = Done () s'
        \<longrightarrow> unat (user_dtoken who s') = unat (user_dtoken who s) + unat m
          \<and> unat (MarketDtoken s') = unat (MarketDtoken s) + unat m \<and> MarketDtoken s' = TotalDtoken s')"
proof (intro conjI allI impI)
  have par: "at_par s"
    using par_steps [OF assms(2) testnet_genesis_inv [OF assms(1)]] testnet_genesis_par [OF assms(1)] assms(3) by simp
  then show "MarketDtoken s = TotalDtoken s" by (simp add: at_par_def)
  fix who aid m s'
  assume "staking (Signed who) aid m s = Done () s'"
  then have run: "create_staking who aid m s = Done () s'"
    by (auto simp: staking_def ensure_def split: if_splits)
  show "unat (user_dtoken who s') = unat (user_dtoken who s) + unat m"
    and "unat (MarketDtoken s') = unat (MarketDtoken s) + unat m"
    using create_staking_Done(3,5) [OF run] by (simp_all add: par_bought [OF par run])
  show "MarketDtoken s' = TotalDtoken s'"
    using keepsD_Done [OF par_staking [OF par] run] by (simp add: at_par_def)
qed

lemma shares_stay_at_par_witness:
  "\<exists>g s :: loan_state. testnet_genesis demo_seed demo_sys = Done () g \<and> (runtime_step ^^ 1) g s
    \<and> free_balance 0 3 s = 100 \<and> MarketDtoken s = TotalDtoken s"
proof -
  obtain g :: loan_state where g: "testnet_genesis demo_seed demo_sys = Done () g" "check_permission 0 1 Mint g"
    "total_issuance 0 g = 0" "free_balance 0 3 g = 0"
    using testnet_genesis_runs [of 0 3] by blast
  obtain s where s: "runtime_dispatch (Signed 1) (GenericAsset (Call_mint 0 3 100)) g = Done () s"
    and bal: "free_balance 0 3 s = 100"
    using g by (simp add: mint_def mint_free_def checked_add_def ledger_simps)
  have run: "(runtime_step ^^ 1) g s"
    using call_returns [OF s] by (auto simp: OO_def)
  from shares_stay_at_par [OF g(1) run] run bal g(1) show ?thesis by auto
qed

text \<open>C32: A saver can take out what the others saved: with a share of \<open>v\<close>, the call that redeems \<open>v\<close> succeeds
  \<open>k\<close> times in a row for every \<open>k\<close> whose total the savings and the collection account still cover, pays
  \<open>v\<close> every time, and leaves the saver's share as large as before.\<close>

theorem saver_redeems_again_and_again:
  assumes "loan_inv s" and "MarketDtoken s = TotalDtoken s" and "\<not> Paused s" and "who \<noteq> CollectionAccountId s"
    and "user_dtoken who s = v" and "v \<noteq> 0" and "k * unat v \<le> unat (MarketDtoken s)"
    and "k * unat v \<le> unat (free_balance (CollectionAssetId s) (CollectionAccountId s) s)"
  shows "\<exists>t. for_each (\<lambda>_. redeem (Signed who) (CollectionAssetId s) v) (replicate k ()) s = Done () t
    \<and> unat (free_balance (CollectionAssetId s) who t) = unat (free_balance (CollectionAssetId s) who s) + k * unat v
    \<and> unat (MarketDtoken t) = unat (MarketDtoken s) - k * unat v \<and> user_dtoken who t = v"
  using redeem_times [OF loan_invD(1) [OF assms(1)], unfolded at_par_def, OF assms(2-)] .

text \<open>Accounts 3 and 4 saved 500 DUSD each; account 3 redeems its 500 twice and ends with all that was saved.\<close>

lemma demo_pair_inv: "loan_inv demo_pair"
  using demo_loans_inv by (simp add: demo_pair_def)

lemma saver_redeems_again_and_again_witness:
  "\<exists>t. for_each (\<lambda>_. redeem (Signed 3) 0 500) (replicate 2 ()) demo_pair = Done () t
    \<and> unat (free_balance 0 3 t) = 1000 \<and> unat (MarketDtoken t) = 0 \<and> user_dtoken 3 t = 500"
  using saver_redeems_again_and_again [OF demo_pair_inv, of 3 500 2] by (simp add: user_dtoken_def lm_get_def)

end
