(* ===== verification/Loan_Machine.thy ===== *)
theory Loan_Machine
  imports Runtime_Properties
begin

text \<open>
  The life of a loan as an abstract machine, and the proof that the runtime (deposit-loan/src/lib.rs,
  composed in runtime/src/lib.rs) refines it.  A loan number is unissued, lent to its owner, foreclosed,
  or settled; the machine says who may move it from one phase to the next.  The runtime's storage stands
  for a state of the machine through \<open>desk_of\<close>, and every step of the chain, labelled with its actor,
  is a step of the machine with the same label.

  The interface \<open>step_refinement\<close> is the simulation of labelled steps under an invariant that holds for a
  bounded number of steps; what holds of every history of the machine is carried over to the chain with it.
\<close>

section \<open>Histories of labelled steps\<close>

inductive history :: "('l \<Rightarrow> 's \<Rightarrow> 's \<Rightarrow> bool) \<Rightarrow> 'l list \<Rightarrow> 's \<Rightarrow> 's \<Rightarrow> bool" for step where
  starts: "history step [] s s"
| continues: "step l s r \<Longrightarrow> history step ls r t \<Longrightarrow> history step (l # ls) s t"

inductive_simps history_simps [simp]: "history step [] s t" "history step (l # ls) s t"

lemma history_append: "history step ls s r \<Longrightarrow> history step ms r t \<Longrightarrow> history step (ls @ ms) s t"
  by (induction rule: history.induct) (auto intro: history.continues)

lemma history_invariant:
  assumes "history step ls s t" and "I s"
    and "\<And>l s t. step l s t \<Longrightarrow> l \<in> set ls \<Longrightarrow> I s \<Longrightarrow> I t"
  shows "I t"
  using assms by (induction rule: history.induct) auto

locale step_refinement =
  fixes good :: "nat \<Rightarrow> 's \<Rightarrow> bool"
    and abst :: "'s \<Rightarrow> 'd"
    and cstep :: "'l \<Rightarrow> 's \<Rightarrow> 's \<Rightarrow> bool"
    and astep :: "'l \<Rightarrow> 'd \<Rightarrow> 'd \<Rightarrow> bool"
    and limit :: nat
  assumes good_step: "cstep l s t \<Longrightarrow> good n s \<Longrightarrow> Suc n < limit \<Longrightarrow> good (Suc n) t"
    and simulated: "cstep l s t \<Longrightarrow> good n s \<Longrightarrow> Suc n < limit \<Longrightarrow> astep l (abst s) (abst t)"
begin

lemma history_good: "history cstep ls s t \<Longrightarrow> good n s \<Longrightarrow> n + length ls < limit \<Longrightarrow> good (n + length ls) t"
proof (induction arbitrary: n rule: history.induct)
  case (continues l s r ls t)
  then have "good (Suc n) r" by (auto intro: good_step)
  with continues.IH [of "Suc n"] continues.prems show ?case by simp
qed simp

lemma history_refined:
  "history cstep ls s t \<Longrightarrow> good n s \<Longrightarrow> n + length ls < limit \<Longrightarrow> history astep ls (abst s) (abst t)"
proof (induction arbitrary: n rule: history.induct)
  case (continues l s r ls t)
  then have "good (Suc n) r" by (auto intro: good_step)
  moreover have "astep l (abst s) (abst r)"
    using continues.hyps(1) continues.prems by (auto intro: simulated)
  ultimately show ?case using continues.IH [of "Suc n"] continues.prems by auto
qed simp

text \<open>An invariant of the specification holds of what every history leaves.\<close>

lemma carried:
  assumes "history cstep ls s t" and "good n s" and "n + length ls < limit" and "I (abst s)"
    and "\<And>l d d'. astep l d d' \<Longrightarrow> l \<in> set ls \<Longrightarrow> I d \<Longrightarrow> I d'"
  shows "I (abst t)"
  using history_refined [OF assms(1-3)] assms(4,5) by (rule history_invariant)

end

section \<open>The loan desk\<close>

datatype loan_phase = Unissued | Lent account_id | Foreclosed account_id | Settled

record loan_desk =
  phase_of :: "loan_no \<Rightarrow> loan_phase"
  next_no :: loan_no
  keeper :: account_id
  shut :: bool

definition put_phase :: "loan_no \<Rightarrow> loan_phase \<Rightarrow> loan_desk \<Rightarrow> loan_desk" where
  "put_phase lid p d = d\<lparr>phase_of := (phase_of d)(lid := p)\<rparr>"

definition issue_no :: "loan_phase \<Rightarrow> loan_desk \<Rightarrow> loan_desk" where
  "issue_no p d = (put_phase (next_no d) p d)\<lparr>next_no := next_no d + 1\<rparr>"

fun foreclose :: "loan_phase \<Rightarrow> loan_phase" where
  "foreclose (Lent who) = Foreclosed who"
| "foreclose p = p"

definition foreclose_all :: "loan_no set \<Rightarrow> loan_desk \<Rightarrow> loan_desk" where
  "foreclose_all lids d = d\<lparr>phase_of := (\<lambda>lid. if lid \<in> lids then foreclose (phase_of d lid) else phase_of d lid)\<rparr>"

text \<open>
  Who acts: a call with its origin, or the chain itself (a hook, or a write of the frame).  A borrower whose
  pledge was taken but whose loan could not be paid out leaves a number behind that nobody holds.
\<close>

datatype actor = By origin | Chain

inductive desk_step :: "actor \<Rightarrow> loan_desk \<Rightarrow> loan_desk \<Rightarrow> bool" where
  idles: "desk_step a d d"
| lends: "\<not> shut d \<Longrightarrow> phase_of d (next_no d) = Unissued \<Longrightarrow> desk_step (By (Signed who)) d (issue_no (Lent who) d)"
| gives_up: "\<not> shut d \<Longrightarrow> phase_of d (next_no d) = Unissued \<Longrightarrow> desk_step (By (Signed who)) d (issue_no Settled d)"
| repays: "\<not> shut d \<Longrightarrow> phase_of d lid = Lent who \<Longrightarrow> desk_step (By (Signed who)) d (put_phase lid Settled d)"
| forecloses: "\<not> shut d \<Longrightarrow> desk_step Chain d (foreclose_all lids d)"
| settles: "\<not> shut d \<Longrightarrow> phase_of d lid = Foreclosed who \<Longrightarrow> desk_step (By (Signed (keeper d))) d (put_phase lid Settled d)"
| appoints: "desk_step (By Root) d (d\<lparr>keeper := who\<rparr>)"
| shuts: "desk_step (By Root) d (d\<lparr>shut := b\<rparr>)"

text \<open>What the machine promises, whoever acts.\<close>

definition finished :: "loan_no \<Rightarrow> loan_desk \<Rightarrow> bool" where
  "finished lid d \<longleftrightarrow> phase_of d lid = Settled"

definition held_by :: "account_id \<Rightarrow> loan_no \<Rightarrow> loan_desk \<Rightarrow> bool" where
  "held_by who lid d \<longleftrightarrow> phase_of d lid = Lent who \<or> phase_of d lid = Foreclosed who"

lemma finished_forever: "desk_step a d d' \<Longrightarrow> finished lid d \<Longrightarrow> finished lid d'"
  by (induction rule: desk_step.induct) (auto simp: finished_def put_phase_def issue_no_def foreclose_all_def)

lemma held_until_finished:
  "desk_step a d d' \<Longrightarrow> held_by who lid d \<or> finished lid d \<Longrightarrow> held_by who lid d' \<or> finished lid d'"
  by (induction rule: desk_step.induct) (auto simp: finished_def held_by_def put_phase_def issue_no_def foreclose_all_def)

lemma held_against_others:
  assumes "desk_step a d d'" and "a \<notin> {By Root, By (Signed who), By (Signed w)}"
    and "held_by who lid d \<and> keeper d = w"
  shows "held_by who lid d' \<and> keeper d' = w"
  using assms
  by (induction rule: desk_step.induct) (auto simp: held_by_def put_phase_def issue_no_def foreclose_all_def)

text \<open>Before it is foreclosed, the liquidation account cannot touch a loan either.\<close>

lemma lent_against_others:
  assumes "desk_step a d d'" and "a \<notin> {By (Signed who), Chain}" and "phase_of d lid = Lent who"
  shows "phase_of d' lid = Lent who"
  using assms by (induction rule: desk_step.induct) (auto simp: put_phase_def issue_no_def)

section \<open>The desk the storage of the runtime stands for\<close>

definition loan_phase_of :: "loan \<Rightarrow> loan_phase" where
  "loan_phase_of l = (if is_liquidating (loan_status l) then Foreclosed (loan_who l) else Lent (loan_who l))"

definition phase_in :: "(loan_no, loan) linked_map \<Rightarrow> loan_no \<Rightarrow> loan_no \<Rightarrow> loan_phase" where
  "phase_in ls nxt lid =
     (case map_of ls lid of
        Some l \<Rightarrow> loan_phase_of l
      | None \<Rightarrow> if lid < nxt then Settled else Unissued)"

definition desk_of :: "'a loan_state_scheme \<Rightarrow> loan_desk" where
  "desk_of s = \<lparr>phase_of = phase_in (Loans s) (NextLoanId s), next_no = NextLoanId s,
     keeper = LiquidationAccount s, shut = Paused s\<rparr>"

lemma desk_of_sel [simp]:
  "phase_of (desk_of s) = phase_in (Loans s) (NextLoanId s)" "next_no (desk_of s) = NextLoanId s"
  "keeper (desk_of s) = LiquidationAccount s" "shut (desk_of s) = Paused s"
  by (simp_all add: desk_of_def)

lemma phase_in_insert:
  "phase_in (lm_insert lid l ls) nxt = (phase_in ls nxt)(lid := loan_phase_of l)"
  by (auto simp: phase_in_def)

lemma phase_in_remove:
  "lid < nxt \<Longrightarrow> phase_in (lm_remove lid ls) nxt = (phase_in ls nxt)(lid := Settled)"
  by (auto simp: phase_in_def)

lemma phase_in_mutate_same:
  assumes "lm_contains ls lid" and "loan_phase_of (f (lm_get default_loan ls lid)) = loan_phase_of (lm_get default_loan ls lid)"
  shows "phase_in (lm_mutate default_loan lid f ls) nxt = phase_in ls nxt"
  using assms(2) map_of_lm_get [OF assms(1), of default_loan]
  by (auto simp: lm_mutate_def phase_in_insert phase_in_def)

lemma phase_in_present: "map_of ls lid = Some l \<Longrightarrow> phase_in ls nxt lid = loan_phase_of l"
  by (simp add: phase_in_def)

lemma phase_in_bump:
  assumes "nxt + 1 \<noteq> 0" and "map_of ls nxt = None"
  shows "phase_in ls (nxt + 1) = (phase_in ls nxt)(nxt := Settled)"
proof
  fix lid
  have "unat (nxt + 1) = Suc (unat nxt)"
    using assms(1) by (simp add: unatSuc add.commute)
  then have "lid < nxt + 1 \<longleftrightarrow> lid < nxt \<or> lid = nxt"
    by (auto simp: word_less_nat_alt word_unat_eq_iff)
  with assms(2) show "phase_in ls (nxt + 1) lid = ((phase_in ls nxt)(nxt := Settled)) lid"
    by (auto simp: phase_in_def split: option.split)
qed

text \<open>Writes that the desk does not see.\<close>

lemma desk_of_same [simp]:
  "desk_of (moved a f t n s) = desk_of s"
  "desk_of (deposit_loan_event ev s) = desk_of s"
  "desk_of (mutate_loans_by_account who g s) = desk_of s"
  "desk_of (s\<lparr>LoansByAccount := x1\<rparr>) = desk_of s" "desk_of (s\<lparr>LiquidatingLoans := x2\<rparr>) = desk_of s"
  "desk_of (s\<lparr>TotalLoan := x3\<rparr>) = desk_of s" "desk_of (s\<lparr>TotalCollateral := x4\<rparr>) = desk_of s"
  "desk_of (s\<lparr>UserDtoken := x5\<rparr>) = desk_of s" "desk_of (s\<lparr>MarketDtoken := x6\<rparr>) = desk_of s"
  "desk_of (s\<lparr>TotalDtoken := x7\<rparr>) = desk_of s" "desk_of (s\<lparr>BonusTime := x8\<rparr>) = desk_of s"
  "desk_of (s\<lparr>LoanInterestRateCurrent := x9\<rparr>) = desk_of s" "desk_of (s\<lparr>SavingInterestRate := x10\<rparr>) = desk_of s"
  by (simp_all add: desk_of_def deposit_loan_event_def mutate_loans_by_account_def)

lemma desk_of_admin [simp]:
  "desk_of (s\<lparr>CollectionAssetId := y1\<rparr>) = desk_of s" "desk_of (s\<lparr>CollectionAccountId := y2\<rparr>) = desk_of s"
  "desk_of (s\<lparr>CollateralAssetId := y3\<rparr>) = desk_of s" "desk_of (s\<lparr>GlobalLTVLimit := y4\<rparr>) = desk_of s"
  "desk_of (s\<lparr>LoanAssetId := y5\<rparr>) = desk_of s" "desk_of (s\<lparr>GlobalLiquidationThreshold := y6\<rparr>) = desk_of s"
  "desk_of (s\<lparr>GlobalWarningThreshold := y7\<rparr>) = desk_of s" "desk_of (s\<lparr>LoanCap := y8\<rparr>) = desk_of s"
  "desk_of (s\<lparr>ProfitAssetId := y9\<rparr>) = desk_of s" "desk_of (s\<lparr>ProfitPool := y10\<rparr>) = desk_of s"
  "desk_of (s\<lparr>PenaltyRate := y11\<rparr>) = desk_of s"
  "desk_of (s\<lparr>LiquidationAccount := y12\<rparr>) = (desk_of s)\<lparr>keeper := y12\<rparr>"
  "desk_of (s\<lparr>Paused := y13\<rparr>) = (desk_of s)\<lparr>shut := y13\<rparr>"
  by (simp_all add: desk_of_def)

lemma desk_of_frame [simp]:
  "desk_of (s\<lparr>SudoKey := k, BlockNumber := n, ExtrinsicIndex := i, Now := m\<rparr>) = desk_of s"
  by (simp add: desk_of_def)

lemma desk_of_mutate [simp]:
  assumes "lm_contains (Loans s) lid" and "\<And>l. loan_phase_of (f l) = loan_phase_of l"
  shows "desk_of (mutate_loan lid f s) = desk_of s"
  using assms by (simp add: desk_of_def mutate_loan_def phase_in_mutate_same)

text \<open>Operations that leave the desk as it was, whatever they return.\<close>

abbreviation still :: "loan_desk \<Rightarrow> 'a loan_state_scheme \<Rightarrow> bool" where
  "still d s \<equiv> desk_of s = d"

lemma still_transfer: "still d s \<Longrightarrow> keeps (still d) (make_transfer_with_event a f t n s)"
  by (simp add: make_transfer_with_event_eq)

lemma still_staking: "still d s \<Longrightarrow> keeps (still d) (create_staking who aid n s)"
  unfolding create_staking_def Let_def by (auto intro!: keeps_intros still_transfer)

lemma still_redeem_all: "still d s \<Longrightarrow> keeps (still d) (make_redeem_all who s)"
  unfolding make_redeem_all_def Let_def by (auto intro!: keeps_intros still_transfer)

lemma still_redeem: "still d s \<Longrightarrow> keeps (still d) (make_redeem who aid acct n s)"
  unfolding make_redeem_def Let_def by (auto intro!: keeps_intros still_staking still_redeem_all)

lemma still_add_collateral:
  "still d s \<Longrightarrow> lm_contains (Loans s) (loan_id l) \<Longrightarrow> keeps (still d) (add_loan_collateral l w n s)"
  unfolding add_loan_collateral_def Let_def
  by (auto simp: make_transfer_with_event_eq loan_phase_of_def intro!: keeps_ensure)

lemma still_draw: "still d s \<Longrightarrow> keeps (still d) (draw_from_loan who lid n s)"
  unfolding draw_from_loan_def Let_def by (auto simp: loan_phase_of_def intro!: keeps_intros)

lemma still_charge: "still d s \<Longrightarrow> keeps (still d) (charge_interest aid acct i n lid s)"
  unfolding charge_interest_def Let_def by (auto intro!: keeps_intros still_draw still_transfer)

lemma still_interest: "still d s \<Longrightarrow> keeps (still d) (calculate_loan_interest_rate s)"
  unfolding calculate_loan_interest_rate_def Let_def by (auto intro!: keeps_intros still_charge)

lemma still_extension: "ga_state.more t = ga_state.more s \<Longrightarrow> desk_of t = desk_of s"
  for s t :: "'a loan_state_scheme"
  by (cases s; cases t) (simp add: desk_of_def)

lemma still_ga: "keeps (still (desk_of s)) (ga_dispatch orig c s)"
  by (rule keeps_mono [OF ga_dispatch_extension]) (rule still_extension)

lemma still_oracle: "keeps (still (desk_of s)) (oracle_dispatch orig c s)"
  by (cases c; cases orig)
    (simp_all add: add_source_def stack_price_unsigned_def stack_price_signed_def stack_price_def desk_of_def ensure_def)

lemma still_finalize:
  assumes "runtime_inv n s" and "n < 2 ^ 64" and "runtime_on_finalize h s = Done u t"
  shows "desk_of t = desk_of s"
proof (cases "h mod AggregateInterval = 0")
  case True
  have "length (price_candidates k s) < 2 ^ 64" for k
    using assms by (meson order.strict_trans1 runtime_inv_def)
  with True oracle_on_finalize_aggregates [of s AggregateInterval h] assms(1,3)
  show ?thesis
    by (auto simp: runtime_inv_def runtime_on_finalize_def AggregateInterval_def desk_of_def)
next
  case False
  then show ?thesis
    using assms(3) by (simp add: runtime_on_finalize_def oracle_on_finalize_idle AggregateInterval_def)
qed

section \<open>Every step of the chain is a step of the machine\<close>

abbreviation refines :: "actor \<Rightarrow> loan_desk \<Rightarrow> 'a loan_state_scheme \<Rightarrow> bool" where
  "refines a d t \<equiv> desk_step a d (desk_of t)"

lemma still_refines: "keeps (still d) r \<Longrightarrow> keeps (refines a d) r"
  by (erule keeps_mono) (simp add: idles)

lemma next_unissued:
  assumes "loan_inv s"
  shows "map_of (Loans s) (NextLoanId s) = None" "phase_in (Loans s) (NextLoanId s) (NextLoanId s) = Unissued"
proof -
  show none: "map_of (Loans s) (NextLoanId s) = None"
  proof (cases "map_of (Loans s) (NextLoanId s)")
    case (Some l)
    then have "NextLoanId s < NextLoanId s"
      using assms book_okD(2) unfolding loan_inv_def book_wf_def by blast
    then show ?thesis by simp
  qed
  then show "phase_in (Loans s) (NextLoanId s) (NextLoanId s) = Unissued" by (simp add: phase_in_def)
qed

lemma desk_of_bump:
  assumes "loan_inv s" and "NextLoanId s + 1 \<noteq> 0"
  shows "desk_of (s\<lparr>NextLoanId := NextLoanId s + 1\<rparr>) = issue_no Settled (desk_of s)"
  using phase_in_bump [OF assms(2) next_unissued(1) [OF assms(1)]]
  by (simp add: desk_of_def issue_no_def put_phase_def)

lemma desk_of_bump_insert:
  assumes "loan_inv s" and "NextLoanId s + 1 \<noteq> 0"
  shows "desk_of (s\<lparr>NextLoanId := NextLoanId s + 1, Loans := lm_insert (NextLoanId s) l (Loans s)\<rparr>)
    = issue_no (loan_phase_of l) (desk_of s)"
  using phase_in_bump [OF assms(2) next_unissued(1) [OF assms(1)]]
  by (simp add: desk_of_def issue_no_def put_phase_def phase_in_insert)

text \<open>Taking a number and entering a loan commute with the transfers around them.\<close>

lemma desk_moved_between:
  "desk_of ((moved a f t n s)\<lparr>NextLoanId := k\<rparr>) = desk_of (s\<lparr>NextLoanId := k\<rparr>)"
  "desk_of ((moved a f t n s)\<lparr>Loans := ls\<rparr>) = desk_of (s\<lparr>Loans := ls\<rparr>)"
  "desk_of ((moved a f t n s)\<lparr>NextLoanId := k, Loans := ls\<rparr>) = desk_of (s\<lparr>NextLoanId := k, Loans := ls\<rparr>)"
  "desk_of ((mutate_loans_by_account who g s)\<lparr>Loans := ls\<rparr>) = desk_of (s\<lparr>Loans := ls\<rparr>)"
  "desk_of ((moved a f t n ((moved a' f' t' n' s)\<lparr>NextLoanId := k\<rparr>))\<lparr>Loans := ls\<rparr>)
    = desk_of (s\<lparr>NextLoanId := k, Loans := ls\<rparr>)"
  by (simp_all add: desk_of_def mutate_loans_by_account_def)

lemma apply_refines:
  assumes inv: "loan_inv s" and room: "NextLoanId s + 1 \<noteq> 0" and running: "\<not> Paused s"
  shows "keeps (refines (By (Signed who)) (desk_of s)) (apply_for_loan who c n s)"
proof -
  have fails: "desk_step (By (Signed who)) (desk_of s) (issue_no Settled (desk_of s))"
    and works: "desk_step (By (Signed who)) (desk_of s) (issue_no (Lent who) (desk_of s))"
    using running next_unissued(2) [OF inv] by (auto intro: gives_up lends)
  have "keeps (refines (By (Signed who)) (desk_of s)) (open_loan who n cl s)" for cl
    by (auto simp: open_loan_def make_transfer_with_event_eq Let_def div_then_def ensure_def desk_moved_between
        desk_of_bump [OF inv room] desk_of_bump_insert [OF inv room] loan_phase_of_def fails works idles)
  then show ?thesis
    by (auto simp: apply_for_loan_eq idles split: outcome.split)
qed

lemma stored_phase:
  assumes "loan_inv s" and "lm_contains (Loans s) lid"
  shows "phase_in (Loans s) nxt lid
    = (if lid \<in> set (get_liquidating_loans s) then Foreclosed else Lent) (loan_who (get_loan_by_id lid s))"
  using assms book_okD(6) [OF _ map_of_get_loan [OF assms(2)]] phase_in_present [OF map_of_get_loan [OF assms(2)]]
  by (auto simp: loan_inv_def book_wf_def loan_phase_of_def)

lemma desk_of_remove:
  assumes "loan_inv s" and "lm_contains (Loans s) lid"
  shows "desk_of (s\<lparr>Loans := lm_remove lid (Loans s)\<rparr>) = put_phase lid Settled (desk_of s)"
  using assms book_okD(2) [OF _ map_of_get_loan [OF assms(2)]]
  by (auto simp: desk_of_def put_phase_def phase_in_remove loan_inv_def book_wf_def)

lemma desk_of_put_back:
  assumes "map_of (Loans s) lid = Some l"
  shows "desk_of (s\<lparr>Loans := lm_insert lid l (Loans s)\<rparr>) = desk_of s"
  using assms by (auto simp: desk_of_def phase_in_insert phase_in_present)

lemma repay_refines:
  assumes inv: "loan_inv s" and running: "\<not> Paused s"
  shows "keeps (refines (By (Signed who)) (desk_of s)) (repay_for_loan who lid s)"
proof (cases "repay_checks who lid s")
  case None
  let ?l = "get_loan_by_id lid s"
  have lid: "loan_id ?l = lid" using loan_inv_ids [OF inv repay_checks_None(1) [OF None]] .
  have "phase_in (Loans s) (NextLoanId s) lid = Lent who"
    using stored_phase [OF inv repay_checks_None(1) [OF None]] repay_checks_None(2,5) [OF None] by simp
  then have works: "desk_step (By (Signed who)) (desk_of s) (put_phase lid Settled (desk_of s))"
    using running by (auto intro: repays)
  have "desk_of (closed_loan who ?l s) = put_phase lid Settled (desk_of s)"
    using desk_of_remove [OF inv repay_checks_None(1) [OF None]]
    by (simp add: closed_loan_def Let_def lid moved_mutate_loans desk_moved_between)
  moreover have "desk_of (revert_repay who ?l (moved a f t n (mutate_loans_by_account who g s))) = desk_of s" for a f t n g
    using desk_of_put_back [OF map_of_get_loan [OF repay_checks_None(1) [OF None]]]
    by (simp add: revert_repay_def Let_def lid desk_moved_between)
  ultimately show ?thesis
    using None works
    by (auto simp: repay_for_loan_eq lid failed_repay_def make_transfer_with_event_eq Let_def ensure_def idles)
qed (simp add: repay_for_loan_eq loan_inv_ids [OF inv] idles)

lemma still_settlement: "still d s \<Longrightarrow> keeps (still d) (settlement l w n s)"
  unfolding settlement_def Let_def by (auto intro!: keeps_intros still_transfer split: option.split)

lemma desk_of_liquidated:
  assumes "loan_id l < NextLoanId s"
  shows "desk_of (liquidated l n s) = put_phase (loan_id l) Settled (desk_of s)"
  using assms by (simp add: liquidated_def desk_of_def put_phase_def phase_in_remove deposit_loan_event_def
      mutate_loans_by_account_def)

lemma settle_refines:
  assumes inv: "loan_inv s" and running: "\<not> Paused s" and present: "lm_contains (Loans s) lid"
    and w: "w = LiquidationAccount s"
  shows "keeps (refines (By (Signed w)) (desk_of s)) (mark_loan_liquidated (get_loan_by_id lid s) w n s)"
proof (cases "check_loan_in_liquidation lid s")
  case True
  let ?l = "get_loan_by_id lid s"
  have lid: "loan_id ?l = lid" using loan_inv_ids [OF inv present] .
  have below: "lid < NextLoanId s"
    using inv book_okD(2) [OF _ map_of_get_loan [OF present]] by (auto simp: loan_inv_def book_wf_def)
  have "phase_in (Loans s) (NextLoanId s) lid = Foreclosed (loan_who ?l)"
    using stored_phase [OF inv present] True by (simp add: check_loan_in_liquidation_def)
  then have works: "desk_step (By (Signed w)) (desk_of s) (put_phase lid Settled (desk_of s))"
    using running settles [of "desk_of s"] by (simp add: w)
  have "refines (By (Signed w)) (desk_of s) (liquidated ?l n t)" if "still (desk_of s) t" for t
  proof -
    have "NextLoanId t = NextLoanId s" using arg_cong [OF that, of next_no] by simp
    then show ?thesis
      using works desk_of_liquidated [of ?l t n] that below by (simp only: lid)
  qed
  moreover have "keeps (still (desk_of s)) (settlement ?l w n s)"
    by (rule still_settlement) simp
  ultimately show ?thesis
    unfolding mark_loan_liquidated_eq
    by (auto intro!: keeps_intros intro: idles elim: keeps_mono simp: idles dest: keepsD_Done)
next
  case False
  then show ?thesis
    using loan_inv_ids [OF inv present] by (simp add: mark_loan_liquidated_eq idles)
qed

lemma foreclose_twice [simp]: "foreclose (foreclose p) = foreclose p"
  by (cases p) simp_all

lemma foreclose_all_Un: "foreclose_all B (foreclose_all A d) = foreclose_all (A \<union> B) d"
  by (auto simp: foreclose_all_def fun_eq_iff)

lemma foreclose_all_empty [simp]: "foreclose_all {} d = d"
  by (simp add: foreclose_all_def)

lemma desk_of_liquidate:
  assumes inv: "loan_inv s" and present: "lm_contains (Loans s) lid" and "\<not> check_loan_in_liquidation lid s"
  shows "desk_of (liquidate_loan lid v s) = foreclose_all {lid} (desk_of s)"
proof -
  have "phase_in (Loans s) (NextLoanId s) lid = Lent (loan_who (get_loan_by_id lid s))"
    using stored_phase [OF inv present] assms(3) by (simp add: check_loan_in_liquidation_def)
  then show ?thesis
    by (auto simp: desk_of_def liquidate_loan_def mutate_loan_def Let_def lm_mutate_def phase_in_insert
        loan_phase_of_def foreclose_all_def get_loan_by_id_def fun_eq_iff split: option.split)
qed

lemma check_one_refines:
  assumes inv: "loan_inv s" and present: "lm_contains (Loans s) lid"
  shows "keeps (\<lambda>t. \<exists>lids. desk_of t = foreclose_all lids (desk_of s)) (check_one_loan p lt wt lid s)"
proof (cases "check_loan_in_liquidation lid s")
  case False
  have lid: "loan_id (get_loan_by_id lid s) = lid" using loan_inv_ids [OF inv present] .
  have "\<not> is_liquidating (loan_status (get_loan_by_id lid s))"
    using False inv book_okD(6) [OF _ map_of_get_loan [OF present]]
    by (auto simp: loan_inv_def book_wf_def check_loan_in_liquidation_def)
  then have warned: "desk_of (mutate_loan lid (\<lambda>w. w\<lparr>loan_status := Warning v\<rparr>) s) = desk_of s" for v
    using present
    by (simp add: desk_of_def mutate_loan_def phase_in_mutate_same loan_phase_of_def get_loan_by_id_def)
  have same: "\<exists>lids. desk_of s = foreclose_all lids (desk_of s)"
    by (rule exI [of _ "{}"]) simp
  have put: "\<exists>lids. foreclose_all {lid} (desk_of s) = foreclose_all lids (desk_of s)" by blast
  show ?thesis
    using False same put
    by (auto simp: check_one_loan_def Let_def lid warned desk_of_liquidate [OF inv present False]
        intro!: keeps_unwrap_then split: loan_health.split)
qed (auto simp: check_one_loan_def intro: exI [of _ "{}"])

lemma each_block_refines:
  assumes inv: "loan_inv s"
  shows "keeps (\<lambda>t. \<exists>lids. desk_of t = foreclose_all lids (desk_of s)) (on_each_block h s)"
proof -
  let ?ks = "lm_keys (Loans s)"
  let ?F = "\<lambda>t. \<exists>lids. desk_of t = foreclose_all lids (desk_of s)"
  let ?P = "\<lambda>t. loan_inv t \<and> (\<forall>k\<in>set ?ks. lm_contains (Loans t) k) \<and> ?F t"
  have "keeps ?P (check_one_loan p lt wt k t)" if "k \<in> set ?ks" "?P t" for p lt wt k and t :: "'a loan_state_scheme"
  proof (cases "check_one_loan p lt wt k t")
    case (Done u t')
    have "lm_contains (Loans t) k" using that by blast
    then have "loan_inv t'" and "\<exists>lids. desk_of t' = foreclose_all lids (desk_of t)"
      and "\<forall>k\<in>set ?ks. lm_contains (Loans t') k"
      using that check_one_loan_present [of t k p lt wt] check_one_refines [of t k p lt wt]
        contains_check_one_loan [OF Done] loan_inv_ids [of t k] Done by auto
    with that(2) Done show ?thesis by (auto simp: foreclose_all_Un)
  next
    case (Fail e t')
    then show ?thesis
      by (auto simp: check_one_loan_def Let_def unwrap_then_def split: if_splits option.splits loan_health.splits)
  qed simp
  moreover have "?F s" by (rule exI [of _ "{}"]) simp
  ultimately have "keeps ?P (on_each_block h s)"
    using inv unfolding on_each_block_def Let_def
    by (intro keeps_for_each) (auto simp: lm_contains_iff)
  then show ?thesis by (rule keeps_mono) simp
qed

lemma initialize_refines:
  assumes inv: "loan_inv s"
  shows "keeps (refines Chain (desk_of s)) (loan_on_initialize h s)"
proof (cases "Paused s")
  case False
  then have works: "desk_step Chain (desk_of s) (foreclose_all lids (desk_of s))" for lids
    by (simp add: forecloses)
  have "keeps (refines Chain (desk_of s)) (calculate_loan_interest_rate t)"
    if "\<exists>lids. desk_of t = foreclose_all lids (desk_of s)" for t
    using still_interest [OF refl, of t] that by (auto elim!: keeps_mono simp: works)
  moreover have "keeps (\<lambda>t. \<exists>lids. desk_of t = foreclose_all lids (desk_of s)) (on_each_block h s)"
    by (rule each_block_refines [OF inv])
  ultimately show ?thesis
    using False by (cases "on_each_block h s") (auto simp: loan_on_initialize_def works)
qed (simp add: loan_on_initialize_def idles)

lemma loan_call_refines:
  assumes inv: "loan_inv s" and room: "NextLoanId s + 1 \<noteq> 0"
  shows "keeps (refines (By orig) (desk_of s)) (loan_dispatch orig c s)"
proof -
  note quiet = still_refines [OF still_staking [OF refl]] still_refines [OF still_redeem [OF refl]]
    still_refines [OF still_draw [OF refl]] still_refines [OF still_add_collateral [OF refl]]
  show ?thesis
    using inv room
    by (cases c; cases orig)
      (auto simp: admin_defs user_defs Let_def loan_inv_ids idles appoints shuts
        intro!: keeps_ensure quiet apply_refines repay_refines settle_refines)
qed

text \<open>The steps of the chain with their actors.\<close>

inductive chain_act :: "actor \<Rightarrow> 'a loan_state_scheme \<Rightarrow> 'a loan_state_scheme \<Rightarrow> bool" where
  frame_acts: "chain_act Chain s (s\<lparr>SudoKey := k, BlockNumber := n, ExtrinsicIndex := i, Now := m\<rparr>)"
| block_starts: "runtime_on_initialize n s = Done u t \<Longrightarrow> chain_act Chain s t"
| call_works: "runtime_dispatch orig c s = Done u t \<Longrightarrow> chain_act (By orig) s t"
| call_errs: "runtime_dispatch orig c s = Fail e t \<Longrightarrow> chain_act (By orig) s t"
| block_ends: "runtime_on_finalize n s = Done u t \<Longrightarrow> chain_act Chain s t"

lemma chain_act_step: "runtime_step s t \<longleftrightarrow> (\<exists>a. chain_act a s t)"
  by (auto elim!: runtime_step.cases chain_act.cases intro: runtime_step.intros chain_act.intros)

lemma runtime_room:
  assumes "runtime_inv n s" and "Suc n < 2 ^ 64"
  shows "NextLoanId s + 1 \<noteq> 0"
proof -
  have "unat (NextLoanId s) + unat (1 :: loan_no) < 2 ^ 64"
    using assms by (simp add: runtime_inv_def)
  then have "unat (NextLoanId s + 1) = unat (NextLoanId s) + 1"
    by (subst unat_add_less) simp_all
  then show ?thesis by (metis Suc_eq_plus1 nat.distinct(1) unat_0)
qed

lemma dispatch_refines:
  assumes inv: "runtime_inv n s" and room: "Suc n < 2 ^ 64"
  shows "keeps (refines (By orig) (desk_of s)) (runtime_dispatch orig c s)"
  using inv loan_call_refines [OF _ runtime_room [OF inv room]] still_refines [OF still_ga] still_refines [OF still_oracle]
  by (cases c) (simp_all add: runtime_inv_def)

lemma act_refines:
  assumes "chain_act a s t" and inv: "runtime_inv n s" and room: "Suc n < 2 ^ 64"
  shows "desk_step a (desk_of s) (desk_of t)"
  using assms(1)
proof cases
  case (block_starts h u)
  then show ?thesis
    using keepsD_Done [OF initialize_refines] inv by (auto simp: runtime_on_initialize_def runtime_inv_def)
next
  case (call_works orig c u)
  then show ?thesis using keepsD_Done [OF dispatch_refines [OF inv room]] by blast
next
  case (call_errs orig c e)
  then show ?thesis using keepsD_Fail [OF dispatch_refines [OF inv room]] by blast
next
  case (block_ends h u)
  then show ?thesis using still_finalize [OF inv] room by (simp add: idles)
qed (simp add: idles)

interpretation desk: step_refinement runtime_inv desk_of chain_act desk_step "2 ^ 64"
proof unfold_locales
  show "runtime_inv (Suc n) t" if "chain_act a s t" "runtime_inv n s" "Suc n < 2 ^ 64" for a n and s t :: "'a loan_state_scheme"
    using that runtime_step_inv [of s t n] chain_act_step [of s t] by blast
qed (rule act_refines)

section \<open>What the machine's promises mean for the chain\<close>

definition new_desk :: "account_id \<Rightarrow> loan_desk" where
  "new_desk who = \<lparr>phase_of = (\<lambda>lid. Unissued), next_no = 0, keeper = who, shut = False\<rparr>"

lemma testnet_genesis_desk:
  assumes "testnet_genesis seed_account sys = Done u g"
  shows "desk_of g = new_desk (seed_account ''liquidation_account'')"
  using assms
  by (auto simp: testnet_genesis_def desk_of_def new_desk_def loan_genesis_build_def oracle_genesis_build_def
      oracle_state.defs testnet_loan_genesis_def phase_in_def fun_eq_iff split: outcome.splits)

text \<open>C4: However the chain runs from the genesis of the testnet, the loans go through the phases of the
  abstract machine that starts with no number issued, and every step is a step of the machine by the same
  actor: only a signed call opens a loan, under the next number and for its signer; only its owner repays
  it, before it is foreclosed; only the chain itself forecloses; only the liquidation account settles a
  foreclosed loan; only the root appoints that account or stops the module, and a stopped module moves no
  loan.\<close>

theorem chain_refines_loan_desk:
  assumes "testnet_genesis seed_account sys = Done u g" and "history chain_act acts g t" and "length acts < 2 ^ 64"
  shows "history desk_step acts (new_desk (seed_account ''liquidation_account'')) (desk_of t)"
  using desk.history_refined [OF assms(2) testnet_genesis_inv [OF assms(1)]] assms(3)
  by (simp add: testnet_genesis_desk [OF assms(1)])

lemma chain_refines_loan_desk_witness:
  "\<exists>s t :: loan_state. testnet_genesis demo_seed demo_sys = Done () s
    \<and> history chain_act [Chain, By (Signed 7)] s t
    \<and> history desk_step [Chain, By (Signed 7)] (new_desk 19) (desk_of t)"
proof -
  obtain g :: loan_state where g: "testnet_genesis demo_seed demo_sys = Done () g"
    using testnet_genesis_runs [of 0 0] by blast
  let ?s = "g\<lparr>SudoKey := 1, BlockNumber := 1, ExtrinsicIndex := Some 0, Now := 0\<rparr>"
  obtain e t where t: "runtime_dispatch (Signed 7) (DepositLoan Call_pause) ?s = Fail e t"
    by (simp add: pause_def)
  have run: "history chain_act [Chain, By (Signed 7)] g t"
    using frame_acts [where s = g and k = 1 and n = 1 and i = "Some 0" and m = 0] call_errs [OF t] by auto
  from chain_refines_loan_desk [OF g run] g run show ?thesis
    by (simp add: demo_seed_def) blast
qed

lemma settled_iff_gone: "phase_in ls nxt lid = Settled \<longleftrightarrow> lid < nxt \<and> map_of ls lid = None"
  by (auto simp: phase_in_def loan_phase_of_def split: option.splits)

lemma held_by_stored: "map_of (Loans s) lid = Some l \<Longrightarrow> held_by who lid (desk_of s) \<longleftrightarrow> loan_who l = who"
  by (auto simp: held_by_def phase_in_present loan_phase_of_def)

text \<open>C7: A loan number is used once and a loan never changes hands: whatever the chain does after a loan
  left the book, no loan is entered under its number again, and a loan that is in the book before and after
  any history has the same owner.\<close>

theorem loans_never_reopen_or_change_hands:
  assumes inv: "runtime_inv n s" and run: "history chain_act acts s t" and room: "n + length acts < 2 ^ 64"
  shows "(lid < NextLoanId s \<longrightarrow> map_of (Loans s) lid = None \<longrightarrow> map_of (Loans t) lid = None)
    \<and> (\<forall>l l'. map_of (Loans s) lid = Some l \<longrightarrow> map_of (Loans t) lid = Some l' \<longrightarrow> loan_who l' = loan_who l)"
proof (intro conjI impI allI)
  assume "lid < NextLoanId s" and "map_of (Loans s) lid = None"
  then have "finished lid (desk_of s)" by (simp add: finished_def settled_iff_gone)
  then have "finished lid (desk_of t)"
    by (rule desk.carried [OF run inv room, where I = "finished lid"]) (rule finished_forever)
  then show "map_of (Loans t) lid = None" by (simp add: finished_def settled_iff_gone)
next
  fix l l'
  assume l: "map_of (Loans s) lid = Some l" and l': "map_of (Loans t) lid = Some l'"
  let ?I = "\<lambda>d. held_by (loan_who l) lid d \<or> finished lid d"
  have "?I (desk_of s)" using held_by_stored [OF l] by simp
  then have "?I (desk_of t)"
    by (rule desk.carried [OF run inv room, where I = ?I]) (rule held_until_finished)
  then show "loan_who l' = loan_who l"
    using l' held_by_stored [OF l'] by (simp add: finished_def settled_iff_gone)
qed

lemma demo_runtime_inv: "runtime_inv 0 demo_loans" "runtime_inv 1 demo_lent"
proof -
  show start: "runtime_inv 0 demo_loans"
    using demo_loans_inv by (simp add: runtime_inv_def oracle_inv_def price_candidates_def demo_loans_def lm_get_def)
  have "runtime_step demo_loans demo_lent"
    by (rule call_returns [of "Signed 3" "DepositLoan (Call_apply_loan 1000 800)"]) (simp add: demo_apply_call del: loan_dispatch.simps)
  from runtime_step_inv [OF this start] show "runtime_inv 1 demo_lent" by simp
qed

lemma loans_never_reopen_or_change_hands_witness:
  "\<exists>s t. history chain_act [By (Signed 3)] demo_lent s \<and> lm_contains (Loans demo_lent) 0
    \<and> history chain_act [By (Signed 3)] s t \<and> map_of (Loans s) 0 = None \<and> map_of (Loans t) 0 = None"
proof -
  let ?l = "get_loan_by_id 0 demo_lent"
  have l: "?l = \<lparr>loan_id = 0, loan_who = 3, collateral_balance_original = 1000,
      collateral_balance_available = 1000, loan_balance_total = 800, loan_status = Well\<rparr>"
    "lm_contains (Loans demo_lent) 0" "NextLoanId demo_lent = 1"
    by (simp_all add: get_loan_by_id_def demo_lent_loans lm_get_def lm_contains_def demo_lent_def new_loan_def)
  have bal: "free_balance 0 3 demo_lent = 800" "free_balance 1 11 demo_lent = 1000" "PawnShop demo_lent = 11"
    by (simp_all add: demo_lent_def free_balance_opened demo_loans_reads)
  have healthy: "get_liquidating_loans demo_lent = []" by (simp add: demo_lent_def)
  let ?s = "closed_loan 3 ?l demo_lent"
  have "repay_loan (Signed 3) 0 demo_lent = Done () ?s"
    using demo_lent_inv
    by (simp add: repay_loan_def repay_for_loan_eq repay_checks_def Let_def check_loan_in_liquidation_def healthy l bal ledger_simps)
  then have run: "history chain_act [By (Signed 3)] demo_lent ?s"
    using call_works [of "Signed 3" "DepositLoan (Call_repay_loan 0)" demo_lent] by simp
  have gone: "map_of (Loans ?s) 0 = None" "NextLoanId ?s = 1" "\<not> Paused ?s"
    by (simp_all add: closed_loan_def Let_def l demo_lent_loans deposit_loan_event_def mutate_loans_by_account_def)
  then obtain e t where "repay_loan (Signed 3) 0 ?s = Fail e t"
    by (simp add: repay_loan_def repay_for_loan_def lm_contains_def)
  then have again: "history chain_act [By (Signed 3)] ?s t"
    using call_errs [of "Signed 3" "DepositLoan (Call_repay_loan 0)" ?s] by simp
  have "runtime_inv (Suc (Suc 0)) ?s"
    using desk.history_good [OF run demo_runtime_inv(2)] by simp
  from loans_never_reopen_or_change_hands [OF this again, of 0] gone run again l(2)
  show ?thesis by (intro exI [of _ ?s] exI [of _ t]) simp
qed

text \<open>C6: Nobody but its owner and the liquidation account makes a loan leave the book: in any history
  without a call of the owner, of the liquidation account or of the root (who appoints that account) the
  loan stays and keeps its owner, whatever everybody else and the hooks do.  Between two hooks a loan that
  is not in liquidation is out of reach of the root and of the liquidation account too.\<close>

theorem only_owner_or_liquidator_closes:
  assumes inv: "runtime_inv n s" and run: "history chain_act acts s t" and room: "n + length acts < 2 ^ 64"
    and l: "map_of (Loans s) lid = Some l" and owner: "By (Signed (loan_who l)) \<notin> set acts"
  shows "(By Root \<notin> set acts \<longrightarrow> By (Signed (LiquidationAccount s)) \<notin> set acts
      \<longrightarrow> (\<exists>l'. map_of (Loans t) lid = Some l' \<and> loan_who l' = loan_who l))
    \<and> (Chain \<notin> set acts \<longrightarrow> lid \<notin> set (get_liquidating_loans s)
      \<longrightarrow> (\<exists>l'. map_of (Loans t) lid = Some l' \<and> loan_who l' = loan_who l \<and> lid \<notin> set (get_liquidating_loans t)))"
proof (intro conjI impI)
  assume quiet: "By Root \<notin> set acts" "By (Signed (LiquidationAccount s)) \<notin> set acts"
  let ?I = "\<lambda>d. held_by (loan_who l) lid d \<and> keeper d = LiquidationAccount s"
  have "?I (desk_of s)" using held_by_stored [OF l] by simp
  then have "?I (desk_of t)"
    by (rule desk.carried [OF run inv room, where I = ?I])
      (rule held_against_others, use owner quiet in auto)
  then show "\<exists>l'. map_of (Loans t) lid = Some l' \<and> loan_who l' = loan_who l"
    by (auto simp: held_by_def phase_in_def loan_phase_of_def split: option.splits if_splits)
next
  assume quiet: "Chain \<notin> set acts" "lid \<notin> set (get_liquidating_loans s)"
  let ?I = "\<lambda>d. phase_of d lid = Lent (loan_who l)"
  have wf: "book_wf s" "book_wf t"
    using inv desk.history_good [OF run inv room] by (simp_all add: runtime_inv_def loan_inv_def)
  have "?I (desk_of s)"
    using quiet(2) book_okD(6) [OF _ l] wf(1) phase_in_present [OF l] by (auto simp: book_wf_def loan_phase_of_def)
  then have "?I (desk_of t)"
    by (rule desk.carried [OF run inv room, where I = ?I])
      (rule lent_against_others, use owner quiet in auto)
  then obtain l' where l': "map_of (Loans t) lid = Some l'" "loan_phase_of l' = Lent (loan_who l)"
    by (auto simp: phase_in_def split: option.splits if_splits)
  then have "loan_who l' = loan_who l" "\<not> is_liquidating (loan_status l')"
    by (auto simp: loan_phase_of_def split: if_splits)
  with l' book_okD(6) [OF _ l'(1)] wf(2)
  show "\<exists>l'. map_of (Loans t) lid = Some l' \<and> loan_who l' = loan_who l \<and> lid \<notin> set (get_liquidating_loans t)"
    by (auto simp: book_wf_def)
qed

lemma only_owner_or_liquidator_closes_witness:
  "\<exists>t. history chain_act [By (Signed 4)] demo_lent t \<and> (\<exists>l. map_of (Loans t) 0 = Some l \<and> loan_who l = 3)"
proof -
  let ?l = "\<lparr>loan_id = 0, loan_who = 3, collateral_balance_original = 1000,
      collateral_balance_available = 1000, loan_balance_total = 800, loan_status = Well\<rparr>"
  have l: "map_of (Loans demo_lent) 0 = Some ?l" by (simp add: demo_lent_loans)
  have "repay_loan (Signed 4) 0 demo_lent = Fail (Other ''not owner of the loan'') demo_lent"
    by (simp add: repay_loan_def repay_for_loan_def Let_def demo_lent_loans lm_contains_def lm_get_def)
  then have run: "history chain_act [By (Signed 4)] demo_lent demo_lent"
    using call_errs [of "Signed 4" "DepositLoan (Call_repay_loan 0)" demo_lent] by simp
  from only_owner_or_liquidator_closes [OF demo_runtime_inv(2) run _ l] run show ?thesis by auto
qed

end
