(* ===== verification/Ledger_Spec.thy ===== *)
theory Ledger_Spec
  imports Asset_Properties
begin

text \<open>
  What the generic-asset pallet promises, as an abstract ledger over natural numbers, and the
  proof that the pallet implements it: after any history of calls by anybody the pallet has
  returned the same results and holds the same books as the ledger.  The ledger knows no word
  width apart from the two limits the code checks (the issuance of an asset fits 128 bits, the
  next id fits 32), so the refinement says that no unchecked operation of the pallet ever wraps
  and that its checks on single accounts never decide anything the check on the issuance does not.

  The interface \<open>implements_spec\<close> is the forward simulation that the histories need; the pallet
  is its instance.
\<close>

section \<open>Implementing a specification, call by call\<close>

text \<open>
  A history runs a list of calls, keeps the storage a failing call leaves, and has no result
  when a call panics; the specification has results only.
\<close>

fun run_history ::
    "('c \<Rightarrow> 's \<Rightarrow> (unit, 's) dispatch) \<Rightarrow> 'c list \<Rightarrow> 's \<Rightarrow> (dispatch_error option list \<times> 's) option" where
  "run_history run [] s = Some ([], s)"
| "run_history run (c # cs) s =
     (case run c s of
        Done u t \<Rightarrow> map_option (\<lambda>(rs, t'). (None # rs, t')) (run_history run cs t)
      | Fail e t \<Rightarrow> map_option (\<lambda>(rs, t'). (Some e # rs, t')) (run_history run cs t)
      | Panic \<Rightarrow> None)"

fun spec_history ::
    "('c \<Rightarrow> 'l \<Rightarrow> dispatch_error + 'l) \<Rightarrow> 'c list \<Rightarrow> 'l \<Rightarrow> dispatch_error option list \<times> 'l" where
  "spec_history spec [] l = ([], l)"
| "spec_history spec (c # cs) l =
     (case spec c l of
        Inr l' \<Rightarrow> (let (rs, l'') = spec_history spec cs l' in (None # rs, l''))
      | Inl e \<Rightarrow> (let (rs, l'') = spec_history spec cs l in (Some e # rs, l'')))"

definition simulates ::
    "('s \<Rightarrow> bool) \<Rightarrow> ('s \<Rightarrow> 'l) \<Rightarrow> (unit, 's) dispatch \<Rightarrow> dispatch_error + 'l \<Rightarrow> 's \<Rightarrow> bool" where
  "simulates good abst r r' s =
     (case r of
        Done u t \<Rightarrow> good t \<and> r' = Inr (abst t)
      | Fail e t \<Rightarrow> t = s \<and> r' = Inl e
      | Panic \<Rightarrow> False)"

lemma simulates_simps [simp]:
  "simulates good abst (Done u t) r' s \<longleftrightarrow> good t \<and> r' = Inr (abst t)"
  "simulates good abst (Fail e t) r' s \<longleftrightarrow> t = s \<and> r' = Inl e"
  "\<not> simulates good abst Panic r' s"
  by (simp_all add: simulates_def)

locale implements_spec =
  fixes good :: "'s \<Rightarrow> bool"
    and abst :: "'s \<Rightarrow> 'l"
    and run :: "'c \<Rightarrow> 's \<Rightarrow> (unit, 's) dispatch"
    and spec :: "'c \<Rightarrow> 'l \<Rightarrow> dispatch_error + 'l"
  assumes simulation: "good s \<Longrightarrow> simulates good abst (run c s) (spec c (abst s)) s"
begin

lemma run_cases:
  assumes "good s"
  obtains (ok) t where "run c s = Done () t" "good t" "spec c (abst s) = Inr (abst t)"
    | (err) e where "run c s = Fail e s" "spec c (abst s) = Inl e"
  using simulation [OF assms, of c] by (cases "run c s") auto

lemma never_panics: "good s \<Longrightarrow> run c s \<noteq> Panic"
  by (erule run_cases [of s c]) simp_all

lemma error_changes_nothing: "good s \<Longrightarrow> run c s = Fail e t \<Longrightarrow> t = s"
  by (erule run_cases [of s c]) simp_all

lemma history:
  assumes "good s"
  shows "\<exists>t. run_history run cs s = Some (fst (spec_history spec cs (abst s)), t)
    \<and> abst t = snd (spec_history spec cs (abst s)) \<and> good t"
  using assms
proof (induction cs arbitrary: s)
  case Nil
  then show ?case by simp
next
  case (Cons c cs)
  from Cons.prems show ?case
  proof (cases rule: run_cases [of s c])
    case (ok t)
    then show ?thesis using Cons.IH [of t] by (auto simp: Let_def split_beta)
  next
    case (err e)
    then show ?thesis using Cons.IH [OF Cons.prems] by (auto simp: Let_def split_beta)
  qed
qed

end

section \<open>The abstract ledger\<close>

record token_ledger =
  issuance_of :: "asset_id \<Rightarrow> nat option"
  free_of :: "asset_id \<Rightarrow> account_id \<Rightarrow> nat"
  reserved_of :: "asset_id \<Rightarrow> account_id \<Rightarrow> nat"
  rights_of :: "asset_id \<Rightarrow> account_id permissions_v1"
  symbol_of :: "asset_id \<Rightarrow> string"
  next_of :: nat
  root_of :: account_id

definition may :: "permission_type \<Rightarrow> account_id \<Rightarrow> asset_id \<Rightarrow> token_ledger \<Rightarrow> bool" where
  "may what who a l =
     (Address who = (case what of Burn \<Rightarrow> burn_perm | Mint \<Rightarrow> mint_perm | Update \<Rightarrow> update_perm) (rights_of l a))"

definition supply_of :: "asset_id \<Rightarrow> token_ledger \<Rightarrow> nat" where
  "supply_of a l = (case issuance_of l a of Some n \<Rightarrow> n | None \<Rightarrow> 0)"

definition put_free :: "asset_id \<Rightarrow> account_id \<Rightarrow> nat \<Rightarrow> token_ledger \<Rightarrow> token_ledger" where
  "put_free a w n l = l\<lparr>free_of := (free_of l)(a := (free_of l a)(w := n))\<rparr>"

definition put_issuance :: "asset_id \<Rightarrow> nat \<Rightarrow> token_ledger \<Rightarrow> token_ledger" where
  "put_issuance a n l = l\<lparr>issuance_of := (issuance_of l)(a \<mapsto> n)\<rparr>"

definition put_rights :: "asset_id \<Rightarrow> account_id permissions_v1 \<Rightarrow> token_ledger \<Rightarrow> token_ledger" where
  "put_rights a p l = l\<lparr>rights_of := (rights_of l)(a := p)\<rparr>"

definition issue ::
    "asset_id \<Rightarrow> account_id \<Rightarrow> nat \<Rightarrow> account_id permissions_v1 \<Rightarrow> token_ledger \<Rightarrow> token_ledger" where
  "issue a w n p l = put_rights a p (put_free a w n (put_issuance a n l))"

definition spec_transfer :: "account_id \<Rightarrow> asset_id \<Rightarrow> account_id \<Rightarrow> nat \<Rightarrow> token_ledger \<Rightarrow> ga_error + token_ledger" where
  "spec_transfer who a t n l =
     (if n = 0 then Inl ZeroAmount
      else if free_of l a who < n then Inl InsufficientBalance
      else if who = t then Inr l
      else Inr (put_free a t (free_of l a t + n) (put_free a who (free_of l a who - n) l)))"

definition spec_mint :: "account_id \<Rightarrow> asset_id \<Rightarrow> account_id \<Rightarrow> nat \<Rightarrow> token_ledger \<Rightarrow> ga_error + token_ledger" where
  "spec_mint who a t n l =
     (if \<not> may Mint who a l then Inl NoMintPermission
      else if 2 ^ 128 \<le> supply_of a l + n then Inl TotalMintingOverflow
      else Inr (put_free a t (free_of l a t + n) (put_issuance a (supply_of a l + n) l)))"

definition spec_burn :: "account_id \<Rightarrow> asset_id \<Rightarrow> account_id \<Rightarrow> nat \<Rightarrow> token_ledger \<Rightarrow> ga_error + token_ledger" where
  "spec_burn who a t n l =
     (if \<not> may Burn who a l then Inl NoBurnPermission
      else if supply_of a l < n then Inl TotalBurningUnderflow
      else if free_of l a t < n then Inl FreeBurningUnderflow
      else Inr (put_free a t (free_of l a t - n) (put_issuance a (supply_of a l - n) l)))"

definition spec_update :: "account_id \<Rightarrow> asset_id \<Rightarrow> account_id permissions_v1 \<Rightarrow> token_ledger \<Rightarrow> ga_error + token_ledger" where
  "spec_update who a p l =
     (if may Update who a l then Inr (put_rights a p l) else Inl NoUpdatePermission)"

definition spec_create :: "nat \<Rightarrow> string \<Rightarrow> token_ledger \<Rightarrow> ga_error + token_ledger" where
  "spec_create n symb l =
     (if 2 ^ 32 \<le> next_of l + 1 then Inl NoIdAvailable
      else
        let a = of_nat (next_of l); r = Address (root_of l);
            l' = issue a (root_of l) n \<lparr>update_perm = r, mint_perm = r, burn_perm = r\<rparr> l
        in Inr (l'\<lparr>next_of := next_of l + 1, symbol_of := (symbol_of l)(a := symb)\<rparr>))"

definition spec_create_reserved ::
    "asset_id \<Rightarrow> (balance, account_id) asset_options \<Rightarrow> token_ledger \<Rightarrow> ga_error + token_ledger" where
  "spec_create_reserved a options l =
     (if issuance_of l a \<noteq> None then Inl IdAlreadyTaken
      else if next_of l \<le> unat a then Inl IdUnavailable
      else Inr (issue a default_account (unat (initial_issuance options)) (permissions options) l))"

fun spec_dispatch :: "origin \<times> ga_call \<Rightarrow> token_ledger \<Rightarrow> dispatch_error + token_ledger" where
  "spec_dispatch (Root, Call_create n symb) l = map_sum GaError (\<lambda>l. l) (spec_create (unat n) symb l)"
| "spec_dispatch (Root, Call_create_reserved a options) l =
     map_sum GaError (\<lambda>l. l) (spec_create_reserved a options l)"
| "spec_dispatch (Signed who, Call_transfer a t n) l = map_sum GaError (\<lambda>l. l) (spec_transfer who a t (unat n) l)"
| "spec_dispatch (Signed who, Call_update_permission a p) l = map_sum GaError (\<lambda>l. l) (spec_update who a p l)"
| "spec_dispatch (Signed who, Call_mint a t n) l = map_sum GaError (\<lambda>l. l) (spec_mint who a t (unat n) l)"
| "spec_dispatch (Signed who, Call_burn a t n) l = map_sum GaError (\<lambda>l. l) (spec_burn who a t (unat n) l)"
| "spec_dispatch _ l = Inl BadOrigin"

section \<open>The books the storage of the pallet stands for\<close>

definition abs_ledger :: "'a ga_state_scheme \<Rightarrow> token_ledger" where
  "abs_ledger s =
     \<lparr>issuance_of = (\<lambda>a. map_option unat (TotalIssuance s a)),
      free_of = (\<lambda>a w. unat (free_balance a w s)),
      reserved_of = (\<lambda>a w. unat (reserved_balance a w s)),
      rights_of = (\<lambda>a. into_latest (get_permission a s)),
      symbol_of = (\<lambda>a. symbols a s),
      next_of = unat (NextAssetId s),
      root_of = SudoKey s\<rparr>"

named_theorems abs_simps "the books after a write to the storage"

lemma abs_sel [abs_simps]:
  "issuance_of (abs_ledger s) a = map_option unat (TotalIssuance s a)"
  "free_of (abs_ledger s) a w = unat (free_balance a w s)"
  "reserved_of (abs_ledger s) a w = unat (reserved_balance a w s)"
  "rights_of (abs_ledger s) a = into_latest (get_permission a s)"
  "next_of (abs_ledger s) = unat (NextAssetId s)"
  "root_of (abs_ledger s) = SudoKey s"
  by (simp_all add: abs_ledger_def)

lemma supply_of_abs [abs_simps]: "supply_of a (abs_ledger s) = unat (total_issuance a s)"
  by (simp add: supply_of_def abs_simps total_issuance_def get_or_def split: option.split)

lemma may_abs [abs_simps]: "may what who a (abs_ledger s) = check_permission a who what s"
  by (cases what) (auto simp: may_def abs_simps check_permission_def Let_def split: owner.splits)

lemma abs_set_free [abs_simps]: "abs_ledger (set_free_balance a w b s) = put_free a w (unat b) (abs_ledger s)"
  by (auto simp: abs_ledger_def put_free_def ledger_simps fun_eq_iff)
    (simp_all add: set_free_balance_def get_permission_def symbols_def)

lemma abs_set_total [abs_simps]: "abs_ledger (set_total_issuance a b s) = put_issuance a (unat b) (abs_ledger s)"
  by (auto simp: abs_ledger_def put_issuance_def ledger_simps fun_eq_iff)
    (simp_all add: set_total_issuance_def get_permission_def symbols_def)

lemma abs_set_permissions [abs_simps]:
  "Permissions s' = Permissions s \<Longrightarrow>
   abs_ledger (s\<lparr>Permissions := (Permissions s')(a \<mapsto> into_versions p)\<rparr>) = put_rights a p (abs_ledger s)"
  by (auto simp: abs_ledger_def put_rights_def ledger_simps fun_eq_iff get_permission_def into_versions_def
      symbols_def get_or_def)

lemma abs_event [abs_simps]: "abs_ledger (deposit_ga_event ev s) = abs_ledger s"
  by (simp add: abs_ledger_def ledger_simps) (simp add: deposit_ga_event_def get_permission_def symbols_def)

lemma abs_next_id [abs_simps]:
  "abs_ledger (s\<lparr>NextAssetId := n\<rparr>) = (abs_ledger s)\<lparr>next_of := unat n\<rparr>"
  by (simp add: abs_ledger_def ledger_simps get_permission_def symbols_def)

lemma abs_symbols [abs_simps]:
  "Symbols s' = Symbols s \<Longrightarrow>
   abs_ledger (s\<lparr>Symbols := (Symbols s')(a \<mapsto> symb)\<rparr>) = (abs_ledger s)\<lparr>symbol_of := (symbol_of (abs_ledger s))(a := symb)\<rparr>"
  by (auto simp: abs_ledger_def ledger_simps fun_eq_iff get_permission_def symbols_def get_or_def)

lemma abs_created:
  "abs_ledger (created a w options s) = issue a w (unat (initial_issuance options)) (permissions options) (abs_ledger s)"
  by (simp add: created_def issue_def abs_simps)

section \<open>Every call does what the ledger says\<close>

abbreviation sim :: "(unit, 'a ga_state_scheme) dispatch \<Rightarrow> dispatch_error + token_ledger \<Rightarrow> 'a ga_state_scheme \<Rightarrow> bool" where
  "sim \<equiv> simulates ga_inv abs_ledger"

lemma good_after: "ga_inv s \<Longrightarrow> ga_dispatch orig c s = Done u t \<Longrightarrow> ga_inv t"
  using keepsD_Done [OF ga_inv_dispatch] by blast

lemma unat_less_iff: "a < b \<longleftrightarrow> unat a < unat b" "\<not> a \<le> b \<longleftrightarrow> unat b < unat a"
  by (simp_all add: word_less_nat_alt word_le_nat_alt not_le)

lemma abs_moved:
  assumes "ga_inv s" and "n \<le> free_balance a f s" and "f \<noteq> t"
  shows "abs_ledger (moved a f t n s)
    = put_free a t (free_of (abs_ledger s) a t + unat n)
        (put_free a f (free_of (abs_ledger s) a f - unat n) (abs_ledger s))"
proof -
  have "holdings a f s + holdings a t s < 2 ^ 128"
    using assms(1,3) by (intro solvent_pair_less ga_inv_solvent)
  then have "unat (free_balance a t s) + unat n < 2 ^ 128"
    using assms(2) by (simp add: holdings_def word_le_nat_alt)
  then show ?thesis
    using assms(2,3) by (simp add: moved_def abs_simps unat_add_less unat_sub_le)
qed

lemma sim_transfer:
  assumes "ga_inv s"
  shows "sim (transfer (Signed who) a t n s) (map_sum GaError (\<lambda>l. l) (spec_transfer who a t (unat n) (abs_ledger s))) s"
proof (cases "n \<noteq> 0 \<and> n \<le> free_balance a who s \<and> who \<noteq> t")
  case True
  then show ?thesis
    using assms abs_moved [OF assms, of n a who t]
    by (simp add: transfer_def make_transfer_with_event_eq spec_transfer_def abs_simps ga_inv_moved
        unat_eq_zero word_le_nat_alt)
next
  case False
  then show ?thesis
    using assms
    by (auto simp: transfer_def make_transfer_with_event_eq spec_transfer_def abs_simps moved_def
        unat_eq_zero ensure_def word_le_nat_alt not_le)
qed

lemma sim_mint:
  assumes "ga_inv s"
  shows "sim (mint (Signed who) a t n s) (map_sum GaError (\<lambda>l. l) (spec_mint who a t (unat n) (abs_ledger s))) s"
proof -
  have "unat (free_balance a t s) \<le> unat (total_issuance a s)"
    using holdings_le_all [of a t s] ga_inv_solvent [OF assms, of a]
    by (simp add: solvent_def holdings_def)
  moreover have "ga_inv u" if "mint (Signed who) a t n s = Done () u" for u
    using good_after [OF assms, of "Signed who" "Call_mint a t n"] that by simp
  ultimately show ?thesis
    by (auto simp: mint_def mint_free_def checked_add_def spec_mint_def abs_simps unat_add_less not_le)
qed

lemma sim_burn:
  assumes "ga_inv s"
  shows "sim (burn (Signed who) a t n s) (map_sum GaError (\<lambda>l. l) (spec_burn who a t (unat n) (abs_ledger s))) s"
proof -
  have "ga_inv u" if "burn (Signed who) a t n s = Done () u" for u
    using good_after [OF assms, of "Signed who" "Call_burn a t n"] that by simp
  then show ?thesis
    by (auto simp: burn_def burn_free_def checked_sub_def spec_burn_def abs_simps unat_sub_le
        word_le_nat_alt not_le)
qed

lemma sim_update:
  assumes "ga_inv s"
  shows "sim (update_permission (Signed who) a p s)
    (map_sum GaError (\<lambda>l. l) (spec_update who a p (abs_ledger s))) s"
proof -
  have "keeps ga_inv (update_permission (Signed who) a p s)"
    using assms by (rule ga_inv_update_permission)
  then show ?thesis
    by (cases "check_permission a who Update s")
      (simp_all add: update_permission_def spec_update_def abs_simps Let_def)
qed

lemma sim_create:
  assumes "ga_inv s"
  shows "sim (create Root n symb s) (map_sum GaError (\<lambda>l. l) (spec_create (unat n) symb (abs_ledger s))) s"
proof -
  have "keeps ga_inv (create Root n symb s)"
    using ga_inv_dispatch [OF assms, of Root "Call_create n symb"] by simp
  then show ?thesis
    by (cases "unat (NextAssetId s) < 4294967295") (simp_all add: create_def create_asset_eq spec_create_def abs_simps abs_created Let_def issue_def
        put_rights_def put_free_def put_issuance_def unat_add_less not_le)
qed

lemma sim_create_reserved:
  assumes "ga_inv s"
  shows "sim (create_reserved Root a options s)
    (map_sum GaError (\<lambda>l. l) (spec_create_reserved a options (abs_ledger s))) s"
proof -
  have "ga_inv u" if "create_reserved Root a options s = Done () u" for u
    using good_after [OF assms, of Root "Call_create_reserved a options"] that by simp
  then show ?thesis
    by (simp add: create_reserved_def create_asset_eq spec_create_reserved_def abs_simps abs_created
        unat_less_iff not_le)
qed

lemma sim_dispatch:
  assumes "ga_inv s"
  shows "sim (ga_dispatch orig c s) (spec_dispatch (orig, c) (abs_ledger s)) s"
proof (cases orig)
  case Root
  then show ?thesis
    using assms by (cases c) (simp_all add: sim_create sim_create_reserved transfer_def mint_def burn_def
        update_permission_def)
next
  case (Signed who)
  then show ?thesis
    using assms by (cases c) (simp_all add: sim_transfer sim_mint sim_burn sim_update create_def
        create_reserved_def)
next
  case NoneOrigin
  then show ?thesis
    by (cases c) (simp_all add: transfer_def mint_def burn_def update_permission_def create_def
        create_reserved_def)
qed

definition ga_run :: "origin \<times> ga_call \<Rightarrow> 'a ga_state_scheme \<Rightarrow> (unit, 'a ga_state_scheme) dispatch" where
  "ga_run = (\<lambda>(orig, c). ga_dispatch orig c)"

interpretation ga_ledger: implements_spec ga_inv abs_ledger ga_run spec_dispatch
  by unfold_locales (auto simp: ga_run_def sim_dispatch)

text \<open>C3: The pallet implements the abstract ledger: over any history of calls by any origins, from
  a storage that satisfies the invariant, no call panics, every call returns exactly the result the
  ledger over natural numbers gives, and the books at the end are the ledger's.\<close>

theorem ledger_refinement:
  assumes "ga_inv s"
  shows "\<exists>t. run_history ga_run calls s = Some (fst (spec_history spec_dispatch calls (abs_ledger s)), t)
    \<and> abs_ledger t = snd (spec_history spec_dispatch calls (abs_ledger s))"
  using ga_ledger.history [OF assms, of calls] by blast

lemma ledger_refinement_witness:
  "\<exists>t. run_history ga_run
      [(Signed 1, Call_transfer 0 2 30), (Signed 2, Call_transfer 0 1 31), (Signed 1, Call_mint 0 2 5)] demo_ga
      = Some ([None, Some (GaError InsufficientBalance), None], t)
    \<and> free_of (abs_ledger t) 0 2 = 35"
proof -
  let ?l = "abs_ledger demo_ga"
  have l: "free_of ?l 0 1 = 100" "free_of ?l 0 2 = 0" "supply_of 0 ?l = 100" "may Mint 1 0 ?l"
    by (simp_all add: abs_simps demo_reads demo_check_permission)
  then have "spec_history spec_dispatch
      [(Signed 1, Call_transfer 0 2 30), (Signed 2, Call_transfer 0 1 31), (Signed 1, Call_mint 0 2 5)] ?l
    = ([None, Some (GaError InsufficientBalance), None],
       put_free 0 2 35 (put_issuance 0 105 (put_free 0 2 30 (put_free 0 1 70 ?l))))"
    by (simp add: spec_transfer_def spec_mint_def put_free_def put_issuance_def supply_of_def may_def)
  then show ?thesis
    using ledger_refinement [OF demo_ga_inv, of "[(Signed 1, Call_transfer 0 2 30), (Signed 2, Call_transfer 0 1 31), (Signed 1, Call_mint 0 2 5)]"]
    by (auto simp: put_free_def put_issuance_def)
qed

end
