(* ===== verification/Loan_Custody.thy ===== *)
theory Loan_Custody
  imports Loan_Machine Ledger_Spec
begin

text \<open>
  The custody of the collateral (deposit-loan/src/lib.rs): whether the pawn shop holds what the open loans
  pledged.  Nothing in the code ties its balance to the book; here the tie is an invariant of the chain, under
  the conditions it needs: the pawn shop signs nothing itself and its balance is not burned, the root leaves
  the three assets as they are, no collateral is added to a loan (which is taken in another asset), and no
  settlement of a liquidation fails halfway (which hands the collateral out and keeps the loan).  Under it
  every healthy loan can be repaid.
\<close>

section \<open>What the pawn shop holds and what it owes\<close>

definition pledges :: "(loan_no, loan) linked_map \<Rightarrow> loan_no \<Rightarrow> balance option" where
  "pledges ls lid = map_option collateral_balance_original (map_of ls lid)"

definition shop_balance :: "'a loan_state_scheme \<Rightarrow> balance" where
  "shop_balance s = free_balance (CollateralAssetId s) (PawnShop s) s"

definition owed_collateral :: "'a loan_state_scheme \<Rightarrow> nat" where
  "owed_collateral s = total_of (\<lambda>l. unat (collateral_balance_original l)) (map_of (Loans s))"

definition separate :: "'a loan_state_scheme \<Rightarrow> bool" where
  "separate s \<longleftrightarrow> CollateralAssetId s \<noteq> CollectionAssetId s \<and> CollateralAssetId s \<noteq> LoanAssetId s"

definition shop_covers :: "'a loan_state_scheme \<Rightarrow> bool" where
  "shop_covers s \<longleftrightarrow> separate s \<and> owed_collateral s \<le> unat (shop_balance s)"

lemma owed_pledges: "owed_collateral s = total_of unat (pledges (Loans s))"
proof -
  have "dom (pledges (Loans s)) = dom (map_of (Loans s))"
    by (auto simp: pledges_def)
  then show ?thesis
    unfolding owed_collateral_def total_of_def by (intro sum.cong) (auto simp: pledges_def)
qed

lemma pledge_le_owed:
  assumes "map_of (Loans s) lid = Some l"
  shows "unat (collateral_balance_original l) \<le> owed_collateral s"
  using lm.total_split [OF assms, of "\<lambda>l. unat (collateral_balance_original l)"] by (simp add: owed_collateral_def)

section \<open>Operations that leave the custody alone\<close>

definition held :: "'a loan_state_scheme \<Rightarrow> asset_id \<times> asset_id \<times> asset_id \<times> account_id \<times> (loan_no \<Rightarrow> balance option) \<times> balance" where
  "held s = (CollateralAssetId s, CollectionAssetId s, LoanAssetId s, PawnShop s, pledges (Loans s), shop_balance s)"

definition unmoved :: "'a loan_state_scheme \<Rightarrow> 'a loan_state_scheme \<Rightarrow> bool" where
  "unmoved s t \<longleftrightarrow> separate s \<and> held t = held s"

lemma held_writes [simp]:
  "held (s\<lparr>LoansByAccount := x1\<rparr>) = held s" "held (s\<lparr>LiquidatingLoans := x2\<rparr>) = held s"
  "held (s\<lparr>TotalLoan := x3\<rparr>) = held s" "held (s\<lparr>TotalCollateral := x4\<rparr>) = held s"
  "held (s\<lparr>UserDtoken := x5\<rparr>) = held s" "held (s\<lparr>MarketDtoken := x6\<rparr>) = held s"
  "held (s\<lparr>TotalDtoken := x7\<rparr>) = held s" "held (s\<lparr>BonusTime := x8\<rparr>) = held s"
  "held (s\<lparr>LoanInterestRateCurrent := x9\<rparr>) = held s" "held (s\<lparr>SavingInterestRate := x10\<rparr>) = held s"
  "held (s\<lparr>LoanEvents := x11\<rparr>) = held s" "held (s\<lparr>NextLoanId := x12\<rparr>) = held s"
  by (simp_all add: held_def shop_balance_def)

lemma held_admin [simp]:
  "held (s\<lparr>Paused := y1\<rparr>) = held s" "held (s\<lparr>CollectionAccountId := y2\<rparr>) = held s"
  "held (s\<lparr>GlobalLTVLimit := y3\<rparr>) = held s" "held (s\<lparr>GlobalLiquidationThreshold := y4\<rparr>) = held s"
  "held (s\<lparr>GlobalWarningThreshold := y5\<rparr>) = held s" "held (s\<lparr>LoanCap := y6\<rparr>) = held s"
  "held (s\<lparr>LiquidationAccount := y7\<rparr>) = held s" "held (s\<lparr>ProfitAssetId := y8\<rparr>) = held s"
  "held (s\<lparr>ProfitPool := y9\<rparr>) = held s" "held (s\<lparr>PenaltyRate := y10\<rparr>) = held s"
  by (simp_all add: held_def shop_balance_def)

lemma held_frame [simp]:
  "held (s\<lparr>SudoKey := k, BlockNumber := n, ExtrinsicIndex := i, Now := m\<rparr>) = held s"
  by (simp add: held_def shop_balance_def free_balance_def)

lemma held_helpers [simp]:
  "held (deposit_loan_event ev s) = held s" "held (mutate_loans_by_account who g s) = held s"
  by (simp_all add: deposit_loan_event_def mutate_loans_by_account_def)

lemma held_moved: "a \<noteq> CollateralAssetId s \<Longrightarrow> held (moved a f t n s) = held s"
  by (simp add: held_def shop_balance_def ledger_simps)

lemma pledges_insert: "pledges (lm_insert lid l ls) = (pledges ls)(lid \<mapsto> collateral_balance_original l)"
  by (auto simp: pledges_def)

lemma pledges_remove: "pledges (lm_remove lid ls) = (pledges ls)(lid := None)"
  by (auto simp: pledges_def)

lemma pledges_put_back: "map_of ls lid = Some l \<Longrightarrow> pledges (lm_insert lid l ls) = pledges ls"
  by (auto simp: pledges_def)

lemma held_mutate [simp]:
  assumes "lm_contains (Loans s) lid" and "\<And>l. collateral_balance_original (f l) = collateral_balance_original l"
  shows "held (mutate_loan lid f s) = held s"
proof -
  have "pledges (lm_mutate default_loan lid f (Loans s)) = pledges (Loans s)"
    using assms(2) map_of_lm_get [OF assms(1), of default_loan] by (auto simp: lm_mutate_def pledges_def)
  then show ?thesis by (simp add: mutate_loan_def held_def shop_balance_def)
qed

lemma unmoved_refl: "separate s \<Longrightarrow> unmoved s s"
  by (simp add: unmoved_def)

lemma unmoved_trans: "unmoved s t \<Longrightarrow> unmoved t u \<Longrightarrow> unmoved s u"
  by (simp add: unmoved_def)

lemma unmoved_sel:
  assumes "unmoved s t"
  shows "CollateralAssetId t = CollateralAssetId s" "CollectionAssetId t = CollectionAssetId s"
    "LoanAssetId t = LoanAssetId s" "PawnShop t = PawnShop s" "pledges (Loans t) = pledges (Loans s)"
    "shop_balance t = shop_balance s" "separate t"
  using assms by (auto simp: unmoved_def held_def separate_def)

lemma unmoved_assets:
  assumes "unmoved s t"
  shows "CollectionAssetId s \<noteq> CollateralAssetId t" "LoanAssetId s \<noteq> CollateralAssetId t"
    "CollectionAssetId t \<noteq> CollateralAssetId t" "LoanAssetId t \<noteq> CollateralAssetId t"
  using assms by (auto simp: unmoved_def held_def separate_def)

lemma unmoved_write [simp]:
  "unmoved s (t\<lparr>TotalDtoken := x1\<rparr>) = unmoved s t" "unmoved s (t\<lparr>MarketDtoken := x2\<rparr>) = unmoved s t"
  "unmoved s (t\<lparr>UserDtoken := x3\<rparr>) = unmoved s t" "unmoved s (t\<lparr>BonusTime := x4\<rparr>) = unmoved s t"
  "unmoved s (t\<lparr>LoanInterestRateCurrent := x5\<rparr>) = unmoved s t"
  "unmoved s (t\<lparr>SavingInterestRate := x6\<rparr>) = unmoved s t"
  by (simp_all add: unmoved_def)

lemma unmoved_transfer:
  "unmoved s t \<Longrightarrow> a \<noteq> CollateralAssetId t \<Longrightarrow> keeps (unmoved s) (make_transfer_with_event a f w n t)"
  by (simp add: make_transfer_with_event_eq unmoved_def held_moved)

lemma unmoved_staking:
  "unmoved s t \<Longrightarrow> aid \<noteq> CollateralAssetId t \<Longrightarrow> keeps (unmoved s) (create_staking who aid n t)"
  unfolding create_staking_def Let_def
  by (auto intro!: keeps_intros unmoved_transfer)

lemma unmoved_redeem_all: "unmoved s t \<Longrightarrow> keeps (unmoved s) (make_redeem_all who t)"
  unfolding make_redeem_all_def Let_def
  using unmoved_assets [of s t] by (auto intro!: keeps_intros unmoved_transfer)

lemma unmoved_redeem:
  "unmoved s t \<Longrightarrow> aid \<noteq> CollateralAssetId t \<Longrightarrow> keeps (unmoved s) (make_redeem who aid acct n t)"
  unfolding make_redeem_def Let_def
  by (auto intro!: keeps_intros unmoved_staking unmoved_redeem_all simp: unmoved_sel(1))

lemma unmoved_draw: "unmoved s t \<Longrightarrow> keeps (unmoved s) (draw_from_loan who lid n t)"
  unfolding draw_from_loan_def Let_def
  by (auto intro!: keeps_intros simp: unmoved_def)

lemma unmoved_charge:
  "unmoved s t \<Longrightarrow> aid = CollectionAssetId s \<Longrightarrow> keeps (unmoved s) (charge_interest aid acct i n lid t)"
  unfolding charge_interest_def Let_def
  by (auto intro!: keeps_intros unmoved_draw unmoved_transfer simp: unmoved_assets(1))

lemma unmoved_interest: "unmoved s t \<Longrightarrow> keeps (unmoved s) (calculate_loan_interest_rate t)"
  unfolding calculate_loan_interest_rate_def Let_def
  by (auto intro!: keeps_intros unmoved_charge simp: unmoved_sel(2))

section \<open>The hooks\<close>

lemma held_liquidate: "lm_contains (Loans s) lid \<Longrightarrow> held (liquidate_loan lid v s) = held s"
proof -
  assume "lm_contains (Loans s) lid"
  then have "held (mutate_loan lid (\<lambda>l. l\<lparr>loan_status := Liquidating v\<rparr>) s) = held s" by simp
  then show ?thesis by (simp add: liquidate_loan_def Let_def split: option.split)
qed

lemma unmoved_check_one:
  assumes "unmoved s t" and "loan_inv t" and "lm_contains (Loans t) lid"
  shows "keeps (unmoved s) (check_one_loan p lt wt lid t)"
  using assms
  by (auto simp: check_one_loan_def Let_def loan_inv_ids unmoved_def held_liquidate
      intro!: keeps_unwrap_then split: loan_health.split)

lemma unmoved_each_block:
  assumes inv: "loan_inv s" and "separate s"
  shows "keeps (unmoved s) (on_each_block h s)"
proof -
  let ?ks = "lm_keys (Loans s)"
  let ?P = "\<lambda>t. loan_inv t \<and> (\<forall>k\<in>set ?ks. lm_contains (Loans t) k) \<and> unmoved s t"
  have "keeps ?P (check_one_loan p lt wt k t)" if "k \<in> set ?ks" "?P t" for p lt wt k t
    using that check_one_loan_present [of t k p lt wt] unmoved_check_one [of s t k p lt wt]
      contains_check_one_loan [of p lt wt k t] loan_inv_ids [of t k]
    by (cases "check_one_loan p lt wt k t")
      (auto simp: check_one_loan_def Let_def unwrap_then_def split: if_splits option.splits loan_health.splits)
  then have "keeps ?P (on_each_block h s)"
    using assms unfolding on_each_block_def Let_def
    by (intro keeps_for_each) (auto simp: lm_contains_iff unmoved_refl)
  then show ?thesis by (rule keeps_mono) simp
qed

lemma unmoved_initialize:
  assumes "loan_inv s" and "separate s"
  shows "keeps (unmoved s) (loan_on_initialize h s)"
  unfolding loan_on_initialize_def
  using unmoved_each_block [OF assms, of h] assms(2)
  by (auto intro!: keeps_intros unmoved_interest unmoved_refl)

section \<open>The calls\<close>

lemma unmoved_covers: "unmoved s t \<Longrightarrow> shop_covers s \<Longrightarrow> shop_covers t"
  by (auto simp: shop_covers_def owed_pledges unmoved_sel)

lemma covers_unmoved: "keeps (unmoved s) r \<Longrightarrow> shop_covers s \<Longrightarrow> keeps shop_covers r"
  by (erule keeps_mono) (rule unmoved_covers)

lemma covers_refl: "shop_covers s \<Longrightarrow> unmoved s s"
  by (simp add: shop_covers_def unmoved_refl)

lemma owed_insert:
  "map_of (Loans s) lid = None \<Longrightarrow> Loans t = lm_insert lid l (Loans s)
    \<Longrightarrow> owed_collateral t = unat (collateral_balance_original l) + owed_collateral s"
  by (simp add: owed_collateral_def lm.total_ins_fresh del: map_of_lm_insert)

lemma owed_remove:
  "map_of (Loans s) lid = Some l \<Longrightarrow> Loans t = lm_remove lid (Loans s)
    \<Longrightarrow> owed_collateral s = unat (collateral_balance_original l) + owed_collateral t"
  by (simp add: owed_collateral_def lm.total_rem [where k = lid] del: map_of_lm_remove)

lemma owed_same: "Loans t = Loans s \<Longrightarrow> owed_collateral t = owed_collateral s"
  by (simp add: owed_collateral_def)

text \<open>A pledge arrives at the shop in full.\<close>

lemma shop_receives:
  assumes "ga_inv s" and "who \<noteq> PawnShop s" and "c \<le> free_balance (CollateralAssetId s) who s"
  shows "unat (shop_balance (moved (CollateralAssetId s) who (PawnShop s) c s)) = unat (shop_balance s) + unat c"
proof -
  have "unat (shop_balance s) + unat c < 2 ^ 128"
    using solvent_pair_less [OF ga_inv_solvent [OF assms(1)] assms(2), of "CollateralAssetId s"] assms(3)
    by (simp add: shop_balance_def holdings_def word_le_nat_alt)
  then show ?thesis
    using assms(2) by (simp add: shop_balance_def ledger_simps unat_add_less)
qed

lemma covers_open_loan:
  fixes s :: "'a loan_state_scheme"
  assumes inv: "loan_inv s" and covers: "shop_covers s" and who: "who \<noteq> PawnShop s"
  shows "keeps shop_covers (open_loan who n cl s)"
proof (cases "cl_collateral_amount cl \<le> free_balance (CollateralAssetId s) who s")
  case True
  let ?m = "moved (CollateralAssetId s) who (PawnShop s) (cl_collateral_amount cl) s"
  have ne: "CollateralAssetId s \<noteq> CollectionAssetId s" "CollateralAssetId s \<noteq> LoanAssetId s"
    using covers by (auto simp: shop_covers_def separate_def)
  have got: "unat (shop_balance ?m) = unat (shop_balance s) + unat (cl_collateral_amount cl)"
    using inv who True by (intro shop_receives) (simp_all add: loan_inv_def)
  have balance: "shop_balance t = shop_balance ?m"
    if "CollateralAssetId t = CollateralAssetId s" "PawnShop t = PawnShop s"
      "free_balance (CollateralAssetId s) (PawnShop s) t = free_balance (CollateralAssetId s) (PawnShop s) ?m" for t :: "'a loan_state_scheme"
    using that by (simp add: shop_balance_def)
  have covered: "shop_covers t"
    if "CollateralAssetId t = CollateralAssetId s" "PawnShop t = PawnShop s" "CollectionAssetId t = CollectionAssetId s"
      "LoanAssetId t = LoanAssetId s" "Loans t = Loans s \<or> Loans t = lm_insert (NextLoanId s) l (Loans s)"
      "collateral_balance_original l = cl_collateral_amount cl"
      "free_balance (CollateralAssetId s) (PawnShop s) t = free_balance (CollateralAssetId s) (PawnShop s) ?m" for l and t :: "'a loan_state_scheme"
  proof -
    have "owed_collateral t \<le> unat (cl_collateral_amount cl) + owed_collateral s"
      using that(5)
    proof
      assume "Loans t = Loans s"
      from owed_same [OF this] show ?thesis by simp
    next
      assume "Loans t = lm_insert (NextLoanId s) l (Loans s)"
      from owed_insert [OF next_unissued(1) [OF inv] this] that(6) show ?thesis by simp
    qed
    then show ?thesis
      using balance [OF that(1,2,7)] got covers by (simp add: shop_covers_def separate_def that(1,3,4))
  qed
  let ?t = "?m\<lparr>NextLoanId := NextLoanId s + 1\<rparr>"
  have taken: "shop_covers ?t"
    by (rule covered [of _ "default_loan\<lparr>collateral_balance_original := cl_collateral_amount cl\<rparr>"])
      (simp_all add: ledger_simps)
  have entered: "shop_covers (deposit_loan_event ev ((mutate_loans_by_account who f
      ((moved (CollectionAssetId s) acct w n ?t)\<lparr>Loans := lm_insert (NextLoanId s) l (Loans s)\<rparr>))
      \<lparr>TotalLoan := x, TotalCollateral := y\<rparr>))"
    if "collateral_balance_original l = cl_collateral_amount cl" for ev f acct w l x y
    by (rule covered [of _ l])
      (use that ne in \<open>simp_all add: deposit_loan_event_def mutate_loans_by_account_def ledger_simps\<close>)
  show ?thesis
    using True taken
    by (simp add: open_loan_def make_transfer_with_event_eq Let_def div_then_def ensure_def entered)
next
  case False
  then show ?thesis using covers by (simp add: open_loan_def make_transfer_with_event_eq)
qed

lemma covers_apply:
  "loan_inv s \<Longrightarrow> shop_covers s \<Longrightarrow> who \<noteq> PawnShop s \<Longrightarrow> keeps shop_covers (apply_for_loan who c n s)"
  by (auto simp: apply_for_loan_eq covers_open_loan split: outcome.split)

text \<open>A loan that leaves the book takes its collateral out of the shop, or leaves it there.\<close>

lemma covers_removed:
  assumes covers: "shop_covers s" and present: "map_of (Loans s) lid = Some l"
    and t: "Loans t = lm_remove lid (Loans s)" "CollateralAssetId t = CollateralAssetId s"
      "CollectionAssetId t = CollectionAssetId s" "LoanAssetId t = LoanAssetId s"
    and balance: "unat (shop_balance s) \<le> unat (shop_balance t) + unat (collateral_balance_original l)"
  shows "shop_covers t"
  using owed_remove [OF present t(1)] covers balance by (simp add: shop_covers_def separate_def t(2-))

lemma covers_closed_loan:
  assumes covers: "shop_covers s" and present: "map_of (Loans s) (loan_id l) = Some l" and who: "who \<noteq> PawnShop s"
  shows "shop_covers (closed_loan who l s)"
proof -
  let ?c = "collateral_balance_original l"
  have fits: "?c \<le> free_balance (CollateralAssetId s) (PawnShop s) s"
    using pledge_le_owed [OF present] covers by (simp add: shop_covers_def shop_balance_def word_le_nat_alt)
  have "shop_balance (closed_loan who l s) = shop_balance s - ?c"
    using covers who
    by (auto simp: closed_loan_def Let_def deposit_loan_event_def mutate_loans_by_account_def shop_balance_def
        shop_covers_def separate_def ledger_simps)
  moreover have "unat (shop_balance s - ?c) = unat (shop_balance s) - unat ?c"
    using fits unfolding shop_balance_def by (rule unat_sub_le)
  ultimately have "unat (shop_balance s) \<le> unat (shop_balance (closed_loan who l s)) + unat ?c"
    by simp
  then show ?thesis
    by (rule covers_removed [OF covers present, rotated 4])
      (simp_all add: closed_loan_def Let_def deposit_loan_event_def mutate_loans_by_account_def)
qed

lemma unmoved_moved: "unmoved s t \<Longrightarrow> a \<noteq> CollateralAssetId s \<Longrightarrow> unmoved s (moved a f w n t)"
  by (simp add: unmoved_def held_moved) (auto simp: held_def shop_balance_def ledger_simps)

lemma held_revert:
  assumes "map_of (Loans s) (loan_id l) = Some l"
  shows "held (revert_repay who l s) = held s"
  using pledges_put_back [OF assms]
  by (simp add: revert_repay_def Let_def held_def shop_balance_def mutate_loans_by_account_def)

lemma covers_repay:
  assumes inv: "loan_inv s" and covers: "shop_covers s" and who: "who \<noteq> PawnShop s"
  shows "keeps shop_covers (repay_for_loan who lid s)"
proof (cases "repay_checks who lid s")
  case None
  let ?l = "get_loan_by_id lid s"
  have lid: "loan_id ?l = lid" and present: "map_of (Loans s) lid = Some ?l"
    using loan_inv_ids [OF inv repay_checks_None(1) [OF None]] map_of_get_loan [OF repay_checks_None(1) [OF None]] .
  have ne: "LoanAssetId s \<noteq> CollateralAssetId s" using covers by (auto simp: shop_covers_def separate_def)
  have "unmoved s (mutate_loans_by_account who g s)" for g
    using covers_refl [OF covers] by (simp add: unmoved_def)
  then have "unmoved s (moved (LoanAssetId s) who acct n (mutate_loans_by_account who g s))" for acct n g
    using ne by (rule unmoved_moved)
  then have undone: "unmoved s (revert_repay who ?l (moved (LoanAssetId s) who acct n (mutate_loans_by_account who g s)))" for acct n g
    using present by (simp add: unmoved_def held_revert lid)
  have "keeps (unmoved s) (failed_repay who ?l s)"
    unfolding failed_repay_def Let_def
    by (auto intro!: keeps_intros unmoved_transfer undone simp: unmoved_sel(1) [OF undone] ne)
  then have "keeps shop_covers (failed_repay who ?l s)"
    using covers by (rule covers_unmoved)
  with None show ?thesis
    using covers_closed_loan [OF covers _ who] present
    by (simp add: repay_for_loan_eq loan_inv_ids [OF inv] Let_def lid)
qed (simp add: repay_for_loan_eq loan_inv_ids [OF inv] covers)

lemma settlement_unmoved:
  assumes "separate s" and "settlement l w n s = Done u t"
  shows "unmoved s t"
  using assms
  by (auto simp: settlement_def make_transfer_with_event_eq Let_def or_else_def and_then_def unmoved_refl separate_def
      split: option.splits if_splits intro!: unmoved_moved)

lemma covers_liquidated:
  assumes covers: "shop_covers s" and inv: "loan_inv s" and present: "lm_contains (Loans s) lid"
    and run: "mark_loan_liquidated (get_loan_by_id lid s) w n s = Done u t"
  shows "shop_covers t"
proof -
  let ?l = "get_loan_by_id lid s"
  have lid: "loan_id ?l = lid" using loan_inv_ids [OF inv present] .
  obtain r where r: "settlement ?l w n s = Done () r" and t: "t = liquidated ?l n r"
    using run by (auto simp: mark_loan_liquidated_eq Done_iffs)
  have "unmoved s r"
    using covers settlement_unmoved [OF _ r] by (simp add: shop_covers_def)
  then have r_covers: "shop_covers r" and pledges: "pledges (Loans r) = pledges (Loans s)"
    using covers by (auto intro: unmoved_covers dest: unmoved_sel)
  obtain l' where l': "map_of (Loans r) lid = Some l'"
    using fun_cong [OF pledges, of lid] map_of_get_loan [OF present] by (auto simp: pledges_def)
  show ?thesis
    by (rule covers_removed [OF r_covers l'])
      (simp_all add: t lid shop_balance_def, simp_all add: liquidated_def mutate_loans_by_account_def deposit_loan_event_def)
qed

lemma covers_admin [simp]:
  "shop_covers (s\<lparr>Paused := y1\<rparr>) = shop_covers s" "shop_covers (s\<lparr>CollectionAccountId := y2\<rparr>) = shop_covers s"
  "shop_covers (s\<lparr>GlobalLTVLimit := y3\<rparr>) = shop_covers s"
  "shop_covers (s\<lparr>GlobalLiquidationThreshold := y4\<rparr>) = shop_covers s"
  "shop_covers (s\<lparr>GlobalWarningThreshold := y5\<rparr>) = shop_covers s" "shop_covers (s\<lparr>LoanCap := y6\<rparr>) = shop_covers s"
  "shop_covers (s\<lparr>LiquidationAccount := y7\<rparr>) = shop_covers s" "shop_covers (s\<lparr>ProfitAssetId := y8\<rparr>) = shop_covers s"
  "shop_covers (s\<lparr>ProfitPool := y9\<rparr>) = shop_covers s" "shop_covers (s\<lparr>PenaltyRate := y10\<rparr>) = shop_covers s"
  by (simp_all add: shop_covers_def separate_def owed_collateral_def shop_balance_def)

fun keeps_custody :: "loan_call \<Rightarrow> bool" where
  "keeps_custody (Call_add_collateral lid n) = False"
| "keeps_custody (Call_set_collateral_asset_id aid) = False"
| "keeps_custody (Call_set_collection_asset_id aid) = False"
| "keeps_custody (Call_set_loan_asset_id aid) = False"
| "keeps_custody c = True"

fun settles_loan :: "loan_call \<Rightarrow> bool" where
  "settles_loan (Call_mark_liquidated lid n) = True"
| "settles_loan c = False"

lemma covers_loan_call:
  assumes inv: "loan_inv s" and covers: "shop_covers s" and "orig \<noteq> Signed (PawnShop s)" and "keeps_custody c"
    and "\<not> settles_loan c"
  shows "keeps shop_covers (loan_dispatch orig c s)"
proof -
  note quiet = covers_unmoved [OF unmoved_staking [OF covers_refl [OF covers]] covers]
    covers_unmoved [OF unmoved_redeem [OF covers_refl [OF covers]] covers]
    covers_unmoved [OF unmoved_draw [OF covers_refl [OF covers]] covers]
  have "CollectionAssetId s \<noteq> CollateralAssetId s"
    using covers by (auto simp: shop_covers_def separate_def)
  then show ?thesis
    using assms
    by (cases c; cases orig)
      (auto simp: admin_defs user_defs Let_def intro!: keeps_ensure quiet covers_apply covers_repay)
qed

lemma covers_settled:
  assumes "loan_inv s" and "shop_covers s" and "settles_loan c" and "loan_dispatch orig c s = Done u t"
  shows "shop_covers t"
  using assms
  by (cases c; cases orig) (auto simp: mark_liquidated_def ensure_def Let_def split: if_splits intro: covers_liquidated)

text \<open>A call that fails to settle a loan keeps the book and the assets.\<close>

lemma failed_settlement_book:
  assumes "settles_loan c" and "loan_dispatch orig c s = Fail e t"
  shows "Loans t = Loans s \<and> CollateralAssetId t = CollateralAssetId s \<and> CollectionAssetId t = CollectionAssetId s
    \<and> LoanAssetId t = LoanAssetId s"
proof -
  let ?P = "\<lambda>t. Loans t = Loans s \<and> CollateralAssetId t = CollateralAssetId s
    \<and> CollectionAssetId t = CollectionAssetId s \<and> LoanAssetId t = LoanAssetId s"
  have move: "?P r \<Longrightarrow> keeps ?P (make_transfer_with_event a f w n r)" for a f w n r
    by (simp add: make_transfer_with_event_eq)
  have settled: "keeps ?P (settlement l w n s)" for l w n
    unfolding settlement_def Let_def by (auto intro!: keeps_intros move split: option.split)
  have "?P t" if "mark_loan_liquidated l w n s = Fail e t" for l w n
    using that settled [of l w n]
    by (cases "settlement l w n s") (auto simp: mark_loan_liquidated_eq ensure_def split: if_splits)
  with assms show ?thesis
    by (cases c; cases orig) (auto simp: mark_liquidated_def ensure_def Let_def split: if_splits)
qed

section \<open>The chain\<close>

definition spares_shop :: "origin \<Rightarrow> runtime_call \<Rightarrow> 'a loan_state_scheme \<Rightarrow> bool" where
  "spares_shop orig c s \<longleftrightarrow> orig \<noteq> Signed (PawnShop s)
     \<and> (case c of
          DepositLoan d \<Rightarrow> keeps_custody d
        | GenericAsset g \<Rightarrow> (\<forall>n. g \<noteq> Call_burn (CollateralAssetId s) (PawnShop s) n)
        | NewOracle p \<Rightarrow> True)"

inductive custody_step :: "'a loan_state_scheme \<Rightarrow> 'a loan_state_scheme \<Rightarrow> bool" where
  frame_moves: "custody_step s (s\<lparr>SudoKey := k, BlockNumber := n, ExtrinsicIndex := i, Now := m\<rparr>)"
| opens_block: "runtime_on_initialize n s = Done u t \<Longrightarrow> custody_step s t"
| accepted: "runtime_dispatch orig c s = Done u t \<Longrightarrow> spares_shop orig c s \<Longrightarrow> custody_step s t"
| rejected: "runtime_dispatch orig c s = Fail e t \<Longrightarrow> spares_shop orig c s
    \<Longrightarrow> (\<And>d. c = DepositLoan d \<Longrightarrow> settles_loan d \<Longrightarrow> shop_balance t = shop_balance s) \<Longrightarrow> custody_step s t"
| closes_block: "runtime_on_finalize n s = Done u t \<Longrightarrow> custody_step s t"

lemma custody_step_runtime: "custody_step s t \<Longrightarrow> runtime_step s t"
  by (induction rule: custody_step.induct) (auto intro: runtime_step.intros)

lemma custody_steps_runtime: "(custody_step ^^ k) s t \<Longrightarrow> (runtime_step ^^ k) s t"
  by (induction k arbitrary: t) (auto intro: custody_step_runtime relcomppI)

lemma covers_same:
  assumes "shop_covers s" and "Loans t = Loans s" "CollateralAssetId t = CollateralAssetId s"
    "CollectionAssetId t = CollectionAssetId s" "LoanAssetId t = LoanAssetId s"
    and "shop_balance s \<le> shop_balance t"
  shows "shop_covers t"
  using assms owed_same [of t s] by (simp add: shop_covers_def separate_def word_le_nat_alt)

lemma covers_ga_works:
  fixes s :: "'a loan_state_scheme"
  assumes covers: "shop_covers s" and inv: "loan_inv s" and run: "ga_dispatch orig c s = Done u t"
    and spares: "spares_shop orig (GenericAsset c) s"
  shows "shop_covers t"
proof -
  have "ga_state.more t = ga_state.more s"
    using keepsD_Done [OF ga_dispatch_extension run] .
  then have same: "Loans t = Loans s" "CollateralAssetId t = CollateralAssetId s" "PawnShop t = PawnShop s"
    "CollectionAssetId t = CollectionAssetId s" "LoanAssetId t = LoanAssetId s"
    by (cases s; cases t; simp)+
  have "\<not> free_balance (CollateralAssetId s) (PawnShop s) t < free_balance (CollateralAssetId s) (PawnShop s) s"
    using dispatch_lowers_free [OF loan_invD(1) [OF inv] run, of "CollateralAssetId s" "PawnShop s"] spares
    by (auto simp: spares_shop_def)
  then show ?thesis
    by (intro covers_same [OF covers]) (simp_all add: same shop_balance_def)
qed

lemma covers_storage [simp]:
  "shop_covers (s\<lparr>CryptoPriceSources := x1\<rparr>) = shop_covers s" "shop_covers (s\<lparr>PriceCandidates := x2\<rparr>) = shop_covers s"
  "shop_covers (s\<lparr>CurrentPrice := x3\<rparr>) = shop_covers s" "shop_covers (s\<lparr>NextAggregateAt := x4\<rparr>) = shop_covers s"
  "shop_covers (s\<lparr>SudoKey := k, BlockNumber := n, ExtrinsicIndex := i, Now := m\<rparr>) = shop_covers s"
  by (simp_all add: shop_covers_def separate_def owed_collateral_def shop_balance_def free_balance_def)

lemma covers_oracle: "shop_covers s \<Longrightarrow> keeps shop_covers (oracle_dispatch orig c s)"
  by (cases c; cases orig)
    (simp_all add: add_source_def stack_price_unsigned_def stack_price_signed_def stack_price_def ensure_def)

lemma covers_finalize:
  assumes "runtime_inv n s" and "n < 2 ^ 64" and "runtime_on_finalize h s = Done u t" and "shop_covers s"
  shows "shop_covers t"
proof (cases "h mod AggregateInterval = 0")
  case True
  have "length (price_candidates k s) < 2 ^ 64" for k
    using assms by (meson order.strict_trans1 runtime_inv_def)
  with True oracle_on_finalize_aggregates [of s AggregateInterval h] assms(1,3,4)
  show ?thesis
    by (auto simp: runtime_inv_def runtime_on_finalize_def AggregateInterval_def)
next
  case False
  then show ?thesis
    using assms(3,4) by (simp add: runtime_on_finalize_def oracle_on_finalize_idle AggregateInterval_def)
qed

lemma custody_step_covers:
  assumes "custody_step s t" and inv: "runtime_inv n s" and room: "n < 2 ^ 64" and covers: "shop_covers s"
  shows "shop_covers t"
  using assms(1)
proof cases
  case (opens_block h u)
  then show ?thesis
    using keepsD_Done [OF covers_unmoved [OF unmoved_initialize covers]] inv covers
    by (auto simp: runtime_on_initialize_def runtime_inv_def shop_covers_def)
next
  case (accepted orig c u)
  show ?thesis
  proof (cases c)
    case (DepositLoan d)
    then show ?thesis
      using accepted inv covers covers_settled [of s d orig u t] keepsD_Done [OF covers_loan_call [of s orig d]]
      by (cases "settles_loan d") (auto simp: runtime_inv_def spares_shop_def)
  qed (use accepted inv covers keepsD_Done [OF covers_oracle] in
      \<open>auto simp: runtime_inv_def intro: covers_ga_works\<close>)
next
  case (rejected orig c e)
  show ?thesis
  proof (cases c)
    case (DepositLoan d)
    show ?thesis
    proof (cases "settles_loan d")
      case True
      then have "shop_balance t = shop_balance s" using rejected(3) DepositLoan by blast
      moreover have "loan_dispatch orig d s = Fail e t" using rejected(1) DepositLoan by simp
      moreover note failed_settlement_book [OF True this]
      ultimately show ?thesis by (intro covers_same [OF covers]) auto
    next
      case False
      then have "keeps shop_covers (loan_dispatch orig d s)"
        using rejected(2) DepositLoan inv by (intro covers_loan_call covers) (auto simp: runtime_inv_def spares_shop_def)
      then show ?thesis
        using rejected(1) DepositLoan by simp
    qed
  next
    case (GenericAsset g)
    have "t = s"
      using ga_ledger.error_changes_nothing [of s "(orig, g)" e t] inv rejected(1) GenericAsset
      by (simp add: ga_run_def runtime_inv_def loan_inv_def)
    then show ?thesis using covers by simp
  qed (use rejected keepsD_Fail [OF covers_oracle [OF covers]] in auto)
next
  case (closes_block h u)
  then show ?thesis using covers_finalize [OF inv room _ covers] by blast
qed (simp add: covers)

lemma custody_steps_cover:
  "(custody_step ^^ k) s t \<Longrightarrow> runtime_inv n s \<Longrightarrow> n + k < 2 ^ 64 \<Longrightarrow> shop_covers s \<Longrightarrow> shop_covers t"
proof (induction k arbitrary: t)
  case (Suc k)
  then obtain r where r: "(custody_step ^^ k) s r" "custody_step r t" by auto
  have "runtime_inv (n + k) r"
    using runtime_steps_inv [OF custody_steps_runtime [OF r(1)]] Suc.prems by simp
  with Suc.IH [OF r(1)] Suc.prems r(2) show ?case
    by (intro custody_step_covers [of r t "n + k"]) simp_all
qed simp

lemma testnet_genesis_covers:
  assumes "testnet_genesis seed_account sys = Done u g"
  shows "shop_covers g"
  using assms
  by (auto simp: testnet_genesis_def shop_covers_def separate_def owed_collateral_def loan_genesis_build_def
      oracle_genesis_build_def oracle_state.defs testnet_loan_genesis_def split: outcome.splits)

lemma repay_returns_collateral:
  assumes inv: "loan_inv s" and covers: "shop_covers s" and "\<not> Paused s"
    and l: "map_of (Loans s) lid = Some l" and healthy: "lid \<notin> set (get_liquidating_loans s)"
    and owner: "loan_who l \<noteq> PawnShop s"
    and funds: "loan_balance_total l \<le> free_balance (LoanAssetId s) (loan_who l) s"
    and available: "collateral_balance_available l \<le> collateral_balance_original l"
  shows "\<exists>t. repay_loan (Signed (loan_who l)) lid s = Done () t \<and> map_of (Loans t) lid = None
    \<and> free_balance (CollateralAssetId s) (loan_who l) t
        = free_balance (CollateralAssetId s) (loan_who l) s + collateral_balance_original l"
proof -
  have present: "lm_contains (Loans s) lid" using l by (simp add: lm_contains_def)
  have get: "get_loan_by_id lid s = l" using map_of_get_loan [OF present] l by simp
  have lid: "loan_id l = lid" using loan_inv_ids [OF inv present] get by simp
  have ne: "LoanAssetId s \<noteq> CollateralAssetId s" using covers by (auto simp: shop_covers_def separate_def)
  have "collateral_balance_original l \<le> free_balance (CollateralAssetId s) (PawnShop s) s"
    using pledge_le_owed [OF l] covers by (simp add: shop_covers_def shop_balance_def word_le_nat_alt)
  moreover from this have "repay_checks (loan_who l) lid s = None"
    using present funds healthy order_trans [OF available]
    by (simp add: repay_checks_def get check_loan_in_liquidation_def)
  ultimately have "repay_loan (Signed (loan_who l)) lid s = Done () (closed_loan (loan_who l) l s)"
    using assms(3) ne
    by (simp add: repay_loan_def repay_for_loan_eq [OF loan_inv_ids [OF inv]] get Let_def ledger_simps)
  then show ?thesis
    using owner ne
    by (auto simp: closed_loan_def Let_def lid deposit_loan_event_def mutate_loans_by_account_def ledger_simps)
qed

text \<open>C8: The pawn shop holds the collateral of the open loans: from a state in which it does, such as the
  genesis of the testnet (\<open>testnet_genesis_covers\<close>), and through any steps of the chain in which the
  shop signs nothing and is not burned from, the root leaves the three assets alone, nobody adds collateral
  to a loan and no failing settlement hands collateral out, what it holds of the collateral asset covers
  what all loans pledged.  So in each such state, unless the root has paused the pallet, the owner of a loan
  that is not in liquidation can repay it and gets the whole collateral back, provided that he is not the
  pawn shop itself, holds the debt, and the available part of his collateral is at most what he pledged
  (a draw beyond its value, which limits above 100 per cent allow, makes that part wrap around).\<close>

theorem pawn_shop_backs_loans:
  assumes "runtime_inv n s" and "shop_covers s" and "(custody_step ^^ k) s t" and "n + k < 2 ^ 64"
  shows "(\<Sum>lid\<in>dom (map_of (Loans t)). unat (collateral_balance_original (the (map_of (Loans t) lid))))
      \<le> unat (free_balance (CollateralAssetId t) (PawnShop t) t)
    \<and> (\<forall>lid l. map_of (Loans t) lid = Some l \<longrightarrow> lid \<notin> set (get_liquidating_loans t) \<longrightarrow> \<not> Paused t
        \<longrightarrow> loan_who l \<noteq> PawnShop t \<longrightarrow> loan_balance_total l \<le> free_balance (LoanAssetId t) (loan_who l) t
        \<longrightarrow> collateral_balance_available l \<le> collateral_balance_original l
        \<longrightarrow> (\<exists>t'. repay_loan (Signed (loan_who l)) lid t = Done () t' \<and> map_of (Loans t') lid = None
          \<and> free_balance (CollateralAssetId t) (loan_who l) t'
              = free_balance (CollateralAssetId t) (loan_who l) t + collateral_balance_original l))"
proof -
  have "loan_inv t"
    using runtime_steps_inv [OF custody_steps_runtime [OF assms(3)] assms(1,4)] by (simp add: runtime_inv_def)
  moreover have covers: "shop_covers t" by (rule custody_steps_cover [OF assms(3,1,4,2)])
  ultimately have "\<exists>t'. repay_loan (Signed (loan_who l)) lid t = Done () t' \<and> map_of (Loans t') lid = None
      \<and> free_balance (CollateralAssetId t) (loan_who l) t'
          = free_balance (CollateralAssetId t) (loan_who l) t + collateral_balance_original l"
    if "map_of (Loans t) lid = Some l" "lid \<notin> set (get_liquidating_loans t)" "\<not> Paused t" "loan_who l \<noteq> PawnShop t"
      "loan_balance_total l \<le> free_balance (LoanAssetId t) (loan_who l) t"
      "collateral_balance_available l \<le> collateral_balance_original l" for lid l
    using that by (intro repay_returns_collateral)
  with covers show ?thesis
    by (simp add: shop_covers_def owed_collateral_def total_of_def shop_balance_def)
qed

text \<open>Account 4 draws 300 from somebody else's loan, which fails; the owner of the loan then repays it.\<close>

lemma pawn_shop_backs_loans_witness:
  "\<exists>t t'. custody_step demo_lent t \<and> repay_loan (Signed 3) 0 t = Done () t'
    \<and> map_of (Loans t') 0 = None \<and> free_balance 1 3 t' = free_balance 1 3 t + 1000"
proof -
  let ?l = "\<lparr>loan_id = 0, loan_who = 3, collateral_balance_original = 1000,
      collateral_balance_available = 1000, loan_balance_total = 800, loan_status = Well\<rparr>"
  have l: "map_of (Loans demo_lent) 0 = Some ?l" "lm_contains (Loans demo_lent) 0" "get_loan_by_id 0 demo_lent = ?l"
    by (simp_all add: demo_lent_loans lm_contains_def get_loan_by_id_def lm_get_def)
  have config: "PawnShop demo_lent = 11" "CollateralAssetId demo_lent = 1" "CollectionAssetId demo_lent = 0"
    "LoanAssetId demo_lent = 0" "\<not> Paused demo_lent" "get_liquidating_loans demo_lent = []"
    by (simp_all add: demo_lent_def)
  have bal: "free_balance 0 3 demo_lent = 800" "free_balance 1 11 demo_lent = 1000"
    by (simp_all add: demo_lent_def free_balance_opened demo_loans_reads)
  have covers: "shop_covers demo_lent"
    by (simp add: shop_covers_def separate_def owed_collateral_def total_of_def shop_balance_def config bal demo_lent_loans)
  have "draw (Signed 4) 0 300 demo_lent = Fail (Other ''can't draw from others loan'') demo_lent"
    by (simp add: draw_def draw_from_loan_def config l)
  then have step: "custody_step demo_lent demo_lent"
    using rejected [of "Signed 4" "DepositLoan (Call_draw 0 300)" demo_lent] by (simp add: spares_shop_def config)
  then have "(custody_step ^^ 1) demo_lent demo_lent" by (simp add: OO_def)
  from conjunct2 [OF pawn_shop_backs_loans [OF demo_runtime_inv(2) covers this], rule_format, OF _ l(1)]
  have "\<exists>t'. repay_loan (Signed 3) 0 demo_lent = Done () t' \<and> map_of (Loans t') 0 = None
      \<and> free_balance 1 3 t' = free_balance 1 3 demo_lent + 1000"
    by (simp add: config bal)
  with step show ?thesis by blast
qed

end
