(* ===== verification/Bridge.thy ===== *)
theory Bridge
  imports Asset_Properties "HOL-Library.Multiset"
begin

text \<open>
  The bridge pallet (runtime/modules/bridge/src/lib.rs): deposits of BTC are credited as a shadow
  asset by authorised accounts, large ones wait until the receiver is on the white list;
  withdrawals wait in a vault until they are finished or refunded.  The shadow asset lives in the
  generic-asset pallet, so the storage extends its.
\<close>

section \<open>Data and storage\<close>

datatype black_or_white = Black | White

datatype auth = All | Deposit | Withdraw | Refund | Mark

type_synonym tx_hash = "256 word"

record deposit =
  dep_account :: account_id
  dep_tx_hash :: "tx_hash option"
  dep_amount :: balance

datatype bridge_event =
    AccountMarked account_id black_or_white
  | Ev_Deposit account_id balance tx_hash
  | Ev_Pending account_id balance tx_hash
  | Ev_PendingWithdraw account_id balance
  | Ev_Refund account_id balance
  | Ev_Withdraw account_id balance

record bridge_state = ga_state +
  BridgeAssetId :: asset_id
  BridgePaused :: bool
  KycList :: "(account_id, black_or_white) linked_map"
  Threshold :: balance
  Admins :: "(account_id, auth) linked_map"
  PendingDepositList :: "(account_id, deposit list) linked_map"
  DepositHistory :: "(tx_hash, deposit) linked_map"
  PendingWithdraws :: "(account_id, balance list) linked_map"
  PendingWithdrawVault :: account_id
  BridgeEvents :: "bridge_event list"

definition deposit_bridge_event :: "bridge_event \<Rightarrow> 'a bridge_state_scheme \<Rightarrow> 'a bridge_state_scheme" where
  "deposit_bridge_event ev s = s\<lparr>BridgeEvents := BridgeEvents s @ [ev]\<rparr>"

definition pending_withdraws :: "account_id \<Rightarrow> 'a bridge_state_scheme \<Rightarrow> balance list" where
  "pending_withdraws who s = lm_get [] (PendingWithdraws s) who"

definition pending_deposits :: "account_id \<Rightarrow> 'a bridge_state_scheme \<Rightarrow> deposit list" where
  "pending_deposits who s = lm_get [] (PendingDepositList s) who"

section \<open>The functions of the module\<close>

definition is_tx_seen :: "tx_hash \<Rightarrow> 'a bridge_state_scheme \<Rightarrow> bool" where
  "is_tx_seen h s = lm_contains (DepositHistory s) h"

definition simple_deposit_with_event ::
    "account_id \<Rightarrow> balance \<Rightarrow> tx_hash \<Rightarrow> 'a bridge_state_scheme \<Rightarrow> (unit, 'a bridge_state_scheme) dispatch" where
  "simple_deposit_with_event account amount h s =
     (let dep = \<lparr>dep_account = account, dep_tx_hash = None, dep_amount = amount\<rparr>;
          s = s\<lparr>DepositHistory := lm_insert h dep (DepositHistory s)\<rparr>
      in and_then (mint_free (BridgeAssetId s) (SudoKey s) account amount s) (\<lambda>_ s.
           Done () (deposit_bridge_event (Ev_Deposit account amount h) s)))"

definition hold_deposit_with_event ::
    "account_id \<Rightarrow> balance \<Rightarrow> tx_hash \<Rightarrow> 'a bridge_state_scheme \<Rightarrow> (unit, 'a bridge_state_scheme) dispatch" where
  "hold_deposit_with_event account amount h s =
     (let dep = \<lparr>dep_account = account, dep_tx_hash = None, dep_amount = amount\<rparr>;
          s = s\<lparr>DepositHistory := lm_insert h dep (DepositHistory s)\<rparr>;
          dep = dep\<lparr>dep_tx_hash := Some h\<rparr>;
          s = s\<lparr>PendingDepositList := lm_mutate [] account (\<lambda>v. v @ [dep]) (PendingDepositList s)\<rparr>
      in Done () (deposit_bridge_event (Ev_Pending account amount h) s))"

definition has_auth :: "account_id \<Rightarrow> auth \<Rightarrow> 'a bridge_state_scheme \<Rightarrow> bool" where
  "has_auth account au s =
     (if \<not> lm_contains (Admins s) account then False
      else let account_auth = lm_get All (Admins s) account
           in account_auth = All \<or> account_auth = au)"

text \<open>The loop that drops the first occurrence of an amount.\<close>

fun drop_first_amount :: "bool \<Rightarrow> balance \<Rightarrow> balance list \<Rightarrow> balance list" where
  "drop_first_amount found amount [] = []"
| "drop_first_amount found amount (amt # pendings) =
     (if found \<or> amt \<noteq> amount then amt # drop_first_amount found amount pendings
      else drop_first_amount True amount pendings)"

definition remove_from_pending_withdraws ::
    "account_id \<Rightarrow> balance \<Rightarrow> 'a bridge_state_scheme \<Rightarrow> 'a bridge_state_scheme" where
  "remove_from_pending_withdraws who amount s =
     (let pendings = pending_withdraws who s;
          s = s\<lparr>PendingWithdraws := lm_remove who (PendingWithdraws s)\<rparr>
      in if 1 < length pendings
         then s\<lparr>PendingWithdraws := lm_insert who (drop_first_amount False amount pendings) (PendingWithdraws s)\<rparr>
         else s)"

definition mark :: "account_id \<Rightarrow> black_or_white \<Rightarrow> 'a bridge_state_scheme \<Rightarrow> 'a bridge_state_scheme" where
  "mark account bow s = s\<lparr>KycList := lm_insert account bow (KycList s)\<rparr>"

definition mark_with_event :: "account_id \<Rightarrow> black_or_white \<Rightarrow> 'a bridge_state_scheme \<Rightarrow> 'a bridge_state_scheme" where
  "mark_with_event account bow s = deposit_bridge_event (AccountMarked account bow) (mark account bow s)"

definition check_list :: "account_id \<Rightarrow> 'a bridge_state_scheme \<Rightarrow> black_or_white option" where
  "check_list account s =
     (if lm_contains (KycList s) account then Some (lm_get Black (KycList s) account) else None)"

section \<open>Dispatchables\<close>

definition bridge_pause :: "origin \<Rightarrow> 'a bridge_state_scheme \<Rightarrow> (unit, 'a bridge_state_scheme) dispatch" where
  "bridge_pause orig s = and_then (ensure_root orig s) (\<lambda>_ s. Done () (s\<lparr>BridgePaused := True\<rparr>))"

definition bridge_resume :: "origin \<Rightarrow> 'a bridge_state_scheme \<Rightarrow> (unit, 'a bridge_state_scheme) dispatch" where
  "bridge_resume orig s = and_then (ensure_root orig s) (\<lambda>_ s. Done () (s\<lparr>BridgePaused := False\<rparr>))"

definition bridge_deposit ::
    "origin \<Rightarrow> account_id \<Rightarrow> balance \<Rightarrow> tx_hash \<Rightarrow> 'a bridge_state_scheme \<Rightarrow> (unit, 'a bridge_state_scheme) dispatch" where
  "bridge_deposit orig account amount h s =
     ensure (\<not> is_tx_seen h s) (Other ''repeated transaction'') s (
     and_then (ensure_signed orig s) (\<lambda>who s.
     ensure (has_auth who Deposit s) (Other ''no deposit auth'') s (
       if Threshold s \<le> amount \<and> (check_list account s = None \<or> check_list account s = Some Black)
       then hold_deposit_with_event account amount h s
       else simple_deposit_with_event account amount h s)))"

definition refund ::
    "origin \<Rightarrow> account_id \<Rightarrow> balance \<Rightarrow> 'a bridge_state_scheme \<Rightarrow> (unit, 'a bridge_state_scheme) dispatch" where
  "refund orig who amount s =
     and_then (ensure_signed orig s) (\<lambda>author s.
     ensure (has_auth author Refund s) (Other ''no refund auth'') s (
     ensure (amount \<in> set (pending_withdraws who s)) (Other ''pending withdraw not found'') s (
     and_then (make_transfer_with_event (BridgeAssetId s) (PendingWithdrawVault s) who amount s) (\<lambda>_ s.
       Done () (deposit_bridge_event (Ev_Refund who amount) (remove_from_pending_withdraws who amount s))))))"

definition withdraw_finish ::
    "origin \<Rightarrow> account_id \<Rightarrow> balance \<Rightarrow> 'a bridge_state_scheme \<Rightarrow> (unit, 'a bridge_state_scheme) dispatch" where
  "withdraw_finish orig who amount s =
     and_then (ensure_signed orig s) (\<lambda>author s.
     ensure (has_auth author Withdraw s) (Other ''no withdraw auth'') s (
     ensure (amount \<in> set (pending_withdraws who s)) (Other ''pending withdraw not found'') s (
       Done () (deposit_bridge_event (Ev_Withdraw who amount) (remove_from_pending_withdraws who amount s)))))"

definition withdraw ::
    "origin \<Rightarrow> balance \<Rightarrow> 'a bridge_state_scheme \<Rightarrow> (unit, 'a bridge_state_scheme) dispatch" where
  "withdraw orig amount s =
     and_then (ensure_signed orig s) (\<lambda>who s.
     and_then (make_transfer_with_event (BridgeAssetId s) who (PendingWithdrawVault s) amount s) (\<lambda>_ s.
       let s = (if lm_contains (PendingWithdraws s) who
                then s\<lparr>PendingWithdraws := lm_mutate [] who (\<lambda>v. v @ [amount]) (PendingWithdraws s)\<rparr>
                else s\<lparr>PendingWithdraws := lm_insert who [amount] (PendingWithdraws s)\<rparr>)
       in Done () (deposit_bridge_event (Ev_PendingWithdraw who amount) s)))"

definition mark_black :: "origin \<Rightarrow> account_id \<Rightarrow> 'a bridge_state_scheme \<Rightarrow> (unit, 'a bridge_state_scheme) dispatch" where
  "mark_black orig account s =
     and_then (ensure_signed orig s) (\<lambda>who s.
     ensure (has_auth who Mark s) (Other ''no mark auth'') s (
       let pendings = pending_deposits account s;
           s = s\<lparr>PendingDepositList := lm_remove account (PendingDepositList s)\<rparr>
       in and_then
            (for_each (\<lambda>v s. unwrap_then (dep_tx_hash v) (\<lambda>h.
                Done () (s\<lparr>DepositHistory := lm_remove h (DepositHistory s)\<rparr>))) pendings s)
            (\<lambda>_ s. Done () (mark_with_event account Black s))))"

text \<open>The loop of \<open>mark_white\<close>, which puts the rest back when a deposit fails.\<close>

fun release_pendings ::
    "account_id \<Rightarrow> deposit list \<Rightarrow> 'a bridge_state_scheme \<Rightarrow> (unit, 'a bridge_state_scheme) dispatch" where
  "release_pendings account [] s = Done () s"
| "release_pendings account (p # pendings) s =
     unwrap_then (dep_tx_hash p) (\<lambda>h.
     and_then
       (or_else (simple_deposit_with_event (dep_account p) (dep_amount p) h s)
         (\<lambda>err s. Fail err (s\<lparr>PendingDepositList := lm_insert account (p # pendings) (PendingDepositList s)\<rparr>)))
       (\<lambda>_ s. release_pendings account pendings s))"

definition mark_white :: "origin \<Rightarrow> account_id \<Rightarrow> 'a bridge_state_scheme \<Rightarrow> (unit, 'a bridge_state_scheme) dispatch" where
  "mark_white orig account s =
     and_then (ensure_signed orig s) (\<lambda>who s.
     ensure (has_auth who Mark s) (Other ''no mark auth'') s (
       let pendings = pending_deposits account s;
           s = s\<lparr>PendingDepositList := lm_remove account (PendingDepositList s)\<rparr>
       in and_then (release_pendings account pendings s) (\<lambda>_ s.
            Done () (mark_with_event account White s))))"

datatype bridge_call =
    Call_bridge_pause
  | Call_bridge_resume
  | Call_deposit account_id balance tx_hash
  | Call_refund account_id balance
  | Call_withdraw_finish account_id balance
  | Call_withdraw balance
  | Call_mark_black account_id
  | Call_mark_white account_id

fun bridge_dispatch ::
    "origin \<Rightarrow> bridge_call \<Rightarrow> 'a bridge_state_scheme \<Rightarrow> (unit, 'a bridge_state_scheme) dispatch" where
  "bridge_dispatch orig Call_bridge_pause s = bridge_pause orig s"
| "bridge_dispatch orig Call_bridge_resume s = bridge_resume orig s"
| "bridge_dispatch orig (Call_deposit a n h) s = bridge_deposit orig a n h s"
| "bridge_dispatch orig (Call_refund a n) s = refund orig a n s"
| "bridge_dispatch orig (Call_withdraw_finish a n) s = withdraw_finish orig a n s"
| "bridge_dispatch orig (Call_withdraw n) s = withdraw orig n s"
| "bridge_dispatch orig (Call_mark_black a) s = mark_black orig a s"
| "bridge_dispatch orig (Call_mark_white a) s = mark_white orig a s"

section \<open>Genesis\<close>

definition bridge_genesis_build ::
    "asset_id \<Rightarrow> balance \<Rightarrow> account_id \<Rightarrow> (account_id \<times> auth) list \<Rightarrow> ga_state \<Rightarrow> bridge_state" where
  "bridge_genesis_build aid threshold vault admins s =
     ga_state.extend s
       \<lparr>BridgeAssetId = aid, BridgePaused = False, KycList = [], Threshold = threshold,
        Admins = fold (\<lambda>(k, v). lm_insert k v) admins [],
        PendingDepositList = [], DepositHistory = [], PendingWithdraws = [],
        PendingWithdrawVault = vault, BridgeEvents = []\<rparr>"

end
