(* ===== verification/Bridge_Properties.thy ===== *)
theory Bridge_Properties
  imports Bridge
begin

text \<open>
  The properties of the bridge: no Bitcoin transaction is credited twice over any history of calls,
  a deposit whose minting fails is lost, and a withdrawal that is refunded leaves no trace.
\<close>

section \<open>The fields of the bridge do not matter to the ledger\<close>

lemma bridge_free_balance [simp]:
  "free_balance aid w (s\<lparr>BridgePaused := x1\<rparr>) = free_balance aid w s"
  "free_balance aid w (s\<lparr>KycList := x2\<rparr>) = free_balance aid w s"
  "free_balance aid w (s\<lparr>PendingDepositList := x3\<rparr>) = free_balance aid w s"
  "free_balance aid w (s\<lparr>DepositHistory := x4\<rparr>) = free_balance aid w s"
  "free_balance aid w (s\<lparr>PendingWithdraws := x5\<rparr>) = free_balance aid w s"
  "free_balance aid w (s\<lparr>BridgeEvents := x6\<rparr>) = free_balance aid w s"
  by (simp_all add: free_balance_def)

lemma bridge_ga_inv [simp]:
  "ga_inv (s\<lparr>BridgePaused := x1\<rparr>) = ga_inv s"
  "ga_inv (s\<lparr>KycList := x2\<rparr>) = ga_inv s"
  "ga_inv (s\<lparr>PendingDepositList := x3\<rparr>) = ga_inv s"
  "ga_inv (s\<lparr>DepositHistory := x4\<rparr>) = ga_inv s"
  "ga_inv (s\<lparr>PendingWithdraws := x5\<rparr>) = ga_inv s"
  "ga_inv (s\<lparr>BridgeEvents := x6\<rparr>) = ga_inv s"
  by (simp_all add: ga_inv_def unused_id_def solvent_def all_holdings_def holdings_def
      free_balance_def reserved_balance_def total_issuance_def)

lemma bridge_fields_moved [simp]:
  "BridgeAssetId (moved a f t n s) = BridgeAssetId s" "KycList (moved a f t n s) = KycList s"
  "Threshold (moved a f t n s) = Threshold s" "Admins (moved a f t n s) = Admins s"
  "PendingDepositList (moved a f t n s) = PendingDepositList s"
  "DepositHistory (moved a f t n s) = DepositHistory s"
  "PendingWithdraws (moved a f t n s) = PendingWithdraws s"
  "PendingWithdrawVault (moved a f t n s) = PendingWithdrawVault s"
  "BridgeEvents (moved a f t n s) = BridgeEvents s"
  by (simp_all add: moved_def deposit_ga_event_def set_free_balance_def)

lemma bridge_fields_minted:
  assumes "mint_free aid who w n s = Done u s'"
  shows "PendingDepositList s' = PendingDepositList s" "DepositHistory s' = DepositHistory s"
    "BridgeEvents s' = BridgeEvents s" "PendingWithdraws s' = PendingWithdraws s"
  using assms by (simp_all add: mint_free_Done_iff set_free_balance_def set_total_issuance_def)

section \<open>What has been credited\<close>

fun minted_by :: "bridge_event \<Rightarrow> tx_hash list" where
  "minted_by (Ev_Deposit a n h) = [h]"
| "minted_by _ = []"

definition minted :: "'a bridge_state_scheme \<Rightarrow> tx_hash list" where
  "minted s = concat (map minted_by (BridgeEvents s))"

definition hashes :: "deposit list \<Rightarrow> tx_hash list" where
  "hashes ds = map (the \<circ> dep_tx_hash) ds"

text \<open>
  \<open>M\<close> are the hashes credited so far, \<open>S\<close> those in the history, \<open>P\<close> those waiting for each account.
\<close>

definition credit_ok :: "tx_hash list \<Rightarrow> tx_hash set \<Rightarrow> (account_id \<Rightarrow> tx_hash list) \<Rightarrow> bool" where
  "credit_ok M S P \<longleftrightarrow> distinct M \<and> set M \<subseteq> S
     \<and> (\<forall>a. distinct (P a) \<and> set (P a) \<subseteq> S \<and> set (P a) \<inter> set M = {})
     \<and> (\<forall>a b. a \<noteq> b \<longrightarrow> set (P a) \<inter> set (P b) = {})"

definition seen :: "'a bridge_state_scheme \<Rightarrow> tx_hash set" where
  "seen s = {h. is_tx_seen h s}"

definition waiting :: "'a bridge_state_scheme \<Rightarrow> account_id \<Rightarrow> tx_hash list" where
  "waiting s a = hashes (pending_deposits a s)"

definition all_hashed :: "deposit list \<Rightarrow> bool" where
  "all_hashed ds \<longleftrightarrow> (\<forall>d\<in>set ds. dep_tx_hash d \<noteq> None)"

definition credit_inv :: "'a bridge_state_scheme \<Rightarrow> bool" where
  "credit_inv s \<longleftrightarrow> (\<forall>a. all_hashed (pending_deposits a s)) \<and> credit_ok (minted s) (seen s) (waiting s)"

lemma seen_simps [simp]:
  "seen (s\<lparr>DepositHistory := lm_insert h d (DepositHistory s)\<rparr>) = insert h (seen s)"
  "seen (s\<lparr>DepositHistory := lm_remove h (DepositHistory s)\<rparr>) = seen s - {h}"
  by (auto simp: seen_def is_tx_seen_def)

lemma credit_reads_event [simp]:
  "seen (deposit_bridge_event ev s) = seen s" "waiting (deposit_bridge_event ev s) = waiting s"
  "pending_deposits a (deposit_bridge_event ev s) = pending_deposits a s"
  "minted (deposit_bridge_event ev s) = minted s @ minted_by ev"
  by (simp_all add: deposit_bridge_event_def seen_def is_tx_seen_def waiting_def [abs_def] pending_deposits_def minted_def)

lemma credit_reads_frame [simp]:
  "seen (s\<lparr>PendingDepositList := x1\<rparr>) = seen s" "minted (s\<lparr>PendingDepositList := x1\<rparr>) = minted s"
  "waiting (s\<lparr>DepositHistory := x2\<rparr>) = waiting s" "minted (s\<lparr>DepositHistory := x2\<rparr>) = minted s"
  "pending_deposits a (s\<lparr>DepositHistory := x2\<rparr>) = pending_deposits a s"
  by (simp_all add: seen_def is_tx_seen_def waiting_def [abs_def] pending_deposits_def minted_def)

text \<open>The invariant depends on three fields only.\<close>

lemma credit_inv_cong:
  "PendingDepositList t = PendingDepositList s \<Longrightarrow> DepositHistory t = DepositHistory s \<Longrightarrow>
     BridgeEvents t = BridgeEvents s \<Longrightarrow> credit_inv t = credit_inv s"
  by (simp add: credit_inv_def pending_deposits_def minted_def seen_def is_tx_seen_def waiting_def [abs_def])

lemma credit_inv_event: "minted_by ev = [] \<Longrightarrow> credit_inv (deposit_bridge_event ev s) = credit_inv s"
  by (simp add: credit_inv_def)

lemma credit_ok_mono: "credit_ok M S P \<Longrightarrow> S \<subseteq> S' \<Longrightarrow> credit_ok M S' P"
  unfolding credit_ok_def by blast

lemma credit_ok_drop: "credit_ok M S P \<Longrightarrow> credit_ok M S (P(a := []))"
  unfolding credit_ok_def by simp

text \<open>A hash not seen before is credited, or waits.\<close>

lemma credit_ok_mint: "credit_ok M S P \<Longrightarrow> h \<notin> S \<Longrightarrow> credit_ok (M @ [h]) (insert h S) P"
  unfolding credit_ok_def by auto

lemma credit_ok_hold: "credit_ok M S P \<Longrightarrow> h \<notin> S \<Longrightarrow> credit_ok M (insert h S) (P(a := P a @ [h]))"
  unfolding credit_ok_def by auto

text \<open>A waiting hash is credited, or dropped.\<close>

lemma credit_ok_release: "credit_ok M S (P(a := h # hs)) \<Longrightarrow> credit_ok (M @ [h]) (insert h S) (P(a := hs))"
  unfolding credit_ok_def by (auto split: if_splits)

lemma credit_ok_forget: "credit_ok M S (P(a := h # hs)) \<Longrightarrow> credit_ok M (S - {h}) (P(a := hs))"
  unfolding credit_ok_def by (auto split: if_splits)

section \<open>Every call keeps the invariant\<close>

definition bridge_inv :: "'a bridge_state_scheme \<Rightarrow> bool" where
  "bridge_inv s \<longleftrightarrow> ga_inv s \<and> credit_inv s"

lemma waiting_write:
  "waiting (s\<lparr>PendingDepositList := lm_mutate [] a f (PendingDepositList s')\<rparr>)
     = (waiting s')(a := hashes (f (pending_deposits a s')))"
  "waiting (s\<lparr>PendingDepositList := lm_insert a ds (PendingDepositList s')\<rparr>) = (waiting s')(a := hashes ds)"
  "waiting (s\<lparr>PendingDepositList := lm_remove a (PendingDepositList s')\<rparr>) = (waiting s')(a := [])"
  by (auto simp: waiting_def pending_deposits_def hashes_def)

lemma pending_write:
  "pending_deposits b (s\<lparr>PendingDepositList := lm_mutate [] a f (PendingDepositList s')\<rparr>)
     = (if b = a then f (pending_deposits a s') else pending_deposits b s')"
  "pending_deposits b (s\<lparr>PendingDepositList := lm_insert a ds (PendingDepositList s')\<rparr>)
     = (if b = a then ds else pending_deposits b s')"
  "pending_deposits b (s\<lparr>PendingDepositList := lm_remove a (PendingDepositList s')\<rparr>)
     = (if b = a then [] else pending_deposits b s')"
  by (simp_all add: pending_deposits_def)

lemma simple_deposit_Done:
  assumes "simple_deposit_with_event a n h s = Done u t"
  shows "minted t = minted s @ [h]" "seen t = insert h (seen s)" "waiting t = waiting s"
    "pending_deposits b t = pending_deposits b s" "ga_inv s \<Longrightarrow> ga_inv t"
proof -
  obtain s' where mint: "mint_free (BridgeAssetId s) (SudoKey s) a n
      (s\<lparr>DepositHistory := lm_insert h \<lparr>dep_account = a, dep_tx_hash = None, dep_amount = n\<rparr> (DepositHistory s)\<rparr>) = Done () s'"
    and t: "t = deposit_bridge_event (Ev_Deposit a n h) s'"
    using assms by (auto simp: simple_deposit_with_event_def Let_def Done_iffs)
  note fields = bridge_fields_minted [OF mint]
  show "minted t = minted s @ [h]" "waiting t = waiting s" "pending_deposits b t = pending_deposits b s"
    by (simp_all add: t fields minted_def pending_deposits_def waiting_def [abs_def] deposit_bridge_event_def)
  show "seen t = insert h (seen s)"
    by (auto simp: t seen_def is_tx_seen_def fields deposit_bridge_event_def)
  show "ga_inv t" if "ga_inv s"
    using keepsD_Done [OF ga_inv_mint_free mint] that by (simp add: t deposit_bridge_event_def)
qed

lemma simple_deposit_Fail:
  assumes "simple_deposit_with_event a n h s = Fail e t"
  shows "t = s\<lparr>DepositHistory := lm_insert h \<lparr>dep_account = a, dep_tx_hash = None, dep_amount = n\<rparr> (DepositHistory s)\<rparr>"
  using assms mint_free_Fail
  by (auto simp: simple_deposit_with_event_def Let_def and_then_def split: outcome.splits)

lemma simple_deposit_not_Panic: "simple_deposit_with_event a n h s \<noteq> Panic"
  by (simp add: simple_deposit_with_event_def Let_def and_then_Panic_iff mint_free_def ok_or_def split: option.split)

lemma bridge_inv_simple_deposit:
  assumes inv: "bridge_inv s" and new: "\<not> is_tx_seen h s"
  shows "keeps bridge_inv (simple_deposit_with_event a n h s)"
proof (cases "simple_deposit_with_event a n h s")
  case (Done u t)
  have "credit_ok (minted s @ [h]) (insert h (seen s)) (waiting s)"
    using inv new by (intro credit_ok_mint) (simp_all add: bridge_inv_def credit_inv_def seen_def)
  then show ?thesis
    using inv simple_deposit_Done [OF Done] by (simp add: Done bridge_inv_def credit_inv_def)
next
  case (Fail e t)
  have "credit_ok (minted s) (insert h (seen s)) (waiting s)"
    using inv credit_ok_mono [of "minted s" "seen s" "waiting s"] by (auto simp: bridge_inv_def credit_inv_def)
  then show ?thesis
    using inv simple_deposit_Fail [OF Fail] by (simp add: Fail bridge_inv_def credit_inv_def)
qed simp

lemma bridge_inv_hold_deposit:
  assumes inv: "bridge_inv s" and new: "\<not> is_tx_seen h s"
  shows "keeps bridge_inv (hold_deposit_with_event a n h s)"
proof -
  have "credit_ok (minted s) (insert h (seen s)) ((waiting s)(a := waiting s a @ [h]))"
    using inv new by (intro credit_ok_hold) (simp_all add: bridge_inv_def credit_inv_def seen_def)
  moreover have "hashes (pending_deposits a s @ [d]) = waiting s a @ [the (dep_tx_hash d)]" for d
    by (simp add: hashes_def waiting_def)
  ultimately show ?thesis
    using inv
    by (simp add: hold_deposit_with_event_def Let_def bridge_inv_def credit_inv_def waiting_write pending_write)
      (simp add: all_hashed_def deposit_bridge_event_def)
qed

text \<open>The loop of \<open>mark_white\<close>: the deposits in hand have left the pending list.\<close>

definition in_hand :: "account_id \<Rightarrow> deposit list \<Rightarrow> 'a bridge_state_scheme \<Rightarrow> bool" where
  "in_hand a ds s \<longleftrightarrow> ga_inv s \<and> all_hashed ds \<and> (\<forall>b. all_hashed (pending_deposits b s))
     \<and> pending_deposits a s = [] \<and> credit_ok (minted s) (seen s) ((waiting s)(a := hashes ds))"

lemma in_hand_Nil: "in_hand a [] s \<Longrightarrow> bridge_inv s"
proof -
  assume hand: "in_hand a [] s"
  then have "(waiting s)(a := []) = waiting s"
    by (auto simp: in_hand_def waiting_def hashes_def)
  then show ?thesis using hand by (simp add: in_hand_def bridge_inv_def credit_inv_def hashes_def)
qed

lemma in_hand_take:
  assumes "bridge_inv s"
  shows "in_hand a (pending_deposits a s) (s\<lparr>PendingDepositList := lm_remove a (PendingDepositList s)\<rparr>)"
proof -
  have "(waiting s)(a := hashes (pending_deposits a s)) = waiting s"
    by (auto simp: waiting_def)
  then show ?thesis
    using assms by (simp add: in_hand_def bridge_inv_def credit_inv_def pending_write waiting_write)
      (simp add: all_hashed_def)
qed

lemma in_hand_put_back:
  assumes "in_hand a ds s"
  shows "bridge_inv (s\<lparr>PendingDepositList := lm_insert a ds (PendingDepositList s)\<rparr>)"
  using assms by (simp add: in_hand_def bridge_inv_def credit_inv_def pending_write waiting_write)

lemma in_hand_hash: "in_hand a (d # ds) s \<Longrightarrow> \<exists>h. dep_tx_hash d = Some h"
  by (auto simp: in_hand_def all_hashed_def)

lemma bridge_inv_release: "in_hand a ds s \<Longrightarrow> keeps bridge_inv (release_pendings a ds s)"
proof (induction ds arbitrary: s)
  case Nil
  then show ?case by (simp add: in_hand_Nil)
next
  case (Cons d ds)
  then obtain h where h: "dep_tx_hash d = Some h" using in_hand_hash by blast
  show ?case
  proof (cases "simple_deposit_with_event (dep_account d) (dep_amount d) h s")
    case (Done u t)
    have "credit_ok (minted s @ [h]) (insert h (seen s)) ((waiting s)(a := hashes ds))"
      using Cons.prems h by (intro credit_ok_release) (simp_all add: in_hand_def hashes_def)
    then have "in_hand a ds t"
      using Cons.prems simple_deposit_Done [OF Done] by (simp add: in_hand_def all_hashed_def)
    with Cons.IH show ?thesis by (simp add: h Done)
  next
    case (Fail e t)
    have "h \<in> seen s"
      using Cons.prems h unfolding in_hand_def credit_ok_def hashes_def
      by (metis (no_types, lifting) comp_def fun_upd_same list.set_intros(1) list.simps(9) option.sel subsetD)
    then have "in_hand a (d # ds) t"
      using Cons.prems simple_deposit_Fail [OF Fail] by (simp add: in_hand_def insert_absorb)
    from in_hand_put_back [OF this] show ?thesis by (simp add: h Fail)
  qed (simp add: h)
qed

text \<open>The loop of \<open>mark_black\<close>: the deposits in hand are forgotten.\<close>

lemma bridge_inv_forget:
  "in_hand a ds s \<Longrightarrow> keeps bridge_inv
     (for_each (\<lambda>v s. unwrap_then (dep_tx_hash v) (\<lambda>h. Done () (s\<lparr>DepositHistory := lm_remove h (DepositHistory s)\<rparr>))) ds s)"
proof (induction ds arbitrary: s)
  case Nil
  then show ?case by (simp add: in_hand_Nil)
next
  case (Cons d ds)
  then obtain h where h: "dep_tx_hash d = Some h" using in_hand_hash by blast
  have "credit_ok (minted s) (seen s - {h}) ((waiting s)(a := hashes ds))"
    using Cons.prems h by (intro credit_ok_forget) (simp_all add: in_hand_def hashes_def)
  then have "in_hand a ds (s\<lparr>DepositHistory := lm_remove h (DepositHistory s)\<rparr>)"
    using Cons.prems by (simp add: in_hand_def all_hashed_def)
  with Cons.IH show ?case by (simp add: h)
qed

lemma bridge_inv_mark: "bridge_inv (mark_with_event a b s) = bridge_inv s"
proof -
  have "credit_inv (mark a b s) = credit_inv s"
    by (rule credit_inv_cong) (simp_all add: mark_def)
  then show ?thesis
    by (simp add: mark_with_event_def bridge_inv_def credit_inv_event)
      (simp add: deposit_bridge_event_def mark_def)
qed

lemma bridge_inv_transfer [keeps_intros]: "bridge_inv s \<Longrightarrow> keeps bridge_inv (make_transfer_with_event a f w n s)"
  using credit_inv_cong [of "moved a f w n s" s]
  by (simp add: make_transfer_with_event_eq bridge_inv_def ga_inv_moved)

lemma bridge_inv_ignores [simp]:
  "bridge_inv (s\<lparr>PendingWithdraws := x1\<rparr>) = bridge_inv s" "bridge_inv (s\<lparr>BridgePaused := x2\<rparr>) = bridge_inv s"
  by (simp_all add: bridge_inv_def credit_inv_cong [of "_\<lparr>PendingWithdraws := _\<rparr>"] credit_inv_cong [of "_\<lparr>BridgePaused := _\<rparr>"])

lemma bridge_inv_event [simp]: "minted_by ev = [] \<Longrightarrow> bridge_inv (deposit_bridge_event ev s) = bridge_inv s"
  by (simp add: bridge_inv_def credit_inv_event) (simp add: deposit_bridge_event_def)

lemma bridge_inv_remove_pending [simp]: "bridge_inv (remove_from_pending_withdraws who n s) = bridge_inv s"
  by (simp add: remove_from_pending_withdraws_def Let_def)

lemma bridge_inv_dispatch [keeps_intros]:
  assumes inv: "bridge_inv s"
  shows "keeps bridge_inv (bridge_dispatch orig c s)"
proof (cases c)
  case (Call_deposit a n h)
  show ?thesis
    unfolding Call_deposit bridge_dispatch.simps bridge_deposit_def
    by (cases orig) (auto intro!: keeps_ensure inv bridge_inv_simple_deposit bridge_inv_hold_deposit)
next
  case (Call_mark_black a)
  show ?thesis
    unfolding Call_mark_black bridge_dispatch.simps mark_black_def Let_def
    by (cases orig) (auto simp: bridge_inv_mark intro!: keeps_ensure keeps_and_then inv bridge_inv_forget in_hand_take [OF inv])
next
  case (Call_mark_white a)
  show ?thesis
    unfolding Call_mark_white bridge_dispatch.simps mark_white_def Let_def
    by (cases orig) (auto simp: bridge_inv_mark intro!: keeps_ensure keeps_and_then inv bridge_inv_release in_hand_take [OF inv])
qed (use inv in \<open>auto simp: bridge_pause_def bridge_resume_def refund_def withdraw_finish_def withdraw_def Let_def
    intro!: keeps_intros\<close>)

text \<open>A history of calls, failing ones included.\<close>

inductive bridge_step :: "'a bridge_state_scheme \<Rightarrow> 'a bridge_state_scheme \<Rightarrow> bool" where
  call_returns: "bridge_dispatch orig c s = Done u t \<Longrightarrow> bridge_step s t"
| call_fails: "bridge_dispatch orig c s = Fail e t \<Longrightarrow> bridge_step s t"

lemma bridge_step_inv: "bridge_step s t \<Longrightarrow> bridge_inv s \<Longrightarrow> bridge_inv t"
  by (induction rule: bridge_step.induct) (metis bridge_inv_dispatch keepsD_Done keepsD_Fail)+

lemma bridge_steps_inv: "bridge_step\<^sup>*\<^sup>* s t \<Longrightarrow> bridge_inv s \<Longrightarrow> bridge_inv t"
  by (induction rule: rtranclp_induct) (auto intro: bridge_step_inv)

section \<open>Properties\<close>

text \<open>C9: Over any history of calls to the bridge, failing ones included, every asset stays conserved
  and no Bitcoin transaction is credited twice: the hashes reported by the credits are all
  different, whatever was held, released, black-listed or refunded in between.\<close>

theorem bridge_never_credits_twice:
  assumes "ga_inv s" and "credit_inv s" and "bridge_step\<^sup>*\<^sup>* s t"
  shows "distinct (minted t) \<and> ga_inv t"
  using bridge_steps_inv [OF assms(3)] assms(1,2)
  by (simp add: bridge_inv_def credit_inv_def credit_ok_def)

text \<open>
  The shadow asset is asset 0 of the demonstration ledger; account 5 is the administrator, 9 the vault,
  and deposits of 50 and more are held.
\<close>

definition demo_bridge :: bridge_state where
  "demo_bridge =
     \<lparr>SudoKey = 1, BlockNumber = 1, ExtrinsicIndex = Some 0, Now = 1000,
      TotalIssuance = [0 \<mapsto> 100], FreeBalance = [(0, 1) \<mapsto> 100], ReservedBalance = Map.empty,
      Symbols = [0 \<mapsto> ''BTC''], NextAssetId = 1, Permissions = [0 \<mapsto> V1 demo_permissions],
      NextLockId = 1, Locks = Map.empty, GaEvents = [],
      BridgeAssetId = 0, BridgePaused = False, KycList = [], Threshold = 50, Admins = [(5, All)],
      PendingDepositList = [], DepositHistory = [], PendingWithdraws = [], PendingWithdrawVault = 9,
      BridgeEvents = []\<rparr>"

lemma demo_bridge_fields [simp]:
  "SudoKey demo_bridge = 1" "TotalIssuance demo_bridge = [0 \<mapsto> 100]" "FreeBalance demo_bridge = [(0, 1) \<mapsto> 100]"
  "ReservedBalance demo_bridge = Map.empty" "NextAssetId demo_bridge = 1"
  "Permissions demo_bridge = [0 \<mapsto> V1 demo_permissions]" "BridgeAssetId demo_bridge = 0"
  "KycList demo_bridge = []" "Threshold demo_bridge = 50" "Admins demo_bridge = [(5, All)]"
  "PendingDepositList demo_bridge = []" "DepositHistory demo_bridge = []" "PendingWithdraws demo_bridge = []"
  "PendingWithdrawVault demo_bridge = 9" "BridgeEvents demo_bridge = []"
  by (simp_all add: demo_bridge_def)

lemma demo_bridge_reads [simp]:
  "free_balance aid w demo_bridge = (if aid = 0 \<and> w = 1 then 100 else 0)"
  "reserved_balance aid w demo_bridge = 0" "total_issuance aid demo_bridge = (if aid = 0 then 100 else 0)"
  by (simp_all add: free_balance_def reserved_balance_def total_issuance_def)

lemma demo_bridge_inv: "ga_inv demo_bridge" "credit_inv demo_bridge"
proof -
  have "holdings aid w demo_bridge = (if w = 1 then unat (total_issuance aid demo_bridge) else 0)" for aid w
    by (simp add: holdings_def)
  moreover have "unused_id aid demo_bridge" if "1 \<le> aid" for aid
    using that by (auto simp: unused_id_def)
  ultimately show "ga_inv demo_bridge"
    by (simp add: ga_inv_def solvent_def all_holdings_def)
  show "credit_inv demo_bridge"
    by (simp add: credit_inv_def credit_ok_def all_hashed_def pending_deposits_def waiting_def hashes_def minted_def
        lm_get_def)
qed

lemma bridge_never_credits_twice_witness:
  "\<exists>t. bridge_step\<^sup>*\<^sup>* demo_bridge t \<and> minted t = [77] \<and> distinct (minted t) \<and> ga_inv t"
proof -
  have perm: "check_permission 0 1 Mint (demo_bridge\<lparr>DepositHistory := x\<rparr>)" for x
    by (simp add: check_permission_def get_permission_def demo_permissions_def)
  have "\<exists>t. bridge_dispatch (Signed 5) (Call_deposit 2 30 77) demo_bridge = Done () t"
    by (simp add: bridge_deposit_def is_tx_seen_def has_auth_def lm_contains_def lm_get_def word_le_nat_alt
        simple_deposit_with_event_def mint_free_def perm checked_add_def ledger_simps total_issuance_def)
  then obtain t where run: "bridge_dispatch (Signed 5) (Call_deposit 2 30 77) demo_bridge = Done () t" ..
  then have "simple_deposit_with_event 2 30 77 demo_bridge = Done () t"
    by (simp add: bridge_deposit_def is_tx_seen_def has_auth_def lm_contains_def lm_get_def word_le_nat_alt)
  then have m: "minted t = [77]"
    using simple_deposit_Done(1) by (fastforce simp: minted_def)
  have steps: "bridge_step\<^sup>*\<^sup>* demo_bridge t"
    using run by (intro r_into_rtranclp call_returns)
  from bridge_never_credits_twice [OF demo_bridge_inv steps] steps m show ?thesis by blast
qed

text \<open>C37: When the sudo key may not mint the shadow asset, an authorised deposit below the threshold
  returns an error and credits nothing, but the transaction counts as seen: no later deposit of it
  is accepted, from whomever and for whatever account or amount.\<close>

theorem failed_mint_loses_deposit:
  assumes "\<not> is_tx_seen h s" and "has_auth w Deposit s" and "n < Threshold s"
    and "\<not> check_permission (BridgeAssetId s) (SudoKey s) Mint s"
  shows "\<exists>s'. bridge_deposit (Signed w) a n h s = Fail (GaError NoMintPermission) s'
    \<and> (\<forall>aid v. free_balance aid v s' = free_balance aid v s) \<and> minted s' = minted s
    \<and> (\<forall>orig b m. bridge_deposit orig b m h s' = Fail (Other ''repeated transaction'') s')"
proof -
  let ?s' = "s\<lparr>DepositHistory := lm_insert h \<lparr>dep_account = a, dep_tx_hash = None, dep_amount = n\<rparr> (DepositHistory s)\<rparr>"
  have "\<not> check_permission (BridgeAssetId s) (SudoKey s) Mint ?s'"
    using assms(4) by (simp add: check_permission_def get_permission_def)
  then have "bridge_deposit (Signed w) a n h s = Fail (GaError NoMintPermission) ?s'"
    using assms(1,2) assms(3) [folded not_le]
    by (simp add: bridge_deposit_def simple_deposit_with_event_def mint_free_def Let_def)
  then show ?thesis
    by (simp add: bridge_deposit_def is_tx_seen_def)
qed

lemma failed_mint_loses_deposit_witness:
  "\<exists>s'. bridge_deposit (Signed 5) 2 30 77 (demo_bridge\<lparr>Permissions := Map.empty\<rparr>) = Fail (GaError NoMintPermission) s'
    \<and> bridge_deposit (Signed 5) 2 30 77 s' = Fail (Other ''repeated transaction'') s'"
  using failed_mint_loses_deposit [of 77 "demo_bridge\<lparr>Permissions := Map.empty\<rparr>" 5 30 2]
  by (auto simp: is_tx_seen_def has_auth_def lm_contains_def lm_get_def word_less_nat_alt check_permission_def
      get_permission_def default_permission_versions_def default_permissions_v1_def)

lemma drop_first_amount_True [simp]: "drop_first_amount True n xs = xs"
  by (induction xs) simp_all

lemma drop_first_amount_remove1: "drop_first_amount False n xs = remove1 n xs"
  by (induction xs) auto

lemma pending_after_remove:
  assumes "n \<in> set (pending_withdraws who s)"
  shows "pending_withdraws w (remove_from_pending_withdraws who n s) =
    (if w = who then remove1 n (pending_withdraws who s) else pending_withdraws w s)"
proof -
  have "remove1 n (pending_withdraws who s) = []" if "\<not> 1 < length (pending_withdraws who s)"
    using assms that by (cases "pending_withdraws who s"; cases "tl (pending_withdraws who s)") auto
  then show ?thesis
    by (auto simp: remove_from_pending_withdraws_def Let_def pending_withdraws_def drop_first_amount_remove1)
qed

lemma pending_withdraws_frame [simp]:
  "pending_withdraws w (moved a f v n s) = pending_withdraws w s"
  "pending_withdraws w (deposit_bridge_event ev s) = pending_withdraws w s"
  by (simp_all add: pending_withdraws_def deposit_bridge_event_def)

lemma bridge_event_frame [simp]:
  "free_balance aid w (deposit_bridge_event ev s) = free_balance aid w s"
  "BridgeAssetId (deposit_bridge_event ev s) = BridgeAssetId s"
  "PendingWithdrawVault (deposit_bridge_event ev s) = PendingWithdrawVault s"
  "Admins (deposit_bridge_event ev s) = Admins s"
  by (simp_all add: deposit_bridge_event_def)

lemma free_balance_remove_pending [simp]:
  "free_balance aid w (remove_from_pending_withdraws who n s) = free_balance aid w s"
  by (simp add: remove_from_pending_withdraws_def Let_def)

lemma withdraw_Done:
  assumes "withdraw (Signed who) n s = Done u s1"
  shows "n \<le> free_balance (BridgeAssetId s) who s"
    "free_balance aid w s1 = free_balance aid w (moved (BridgeAssetId s) who (PendingWithdrawVault s) n s)"
    "pending_withdraws w s1 = pending_withdraws w s @ (if w = who then [n] else [])"
    "BridgeAssetId s1 = BridgeAssetId s" "PendingWithdrawVault s1 = PendingWithdrawVault s" "Admins s1 = Admins s"
  using assms
  by (auto simp: withdraw_def make_transfer_with_event_eq Let_def pending_withdraws_def lm_get_absent
      deposit_bridge_event_def split: if_splits)

text \<open>C38: A withdrawal moves its amount into the vault and records it as pending; refunding it right
  after by an authorised account restores every balance and the pending amounts of everybody (as
  multisets).\<close>

theorem withdraw_then_refund:
  assumes inv: "ga_inv s" and run: "withdraw (Signed who) n s = Done u s1" and auth: "has_auth author Refund s"
    and vault: "who \<noteq> PendingWithdrawVault s"
  shows "free_balance (BridgeAssetId s) (PendingWithdrawVault s) s1
      = free_balance (BridgeAssetId s) (PendingWithdrawVault s) s + n
    \<and> mset (pending_withdraws who s1) = add_mset n (mset (pending_withdraws who s))
    \<and> (\<exists>s2. refund (Signed author) who n s1 = Done () s2
         \<and> (\<forall>aid w. free_balance aid w s2 = free_balance aid w s)
         \<and> (\<forall>w. mset (pending_withdraws w s2) = mset (pending_withdraws w s)))"
proof -
  note facts = withdraw_Done [OF run]
  let ?a = "BridgeAssetId s" and ?v = "PendingWithdrawVault s"
  have "unat (free_balance ?a ?v s) + unat n < 2 ^ 128"
    using solvent_pair_less [OF ga_inv_solvent [OF inv] vault, of ?a] facts(1)
    by (simp add: holdings_def word_le_nat_alt)
  then have fits: "n \<le> free_balance ?a ?v s + n"
    by (simp add: word_le_nat_alt unat_add_less)
  have here: "n \<in> set (pending_withdraws who s1)" using facts(3) by simp
  let ?s2 = "deposit_bridge_event (Ev_Refund who n) (remove_from_pending_withdraws who n (moved ?a ?v who n s1))"
  have "has_auth author Refund s1"
    using auth unfolding has_auth_def facts .
  moreover have "?v \<noteq> who" using vault by simp
  ultimately have "refund (Signed author) who n s1 = Done () ?s2"
    using fits here vault facts by (simp add: refund_def make_transfer_with_event_eq ledger_simps)
  moreover have "free_balance aid w ?s2 = free_balance aid w s" for aid w
    using vault by (auto simp: ledger_simps facts)
  moreover have "mset (pending_withdraws w ?s2) = mset (pending_withdraws w s)" for w
    using here by (simp add: pending_after_remove facts(3))
  ultimately show ?thesis
    using vault by (auto simp: facts ledger_simps)
qed

lemma withdraw_then_refund_witness:
  "\<exists>s1 s2. withdraw (Signed 1) 40 demo_bridge = Done () s1 \<and> refund (Signed 5) 1 40 s1 = Done () s2
    \<and> free_balance 0 9 s1 = 40 \<and> free_balance 0 1 s2 = 100"
proof -
  obtain s1 where run: "withdraw (Signed 1) 40 demo_bridge = Done () s1"
    by (simp add: withdraw_def make_transfer_with_event_eq Let_def word_le_nat_alt)
  have "has_auth 5 Refund demo_bridge"
    by (simp add: has_auth_def lm_contains_def lm_get_def)
  from withdraw_then_refund [OF demo_bridge_inv(1) run this] run show ?thesis by auto
qed

end
