(* ===== verification/Bridge_Types.thy ===== *)
theory Bridge_Types
  imports Bridge_Properties
begin

text \<open>
  The typing of the bridge's storage (bridge/src/lib.rs), which the code relies on when it unwraps the
  transaction hash of a waiting deposit: a waiting deposit belongs to the account it is listed under
  and knows its hash, a recorded one is stored without, no list is kept empty and no key twice.  Every
  call keeps the storage well typed, and on such a storage no call panics.
\<close>

section \<open>Well-typed storage\<close>

definition deposits_of :: "account_id \<Rightarrow> deposit list \<Rightarrow> bool" where
  "deposits_of a ds \<longleftrightarrow> (\<forall>d \<in> set ds. dep_account d = a \<and> dep_tx_hash d \<noteq> None)"

definition pending_typed :: "(account_id, deposit list) linked_map \<Rightarrow> bool" where
  "pending_typed m \<longleftrightarrow> lm_wf m \<and> (\<forall>a ds. map_of m a = Some ds \<longrightarrow> ds \<noteq> [] \<and> deposits_of a ds)"

definition history_typed :: "(tx_hash, deposit) linked_map \<Rightarrow> bool" where
  "history_typed m \<longleftrightarrow> lm_wf m \<and> (\<forall>h d. map_of m h = Some d \<longrightarrow> dep_tx_hash d = None)"

definition withdraws_typed :: "(account_id, balance list) linked_map \<Rightarrow> bool" where
  "withdraws_typed m \<longleftrightarrow> lm_wf m \<and> (\<forall>a ns. map_of m a = Some ns \<longrightarrow> ns \<noteq> [])"

definition bridge_typed :: "'a bridge_state_scheme \<Rightarrow> bool" where
  "bridge_typed s \<longleftrightarrow> pending_typed (PendingDepositList s) \<and> history_typed (DepositHistory s)
     \<and> withdraws_typed (PendingWithdraws s) \<and> lm_wf (KycList s) \<and> lm_wf (Admins s)"

section \<open>The writes of the bridge\<close>

lemma deposits_of_simps [simp]:
  "deposits_of a []"
  "deposits_of a (d # ds) \<longleftrightarrow> dep_account d = a \<and> dep_tx_hash d \<noteq> None \<and> deposits_of a ds"
  "deposits_of a (ds @ es) \<longleftrightarrow> deposits_of a ds \<and> deposits_of a es"
  by (auto simp: deposits_of_def)

lemma pending_typed_get: "pending_typed m \<Longrightarrow> deposits_of a (lm_get [] m a)"
  by (cases "map_of m a") (auto simp: pending_typed_def lm_get_def)

lemma pending_typed_writes:
  "pending_typed m \<Longrightarrow> pending_typed (lm_remove a m)"
  "pending_typed m \<Longrightarrow> ds \<noteq> [] \<Longrightarrow> deposits_of a ds \<Longrightarrow> pending_typed (lm_insert a ds m)"
  "pending_typed m \<Longrightarrow> deposits_of a [d] \<Longrightarrow> pending_typed (lm_mutate [] a (\<lambda>v. v @ [d]) m)"
  using pending_typed_get [of m a] by (auto simp: pending_typed_def lm_mutate_def)

lemma history_typed_writes:
  "history_typed m \<Longrightarrow> history_typed (lm_remove h m)"
  "history_typed m \<Longrightarrow> dep_tx_hash d = None \<Longrightarrow> history_typed (lm_insert h d m)"
  by (auto simp: history_typed_def)

lemma withdraws_typed_writes:
  "withdraws_typed m \<Longrightarrow> withdraws_typed (lm_remove a m)"
  "withdraws_typed m \<Longrightarrow> ns \<noteq> [] \<Longrightarrow> withdraws_typed (lm_insert a ns m)"
  "withdraws_typed m \<Longrightarrow> withdraws_typed (lm_mutate [] a (\<lambda>v. v @ [n]) m)"
  by (auto simp: withdraws_typed_def lm_mutate_def)

lemmas typed_writes = pending_typed_writes history_typed_writes withdraws_typed_writes

lemma bridge_typed_frame [simp]:
  "bridge_typed (deposit_bridge_event ev s) = bridge_typed s"
  "bridge_typed (moved a f t n s) = bridge_typed s"
  "bridge_typed (s\<lparr>BridgePaused := b\<rparr>) = bridge_typed s"
  by (simp_all add: bridge_typed_def deposit_bridge_event_def)

lemma bridge_typed_minted:
  assumes "mint_free aid who w n s = Done u t"
  shows "bridge_typed t = bridge_typed s"
  using assms by (simp add: mint_free_Done_iff bridge_typed_def set_free_balance_def set_total_issuance_def)

lemma typed_mark: "bridge_typed s \<Longrightarrow> bridge_typed (mark_with_event a b s)"
  by (simp add: mark_with_event_def) (simp add: bridge_typed_def mark_def)

lemma typed_remove_pending:
  assumes "bridge_typed s"
  shows "bridge_typed (remove_from_pending_withdraws who n s)"
proof -
  have "drop_first_amount False n (pending_withdraws who s) \<noteq> []" if "1 < length (pending_withdraws who s)"
  proof -
    have "length (pending_withdraws who s) - 1 \<le> length (drop_first_amount False n (pending_withdraws who s))"
      by (simp add: drop_first_amount_remove1 length_remove1)
    then show ?thesis using that by auto
  qed
  then show ?thesis
    using assms by (simp add: remove_from_pending_withdraws_def Let_def bridge_typed_def typed_writes)
qed

section \<open>Every call keeps the storage well typed and returns\<close>

text \<open>\<open>returns P r\<close>: no panic, and \<open>P\<close> of the storage left behind.\<close>

definition returns :: "('s \<Rightarrow> bool) \<Rightarrow> ('e, 'a, 's) outcome \<Rightarrow> bool" where
  "returns P r \<longleftrightarrow> keeps P r \<and> r \<noteq> Panic"

lemma returns_simps [simp]: "returns P (Done a s) = P s" "returns P (Fail e s) = P s" "\<not> returns P Panic"
  by (simp_all add: returns_def)

lemma returns_ensure: "P s \<Longrightarrow> (b \<Longrightarrow> returns P k) \<Longrightarrow> returns P (ensure b e s k)"
  by (simp add: ensure_def)

lemma returns_and_then: "returns P r \<Longrightarrow> (\<And>a s. r = Done a s \<Longrightarrow> P s \<Longrightarrow> returns P (k a s)) \<Longrightarrow> returns P (and_then r k)"
  by (cases r) simp_all

lemma returns_or_else: "returns P r \<Longrightarrow> (\<And>e s. r = Fail e s \<Longrightarrow> P s \<Longrightarrow> returns P (h e s)) \<Longrightarrow> returns P (or_else r h)"
  by (cases r) simp_all

lemma returns_signed: "P s \<Longrightarrow> returns P (ensure_signed orig s)"
  by (cases orig) simp_all

lemma returns_root: "P s \<Longrightarrow> returns P (ensure_root orig s)"
  by (cases orig) simp_all

lemmas returns_intros = returns_ensure returns_and_then returns_or_else returns_signed returns_root

lemma typed_simple_deposit:
  assumes "bridge_typed s"
  shows "returns bridge_typed (simple_deposit_with_event a n h s)"
proof (cases "simple_deposit_with_event a n h s")
  case (Done u t)
  have "bridge_typed (s\<lparr>DepositHistory := lm_insert h \<lparr>dep_account = a, dep_tx_hash = None, dep_amount = n\<rparr>
      (DepositHistory s)\<rparr>)"
    using assms by (simp add: bridge_typed_def typed_writes)
  then show ?thesis
    using Done by (auto simp: simple_deposit_with_event_def Let_def Done_iffs dest: bridge_typed_minted)
next
  case (Fail e t)
  then show ?thesis
    using assms simple_deposit_Fail [OF Fail] by (simp add: bridge_typed_def typed_writes)
qed (simp add: simple_deposit_not_Panic)

lemma typed_hold_deposit: "bridge_typed s \<Longrightarrow> returns bridge_typed (hold_deposit_with_event a n h s)"
  by (simp add: hold_deposit_with_event_def Let_def) (simp add: bridge_typed_def typed_writes)

lemma typed_release:
  "deposits_of a ds \<Longrightarrow> bridge_typed s \<Longrightarrow> returns bridge_typed (release_pendings a ds s)"
proof (induction ds arbitrary: s)
  case (Cons d ds)
  then obtain h where h: "dep_tx_hash d = Some h" and d: "dep_account d = a" by auto
  have "returns bridge_typed (or_else (simple_deposit_with_event a (dep_amount d) h s)
      (\<lambda>err s. Fail err (s\<lparr>PendingDepositList := lm_insert a (d # ds) (PendingDepositList s)\<rparr>)))"
    by (rule returns_or_else [OF typed_simple_deposit [OF Cons.prems(2)]])
      (use Cons.prems(1) in \<open>simp add: bridge_typed_def typed_writes\<close>)
  then show ?case
    using Cons.IH Cons.prems(1) by (auto simp: h d intro: returns_and_then)
qed simp

lemma typed_forget:
  "deposits_of a ds \<Longrightarrow> bridge_typed s \<Longrightarrow> returns bridge_typed
     (for_each (\<lambda>v s. unwrap_then (dep_tx_hash v) (\<lambda>h. Done () (s\<lparr>DepositHistory := lm_remove h (DepositHistory s)\<rparr>))) ds s)"
  by (induction ds arbitrary: s) (auto simp: bridge_typed_def typed_writes)

lemma typed_take_pendings:
  "bridge_typed s \<Longrightarrow> deposits_of a (pending_deposits a s)"
  "bridge_typed s \<Longrightarrow> bridge_typed (s\<lparr>PendingDepositList := lm_remove a (PendingDepositList s)\<rparr>)"
  by (simp_all add: bridge_typed_def pending_typed_get pending_deposits_def typed_writes)

lemma typed_transfer: "bridge_typed s \<Longrightarrow> returns bridge_typed (make_transfer_with_event a f t n s)"
  by (simp add: make_transfer_with_event_eq)

lemma typed_withdraw: "bridge_typed s \<Longrightarrow> returns bridge_typed (withdraw orig n s)"
  unfolding withdraw_def
  by (intro returns_and_then returns_signed typed_transfer; assumption?)
    (auto simp: Let_def, simp_all add: bridge_typed_def typed_writes)

text \<open>C12: The storage of the bridge stays well typed: whatever is called, by whomever and whether it
  succeeds or fails, every waiting deposit belongs to the account it is listed under and knows its hash,
  every recorded one is stored without hash, no list is empty and no key occurs twice.  On a well-typed
  storage no call panics: the hashes the code unwraps are there.\<close>

theorem bridge_well_typed:
  assumes "bridge_typed s"
  shows "keeps bridge_typed (bridge_dispatch orig c s) \<and> bridge_dispatch orig c s \<noteq> Panic"
proof -
  have "returns bridge_typed (bridge_dispatch orig c s)"
  proof (cases c)
    case (Call_deposit a n h)
    then show ?thesis
      using assms typed_simple_deposit typed_hold_deposit
      by (auto simp: bridge_deposit_def intro!: returns_ensure returns_and_then returns_signed)
  next
    case (Call_mark_black a)
    then show ?thesis
      using assms by (auto simp: mark_black_def Let_def typed_mark
          intro!: returns_ensure returns_and_then returns_signed typed_forget typed_take_pendings)
  next
    case (Call_mark_white a)
    then show ?thesis
      using assms by (auto simp: mark_white_def Let_def typed_mark
          intro!: returns_ensure returns_and_then returns_signed typed_release typed_take_pendings)
  qed (use assms in \<open>auto simp: bridge_pause_def bridge_resume_def refund_def withdraw_finish_def typed_withdraw
      typed_remove_pending intro!: returns_ensure returns_and_then returns_signed returns_root typed_transfer\<close>)
  then show ?thesis by (simp add: returns_def)
qed

text \<open>A deposit of 60 to account 2 waits; clearing the account unwraps its hash.\<close>

lemma bridge_well_typed_witness:
  "\<exists>t. bridge_dispatch (Signed 5) (Call_deposit 2 60 77) demo_bridge = Done () t \<and> bridge_typed t
    \<and> pending_deposits 2 t = [\<lparr>dep_account = 2, dep_tx_hash = Some 77, dep_amount = 60\<rparr>]
    \<and> bridge_dispatch (Signed 5) (Call_mark_white 2) t \<noteq> Panic"
proof -
  have typed: "bridge_typed demo_bridge"
    by (simp add: bridge_typed_def pending_typed_def history_typed_def withdraws_typed_def lm_wf_def lm_keys_def)
  have "\<exists>t. bridge_dispatch (Signed 5) (Call_deposit 2 60 77) demo_bridge = Done () t
      \<and> pending_deposits 2 t = [\<lparr>dep_account = 2, dep_tx_hash = Some 77, dep_amount = 60\<rparr>]"
    by (simp add: bridge_deposit_def is_tx_seen_def has_auth_def lm_contains_def lm_get_def word_le_nat_alt
        check_list_def hold_deposit_with_event_def)
      (simp add: pending_deposits_def deposit_bridge_event_def lm_mutate_def lm_get_def)
  then obtain t where t: "bridge_dispatch (Signed 5) (Call_deposit 2 60 77) demo_bridge = Done () t"
    "pending_deposits 2 t = [\<lparr>dep_account = 2, dep_tx_hash = Some 77, dep_amount = 60\<rparr>]" by blast
  have "bridge_typed t"
    using conjunct1 [OF bridge_well_typed [OF typed, of "Signed 5" "Call_deposit 2 60 77"]] by (simp add: t del: bridge_dispatch.simps)
  with t bridge_well_typed [of t "Signed 5" "Call_mark_white 2"] show ?thesis by blast
qed

end
