(* ===== verification/Bridge_Vault.thy ===== *)
theory Bridge_Vault
  imports Bridge_Types Ledger_Spec
begin

text \<open>
  The vault of the bridge (bridge/src/lib.rs).  A withdrawal moves its amount to the vault's account and
  waits in \<open>PendingWithdraws\<close>; nothing in the code ties the two together afterwards.  Here the tie is
  made an invariant: the vault's free balance covers all pending withdrawals, through every call of the
  bridge and of the asset pallet that the vault does not sign itself and that does not burn its balance.
\<close>

section \<open>What the vault holds and what it owes\<close>

definition vault_balance :: "'a bridge_state_scheme \<Rightarrow> balance" where
  "vault_balance s = free_balance (BridgeAssetId s) (PendingWithdrawVault s) s"

definition owed_to :: "account_id \<Rightarrow> 'a bridge_state_scheme \<Rightarrow> nat" where
  "owed_to who s = sum_list (map unat (pending_withdraws who s))"

definition pending_total :: "'a bridge_state_scheme \<Rightarrow> nat" where
  "pending_total s = (\<Sum>who\<in>UNIV. owed_to who s)"

definition vault_covers :: "'a bridge_state_scheme \<Rightarrow> bool" where
  "vault_covers s \<longleftrightarrow> ga_inv s \<and> pending_total s \<le> unat (vault_balance s)"

lemma sum_list_remove1: "n \<in> set ns \<Longrightarrow> sum_list (map f ns) = f n + sum_list (map f (remove1 n ns))" for f :: "'b \<Rightarrow> nat"
  using sum_list_map_remove1 [of n ns f] by simp

lemma pending_total_write:
  assumes "\<And>w. pending_withdraws w t = (if w = who then ns else pending_withdraws w s)"
  shows "pending_total t + owed_to who s = pending_total s + sum_list (map unat ns)"
proof -
  have "(\<lambda>w. owed_to w t) = (\<lambda>w. owed_to w s)(who := sum_list (map unat ns))"
    by (auto simp: owed_to_def assms)
  then show ?thesis
    using sum_fun_upd [of "\<lambda>w. owed_to w s" who] by (simp only: pending_total_def)
qed

lemma pending_le_total: "n \<in> set (pending_withdraws who s) \<Longrightarrow> unat n \<le> pending_total s"
  using member_le_sum_UNIV [of "\<lambda>w. owed_to w s" who] sum_list_remove1 [of n "pending_withdraws who s" unat]
  by (simp add: pending_total_def owed_to_def)

section \<open>Calls that leave the pending withdrawals alone\<close>

definition rises :: "'a bridge_state_scheme \<Rightarrow> 'a bridge_state_scheme \<Rightarrow> bool" where
  "rises s t \<longleftrightarrow> BridgeAssetId t = BridgeAssetId s \<and> PendingWithdrawVault t = PendingWithdrawVault s
     \<and> PendingWithdraws t = PendingWithdraws s \<and> vault_balance s \<le> vault_balance t \<and> (ga_inv s \<longrightarrow> ga_inv t)"

lemma rises_refl [simp]: "rises s s"
  by (simp add: rises_def)

lemma rises_trans: "rises s t \<Longrightarrow> rises t u \<Longrightarrow> rises s u"
  by (auto simp: rises_def)

lemma rises_keeps: "rises s t \<Longrightarrow> keeps (rises t) r \<Longrightarrow> keeps (rises s) r"
  by (erule keeps_mono) (rule rises_trans)

lemma rises_writes [simp]:
  "rises s (t\<lparr>BridgePaused := x1\<rparr>) = rises s t" "rises s (t\<lparr>KycList := x2\<rparr>) = rises s t"
  "rises s (t\<lparr>PendingDepositList := x3\<rparr>) = rises s t" "rises s (t\<lparr>DepositHistory := x4\<rparr>) = rises s t"
  "rises s (t\<lparr>BridgeEvents := x5\<rparr>) = rises s t"
  by (simp_all add: rises_def vault_balance_def)

lemma rises_event [simp]: "rises s (deposit_bridge_event ev t) = rises s t"
  by (simp add: deposit_bridge_event_def)

lemma rises_mint: "keeps (rises s) (mint_free aid who w n s)"
proof (cases "mint_free aid who w n s")
  case (Done u t)
  then have t: "t = set_free_balance aid w (free_balance aid w s + n) (set_total_issuance aid (total_issuance aid s + n) s)"
    and fits: "unat (free_balance aid w s) + unat n < 2 ^ 128"
    by (simp_all add: mint_free_Done_iff)
  have "BridgeAssetId t = BridgeAssetId s" "PendingWithdrawVault t = PendingWithdrawVault s"
    "PendingWithdraws t = PendingWithdraws s"
    by (simp_all add: t set_free_balance_def set_total_issuance_def)
  moreover have "free_balance a v s \<le> free_balance a v t" for a v
    using fits by (simp add: t ledger_simps word_le_nat_alt unat_add_less)
  moreover have "ga_inv s \<Longrightarrow> ga_inv t"
    using keepsD_Done [OF ga_inv_mint_free Done] .
  ultimately show ?thesis by (simp add: Done rises_def vault_balance_def)
next
  case (Fail e t)
  then show ?thesis using mint_free_Fail by fastforce
qed simp

lemma rises_simple_deposit: "keeps (rises s) (simple_deposit_with_event a n h s)"
proof -
  let ?s = "s\<lparr>DepositHistory := lm_insert h \<lparr>dep_account = a, dep_tx_hash = None, dep_amount = n\<rparr> (DepositHistory s)\<rparr>"
  have "keeps (rises s) (mint_free aid who a n ?s)" for aid who
    by (rule rises_keeps [of s ?s]) (simp_all add: rises_mint)
  then show ?thesis
    by (auto simp: simple_deposit_with_event_def Let_def intro!: keeps_intros)
qed

lemma rises_release: "rises s t \<Longrightarrow> keeps (rises s) (release_pendings a ds t)"
proof (induction ds arbitrary: t)
  case (Cons d ds)
  then show ?case
    using rises_keeps [OF Cons.prems rises_simple_deposit]
    by (auto intro!: keeps_intros)
qed simp

lemma rises_forget:
  "rises s t \<Longrightarrow> keeps (rises s) (for_each (\<lambda>v s. unwrap_then (dep_tx_hash v) (\<lambda>h.
     Done () (s\<lparr>DepositHistory := lm_remove h (DepositHistory s)\<rparr>))) ds t)"
  by (auto intro!: keeps_intros)

lemma rises_mark: "rises s (mark_with_event a b t) = rises s t"
  by (simp add: mark_with_event_def mark_def)

lemma rises_not_withdrawals:
  assumes "\<And>n. c \<noteq> Call_withdraw n" "\<And>w n. c \<noteq> Call_refund w n" "\<And>w n. c \<noteq> Call_withdraw_finish w n"
  shows "keeps (rises s) (bridge_dispatch orig c s)"
  using assms
  by (cases c; cases orig)
    (auto simp: bridge_pause_def bridge_resume_def bridge_deposit_def hold_deposit_with_event_def mark_black_def
      mark_white_def Let_def rises_mark
      intro!: keeps_ensure keeps_and_then rises_simple_deposit rises_release rises_forget)

lemma same_extension_vault:
  fixes s t :: "'a bridge_state_scheme"
  assumes "ga_state.more t = ga_state.more s"
  shows "BridgeAssetId t = BridgeAssetId s" "PendingWithdrawVault t = PendingWithdrawVault s"
    "PendingWithdraws t = PendingWithdraws s"
  using assms by (cases s; cases t; simp)+

text \<open>The asset calls that may run: not signed by the vault, and no burn of what the vault holds.\<close>

definition spares_vault :: "origin \<Rightarrow> ga_call \<Rightarrow> 'a bridge_state_scheme \<Rightarrow> bool" where
  "spares_vault orig c s \<longleftrightarrow> orig \<noteq> Signed (PendingWithdrawVault s)
     \<and> (\<forall>n. c \<noteq> Call_burn (BridgeAssetId s) (PendingWithdrawVault s) n)"

lemma rises_asset_call:
  assumes "ga_inv s" and "spares_vault orig c s" and run: "ga_dispatch orig c s = Done u t"
  shows "rises s t"
proof -
  have more: "ga_state.more t = ga_state.more s"
    using keepsD_Done [OF ga_dispatch_extension run] .
  have "\<not> free_balance (BridgeAssetId s) (PendingWithdrawVault s) t < free_balance (BridgeAssetId s) (PendingWithdrawVault s) s"
    using dispatch_lowers_free [OF assms(1) run, of "BridgeAssetId s" "PendingWithdrawVault s"] assms(2)
    unfolding spares_vault_def by blast
  moreover have "ga_inv t"
    using keepsD_Done [OF ga_inv_dispatch run] assms(1) .
  ultimately show ?thesis
    by (simp add: rises_def vault_balance_def same_extension_vault [OF more])
qed

section \<open>Every step keeps the vault covered\<close>

lemma vault_covers_rises:
  assumes "vault_covers s" and "rises s t"
  shows "vault_covers t"
proof -
  have "pending_total t = pending_total s"
    using assms(2) by (simp add: pending_total_def owed_to_def pending_withdraws_def rises_def)
  then show ?thesis
    using assms by (auto simp: vault_covers_def rises_def word_le_nat_alt)
qed

text \<open>A finished or refunded withdrawal leaves the list, and the total falls by its amount.\<close>

lemma pending_total_remove:
  assumes "n \<in> set (pending_withdraws who s)"
  shows "pending_total (remove_from_pending_withdraws who n s) + unat n = pending_total s"
  using pending_total_write [OF pending_after_remove [OF assms]]
    sum_list_remove1 [OF assms, of unat] by (simp add: owed_to_def)

lemma vault_frame [simp]:
  "pending_total (deposit_bridge_event ev s) = pending_total s"
  "pending_total (moved a f t n s) = pending_total s"
  "ga_inv (deposit_bridge_event ev s) = ga_inv s"
  "ga_inv (remove_from_pending_withdraws who n s) = ga_inv s"
  "BridgeAssetId (remove_from_pending_withdraws who n s) = BridgeAssetId s"
  "PendingWithdrawVault (remove_from_pending_withdraws who n s) = PendingWithdrawVault s"
  by (simp_all add: pending_total_def owed_to_def remove_from_pending_withdraws_def Let_def)
    (simp add: deposit_bridge_event_def)

lemma vault_covers_finish:
  assumes "vault_covers s"
  shows "keeps vault_covers (withdraw_finish orig who n s)"
proof -
  have "vault_covers (deposit_bridge_event ev (remove_from_pending_withdraws who n s))"
    if "n \<in> set (pending_withdraws who s)" for ev
    using assms pending_total_remove [OF that] by (simp add: vault_covers_def vault_balance_def)
  then show ?thesis
    using assms by (cases orig) (auto simp: withdraw_finish_def intro!: keeps_ensure)
qed

lemma refund_covered:
  assumes "vault_covers s" and "n \<in> set (pending_withdraws who s)"
  shows "n \<le> free_balance (BridgeAssetId s) (PendingWithdrawVault s) s"
  using assms pending_le_total [OF assms(2)] by (simp add: vault_covers_def vault_balance_def word_le_nat_alt)

lemma vault_covers_refund:
  assumes "vault_covers s"
  shows "keeps vault_covers (refund orig who n s)"
proof -
  let ?a = "BridgeAssetId s" and ?v = "PendingWithdrawVault s"
  have "vault_covers (deposit_bridge_event ev (remove_from_pending_withdraws who n (moved ?a ?v who n s)))"
    if "n \<in> set (pending_withdraws who s)" for ev
    using assms that refund_covered [OF assms that] pending_total_remove [of n who "moved ?a ?v who n s"]
    by (cases "who = ?v") (auto simp: vault_covers_def vault_balance_def ga_inv_moved ledger_simps unat_sub_le)
  then show ?thesis
    using assms by (cases orig) (auto simp: refund_def make_transfer_with_event_eq intro!: keeps_ensure)
qed

lemma vault_covers_withdraw:
  assumes "vault_covers s" and "orig \<noteq> Signed (PendingWithdrawVault s)"
  shows "keeps vault_covers (withdraw orig n s)"
proof (cases orig)
  case (Signed who)
  let ?a = "BridgeAssetId s" and ?v = "PendingWithdrawVault s"
  show ?thesis
  proof (cases "withdraw orig n s")
    case (Done u t)
    note facts = withdraw_Done [OF Done [unfolded Signed]]
    have inv: "ga_inv t"
      using Done assms(1) by (auto simp: Signed withdraw_def make_transfer_with_event_eq Let_def vault_covers_def
          ga_inv_moved split: if_splits)
    have "holdings ?a who s + holdings ?a ?v s < 2 ^ 128"
      using assms Signed by (intro solvent_pair_less ga_inv_solvent) (simp_all add: vault_covers_def)
    then have "unat (vault_balance t) = unat (vault_balance s) + unat n"
      using facts(1) assms(2) Signed
      by (simp add: vault_balance_def facts ledger_simps holdings_def word_le_nat_alt unat_add_less)
    moreover have "pending_total t = pending_total s + unat n"
      using pending_total_write [of t who "pending_withdraws who s @ [n]" s] by (simp add: facts(3) owed_to_def)
    ultimately show ?thesis
      using assms(1) inv by (simp add: Done vault_covers_def)
  next
    case (Fail e t)
    then have "t = s"
      by (auto simp: Signed withdraw_def make_transfer_with_event_eq Let_def split: if_splits)
    then show ?thesis using assms(1) by (simp add: Fail)
  qed simp
qed (use assms in \<open>simp_all add: withdraw_def\<close>)

lemma vault_covers_bridge_call:
  assumes "vault_covers s" and "orig \<noteq> Signed (PendingWithdrawVault s)"
  shows "keeps vault_covers (bridge_dispatch orig c s)"
proof (cases c)
  case (Call_refund w n)
  then show ?thesis using vault_covers_refund assms(1) by simp
next
  case (Call_withdraw_finish w n)
  then show ?thesis using vault_covers_finish assms(1) by simp
next
  case (Call_withdraw n)
  then show ?thesis using vault_covers_withdraw assms by simp
qed (auto intro: keeps_mono [OF rises_not_withdrawals] vault_covers_rises [OF assms(1)] simp del: bridge_dispatch.simps)

text \<open>The steps of the chain that the vault does not sign.\<close>

inductive vault_step :: "'a bridge_state_scheme \<Rightarrow> 'a bridge_state_scheme \<Rightarrow> bool" where
  bridge_returns: "orig \<noteq> Signed (PendingWithdrawVault s) \<Longrightarrow> bridge_dispatch orig c s = Done u t \<Longrightarrow> vault_step s t"
| bridge_fails: "orig \<noteq> Signed (PendingWithdrawVault s) \<Longrightarrow> bridge_dispatch orig c s = Fail e t \<Longrightarrow> vault_step s t"
| asset_returns: "spares_vault orig c s \<Longrightarrow> ga_dispatch orig c s = Done u t \<Longrightarrow> vault_step s t"
| asset_fails: "ga_dispatch orig c s = Fail e t \<Longrightarrow> vault_step s t"

lemma vault_step_covers: "vault_step s t \<Longrightarrow> vault_covers s \<Longrightarrow> vault_covers t"
proof (induction rule: vault_step.induct)
  case (asset_returns orig c s u t)
  then show ?case
    using rises_asset_call vault_covers_rises unfolding vault_covers_def by blast
next
  case (asset_fails orig c s e t)
  then have "t = s"
    using ga_ledger.error_changes_nothing [of s "(orig, c)"] by (simp add: ga_run_def vault_covers_def)
  with asset_fails show ?case by simp
qed (metis vault_covers_bridge_call keepsD_Done keepsD_Fail)+

lemma vault_steps_cover: "vault_step\<^sup>*\<^sup>* s t \<Longrightarrow> vault_covers s \<Longrightarrow> vault_covers t"
  by (induction rule: rtranclp_induct) (auto intro: vault_step_covers)

section \<open>Properties\<close>

text \<open>C13: As long as the vault signs nothing itself and its shadow asset is not burned, every pending
  withdrawal stays covered: after any history of calls to the bridge and the asset pallet, failing ones
  included, the vault holds at least the sum of all pending withdrawals, and an authorised refund of any
  of them succeeds and pays.\<close>

theorem vault_backs_withdrawals:
  assumes "ga_inv s" and "pending_total s \<le> unat (vault_balance s)" and "vault_step\<^sup>*\<^sup>* s t"
  shows "pending_total t \<le> unat (vault_balance t)
    \<and> (\<forall>who n author. n \<in> set (pending_withdraws who t) \<and> has_auth author Refund t \<longrightarrow>
         (\<exists>u. refund (Signed author) who n t = Done () u
            \<and> free_balance (BridgeAssetId t) who u
              = (if who = PendingWithdrawVault t then vault_balance t else free_balance (BridgeAssetId t) who t + n)))"
proof -
  have cov: "vault_covers t"
    using vault_steps_cover [OF assms(3)] assms(1,2) by (simp add: vault_covers_def)
  then have "\<exists>u. refund (Signed author) who n t = Done () u
      \<and> free_balance (BridgeAssetId t) who u
        = (if who = PendingWithdrawVault t then vault_balance t else free_balance (BridgeAssetId t) who t + n)"
    if "n \<in> set (pending_withdraws who t)" "has_auth author Refund t" for who n author
    using that refund_covered [OF cov that(1)]
    by (auto simp: refund_def make_transfer_with_event_eq ledger_simps vault_balance_def)
  then show ?thesis
    using cov by (auto simp: vault_covers_def)
qed

text \<open>Account 1 withdraws 40 and transfers 50 away; the refund of the 40 succeeds.\<close>

lemma vault_backs_withdrawals_witness:
  "\<exists>t u. vault_step\<^sup>*\<^sup>* demo_bridge t \<and> pending_withdraws 1 t = [40] \<and> pending_total t \<le> unat (vault_balance t)
    \<and> refund (Signed 5) 1 40 t = Done () u"
proof -
  obtain t where run: "withdraw (Signed 1) 40 demo_bridge = Done () t"
    by (simp add: withdraw_def make_transfer_with_event_eq Let_def word_le_nat_alt)
  have step: "vault_step\<^sup>*\<^sup>* demo_bridge t"
    using run by (intro r_into_rtranclp bridge_returns [of "Signed 1" _ "Call_withdraw 40"]) simp_all
  have pend: "pending_withdraws 1 t = [40]" and adm: "Admins t = Admins demo_bridge"
    using withdraw_Done [OF run] by (simp_all add: pending_withdraws_def lm_get_def)
  have "has_auth 5 Refund t"
    by (simp add: has_auth_def adm lm_contains_def lm_get_def)
  moreover have "pending_total demo_bridge = 0"
    by (simp add: pending_total_def owed_to_def pending_withdraws_def lm_get_def)
  ultimately show ?thesis
    using vault_backs_withdrawals [OF demo_bridge_inv(1) _ step] pend step by force
qed

text \<open>
  A withdrawal that the vault signs itself moves nothing and still waits to be paid out, which the code
  does not check.  A withdrawal that is finished, its BTC paid out, is neither burned nor moved: its
  amount stays in the vault and in the issuance of the shadow asset.
\<close>

theorem vault_withdraws_from_itself:
  assumes "n \<le> vault_balance s"
  shows "\<exists>t. withdraw (Signed (PendingWithdrawVault s)) n s = Done () t \<and> vault_balance t = vault_balance s
    \<and> pending_total t = pending_total s + unat n"
proof -
  obtain t where run: "withdraw (Signed (PendingWithdrawVault s)) n s = Done () t"
    using assms by (simp add: withdraw_def make_transfer_with_event_eq vault_balance_def Let_def)
  note facts = withdraw_Done [OF run]
  have "pending_total t = pending_total s + unat n"
    using pending_total_write [of t "PendingWithdrawVault s" "pending_withdraws (PendingWithdrawVault s) s @ [n]" s]
    by (simp add: facts(3) owed_to_def)
  then show ?thesis
    using run by (simp add: vault_balance_def facts ledger_simps)
qed

theorem finish_leaves_amount_in_vault:
  assumes "withdraw_finish orig who n s = Done u t"
  shows "vault_balance t = vault_balance s \<and> total_issuance aid t = total_issuance aid s
    \<and> pending_total t + unat n = pending_total s"
  using assms pending_total_remove [of n who s]
  by (cases orig) (auto simp: withdraw_finish_def vault_balance_def ensure_def remove_from_pending_withdraws_def
      Let_def split: if_splits, simp_all add: deposit_bridge_event_def total_issuance_def)

end
