(* ===== verification/Btc_Bridge.thy ===== *)
theory Btc_Bridge
  imports Bridge
begin

text \<open>
  The btc-bridge pallet (runtime/modules/btc-bridge/src/lib.rs), the successor of the bridge that
  also derives receiving keys.  It moves and mints its shadow asset through the pallet
  \<open>assets\<close>, whose code is not in the repository: the storage of that pallet is the type
  parameter of the state, and its two operations are the arguments \<open>xfer\<close> and \<open>minting\<close>.  The key
  derivation of the package \<open>hkd32\<close> is the argument \<open>kd\<close>.

  The data types of the two bridges are the same, so they are shared.
\<close>

section \<open>Storage\<close>

record 'l btc_state =
  Ledger :: 'l
  KeyMaterial :: "bytes option"
  SubKeyMap :: "(account_id \<times> bytes) \<rightharpoonup> 256 word"
  BtcAssetId :: asset_id
  BtcPaused :: bool
  BtcList :: "(account_id, black_or_white) linked_map"
  BtcThreshold :: balance
  BtcAdmins :: "(account_id, auth) linked_map"
  BtcPendingDepositList :: "(account_id, deposit list) linked_map"
  BtcDepositHistory :: "(tx_hash, deposit) linked_map"
  BtcPendingWithdraws :: "(account_id, balance list) linked_map"
  BtcPendingWithdrawVault :: account_id
  BtcEvents :: "bridge_event list"

definition deposit_btc_event :: "bridge_event \<Rightarrow> 'l btc_state \<Rightarrow> 'l btc_state" where
  "deposit_btc_event ev s = s\<lparr>BtcEvents := BtcEvents s @ [ev]\<rparr>"

text \<open>A call of the \<open>assets\<close> pallet runs on its part of the storage.\<close>

definition on_ledger :: "('l \<Rightarrow> ('a, 'l) dispatch) \<Rightarrow> 'l btc_state \<Rightarrow> ('a, 'l btc_state) dispatch" where
  "on_ledger f s = (case f (Ledger s) of
      Done a l \<Rightarrow> Done a (s\<lparr>Ledger := l\<rparr>)
    | Fail e l \<Rightarrow> Fail e (s\<lparr>Ledger := l\<rparr>)
    | Panic \<Rightarrow> Panic)"

type_synonym 'l transfer_op = "asset_id \<Rightarrow> account_id \<Rightarrow> account_id \<Rightarrow> balance \<Rightarrow> 'l \<Rightarrow> (unit, 'l) dispatch"
type_synonym 'l mint_op = "origin \<Rightarrow> asset_id \<Rightarrow> account_id \<Rightarrow> balance \<Rightarrow> 'l \<Rightarrow> (unit, 'l) dispatch"

definition btc_pending_withdraws :: "account_id \<Rightarrow> 'l btc_state \<Rightarrow> balance list" where
  "btc_pending_withdraws who s = lm_get [] (BtcPendingWithdraws s) who"

definition btc_pending_deposits :: "account_id \<Rightarrow> 'l btc_state \<Rightarrow> deposit list" where
  "btc_pending_deposits who s = lm_get [] (BtcPendingDepositList s) who"

section \<open>Derivation of keys\<close>

datatype btc_error = MissingKeyMaterial | InvalidPathInput | UnsupporttedPathDelimiter

fun as_str :: "btc_error \<Rightarrow> string" where
  "as_str MissingKeyMaterial = ''MissingKeyMaterial''"
| "as_str InvalidPathInput = ''InvalidPathInput''"
| "as_str UnsupporttedPathDelimiter = ''UnsupporttedPathDelimiter''"

text \<open>What the pallet uses of \<open>hkd32\<close>: the path delimiter (a character), the check of a path component
  (\<open>None\<close> is its error) and the derivation.\<close>

record 'c key_derivation =
  delimiter :: "32 word"
  new_component :: "bytes \<Rightarrow> 'c option"
  derive_subkey :: "bytes \<Rightarrow> 'c list \<Rightarrow> 256 word"

text \<open>\<open>slice::split\<close>.\<close>

fun split_on :: "8 word \<Rightarrow> bytes \<Rightarrow> bytes list" where
  "split_on d [] = [[]]"
| "split_on d (x # xs) =
     (if x = d then [] # split_on d xs
      else (case split_on d xs of y # ys \<Rightarrow> (x # y) # ys | [] \<Rightarrow> [[x]]))"

definition set_key_material :: "origin \<Rightarrow> bytes \<Rightarrow> 'l btc_state \<Rightarrow> (unit, 'l btc_state) dispatch" where
  "set_key_material orig material s =
     and_then (ensure_root orig s) (\<lambda>_ s. Done () (s\<lparr>KeyMaterial := Some material\<rparr>))"

definition get_subkey_from_path ::
    "'c key_derivation \<Rightarrow> origin \<Rightarrow> bytes \<Rightarrow> 'l btc_state \<Rightarrow> (unit, 'l btc_state) dispatch" where
  "get_subkey_from_path kd orig path_input s =
     and_then (ensure_signed orig s) (\<lambda>who s.
     ensure (KeyMaterial s \<noteq> None) (Other (as_str MissingKeyMaterial)) s (
     ensure (delimiter kd < 128) (Other (as_str UnsupporttedPathDelimiter)) s (
       if SubKeyMap s (who, path_input) \<noteq> None then Done () s
       else unwrap_then (KeyMaterial s) (\<lambda>key_material.
            let components = tl (split_on (ucast (delimiter kd)) path_input)
            in unwrap_then (those (map (new_component kd) components)) (\<lambda>path_buf.
               let derived_hash = derive_subkey kd key_material path_buf
               in Done () (s\<lparr>SubKeyMap := (SubKeyMap s)((who, path_input) \<mapsto> derived_hash)\<rparr>))))))"

section \<open>The functions of the module\<close>

definition btc_is_tx_seen :: "tx_hash \<Rightarrow> 'l btc_state \<Rightarrow> bool" where
  "btc_is_tx_seen h s = lm_contains (BtcDepositHistory s) h"

definition btc_simple_deposit_with_event ::
    "'l mint_op \<Rightarrow> account_id \<Rightarrow> balance \<Rightarrow> tx_hash \<Rightarrow> 'l btc_state \<Rightarrow> (unit, 'l btc_state) dispatch" where
  "btc_simple_deposit_with_event minting account amount h s =
     (let dep = \<lparr>dep_account = account, dep_tx_hash = None, dep_amount = amount\<rparr>;
          s = s\<lparr>BtcDepositHistory := lm_insert h dep (BtcDepositHistory s)\<rparr>
      in and_then (on_ledger (minting Root (BtcAssetId s) account amount) s) (\<lambda>_ s.
           Done () (deposit_btc_event (Ev_Deposit account amount h) s)))"

definition btc_hold_deposit_with_event ::
    "account_id \<Rightarrow> balance \<Rightarrow> tx_hash \<Rightarrow> 'l btc_state \<Rightarrow> (unit, 'l btc_state) dispatch" where
  "btc_hold_deposit_with_event account amount h s =
     (let dep = \<lparr>dep_account = account, dep_tx_hash = None, dep_amount = amount\<rparr>;
          s = s\<lparr>BtcDepositHistory := lm_insert h dep (BtcDepositHistory s)\<rparr>;
          dep = dep\<lparr>dep_tx_hash := Some h\<rparr>;
          s = s\<lparr>BtcPendingDepositList := lm_mutate [] account (\<lambda>v. v @ [dep]) (BtcPendingDepositList s)\<rparr>
      in Done () (deposit_btc_event (Ev_Pending account amount h) s))"

definition btc_has_auth :: "account_id \<Rightarrow> auth \<Rightarrow> 'l btc_state \<Rightarrow> bool" where
  "btc_has_auth account au s =
     (if \<not> lm_contains (BtcAdmins s) account then False
      else let account_auth = lm_get All (BtcAdmins s) account
           in account_auth = All \<or> account_auth = au)"

definition btc_remove_from_pending_withdraws :: "account_id \<Rightarrow> balance \<Rightarrow> 'l btc_state \<Rightarrow> 'l btc_state" where
  "btc_remove_from_pending_withdraws who amount s =
     (let pendings = btc_pending_withdraws who s;
          s = s\<lparr>BtcPendingWithdraws := lm_remove who (BtcPendingWithdraws s)\<rparr>
      in if 1 < length pendings
         then s\<lparr>BtcPendingWithdraws := lm_insert who (drop_first_amount False amount pendings) (BtcPendingWithdraws s)\<rparr>
         else s)"

definition btc_mark_with_event :: "account_id \<Rightarrow> black_or_white \<Rightarrow> 'l btc_state \<Rightarrow> 'l btc_state" where
  "btc_mark_with_event account bow s =
     deposit_btc_event (AccountMarked account bow) (s\<lparr>BtcList := lm_insert account bow (BtcList s)\<rparr>)"

definition btc_check_list :: "account_id \<Rightarrow> 'l btc_state \<Rightarrow> black_or_white option" where
  "btc_check_list account s =
     (if lm_contains (BtcList s) account then Some (lm_get Black (BtcList s) account) else None)"

section \<open>Dispatchables\<close>

definition btc_pause :: "origin \<Rightarrow> 'l btc_state \<Rightarrow> (unit, 'l btc_state) dispatch" where
  "btc_pause orig s = and_then (ensure_root orig s) (\<lambda>_ s. Done () (s\<lparr>BtcPaused := True\<rparr>))"

definition btc_resume :: "origin \<Rightarrow> 'l btc_state \<Rightarrow> (unit, 'l btc_state) dispatch" where
  "btc_resume orig s = and_then (ensure_root orig s) (\<lambda>_ s. Done () (s\<lparr>BtcPaused := False\<rparr>))"

definition btc_deposit ::
    "'l mint_op \<Rightarrow> origin \<Rightarrow> account_id \<Rightarrow> balance \<Rightarrow> tx_hash \<Rightarrow> 'l btc_state \<Rightarrow> (unit, 'l btc_state) dispatch" where
  "btc_deposit minting orig account amount h s =
     ensure (\<not> btc_is_tx_seen h s) (Other ''repeated transaction'') s (
     and_then (ensure_signed orig s) (\<lambda>who s.
     ensure (btc_has_auth who Deposit s) (Other ''no deposit auth'') s (
       if BtcThreshold s \<le> amount \<and> (btc_check_list account s = None \<or> btc_check_list account s = Some Black)
       then btc_hold_deposit_with_event account amount h s
       else btc_simple_deposit_with_event minting account amount h s)))"

definition btc_refund ::
    "'l transfer_op \<Rightarrow> origin \<Rightarrow> account_id \<Rightarrow> balance \<Rightarrow> 'l btc_state \<Rightarrow> (unit, 'l btc_state) dispatch" where
  "btc_refund xfer orig who amount s =
     and_then (ensure_signed orig s) (\<lambda>author s.
     ensure (btc_has_auth author Refund s) (Other ''no refund auth'') s (
     ensure (amount \<in> set (btc_pending_withdraws who s)) (Other ''pending withdraw not found'') s (
     and_then (on_ledger (xfer (BtcAssetId s) (BtcPendingWithdrawVault s) who amount) s) (\<lambda>_ s.
       Done () (deposit_btc_event (Ev_Refund who amount) (btc_remove_from_pending_withdraws who amount s))))))"

definition btc_withdraw_finish ::
    "origin \<Rightarrow> account_id \<Rightarrow> balance \<Rightarrow> 'l btc_state \<Rightarrow> (unit, 'l btc_state) dispatch" where
  "btc_withdraw_finish orig who amount s =
     and_then (ensure_signed orig s) (\<lambda>author s.
     ensure (btc_has_auth author Withdraw s) (Other ''no withdraw auth'') s (
     ensure (amount \<in> set (btc_pending_withdraws who s)) (Other ''pending withdraw not found'') s (
       Done () (deposit_btc_event (Ev_Withdraw who amount) (btc_remove_from_pending_withdraws who amount s)))))"

definition btc_withdraw ::
    "'l transfer_op \<Rightarrow> origin \<Rightarrow> balance \<Rightarrow> 'l btc_state \<Rightarrow> (unit, 'l btc_state) dispatch" where
  "btc_withdraw xfer orig amount s =
     and_then (ensure_signed orig s) (\<lambda>who s.
     and_then (on_ledger (xfer (BtcAssetId s) who (BtcPendingWithdrawVault s) amount) s) (\<lambda>_ s.
       let s = (if lm_contains (BtcPendingWithdraws s) who
                then s\<lparr>BtcPendingWithdraws := lm_mutate [] who (\<lambda>v. v @ [amount]) (BtcPendingWithdraws s)\<rparr>
                else s\<lparr>BtcPendingWithdraws := lm_insert who [amount] (BtcPendingWithdraws s)\<rparr>)
       in Done () (deposit_btc_event (Ev_PendingWithdraw who amount) s)))"

definition btc_mark_black :: "origin \<Rightarrow> account_id \<Rightarrow> 'l btc_state \<Rightarrow> (unit, 'l btc_state) dispatch" where
  "btc_mark_black orig account s =
     and_then (ensure_signed orig s) (\<lambda>who s.
     ensure (btc_has_auth who Mark s) (Other ''no mark auth'') s (
       let pendings = btc_pending_deposits account s;
           s = s\<lparr>BtcPendingDepositList := lm_remove account (BtcPendingDepositList s)\<rparr>
       in and_then
            (for_each (\<lambda>v s. unwrap_then (dep_tx_hash v) (\<lambda>h.
                Done () (s\<lparr>BtcDepositHistory := lm_remove h (BtcDepositHistory s)\<rparr>))) pendings s)
            (\<lambda>_ s. Done () (btc_mark_with_event account Black s))))"

fun btc_release_pendings ::
    "'l mint_op \<Rightarrow> account_id \<Rightarrow> deposit list \<Rightarrow> 'l btc_state \<Rightarrow> (unit, 'l btc_state) dispatch" where
  "btc_release_pendings minting account [] s = Done () s"
| "btc_release_pendings minting account (p # pendings) s =
     unwrap_then (dep_tx_hash p) (\<lambda>h.
     and_then
       (or_else (btc_simple_deposit_with_event minting (dep_account p) (dep_amount p) h s)
         (\<lambda>err s. Fail err (s\<lparr>BtcPendingDepositList := lm_insert account (p # pendings) (BtcPendingDepositList s)\<rparr>)))
       (\<lambda>_ s. btc_release_pendings minting account pendings s))"

definition btc_mark_white :: "'l mint_op \<Rightarrow> origin \<Rightarrow> account_id \<Rightarrow> 'l btc_state \<Rightarrow> (unit, 'l btc_state) dispatch" where
  "btc_mark_white minting orig account s =
     and_then (ensure_signed orig s) (\<lambda>who s.
     ensure (btc_has_auth who Mark s) (Other ''no mark auth'') s (
       let pendings = btc_pending_deposits account s;
           s = s\<lparr>BtcPendingDepositList := lm_remove account (BtcPendingDepositList s)\<rparr>
       in and_then (btc_release_pendings minting account pendings s) (\<lambda>_ s.
            Done () (btc_mark_with_event account White s))))"

datatype btc_call =
    Btc_set_key_material bytes
  | Btc_get_subkey_from_path bytes
  | Btc_pause
  | Btc_resume
  | Btc_deposit account_id balance tx_hash
  | Btc_refund account_id balance
  | Btc_withdraw_finish account_id balance
  | Btc_withdraw balance
  | Btc_mark_black account_id
  | Btc_mark_white account_id

fun btc_dispatch ::
    "'c key_derivation \<Rightarrow> 'l transfer_op \<Rightarrow> 'l mint_op \<Rightarrow> origin \<Rightarrow> btc_call \<Rightarrow> 'l btc_state
      \<Rightarrow> (unit, 'l btc_state) dispatch" where
  "btc_dispatch kd xfer minting orig (Btc_set_key_material m) s = set_key_material orig m s"
| "btc_dispatch kd xfer minting orig (Btc_get_subkey_from_path p) s = get_subkey_from_path kd orig p s"
| "btc_dispatch kd xfer minting orig Btc_pause s = btc_pause orig s"
| "btc_dispatch kd xfer minting orig Btc_resume s = btc_resume orig s"
| "btc_dispatch kd xfer minting orig (Btc_deposit a n h) s = btc_deposit minting orig a n h s"
| "btc_dispatch kd xfer minting orig (Btc_refund a n) s = btc_refund xfer orig a n s"
| "btc_dispatch kd xfer minting orig (Btc_withdraw_finish a n) s = btc_withdraw_finish orig a n s"
| "btc_dispatch kd xfer minting orig (Btc_withdraw n) s = btc_withdraw xfer orig n s"
| "btc_dispatch kd xfer minting orig (Btc_mark_black a) s = btc_mark_black orig a s"
| "btc_dispatch kd xfer minting orig (Btc_mark_white a) s = btc_mark_white minting orig a s"

section \<open>Genesis\<close>

definition btc_genesis_build ::
    "bytes \<Rightarrow> asset_id \<Rightarrow> balance \<Rightarrow> account_id \<Rightarrow> (account_id \<times> auth) list \<Rightarrow> 'l \<Rightarrow> 'l btc_state" where
  "btc_genesis_build material aid threshold vault admins ledger =
     \<lparr>Ledger = ledger, KeyMaterial = Some material, SubKeyMap = Map.empty, BtcAssetId = aid, BtcPaused = False,
      BtcList = [], BtcThreshold = threshold, BtcAdmins = fold (\<lambda>(k, v). lm_insert k v) admins [],
      BtcPendingDepositList = [], BtcDepositHistory = [], BtcPendingWithdraws = [],
      BtcPendingWithdrawVault = vault, BtcEvents = []\<rparr>"

end
