(* ===== verification/Btc_Properties.thy ===== *)
theory Btc_Properties
  imports Btc_Bridge Bridge_Properties
begin

text \<open>
  The properties of the btc-bridge pallet.  The pallet \<open>assets\<close> it runs on is not in the
  repository, so what it promises is the interface \<open>mintable_ledger\<close>: a transfer is that of
  \<open>asset_ledger\<close>, and minting credits one account of one asset or fails and leaves the balances
  alone.  The generic-asset pallet of the repository keeps this interface, which shows that it can be
  kept.
\<close>

section \<open>The interface\<close>

locale mintable_ledger = asset_ledger bal xfer
  for bal :: "asset_id \<Rightarrow> account_id \<Rightarrow> 'l \<Rightarrow> balance" and xfer :: "'l transfer_op" +
  fixes minting :: "'l mint_op"
  assumes mint_bal: "minting orig a w n l = Done u l' \<Longrightarrow>
      bal b v l' = (if b = a \<and> v = w then bal a w l + n else bal b v l)"
    and mint_fail: "minting orig a w n l = Fail e l' \<Longrightarrow> bal b v l' = bal b v l"

lemma on_ledger_Done_iff: "on_ledger f s = Done u t \<longleftrightarrow> (\<exists>l. f (Ledger s) = Done u l \<and> t = s\<lparr>Ledger := l\<rparr>)"
  by (auto simp: on_ledger_def split: outcome.splits)

lemma on_ledger_Fail_iff: "on_ledger f s = Fail e t \<longleftrightarrow> (\<exists>l. f (Ledger s) = Fail e l \<and> t = s\<lparr>Ledger := l\<rparr>)"
  by (auto simp: on_ledger_def split: outcome.splits)

lemma keeps_on_ledger:
  "(\<And>u l. f (Ledger s) = Done u l \<Longrightarrow> P (s\<lparr>Ledger := l\<rparr>)) \<Longrightarrow>
   (\<And>e l. f (Ledger s) = Fail e l \<Longrightarrow> P (s\<lparr>Ledger := l\<rparr>)) \<Longrightarrow> keeps P (on_ledger f s)"
  by (auto simp: on_ledger_def split: outcome.splits)

text \<open>The generic-asset pallet as provider: the root mints with the rights of the sudo key.\<close>

definition ga_minting :: "ga_state mint_op" where
  "ga_minting orig a w n s =
     (case orig of Root \<Rightarrow> mint_free a (SudoKey s) w n s | Signed who \<Rightarrow> mint_free a who w n s
      | NoneOrigin \<Rightarrow> Fail BadOrigin s)"

interpretation ga_mint: mintable_ledger free_balance make_transfer_with_event ga_minting
proof unfold_locales
  show "free_balance b v l' = (if b = a \<and> v = w then free_balance a w l + n else free_balance b v l)"
    if "ga_minting orig a w n l = Done u l'" for orig a w n l u l' b v
    using that by (auto simp: ga_minting_def mint_free_Done_iff ledger_simps split: origin.splits)
  show "free_balance b v l' = free_balance b v l"
    if "ga_minting orig a w n l = Fail e l'" for orig a w n l e l' b v
    using that by (auto simp: ga_minting_def dest: mint_free_Fail split: origin.splits)
qed

section \<open>Releasing what is held\<close>

definition btc_waiting :: "account_id \<Rightarrow> 'l btc_state \<Rightarrow> balance" where
  "btc_waiting account s = sum_list (map dep_amount (btc_pending_deposits account s))"

lemma btc_event_frame [simp]:
  "Ledger (deposit_btc_event ev s) = Ledger s" "BtcAssetId (deposit_btc_event ev s) = BtcAssetId s"
  "SubKeyMap (deposit_btc_event ev s) = SubKeyMap s" "BtcList (deposit_btc_event ev s) = BtcList s"
  "BtcPendingDepositList (deposit_btc_event ev s) = BtcPendingDepositList s"
  by (simp_all add: deposit_btc_event_def)

lemma btc_simple_deposit_Done:
  assumes "btc_simple_deposit_with_event minting w n h s = Done u t"
  shows "minting Root (BtcAssetId s) w n (Ledger s) = Done () (Ledger t)" "BtcAssetId t = BtcAssetId s"
    "BtcPendingDepositList t = BtcPendingDepositList s" "SubKeyMap t = SubKeyMap s"
  using assms by (auto simp: btc_simple_deposit_with_event_def Let_def and_then_Done_iff on_ledger_Done_iff)

lemma btc_simple_deposit_Fail:
  assumes "btc_simple_deposit_with_event minting w n h s = Fail e t"
  shows "minting Root (BtcAssetId s) w n (Ledger s) = Fail e (Ledger t)" "BtcAssetId t = BtcAssetId s"
    "BtcPendingDepositList t = BtcPendingDepositList s" "SubKeyMap t = SubKeyMap s"
proof -
  let ?f = "minting Root (BtcAssetId s) w n"
  have "\<exists>l. ?f (Ledger s) = Fail e l
    \<and> t = s\<lparr>BtcDepositHistory := BtcDepositHistory t, Ledger := l\<rparr>"
    using assms by (cases "?f (Ledger s)")
      (auto simp: btc_simple_deposit_with_event_def Let_def on_ledger_def)
  then obtain l where l: "?f (Ledger s) = Fail e l" "t = s\<lparr>BtcDepositHistory := BtcDepositHistory t, Ledger := l\<rparr>"
    by blast
  show "?f (Ledger s) = Fail e (Ledger t)" "BtcAssetId t = BtcAssetId s"
    "BtcPendingDepositList t = BtcPendingDepositList s" "SubKeyMap t = SubKeyMap s"
    using l(1) by (subst l(2), simp)+
qed

text \<open>What the release of held deposits owes: the balance and what still waits.\<close>

definition owed_same ::
    "(asset_id \<Rightarrow> account_id \<Rightarrow> 'l \<Rightarrow> balance) \<Rightarrow> account_id \<Rightarrow> balance \<Rightarrow> 'l btc_state \<Rightarrow> 'l btc_state \<Rightarrow> bool" where
  "owed_same bal account m s t \<longleftrightarrow>
     bal (BtcAssetId s) account (Ledger t) + btc_waiting account t = bal (BtcAssetId s) account (Ledger s) + m
     \<and> (\<forall>b v. (b, v) \<noteq> (BtcAssetId s, account) \<longrightarrow> bal b v (Ledger t) = bal b v (Ledger s))"

context mintable_ledger
begin

lemma release_keeps_owed:
  assumes "btc_pending_deposits account s = []" and "\<forall>p\<in>set ps. dep_account p = account"
  shows "keeps (owed_same bal account (sum_list (map dep_amount ps)) s) (btc_release_pendings minting account ps s)"
  using assms
proof (induction ps arbitrary: s)
  case Nil
  then show ?case by (simp add: owed_same_def btc_waiting_def)
next
  case (Cons p ps)
  show ?case
  proof (cases "dep_tx_hash p")
    case None
    then show ?thesis by simp
  next
    case (Some h)
    have acct: "dep_account p = account" using Cons.prems by simp
    show ?thesis
    proof (cases "btc_simple_deposit_with_event minting account (dep_amount p) h s")
      case (Done u t)
      note facts = btc_simple_deposit_Done [OF Done]
      have "btc_pending_deposits account t = []"
        using Cons.prems(1) facts(3) by (simp add: btc_pending_deposits_def)
      then have "keeps (owed_same bal account (sum_list (map dep_amount ps)) t) (btc_release_pendings minting account ps t)"
        by (rule Cons.IH) (use Cons.prems in simp)
      then show ?thesis
        using Some acct Done
        by simp (erule keeps_mono, simp add: owed_same_def facts(2) mint_bal [OF facts(1)] algebra_simps)
    next
      case (Fail e t)
      note facts = btc_simple_deposit_Fail [OF Fail]
      show ?thesis
        using Some acct Fail
        by (simp add: owed_same_def btc_waiting_def btc_pending_deposits_def mint_fail [OF facts(1)])
    next
      case Panic
      then show ?thesis using Some acct by simp
    qed
  qed
qed

lemma mark_white_keeps_owed:
  assumes "\<forall>p\<in>set (btc_pending_deposits account s). dep_account p = account"
  shows "keeps (owed_same bal account (btc_waiting account s) s) (btc_mark_white minting orig account s)"
proof (cases orig)
  case (Signed who)
  let ?s = "s\<lparr>BtcPendingDepositList := lm_remove account (BtcPendingDepositList s)\<rparr>"
  have self: "owed_same bal account (btc_waiting account s) s s"
    by (simp add: owed_same_def)
  have "keeps (owed_same bal account (btc_waiting account s) ?s)
      (btc_release_pendings minting account (btc_pending_deposits account s) ?s)"
    unfolding btc_waiting_def
    by (rule release_keeps_owed) (use assms in \<open>simp_all add: btc_pending_deposits_def\<close>)
  then have "keeps (owed_same bal account (btc_waiting account s) s)
      (btc_release_pendings minting account (btc_pending_deposits account s) ?s)"
    by (rule keeps_mono) (simp add: owed_same_def)
  then show ?thesis
    unfolding btc_mark_white_def Let_def Signed ensure_origin_simps and_then_simps
    by (intro keeps_intros self)
      (simp_all add: btc_mark_with_event_def owed_same_def btc_waiting_def btc_pending_deposits_def)
qed (simp_all add: btc_mark_white_def owed_same_def)

end

lemma btc_release_Done_pending:
  "btc_release_pendings minting account ps s = Done u t \<Longrightarrow> BtcPendingDepositList t = BtcPendingDepositList s"
proof (induction ps arbitrary: s)
  case (Cons p ps)
  then show ?case
    by (cases "btc_simple_deposit_with_event minting (dep_account p) (dep_amount p) (the (dep_tx_hash p)) s")
      (auto simp: unwrap_then_Done_iff dest: btc_simple_deposit_Done(3))
qed simp

text \<open>C14: Whitening an account loses nothing of what is held for it: whether the call succeeds or
  stops at a mint that fails, the balance of the account and the deposits still waiting add up to what
  they were, and no other balance changes.  If it succeeds nothing waits any more and the account is
  on the white list.\<close>

theorem btc_whitening_loses_nothing:
  assumes ledger: "mintable_ledger bal xfer minting"
    and own: "\<forall>p\<in>set (btc_pending_deposits account s). dep_account p = account"
  shows "keeps (\<lambda>t. bal (BtcAssetId s) account (Ledger t) + btc_waiting account t
              = bal (BtcAssetId s) account (Ledger s) + btc_waiting account s
            \<and> (\<forall>b v. (b, v) \<noteq> (BtcAssetId s, account) \<longrightarrow> bal b v (Ledger t) = bal b v (Ledger s)))
          (btc_mark_white minting orig account s)
    \<and> (\<forall>u t. btc_mark_white minting orig account s = Done u t \<longrightarrow>
          btc_pending_deposits account t = [] \<and> btc_check_list account t = Some White)"
proof (intro conjI allI impI)
  show "keeps (\<lambda>t. bal (BtcAssetId s) account (Ledger t) + btc_waiting account t
              = bal (BtcAssetId s) account (Ledger s) + btc_waiting account s
            \<and> (\<forall>b v. (b, v) \<noteq> (BtcAssetId s, account) \<longrightarrow> bal b v (Ledger t) = bal b v (Ledger s)))
          (btc_mark_white minting orig account s)"
    using mintable_ledger.mark_white_keeps_owed [OF ledger own, of orig]
    by (rule keeps_mono) (simp add: owed_same_def)
next
  fix u t
  assume "btc_mark_white minting orig account s = Done u t"
  then obtain r where rel: "btc_release_pendings minting account (btc_pending_deposits account s)
        (s\<lparr>BtcPendingDepositList := lm_remove account (BtcPendingDepositList s)\<rparr>) = Done () r"
    and t: "t = btc_mark_with_event account White r"
    by (cases orig) (auto simp: btc_mark_white_def Let_def and_then_Done_iff ensure_Done_iff)
  show "btc_pending_deposits account t = []" "btc_check_list account t = Some White"
    using btc_release_Done_pending [OF rel]
    by (simp_all add: t btc_mark_with_event_def btc_pending_deposits_def btc_check_list_def)
qed

definition demo_btc :: "ga_state btc_state" where
  "demo_btc =
     \<lparr>Ledger = demo_ga, KeyMaterial = None, SubKeyMap = Map.empty, BtcAssetId = 0, BtcPaused = False,
      BtcList = [], BtcThreshold = 50, BtcAdmins = [(5, All)],
      BtcPendingDepositList = [(2, [\<lparr>dep_account = 2, dep_tx_hash = Some 77, dep_amount = 30\<rparr>])],
      BtcDepositHistory = [(77, \<lparr>dep_account = 2, dep_tx_hash = None, dep_amount = 30\<rparr>)],
      BtcPendingWithdraws = [], BtcPendingWithdrawVault = 9, BtcEvents = []\<rparr>"

lemma demo_btc_fields [simp]:
  "Ledger demo_btc = demo_ga" "KeyMaterial demo_btc = None" "SubKeyMap demo_btc = Map.empty"
  "BtcAssetId demo_btc = 0" "BtcAdmins demo_btc = [(5, All)]"
  "BtcPendingDepositList demo_btc = [(2, [\<lparr>dep_account = 2, dep_tx_hash = Some 77, dep_amount = 30\<rparr>])]"
  by (simp_all add: demo_btc_def)

lemma demo_btc_pending [simp]:
  "btc_pending_deposits 2 demo_btc = [\<lparr>dep_account = 2, dep_tx_hash = Some 77, dep_amount = 30\<rparr>]"
  "btc_has_auth 5 au demo_btc"
  by (simp_all add: btc_pending_deposits_def btc_has_auth_def lm_get_def lm_contains_def)

lemma btc_whitening_loses_nothing_witness:
  "\<exists>t. btc_mark_white ga_minting (Signed 5) 2 demo_btc = Done () t
    \<and> free_balance 0 2 (Ledger t) = 30 \<and> btc_pending_deposits 2 t = [] \<and> btc_check_list 2 t = Some White"
proof -
  have "\<exists>t. btc_mark_white ga_minting (Signed 5) 2 demo_btc = Done () t"
    by (simp add: btc_mark_white_def Let_def btc_simple_deposit_with_event_def on_ledger_def ga_minting_def
        mint_free_def demo_check_permission demo_reads checked_add_def)
      (simp add: demo_ga_def demo_check_permission [unfolded demo_ga_def])
  then obtain t where run: "btc_mark_white ga_minting (Signed 5) 2 demo_btc = Done () t" ..
  from btc_whitening_loses_nothing [OF ga_mint.mintable_ledger_axioms, of 2 demo_btc "Signed 5"] run
  show ?thesis by (auto simp: demo_reads btc_waiting_def)
qed

section \<open>Histories of calls\<close>

inductive btc_step ::
    "'c key_derivation \<Rightarrow> 'l transfer_op \<Rightarrow> 'l mint_op \<Rightarrow> 'l btc_state \<Rightarrow> 'l btc_state \<Rightarrow> bool"
  for kd xfer minting where
  btc_returns: "btc_dispatch kd xfer minting orig c s = Done u t \<Longrightarrow> btc_step kd xfer minting s t"
| btc_fails: "btc_dispatch kd xfer minting orig c s = Fail e t \<Longrightarrow> btc_step kd xfer minting s t"

text \<open>What every call of the pallet leaves alone, compared to a storage \<open>s\<close>: the derived keys, the id of
  the shadow asset and the balances of every other asset.\<close>

definition btc_framed ::
    "(asset_id \<Rightarrow> account_id \<Rightarrow> 'l \<Rightarrow> balance) \<Rightarrow> 'l btc_state \<Rightarrow> 'l btc_state \<Rightarrow> bool" where
  "btc_framed bal s t \<longleftrightarrow>
     SubKeyMap s \<subseteq>\<^sub>m SubKeyMap t \<and> BtcAssetId t = BtcAssetId s
     \<and> (\<forall>b w. b \<noteq> BtcAssetId s \<longrightarrow> bal b w (Ledger t) = bal b w (Ledger s))"

lemma btc_framed_refl: "btc_framed bal s s"
  by (simp add: btc_framed_def)

lemma btc_framed_fields:
  "SubKeyMap t = SubKeyMap s \<Longrightarrow> BtcAssetId t = BtcAssetId s \<Longrightarrow> Ledger t = Ledger s \<Longrightarrow>
   btc_framed bal r t = btc_framed bal r s"
  by (simp add: btc_framed_def)

lemma btc_framed_event [simp]: "btc_framed bal s (deposit_btc_event ev t) = btc_framed bal s t"
  by (rule btc_framed_fields) simp_all

lemma btc_framed_updates [simp]:
  "btc_framed bal s (t\<lparr>BtcPaused := x1\<rparr>) = btc_framed bal s t"
  "btc_framed bal s (t\<lparr>KeyMaterial := x2\<rparr>) = btc_framed bal s t"
  "btc_framed bal s (t\<lparr>BtcPendingDepositList := x3\<rparr>) = btc_framed bal s t"
  "btc_framed bal s (t\<lparr>BtcDepositHistory := x4\<rparr>) = btc_framed bal s t"
  "btc_framed bal s (t\<lparr>BtcPendingWithdraws := x5\<rparr>) = btc_framed bal s t"
  "btc_framed bal s (t\<lparr>BtcList := x6\<rparr>) = btc_framed bal s t"
  by (simp_all add: btc_framed_def)

lemma btc_framed_helpers [simp]:
  "btc_framed bal s (btc_mark_with_event a w t) = btc_framed bal s t"
  "btc_framed bal s (btc_remove_from_pending_withdraws a n t) = btc_framed bal s t"
  by (simp_all add: btc_mark_with_event_def btc_remove_from_pending_withdraws_def Let_def)

lemma btc_framed_subkey:
  "btc_framed bal s t \<Longrightarrow> SubKeyMap t k = None \<Longrightarrow> btc_framed bal s (t\<lparr>SubKeyMap := (SubKeyMap t)(k \<mapsto> v)\<rparr>)"
  by (auto simp: btc_framed_def map_le_def) (metis domI domIff option.distinct(1))

context mintable_ledger
begin

lemma framed_mint [keeps_intros]:
  "btc_framed bal s t \<Longrightarrow> keeps (btc_framed bal s) (on_ledger (minting orig (BtcAssetId t) w n) t)"
  by (rule keeps_on_ledger) (simp_all add: btc_framed_def mint_bal mint_fail)

lemma framed_transfer [keeps_intros]:
  "btc_framed bal s t \<Longrightarrow> keeps (btc_framed bal s) (on_ledger (xfer (BtcAssetId t) v w n) t)"
  by (rule keeps_on_ledger) (auto simp: btc_framed_def xfer_other_asset dest: xfer_Fail_unchanged)

lemma framed_simple_deposit [keeps_intros]:
  "btc_framed bal s t \<Longrightarrow> keeps (btc_framed bal s) (btc_simple_deposit_with_event minting w n h t)"
  unfolding btc_simple_deposit_with_event_def Let_def
  by (rule keeps_and_then)
    (use framed_mint [of s "t\<lparr>BtcDepositHistory := x\<rparr>" for x] in \<open>simp_all\<close>)

lemma framed_release [keeps_intros]:
  "btc_framed bal s t \<Longrightarrow> keeps (btc_framed bal s) (btc_release_pendings minting account ps t)"
proof (induction ps arbitrary: t)
  case (Cons p ps)
  then show ?case by (auto intro!: keeps_intros)
qed simp

lemma framed_subkey_path [keeps_intros]:
  "btc_framed bal s t \<Longrightarrow> keeps (btc_framed bal s) (get_subkey_from_path kd orig p t)"
  unfolding get_subkey_from_path_def
  by (cases orig) (auto intro!: keeps_ensure keeps_unwrap_then btc_framed_subkey simp: Let_def)

lemma framed_dispatch: "keeps (btc_framed bal s) (btc_dispatch kd xfer minting orig c s)"
  using btc_framed_refl [of bal s]
  by (cases c)
    (auto simp: set_key_material_def btc_pause_def btc_resume_def btc_deposit_def btc_refund_def
      btc_withdraw_finish_def btc_withdraw_def btc_mark_black_def btc_mark_white_def
      btc_hold_deposit_with_event_def Let_def intro!: keeps_intros)

lemma framed_steps: "(btc_step kd xfer minting)\<^sup>*\<^sup>* s t \<Longrightarrow> btc_framed bal s t"
proof (induction rule: rtranclp_induct)
  case base
  show ?case by (rule btc_framed_refl)
next
  case (step t u)
  then have "btc_framed bal t u"
    by (auto elim!: btc_step.cases intro: keepsD_Done [OF framed_dispatch] keepsD_Fail [OF framed_dispatch])
  with step.IH show ?case
    by (auto simp: btc_framed_def intro: map_le_trans)
qed

end

text \<open>Whatever is called, in whatever order and with whatever failures, a key once derived for an
  account and a path never changes, also when the root replaces the key material, and the pallet never
  moves an asset other than its shadow asset.\<close>

theorem btc_keys_and_other_assets_stable:
  assumes ledger: "mintable_ledger bal xfer minting" and run: "(btc_step kd xfer minting)\<^sup>*\<^sup>* s t"
  shows "(\<forall>who path key. SubKeyMap s (who, path) = Some key \<longrightarrow> SubKeyMap t (who, path) = Some key)
    \<and> BtcAssetId t = BtcAssetId s
    \<and> (\<forall>b w. b \<noteq> BtcAssetId s \<longrightarrow> bal b w (Ledger t) = bal b w (Ledger s))"
  using mintable_ledger.framed_steps [OF ledger run]
  by (auto simp: btc_framed_def map_le_def dom_def)

text \<open>A derivation that splits at the slash and sums the bytes of the components.\<close>

definition demo_kd :: "bytes key_derivation" where
  "demo_kd = \<lparr>delimiter = 47, new_component = Some,
     derive_subkey = (\<lambda>m cs. ucast (sum_list m) + ucast (sum_list (concat cs)))\<rparr>"

definition demo_keyed :: "ga_state btc_state" where
  "demo_keyed = demo_btc\<lparr>KeyMaterial := Some [1], SubKeyMap := [(3, [109, 47, 2]) \<mapsto> 3]\<rparr>"

lemma demo_derivation:
  "get_subkey_from_path demo_kd (Signed 3) [109, 47, 2] (demo_btc\<lparr>KeyMaterial := Some [1]\<rparr>) = Done () demo_keyed"
  by (simp add: get_subkey_from_path_def demo_kd_def demo_keyed_def)

lemma btc_keys_and_other_assets_stable_witness:
  "\<exists>t. (btc_step demo_kd make_transfer_with_event ga_minting)\<^sup>*\<^sup>* demo_keyed t \<and> KeyMaterial t = Some [9]
    \<and> SubKeyMap t (3, [109, 47, 2]) = Some 3"
proof -
  let ?t = "demo_keyed\<lparr>KeyMaterial := Some [9]\<rparr>"
  have "btc_dispatch demo_kd make_transfer_with_event ga_minting Root (Btc_set_key_material [9]) demo_keyed = Done () ?t"
    by (simp add: set_key_material_def)
  then have run: "(btc_step demo_kd make_transfer_with_event ga_minting)\<^sup>*\<^sup>* demo_keyed ?t"
    by (intro r_into_rtranclp btc_returns)
  from btc_keys_and_other_assets_stable [OF ga_mint.mintable_ledger_axioms run] run show ?thesis
    by (intro exI [of _ ?t]) (simp add: demo_keyed_def)
qed

end
