(* ===== verification/Results.thy ===== *)
theory Results
  imports Exec
begin

text \<open>
  The second half of the prelude, for the code outside the pallets (the commands of the node): a
  function that can fail and touches no storage returns a sum, \<open>Inl\<close> an error or \<open>Inr\<close> a result.
  The theory holds the combinators on such results and what the code uses of the standard library on
  strings: splitting, printing a number in decimal and parsing it into a machine integer.
\<close>

section \<open>Results\<close>

definition try_then :: "'e + 'a \<Rightarrow> ('a \<Rightarrow> 'e + 'b) \<Rightarrow> 'e + 'b" where
  "try_then r k = (case r of Inl e \<Rightarrow> Inl e | Inr a \<Rightarrow> k a)"

definition map_err :: "('e \<Rightarrow> 'f) \<Rightarrow> 'e + 'a \<Rightarrow> 'f + 'a" where
  "map_err f r = map_sum f (\<lambda>a. a) r"

definition ok_or_else :: "'a option \<Rightarrow> 'e \<Rightarrow> 'e + 'a" where
  "ok_or_else x e = (case x of None \<Rightarrow> Inl e | Some a \<Rightarrow> Inr a)"

lemma result_combinators [simp]:
  "try_then (Inl e) k = Inl e" "try_then (Inr a) k = k a"
  "map_err f (Inl e) = Inl (f e)" "map_err f (Inr a) = Inr a"
  "ok_or_else None e' = Inl e'" "ok_or_else (Some a) e' = Inr a"
  by (simp_all add: try_then_def map_err_def ok_or_else_def)

lemma try_then_Inr_iff: "try_then r k = Inr b \<longleftrightarrow> (\<exists>a. r = Inr a \<and> k a = Inr b)"
  by (cases r) simp_all

lemma map_err_Inr_iff: "map_err f r = Inr b \<longleftrightarrow> r = Inr b"
  by (cases r) simp_all

lemma ok_or_else_Inr_iff: "ok_or_else x e = Inr b \<longleftrightarrow> x = Some b"
  by (cases x) simp_all

lemmas Inr_iffs = try_then_Inr_iff map_err_Inr_iff ok_or_else_Inr_iff

text \<open>A part of the program that runs to its end, returns an error or panics, with the message.\<close>

datatype 'a exit = Ok_Exit 'a | Err_Exit string | Panic_Exit string

definition exit_then :: "string + 'a \<Rightarrow> ('a \<Rightarrow> 'b exit) \<Rightarrow> 'b exit" where
  "exit_then r k = (case r of Inl e \<Rightarrow> Err_Exit e | Inr a \<Rightarrow> k a)"

lemma exit_then_simps [simp]: "exit_then (Inl e) k = Err_Exit e" "exit_then (Inr a) k = k a"
  by (simp_all add: exit_then_def)

section \<open>Splitting\<close>

text \<open>
  A split iterator always has a first piece, possibly empty, so \<open>split_str\<close> returns the first piece
  and the list of the others.
\<close>

fun split_str :: "(char \<Rightarrow> bool) \<Rightarrow> string \<Rightarrow> string \<times> string list" where
  "split_str P [] = ([], [])"
| "split_str P (c # cs) =
     (let (piece, pieces) = split_str P cs
      in if P c then ([], piece # pieces) else (c # piece, pieces))"

lemma split_str_none: "\<forall>c \<in> set cs. \<not> P c \<Longrightarrow> split_str P cs = (cs, [])"
  by (induction cs) simp_all

lemma split_str_first:
  "\<forall>c \<in> set xs. \<not> P c \<Longrightarrow> P sep \<Longrightarrow> split_str P (xs @ sep # ys) = (xs, fst (split_str P ys) # snd (split_str P ys))"
  by (induction xs) (simp_all add: split_beta Let_def)

section \<open>Decimal numbers\<close>

type_synonym usize = "64 word"

definition digit_char :: "nat \<Rightarrow> char" where
  "digit_char d = char_of (48 + d)"

definition to_digit :: "char \<Rightarrow> nat option" where
  "to_digit c = (if 48 \<le> (of_char c :: nat) \<and> (of_char c :: nat) \<le> 57 then Some (of_char c - 48) else None)"

fun show_nat :: "nat \<Rightarrow> string" where
  "show_nat n = (if n < 10 then [digit_char n] else show_nat (n div 10) @ [digit_char (n mod 10)])"

declare show_nat.simps [simp del]

datatype int_error = Int_Empty | Int_InvalidDigit | Int_Overflow

fun show_int_error :: "int_error \<Rightarrow> string" where
  "show_int_error Int_Empty = ''cannot parse integer from empty string''"
| "show_int_error Int_InvalidDigit = ''invalid digit found in string''"
| "show_int_error Int_Overflow = ''number too large to fit in target type''"

text \<open>\<open>usize::from_str\<close>: an optional plus sign, then digits, multiplied up with overflow checks.\<close>

definition parse_step :: "int_error + usize \<Rightarrow> char \<Rightarrow> int_error + usize" where
  "parse_step r c =
     try_then r (\<lambda>acc.
     try_then (ok_or_else (to_digit c) Int_InvalidDigit) (\<lambda>d.
     try_then (ok_or_else (checked_mul acc 10) Int_Overflow) (\<lambda>m.
     ok_or_else (checked_add m (of_nat d)) Int_Overflow)))"

definition parse_usize :: "string \<Rightarrow> int_error + usize" where
  "parse_usize s =
     (if s = [] then Inl Int_Empty
      else let digits = (if hd s = CHR ''+'' then tl s else s)
           in if digits = [] then Inl Int_Empty else foldl parse_step (Inr 0) digits)"

lemma to_digit_char [simp]: "d < 10 \<Longrightarrow> to_digit (digit_char d) = Some d"
  by (simp add: to_digit_def digit_char_def)

lemma digit_char_not: "d < 10 \<Longrightarrow> (of_char c :: nat) < 48 \<or> 58 \<le> (of_char c :: nat) \<Longrightarrow> digit_char d \<noteq> c"
  by (auto simp: digit_char_def)

lemma set_show_nat: "c \<in> set (show_nat n) \<Longrightarrow> \<exists>d < 10. c = digit_char d"
proof (induction n rule: show_nat.induct)
  case (1 n)
  show ?case
  proof (cases "n < 10")
    case True
    then show ?thesis using 1 by (auto simp: show_nat.simps [of n])
  next
    case False
    then have "c \<in> set (show_nat (n div 10)) \<or> c = digit_char (n mod 10)"
      using 1(2) by (auto simp: show_nat.simps [of n])
    moreover have "n mod 10 < 10" by simp
    ultimately show ?thesis using 1(1) [OF False] by blast
  qed
qed

lemma show_nat_not_Nil [simp]: "show_nat n \<noteq> []"
  by (subst show_nat.simps) simp

lemma not_in_show_nat: "(of_char c :: nat) < 48 \<or> 58 \<le> (of_char c :: nat) \<Longrightarrow> c \<notin> set (show_nat n)"
  using set_show_nat digit_char_not by blast

lemma parse_step_digit:
  assumes "d < 10" and "10 * unat acc + d < 2 ^ 64"
  shows "parse_step (Inr acc) (digit_char d) = Inr (of_nat (10 * unat acc + d))"
proof -
  have d: "unat (of_nat d :: usize) = d" using assms(1) by (simp add: unat_of_nat)
  have m: "unat acc * unat (10 :: usize) < 2 ^ 64" using assms(2) by simp
  have "unat (acc * 10) = 10 * unat acc"
    using m by (subst unat_mult_less) simp_all
  then have "checked_add (acc * 10) (of_nat d) = Some (of_nat (10 * unat acc + d))"
    using assms(2) d by (simp add: checked_add_def)
  then show ?thesis
    using assms(1) m by (simp add: parse_step_def checked_mul_def)
qed

lemma parse_show_digits: "n < 2 ^ 64 \<Longrightarrow> foldl parse_step (Inr 0) (show_nat n) = Inr (of_nat n)"
proof (induction n rule: show_nat.induct)
  case (1 n)
  show ?case
  proof (cases "n < 10")
    case True
    then show ?thesis
      using parse_step_digit [of n 0] by (simp add: show_nat.simps [of n])
  next
    case False
    have q: "unat (of_nat (n div 10) :: usize) = n div 10"
      using 1(2) by (simp add: unat_of_nat)
    have IH: "foldl parse_step (Inr 0) (show_nat (n div 10)) = Inr (of_nat (n div 10))"
      using 1 False by simp
    have "10 * (n div 10) + n mod 10 = n" by simp
    then show ?thesis
      using False 1(2) parse_step_digit [of "n mod 10" "of_nat (n div 10)"]
      by (simp add: show_nat.simps [of n] IH q)
  qed
qed

lemma parse_show_usize: "parse_usize (show_nat (unat i)) = Inr i"
proof -
  have "CHR ''+'' \<notin> set (show_nat (unat i))"
    by (rule not_in_show_nat) simp
  moreover have "hd (show_nat (unat i)) \<in> set (show_nat (unat i))"
    by (rule hd_in_set) simp
  ultimately have "hd (show_nat (unat i)) \<noteq> CHR ''+''" by metis
  then show ?thesis
    using parse_show_digits [of "unat i"] unat_less_2p [of i] by (simp add: parse_usize_def Let_def)
qed

end
