(* ===== verification/Chain_Spec.thy ===== *)
theory Chain_Spec
  imports Results Runtime_Properties
begin

text \<open>
  The chains the node knows (cli/src/chain_spec.rs) and how the command line picks one
  (cli/src/lib.rs): the genesis configuration of the framework's pallets and of the three pallets of
  this repository, the development, local and staging networks, and the names they are loaded by.

  The derivation of keys from secret strings, the runtime's binary and the JSON reader (which holds the
  fourth network, Flaming Fir) are code outside the repository: \<open>key_source\<close>, \<open>wasm\<close> and \<open>fir\<close>.
  Deriving a key cannot fail on the strings used here, all of the form \<open>//name\<close>.
\<close>

section \<open>Authorities and keys\<close>

type_synonym public_key = "256 word"

record authority =
  au_stash :: account_id
  au_controller :: account_id
  au_grandpa :: public_key
  au_babe :: public_key
  au_im_online :: public_key
  au_discovery :: public_key

record key_source =
  ks_account :: "string \<Rightarrow> account_id"
  ks_grandpa :: "string \<Rightarrow> public_key"
  ks_babe :: "string \<Rightarrow> public_key"
  ks_im_online :: "string \<Rightarrow> public_key"
  ks_discovery :: "string \<Rightarrow> public_key"

definition get_from_seed :: "(string \<Rightarrow> 'k) \<Rightarrow> string \<Rightarrow> 'k" where
  "get_from_seed pair seed = pair (''//'' @ seed)"

definition get_account_id_from_seed :: "key_source \<Rightarrow> string \<Rightarrow> account_id" where
  "get_account_id_from_seed ks seed = get_from_seed (ks_account ks) seed"

definition get_authority_keys_from_seed :: "key_source \<Rightarrow> string \<Rightarrow> authority" where
  "get_authority_keys_from_seed ks seed =
     \<lparr>au_stash = get_account_id_from_seed ks (seed @ ''//stash''),
      au_controller = get_account_id_from_seed ks seed,
      au_grandpa = get_from_seed (ks_grandpa ks) seed,
      au_babe = get_from_seed (ks_babe ks) seed,
      au_im_online = get_from_seed (ks_im_online ks) seed,
      au_discovery = get_from_seed (ks_discovery ks) seed\<rparr>"

record session_keys =
  sk_grandpa :: public_key
  sk_babe :: public_key
  sk_im_online :: public_key
  sk_authority_discovery :: public_key

definition session_keys_of :: "public_key \<Rightarrow> public_key \<Rightarrow> public_key \<Rightarrow> public_key \<Rightarrow> session_keys" where
  "session_keys_of grandpa babe im_online authority_discovery =
     \<lparr>sk_grandpa = grandpa, sk_babe = babe, sk_im_online = im_online, sk_authority_discovery = authority_discovery\<rparr>"

section \<open>The genesis configuration\<close>

datatype staker_status = Idle | Validator

text \<open>
  The fields the code sets, pallet by pallet; what it leaves to a default (democracy, membership,
  treasury, vesting, empty lists of keys) is left out.
\<close>

record genesis_config =
  gc_code :: "8 word list"
  gc_balances :: "(account_id \<times> balance) list"
  gc_session_keys :: "(account_id \<times> session_keys) list"
  gc_current_era :: "32 word"
  gc_validator_count :: "32 word"
  gc_minimum_validator_count :: "32 word"
  gc_stakers :: "(account_id \<times> account_id \<times> balance \<times> staker_status) list"
  gc_invulnerables :: "account_id list"
  gc_slash_reward_percent :: "32 word"
  gc_council :: "account_id list"
  gc_technical_committee :: "account_id list"
  gc_enable_println :: bool
  gc_gas_price :: balance
  gc_sudo_key :: account_id
  gc_society_members :: "account_id list"
  gc_society_pot :: balance
  gc_society_max_members :: "32 word"
  gc_deposit_loan :: loan_genesis
  gc_generic_asset :: ga_genesis
  gc_price_sources :: "(string \<times> price_source list) list"
  gc_current_price :: "(string \<times> price) list"

definition ENDOWMENT :: balance where "ENDOWMENT = 10000000 * DOLLARS"
definition STASH :: balance where "STASH = 100 * DOLLARS"

definition default_endowed_accounts :: "key_source \<Rightarrow> account_id list" where
  "default_endowed_accounts ks = map (get_account_id_from_seed ks)
     [''Alice'', ''Bob'', ''Charlie'', ''Dave'', ''Eve'', ''Ferdie'',
      ''Alice//stash'', ''Bob//stash'', ''Charlie//stash'', ''Dave//stash'', ''Eve//stash'', ''Ferdie//stash'']"

definition testnet_genesis_config ::
    "key_source \<Rightarrow> 8 word list \<Rightarrow> authority list \<Rightarrow> account_id \<Rightarrow> account_id list option \<Rightarrow> bool \<Rightarrow> genesis_config" where
  "testnet_genesis_config ks wasm initial_authorities root_key endowed_accounts enable_println =
     (let endowed_accounts = (case endowed_accounts of Some accts \<Rightarrow> accts | None \<Rightarrow> default_endowed_accounts ks);
          num_endowed_accounts = length endowed_accounts;
          half = take ((num_endowed_accounts + 1) div 2) endowed_accounts
      in \<lparr>gc_code = wasm,
          gc_balances = map (\<lambda>k. (k, ENDOWMENT)) endowed_accounts
            @ map (\<lambda>x. (au_stash x, STASH)) initial_authorities,
          gc_session_keys = map (\<lambda>x. (au_stash x,
            session_keys_of (au_grandpa x) (au_babe x) (au_im_online x) (au_discovery x))) initial_authorities,
          gc_current_era = 0,
          gc_validator_count = of_nat (length initial_authorities) * 2,
          gc_minimum_validator_count = of_nat (length initial_authorities),
          gc_stakers = map (\<lambda>x. (au_stash x, au_controller x, STASH, Validator)) initial_authorities,
          gc_invulnerables = map au_stash initial_authorities,
          gc_slash_reward_percent = 10,
          gc_council = half,
          gc_technical_committee = half,
          gc_enable_println = enable_println,
          gc_gas_price = 1 * MILLICENTS,
          gc_sudo_key = root_key,
          gc_society_members = half,
          gc_society_pot = 0,
          gc_society_max_members = 999,
          gc_deposit_loan = testnet_loan_genesis (get_account_id_from_seed ks),
          gc_generic_asset = testnet_ga_genesis,
          gc_price_sources = testnet_sources,
          gc_current_price = [(''DUSD'', 1 * PRICE_SCALE)]\<rparr>)"

definition development_config_genesis :: "key_source \<Rightarrow> 8 word list \<Rightarrow> genesis_config" where
  "development_config_genesis ks wasm =
     testnet_genesis_config ks wasm [get_authority_keys_from_seed ks ''Alice'']
       (get_account_id_from_seed ks ''Alice'') None True"

definition local_testnet_genesis :: "key_source \<Rightarrow> 8 word list \<Rightarrow> genesis_config" where
  "local_testnet_genesis ks wasm =
     testnet_genesis_config ks wasm
       [get_authority_keys_from_seed ks ''Alice'', get_authority_keys_from_seed ks ''Bob'']
       (get_account_id_from_seed ks ''Alice'') None False"

definition staging_authorities :: "authority list" where
  "staging_authorities =
     [\<lparr>au_stash = 0x9c7a2ee14e565db0c69f78c7b4cd839fbf52b607d867e9e9c5a79042898a0d12,
        au_controller = 0x781ead1e2fa9ccb74b44c19d29cb2a7a4b5be3972927ae98cd3877523976a276,
        au_grandpa = 0x9becad03e6dcac03cee07edebca5475314861492cdfc96a2144a67bbe9699332,
        au_babe = 0x6e7e4eb42cbd2e0ab4cae8708ce5509580b8c04d11f6758dbf686d50fe9f9106,
        au_im_online = 0x6e7e4eb42cbd2e0ab4cae8708ce5509580b8c04d11f6758dbf686d50fe9f9106,
        au_discovery = 0x6e7e4eb42cbd2e0ab4cae8708ce5509580b8c04d11f6758dbf686d50fe9f9106\<rparr>,
      \<lparr>au_stash = 0x68655684472b743e456907b398d3a44c113f189e56d1bbfd55e889e295dfde78,
        au_controller = 0xc8dc79e36b29395413399edaec3e20fcca7205fb19776ed8ddb25d6f427ec40e,
        au_grandpa = 0x7932cff431e748892fa48e10c63c17d30f80ca42e4de3921e641249cd7fa3c2f,
        au_babe = 0x482dbd7297a39fa145c570552249c2ca9dd47e281f0c500c971b59c9dcdcd82e,
        au_im_online = 0x482dbd7297a39fa145c570552249c2ca9dd47e281f0c500c971b59c9dcdcd82e,
        au_discovery = 0x482dbd7297a39fa145c570552249c2ca9dd47e281f0c500c971b59c9dcdcd82e\<rparr>,
      \<lparr>au_stash = 0x547ff0ab649283a7ae01dbc2eb73932eba2fb09075e9485ff369082a2ff38d65,
        au_controller = 0x9e42241d7cd91d001773b0b616d523dd80e13c6c2cab860b1234ef1b9ffc1526,
        au_grandpa = 0x5633b70b80a6c8bb16270f82cca6d56b27ed7b76c8fd5af2986a25a4788ce440,
        au_babe = 0x482a3389a6cf42d8ed83888cfd920fec738ea30f97e44699ada7323f08c3380a,
        au_im_online = 0x482a3389a6cf42d8ed83888cfd920fec738ea30f97e44699ada7323f08c3380a,
        au_discovery = 0x482a3389a6cf42d8ed83888cfd920fec738ea30f97e44699ada7323f08c3380a\<rparr>,
      \<lparr>au_stash = 0xf26cdb14b5aec7b2789fd5ca80f979cef3761897ae1f37ffb3e154cbcc1c2663,
        au_controller = 0x66bc1e5d275da50b72b15de072a2468a5ad414919ca9054d2695767cf650012f,
        au_grandpa = 0x3919132b851ef0fd2dae42a7e734fe547af5a6b809006100f48944d7fae8e8ef,
        au_babe = 0x00299981a2b92f878baaf5dbeba5c18d4e70f2a1fcd9c61b32ea18daf38f4378,
        au_im_online = 0x00299981a2b92f878baaf5dbeba5c18d4e70f2a1fcd9c61b32ea18daf38f4378,
        au_discovery = 0x00299981a2b92f878baaf5dbeba5c18d4e70f2a1fcd9c61b32ea18daf38f4378\<rparr>]"

definition staging_root_key :: account_id where
  "staging_root_key = 0x9ee5e5bdc0ec239eb164f865ecc345ce4c88e76ee002e0f7e318097347471809"

definition staging_testnet_config_genesis :: "key_source \<Rightarrow> 8 word list \<Rightarrow> genesis_config" where
  "staging_testnet_config_genesis ks wasm =
     testnet_genesis_config ks wasm staging_authorities staging_root_key (Some [staging_root_key]) False"

section \<open>The chain specifications and their names\<close>

record chain_spec =
  spec_name :: string
  spec_id :: string
  spec_genesis :: genesis_config
  spec_boot_nodes :: "string list"
  spec_telemetry :: "(string \<times> 8 word) list option"

definition STAGING_TELEMETRY_URL :: string where
  "STAGING_TELEMETRY_URL = ''wss://telemetry.polkadot.io/submit/''"

definition development_config :: "key_source \<Rightarrow> 8 word list \<Rightarrow> chain_spec" where
  "development_config ks wasm =
     \<lparr>spec_name = ''Development'', spec_id = ''dev'', spec_genesis = development_config_genesis ks wasm,
      spec_boot_nodes = [], spec_telemetry = None\<rparr>"

definition local_testnet_config :: "key_source \<Rightarrow> 8 word list \<Rightarrow> chain_spec" where
  "local_testnet_config ks wasm =
     \<lparr>spec_name = ''Local Testnet'', spec_id = ''local_testnet'', spec_genesis = local_testnet_genesis ks wasm,
      spec_boot_nodes = [], spec_telemetry = None\<rparr>"

definition staging_testnet_config :: "key_source \<Rightarrow> 8 word list \<Rightarrow> chain_spec" where
  "staging_testnet_config ks wasm =
     \<lparr>spec_name = ''Staging Testnet'', spec_id = ''staging_testnet'',
      spec_genesis = staging_testnet_config_genesis ks wasm,
      spec_boot_nodes = [], spec_telemetry = Some [(STAGING_TELEMETRY_URL, 0)]\<rparr>"

datatype chain_option = Development | LocalTestnet | FlamingFir | StagingTestnet

definition chain_load ::
    "key_source \<Rightarrow> 8 word list \<Rightarrow> string + chain_spec \<Rightarrow> chain_option \<Rightarrow> string + chain_spec" where
  "chain_load ks wasm fir opt =
     (case opt of
        FlamingFir \<Rightarrow> try_then fir Inr
      | Development \<Rightarrow> Inr (development_config ks wasm)
      | LocalTestnet \<Rightarrow> Inr (local_testnet_config ks wasm)
      | StagingTestnet \<Rightarrow> Inr (staging_testnet_config ks wasm))"

definition chain_from :: "string \<Rightarrow> chain_option option" where
  "chain_from s =
     (if s = ''dev'' then Some Development
      else if s = ''local'' then Some LocalTestnet
      else if s = '''' \<or> s = ''fir'' \<or> s = ''flaming-fir'' then Some FlamingFir
      else if s = ''staging'' then Some StagingTestnet
      else None)"

definition load_spec ::
    "key_source \<Rightarrow> 8 word list \<Rightarrow> string + chain_spec \<Rightarrow> string \<Rightarrow> string + chain_spec option" where
  "load_spec ks wasm fir ident =
     (case chain_from ident of
        Some spec \<Rightarrow> try_then (chain_load ks wasm fir spec) (\<lambda>spec. Inr (Some spec))
      | None \<Rightarrow> Inr None)"

section \<open>Every chain the code builds starts sound\<close>

text \<open>
  Building the storage of the three pallets from a configuration: the sudo pallet comes before them in
  the runtime, so its key is there when the generic-asset pallet reads it.
\<close>

definition build_genesis :: "genesis_config \<Rightarrow> system_state \<Rightarrow> (unit, loan_state) dispatch" where
  "build_genesis gc sys =
     (case ga_genesis_build (gc_generic_asset gc) (empty_ga_state (sys\<lparr>SudoKey := gc_sudo_key gc\<rparr>)) of
        Done _ s \<Rightarrow> Done () (loan_genesis_build (gc_deposit_loan gc)
                      (oracle_genesis_build (gc_price_sources gc) (gc_current_price gc) s))
      | Fail e _ \<Rightarrow> Panic
      | Panic \<Rightarrow> Panic)"

lemma testnet_genesis_fields [simp]:
  "gc_generic_asset (testnet_genesis_config ks wasm authorities root endowed p) = testnet_ga_genesis"
  "gc_deposit_loan (testnet_genesis_config ks wasm authorities root endowed p)
     = testnet_loan_genesis (get_account_id_from_seed ks)"
  "gc_price_sources (testnet_genesis_config ks wasm authorities root endowed p) = testnet_sources"
  "gc_current_price (testnet_genesis_config ks wasm authorities root endowed p) = [(''DUSD'', 1 * PRICE_SCALE)]"
  "gc_sudo_key (testnet_genesis_config ks wasm authorities root endowed p) = root"
  by (simp_all add: testnet_genesis_config_def Let_def)

lemma build_testnet_genesis:
  "build_genesis (testnet_genesis_config ks wasm authorities root endowed p) sys
     = testnet_genesis (get_account_id_from_seed ks) (sys\<lparr>SudoKey := root\<rparr>)"
  by (simp add: build_genesis_def testnet_genesis_def split: outcome.split)

lemma testnet_genesis_starts:
  "\<exists>s. testnet_genesis seed_account sys = Done () s
    \<and> (\<forall>what. check_permission 0 (SudoKey sys) what s \<and> check_permission 1 (SudoKey sys) what s)
    \<and> (\<forall>aid w. free_balance aid w s = 0 \<and> total_issuance aid s = 0)
    \<and> symbols (CollateralAssetId s) s = ''BTC'' \<and> symbols (LoanAssetId s) s = ''DUSD''"
proof -
  obtain s where s: "testnet_genesis seed_account sys = Done () s"
    and books: "\<forall>aid w. free_balance aid w s = 0 \<and> total_issuance aid s = 0"
    and syms: "symbols (CollateralAssetId s) s = ''BTC'' \<and> symbols (LoanAssetId s) s = ''DUSD''"
    and perms: "get_permission 0 s = V1 \<lparr>update_perm = Address (SudoKey sys), mint_perm = Address (SudoKey sys),
        burn_perm = Address (SudoKey sys)\<rparr>" "get_permission 1 s = get_permission 0 s"
    by (simp add: testnet_genesis_def ga_genesis_build_def testnet_ga_genesis_def create_asset_eq Let_def
      empty_ga_state_def system_state.defs ga_state.defs created_def deposit_ga_event_def
      set_free_balance_def set_total_issuance_def symbols_def get_permission_def testnet_loan_genesis_def
      into_versions_def loan_genesis_build_def oracle_genesis_build_def oracle_state.defs total_issuance_def
      free_balance_def)
  have "check_permission 0 (SudoKey sys) what s \<and> check_permission 1 (SudoKey sys) what s" for what
    by (cases what) (simp_all add: check_permission_def perms)
  with s books syms show ?thesis by blast
qed

definition chain_sudo_key :: "key_source \<Rightarrow> chain_option \<Rightarrow> account_id" where
  "chain_sudo_key ks opt = (if opt = StagingTestnet then staging_root_key else get_account_id_from_seed ks ''Alice'')"

lemma chain_load_genesis:
  assumes "chain_load ks wasm fir opt = Inr spec" and "opt \<noteq> FlamingFir"
  shows "build_genesis (spec_genesis spec) sys
    = testnet_genesis (get_account_id_from_seed ks) (sys\<lparr>SudoKey := chain_sudo_key ks opt\<rparr>)"
  using assms
  by (cases opt) (auto simp: chain_load_def development_config_def local_testnet_config_def staging_testnet_config_def
      development_config_genesis_def local_testnet_genesis_def staging_testnet_config_genesis_def
      build_testnet_genesis chain_sudo_key_def)

text \<open>C27: Every network the code itself configures (development, local, staging) builds a genesis state
  that satisfies all invariants of the chain, in which nobody holds anything, the collateral asset is BTC
  and the loan asset DUSD, and the key of the network's root may mint, burn and change the permissions of
  both.\<close>

theorem loaded_chains_start_sound:
  assumes "chain_load ks wasm fir opt = Inr spec" and "opt \<noteq> FlamingFir"
  shows "\<exists>s. build_genesis (spec_genesis spec) sys = Done () s \<and> runtime_inv 0 s
    \<and> (\<forall>aid w. free_balance aid w s = 0 \<and> total_issuance aid s = 0)
    \<and> symbols (CollateralAssetId s) s = ''BTC'' \<and> symbols (LoanAssetId s) s = ''DUSD''
    \<and> (\<forall>what. check_permission (CollateralAssetId s) (chain_sudo_key ks opt) what s
              \<and> check_permission (LoanAssetId s) (chain_sudo_key ks opt) what s)"
proof -
  let ?sys = "sys\<lparr>SudoKey := chain_sudo_key ks opt\<rparr>"
  obtain s where s: "testnet_genesis (get_account_id_from_seed ks) ?sys = Done () s"
    and start: "\<forall>what. check_permission 0 (SudoKey ?sys) what s \<and> check_permission 1 (SudoKey ?sys) what s"
      "\<forall>aid w. free_balance aid w s = 0 \<and> total_issuance aid s = 0"
      "symbols (CollateralAssetId s) s = ''BTC'' \<and> symbols (LoanAssetId s) s = ''DUSD''"
    using testnet_genesis_starts [of "get_account_id_from_seed ks" ?sys] by blast
  have "CollateralAssetId s = 1" "LoanAssetId s = 0"
    using s by (auto simp: testnet_genesis_def loan_genesis_build_def testnet_loan_genesis_def oracle_state.defs
        split: outcome.splits)
  with s start testnet_genesis_inv [OF s] show ?thesis
    by (simp add: chain_load_genesis [OF assms])
qed

definition demo_keys :: key_source where
  "demo_keys = \<lparr>ks_account = demo_seed, ks_grandpa = demo_seed, ks_babe = demo_seed, ks_im_online = demo_seed,
     ks_discovery = demo_seed\<rparr>"

lemma loaded_chains_start_sound_witness:
  "\<exists>spec s. load_spec demo_keys [] (Inl ''no file'') ''local'' = Inr (Some spec) \<and> spec_id spec = ''local_testnet''
    \<and> build_genesis (spec_genesis spec) demo_sys = Done () s \<and> runtime_inv 0 s"
proof -
  have l: "chain_load demo_keys [] (Inl ''no file'') LocalTestnet = Inr (local_testnet_config demo_keys [])"
    by (simp add: chain_load_def)
  have "LocalTestnet \<noteq> FlamingFir" by simp
  from loaded_chains_start_sound [OF l this, of demo_sys] show ?thesis
    by (auto simp: load_spec_def chain_from_def chain_load_def local_testnet_config_def)
qed

section \<open>Who is in the genesis lists\<close>

text \<open>
  Every authority derived from a seed of the default list has its stash in the list of balances twice,
  once with \<open>ENDOWMENT\<close> and once with \<open>STASH\<close>.
\<close>

lemma development_stash_listed_twice:
  "(au_stash (get_authority_keys_from_seed ks ''Alice''), ENDOWMENT) \<in> set (gc_balances (development_config_genesis ks wasm))"
  "(au_stash (get_authority_keys_from_seed ks ''Alice''), STASH) \<in> set (gc_balances (development_config_genesis ks wasm))"
  "ENDOWMENT \<noteq> STASH"
  by (simp_all add: development_config_genesis_def testnet_genesis_config_def Let_def default_endowed_accounts_def
      get_authority_keys_from_seed_def ENDOWMENT_def STASH_def DOLLARS_def CENTS_def MILLICENTS_def)

lemma staging_accounts_distinct:
  "distinct (staging_root_key # map au_stash staging_authorities @ map au_controller staging_authorities)"
  by (simp add: staging_root_key_def staging_authorities_def)

end
