(* ===== verification/Factory.thy ===== *)
theory Factory
  imports Runtime
begin

text \<open>
  The transaction factory: the loop of transaction-factory/src/lib.rs over the runtime adapter of
  cli/src/factory_impl.rs.  It fills blocks with transfers from a master account to accounts derived
  from seeds and imports them into the client.

  The client is a parameter: \<open>bake\<close> builds a block on a parent hash and imports it, giving its hash, or
  \<open>None\<close> where one of the \<open>expect\<close>s of the loop panics.  So are the master account, the account derived
  from the seed of a random generator, and the signing of an extrinsic, which only wraps the fields kept
  here.
\<close>

section \<open>The state of the adapter\<close>

record factory_state =
  fs_blocks :: "32 word"
  fs_transactions :: "32 word"
  fs_block_number :: "32 word"
  fs_index :: "32 word"

definition factory_new :: "32 word \<Rightarrow> 32 word \<Rightarrow> factory_state" where
  "factory_new blocks transactions =
     \<lparr>fs_blocks = blocks, fs_transactions = transactions, fs_block_number = 0, fs_index = 0\<rparr>"

text \<open>A transfer: the phase of its mortal era, its nonce and the hash it is signed over, and its call.\<close>

record ('acct, 'hash) transfer_xt =
  xt_sender :: 'acct
  xt_phase :: "64 word"
  xt_nonce :: "32 word"
  xt_destination :: 'acct
  xt_amount :: balance
  xt_prior_block_hash :: 'hash

definition transfer_extrinsic ::
    "'acct \<Rightarrow> 'acct \<Rightarrow> balance \<Rightarrow> 'hash \<Rightarrow> factory_state \<Rightarrow> ('acct, 'hash) transfer_xt \<times> factory_state" where
  "transfer_extrinsic sender destination amount prior_block_hash st =
     (let phase = ucast (fs_block_number st);
          xt = \<lparr>xt_sender = sender, xt_phase = phase, xt_nonce = fs_index st, xt_destination = destination,
                xt_amount = amount, xt_prior_block_hash = prior_block_hash\<rparr>
      in (xt, st\<lparr>fs_index := fs_index st + 1\<rparr>))"

text \<open>The inherent data of a block: the timestamp and the finalized number.\<close>

definition inherent_extrinsics :: "factory_state \<Rightarrow> moment \<times> 32 word" where
  "inherent_extrinsics st = ((ucast (fs_block_number st) + 1) * MinimumPeriod, fs_block_number st)"

section \<open>The loop\<close>

record ('acct, 'hash) factory_block =
  fb_inherents :: "moment \<times> 32 word"
  fb_transfers :: "('acct, 'hash) transfer_xt list"

text \<open>The inner loop over \<open>tx_num\<close>.\<close>

fun push_transfers ::
    "'acct \<Rightarrow> (32 word \<Rightarrow> 'acct) \<Rightarrow> 'hash \<Rightarrow> 32 word list \<Rightarrow> factory_state
      \<Rightarrow> ('acct, 'hash) transfer_xt list \<times> factory_state" where
  "push_transfers master account_of best_hash [] st = ([], st)"
| "push_transfers master account_of best_hash (tx_num # rest) st =
     (let seed = tx_num * (fs_block_number st + 1);
          to_acct = account_of seed;
          (transfer, st) = transfer_extrinsic master to_acct ExistentialDeposit best_hash st;
          (transfers, st) = push_transfers master account_of best_hash rest st
      in (transfer # transfers, st))"

definition factory_round ::
    "'acct \<Rightarrow> (32 word \<Rightarrow> 'acct) \<Rightarrow> 'hash \<Rightarrow> factory_state \<Rightarrow> ('acct, 'hash) factory_block \<times> factory_state" where
  "factory_round master account_of best_hash st =
     (let inherents = inherent_extrinsics st;
          tx_per_block = fs_transactions st;
          (transfers, st) = push_transfers master account_of best_hash (map of_nat [0..<unat tx_per_block]) st
      in (\<lparr>fb_inherents = inherents, fb_transfers = transfers\<rparr>,
          st\<lparr>fs_block_number := fs_block_number st + 1\<rparr>))"

lemma push_transfers_state:
  "snd (push_transfers master account_of best_hash ns st) = st\<lparr>fs_index := fs_index st + of_nat (length ns)\<rparr>"
  by (induction ns arbitrary: st) (simp_all add: transfer_extrinsic_def Let_def split_beta algebra_simps)

lemma factory_round_state:
  "snd (factory_round master account_of best_hash st) =
     st\<lparr>fs_block_number := fs_block_number st + 1, fs_index := fs_index st + fs_transactions st\<rparr>"
  by (simp add: factory_round_def Let_def split_beta push_transfers_state)

lemma next_block_closer:
  "n < b \<Longrightarrow> unat b - unat (n + 1) < unat b - unat (n :: 32 word)"
  using unat_add_less [of n 1] unat_less_2p [of b] by (simp add: word_less_nat_alt)

text \<open>The blocks made, in order, and the state and the best hash at the end.  The block number stays
  below the number of blocks, so the loop ends.\<close>

function factory ::
    "('hash \<Rightarrow> ('acct, 'hash) factory_block \<Rightarrow> 'hash option) \<Rightarrow> 'acct \<Rightarrow> (32 word \<Rightarrow> 'acct) \<Rightarrow> 'hash \<Rightarrow> factory_state
      \<Rightarrow> (('acct, 'hash) factory_block list \<times> 'hash \<times> factory_state) option" where
  "factory bake master account_of best_hash st =
     (if fs_block_number st < fs_blocks st then
        (let (block, st) = factory_round master account_of best_hash st
         in case bake best_hash block of
              None \<Rightarrow> None
            | Some hash \<Rightarrow>
                map_option (\<lambda>(blocks, h, st). (block # blocks, h, st)) (factory bake master account_of hash st))
      else Some ([], best_hash, st))"
  by pat_completeness auto

termination
proof (relation "measure (\<lambda>(bake, master, account_of, h, st). unat (fs_blocks st) - unat (fs_block_number st))")
  show "((bake, master, account_of, hash, t), bake, master, account_of, best_hash, st)
      \<in> measure (\<lambda>(bake, master, account_of, h, st). unat (fs_blocks st) - unat (fs_block_number st))"
    if "fs_block_number st < fs_blocks st" and "p = factory_round master account_of best_hash st" and "(block, t) = p"
    for bake :: "'hash \<Rightarrow> ('acct, 'hash) factory_block \<Rightarrow> 'hash option" and master :: 'acct and account_of best_hash hash st p block t
  proof -
    have "t = snd (factory_round master account_of best_hash st)" using that(2,3) by (metis snd_conv)
    with next_block_closer [OF that(1)] show ?thesis by (simp add: factory_round_state)
  qed
qed simp

declare factory.simps [simp del]

section \<open>What the factory makes\<close>

text \<open>The plan for block \<open>k\<close>: whom it pays, the nonces it uses and its inherents.\<close>

definition planned :: "(32 word \<Rightarrow> 'acct) \<Rightarrow> nat \<Rightarrow> nat \<Rightarrow> ('acct, 'hash) factory_block \<Rightarrow> bool" where
  "planned account_of n k b \<longleftrightarrow>
     map xt_destination (fb_transfers b) = map (\<lambda>i. account_of (of_nat (i * Suc k))) [0..<n]
     \<and> map xt_nonce (fb_transfers b) = map (\<lambda>i. of_nat (k * n + i)) [0..<n]
     \<and> fb_inherents b = (of_nat (Suc k) * MinimumPeriod, of_nat k)"

lemma push_transfers_plan:
  "map xt_destination (fst (push_transfers master account_of h ns st)) = map (\<lambda>i. account_of (i * (fs_block_number st + 1))) ns"
  "map xt_nonce (fst (push_transfers master account_of h ns st)) = map (\<lambda>i. fs_index st + of_nat i) [0..<length ns]"
  by (induction ns arbitrary: st)
    (simp_all add: transfer_extrinsic_def Let_def split_beta upt_conv_Cons map_Suc_upt [symmetric] comp_def
      algebra_simps del: upt_Suc)

lemma factory_round_planned:
  assumes "fs_block_number st = of_nat k" and "k < 2 ^ 32" and "fs_index st = of_nat (k * unat (fs_transactions st))"
  shows "planned account_of (unat (fs_transactions st)) k (fst (factory_round master account_of h st))"
proof -
  have "ucast (of_nat k :: 32 word) = (of_nat k :: 64 word)"
    using assms(2) by (simp add: word_unat_eq_iff unat_of_nat unsigned_ucast_eq take_bit_nat_eq_self)
  then show ?thesis
    using assms(1,3)
    by (simp add: planned_def factory_round_def Let_def split_beta push_transfers_plan inherent_extrinsics_def
        comp_def algebra_simps)
qed

lemma factory_run:
  fixes st :: factory_state
  assumes total: "\<And>h b. bake h b \<noteq> None"
    and "fs_block_number st = of_nat k" and "k \<le> unat (fs_blocks st)"
    and "fs_index st = of_nat (k * unat (fs_transactions st))"
  shows "\<exists>blocks h t. factory bake master account_of h0 st = Some (blocks, h, t)
    \<and> length blocks = unat (fs_blocks st) - k \<and> fs_block_number t = fs_blocks st
    \<and> (\<forall>j < unat (fs_blocks st) - k. planned account_of (unat (fs_transactions st)) (k + j) (blocks ! j))"
  using assms(2-)
proof (induction "unat (fs_blocks st) - k" arbitrary: k st h0)
  case 0
  then have "k = unat (fs_blocks st)" by simp
  then have "fs_block_number st = fs_blocks st" using 0 by simp
  then show ?case
    by (subst factory.simps) (simp add: \<open>k = unat (fs_blocks st)\<close>)
next
  case (Suc d)
  have k: "k < unat (fs_blocks st)" using Suc.hyps(2) by simp
  then have k32: "k < 2 ^ 32" using unat_less_2p [of "fs_blocks st"] by simp
  then have less: "fs_block_number st < fs_blocks st"
    using k Suc.prems(1) by (simp add: word_less_nat_alt unat_of_nat)
  obtain b t where round: "factory_round master account_of h0 st = (b, t)"
    by fastforce
  have t: "t = st\<lparr>fs_block_number := fs_block_number st + 1, fs_index := fs_index st + fs_transactions st\<rparr>"
    using factory_round_state [of master account_of h0 st] round by simp
  have b: "planned account_of (unat (fs_transactions st)) k b"
    using factory_round_planned [OF Suc.prems(1) k32 Suc.prems(3), of account_of master h0] round by simp
  obtain h where h: "bake h0 b = Some h" using total by blast
  have "\<exists>blocks h' t'. factory bake master account_of h t = Some (blocks, h', t')
      \<and> length blocks = unat (fs_blocks t) - Suc k \<and> fs_block_number t' = fs_blocks t
      \<and> (\<forall>j < unat (fs_blocks t) - Suc k. planned account_of (unat (fs_transactions t)) (Suc k + j) (blocks ! j))"
    by (rule Suc.hyps(1)) (use Suc.hyps(2) Suc.prems k in \<open>simp_all add: t algebra_simps\<close>)
  then obtain blocks h' t' where rest: "factory bake master account_of h t = Some (blocks, h', t')"
    and facts: "length blocks = unat (fs_blocks st) - Suc k" "fs_block_number t' = fs_blocks st"
      "\<And>j. j < unat (fs_blocks st) - Suc k \<Longrightarrow> planned account_of (unat (fs_transactions st)) (Suc k + j) (blocks ! j)"
    by (auto simp: t)
  have run: "factory bake master account_of h0 st = Some (b # blocks, h', t')"
    by (subst factory.simps) (simp add: less round h rest)
  have "planned account_of (unat (fs_transactions st)) (k + j) ((b # blocks) ! j)" if "j < unat (fs_blocks st) - k" for j
    using that b facts(3) [of "j - 1"] by (cases j) simp_all
  with run facts(1,2) k show ?case by auto
qed

text \<open>C40: When the client accepts every block, the factory ends after the number of blocks it was asked
  for.  Block \<open>k\<close> holds the given number of transfers with consecutive nonces, counted on from block to
  block, and it pays the accounts of the seeds \<open>i * (k + 1)\<close>: the first transfer of every block goes to the
  account of the seed 0, so the accounts paid are not all different.\<close>

theorem factory_makes_planned_blocks:
  assumes "\<And>h b. bake h b \<noteq> None"
  shows "\<exists>blocks h st. factory bake master account_of h0 (factory_new n m) = Some (blocks, h, st)
    \<and> length blocks = unat n \<and> fs_block_number st = n
    \<and> (\<forall>k < unat n.
         map xt_destination (fb_transfers (blocks ! k)) = map (\<lambda>i. account_of (of_nat (i * Suc k))) [0..<unat m]
       \<and> map xt_nonce (fb_transfers (blocks ! k)) = map (\<lambda>i. of_nat (k * unat m + i)) [0..<unat m]
       \<and> fb_inherents (blocks ! k) = (of_nat (Suc k) * MinimumPeriod, of_nat k))"
  using factory_run [of bake "factory_new n m" 0, OF assms] by (simp add: factory_new_def planned_def)

lemma factory_makes_planned_blocks_witness:
  "\<exists>blocks h st. factory (\<lambda>h b. Some (h + 1)) (7 :: nat) unat (0 :: nat) (factory_new 2 3) = Some (blocks, h, st)
    \<and> map xt_destination (fb_transfers (blocks ! 0)) = [0, 1, 2]
    \<and> map xt_destination (fb_transfers (blocks ! 1)) = [0, 2, 4]
    \<and> map xt_nonce (fb_transfers (blocks ! 1)) = [3, 4, 5]"
proof -
  have three: "[0..<3] = [0, 1, 2 :: nat]" by (simp add: upt_rec)
  let ?bake = "\<lambda>h b. Some (h + 1)"
  have total: "?bake h b \<noteq> None" for h :: nat and b :: "(nat, nat) factory_block" by simp
  obtain blocks h st where run: "factory ?bake (7 :: nat) unat (0 :: nat) (factory_new 2 3) = Some (blocks, h, st)"
    and plan: "\<forall>k < unat (2 :: 32 word).
         map xt_destination (fb_transfers (blocks ! k)) = map (\<lambda>i. unat (of_nat (i * Suc k) :: 32 word)) [0..<unat (3 :: 32 word)]
       \<and> map xt_nonce (fb_transfers (blocks ! k)) = map (\<lambda>i. of_nat (k * unat (3 :: 32 word) + i)) [0..<unat (3 :: 32 word)]
       \<and> fb_inherents (blocks ! k) = (of_nat (Suc k) * MinimumPeriod, of_nat k)"
    using factory_makes_planned_blocks [of ?bake 7 unat 0 2 3, OF total] by blast
  show ?thesis
    using run plan [rule_format, of 0] plan [rule_format, of 1]
    by (intro exI [of _ blocks] exI [of _ h] exI [of _ st]) (simp add: three)
qed

end
