(* ===== verification/Inspect.thy ===== *)
theory Inspect
  imports Results
begin

text \<open>
  The inspect command of the node (inspect/src/cli.rs and lib.rs): the addresses of blocks and
  extrinsics as the user types them, the inspector that fetches or decodes what they name, the
  default printer, and the command itself, which returns the text it prints or the message of its
  error.

  The parsers of hashes and block numbers, the hex decoder, the codec, the database and the
  debug formats of the framework's types are arguments, collected in the records
  \<open>address_api\<close>, \<open>chain_access\<close>, \<open>block_codec\<close> and \<open>debug_api\<close>.
\<close>

section \<open>Addresses\<close>

datatype ('hash, 'num) block_address =
    Hash_Address 'hash
  | Number_Address 'num
  | Block_Bytes "8 word list"

datatype ('hash, 'num) extrinsic_address =
    In_Block "('hash, 'num) block_address" usize
  | Extrinsic_Bytes "8 word list"

record ('hash, 'num) address_api =
  parse_hash :: "string \<Rightarrow> 'hash option"
  parse_number :: "string \<Rightarrow> 'num option"
  from_hex :: "string \<Rightarrow> string + 8 word list"

definition block_address_from_str ::
    "('hash, 'num) address_api \<Rightarrow> string \<Rightarrow> string + ('hash, 'num) block_address" where
  "block_address_from_str api s =
     (case parse_hash api s of
        Some hash \<Rightarrow> Inr (Hash_Address hash)
      | None \<Rightarrow>
          (case parse_number api s of
             Some number \<Rightarrow> Inr (Number_Address number)
           | None \<Rightarrow>
               try_then (map_err (\<lambda>e. ''Given string does not look like hash or number. It could not be parsed as bytes either: '' @ e)
                   (from_hex api s))
                 (\<lambda>bytes. Inr (Block_Bytes bytes))))"

definition is_separator :: "char \<Rightarrow> bool" where
  "is_separator c \<longleftrightarrow> c = CHR ''.'' \<or> c = CHR '':'' \<or> c = CHR '' ''"

definition extrinsic_address_from_str ::
    "('hash, 'num) address_api \<Rightarrow> string \<Rightarrow> string + ('hash, 'num) extrinsic_address" where
  "extrinsic_address_from_str api s =
     (case from_hex api s of
        Inr bytes \<Rightarrow> Inr (Extrinsic_Bytes bytes)
      | Inl _ \<Rightarrow>
          (let (block, it) = split_str is_separator s in
           try_then (block_address_from_str api block) (\<lambda>block.
           try_then (ok_or_else (case it of [] \<Rightarrow> None | index # _ \<Rightarrow> Some index)
               ''Extrinsic index missing: example \"5:0\"'') (\<lambda>index.
           try_then (map_err (\<lambda>e. ''Invalid index format: '' @ show_int_error e) (parse_usize index)) (\<lambda>index.
             Inr (In_Block block index))))))"

section \<open>The inspector\<close>

record ('hdr, 'ext) inspect_block =
  blk_header :: 'hdr
  blk_extrinsics :: "'ext list"

datatype ('hash, 'num) block_id = Id_Hash 'hash | Id_Number 'num

datatype ('ce, 'be) inspect_error =
    Codec 'ce
  | Blockchain 'be
  | NotFound string

fun error_source :: "('ce, 'be) inspect_error \<Rightarrow> ('ce + 'be) option" where
  "error_source (Codec e) = Some (Inl e)"
| "error_source (Blockchain e) = Some (Inr e)"
| "error_source (NotFound _) = None"

text \<open>The derived \<open>Display\<close> shows the message of the wrapped error.\<close>

fun display_error :: "('ce \<Rightarrow> string) \<Rightarrow> ('be \<Rightarrow> string) \<Rightarrow> ('ce, 'be) inspect_error \<Rightarrow> string" where
  "display_error show_codec show_chain (Codec e) = show_codec e"
| "display_error show_codec show_chain (Blockchain e) = show_chain e"
| "display_error show_codec show_chain (NotFound msg) = msg"

record ('hash, 'num, 'hdr, 'ext, 'be) chain_access =
  chain_body :: "('hash, 'num) block_id \<Rightarrow> 'be + 'ext list option"
  chain_header :: "('hash, 'num) block_id \<Rightarrow> 'be + 'hdr option"

record ('hdr, 'ext, 'ce) block_codec =
  decode_block :: "8 word list \<Rightarrow> 'ce + ('hdr, 'ext) inspect_block"
  decode_extrinsic :: "8 word list \<Rightarrow> 'ce + 'ext"

record ('hash, 'num, 'hdr, 'ext) debug_api =
  debug_id :: "('hash, 'num) block_id \<Rightarrow> string"
  debug_header :: "'hdr \<Rightarrow> string"
  debug_extrinsic :: "'ext \<Rightarrow> string"
  debug_block :: "('hdr, 'ext) inspect_block \<Rightarrow> string"
  hex_block :: "('hdr, 'ext) inspect_block \<Rightarrow> string"
  hex_extrinsic :: "'ext \<Rightarrow> string"

record ('hdr, 'ext) pretty_printer =
  fmt_block :: "('hdr, 'ext) inspect_block \<Rightarrow> string"
  fmt_extrinsic :: "'ext \<Rightarrow> string"

text \<open>The printer that is used unless the caller brings another; \<open>writeln!\<close> ends a line.\<close>

definition writeln :: "string \<Rightarrow> string" where
  "writeln s = s @ [CHR 0x0A]"

definition debug_fmt_extrinsic :: "('hash, 'num, 'hdr, 'ext) debug_api \<Rightarrow> 'ext \<Rightarrow> string" where
  "debug_fmt_extrinsic dbg ex = writeln ('' '' @ debug_extrinsic dbg ex) @ writeln ('' Bytes: '' @ hex_extrinsic dbg ex)"

definition debug_fmt_block :: "('hash, 'num, 'hdr, 'ext) debug_api \<Rightarrow> ('hdr, 'ext) inspect_block \<Rightarrow> string" where
  "debug_fmt_block dbg block =
     writeln ''Header:''
     @ writeln (debug_header dbg (blk_header block))
     @ writeln (''Block bytes: '' @ hex_block dbg block)
     @ writeln (''Extrinsics ('' @ show_nat (length (blk_extrinsics block)) @ '')'')
     @ concat (map (\<lambda>(idx, ex). writeln (''- '' @ show_nat idx @ '':'') @ debug_fmt_extrinsic dbg ex)
         (enumerate 0 (blk_extrinsics block)))"

definition debug_printer :: "('hash, 'num, 'hdr, 'ext) debug_api \<Rightarrow> ('hdr, 'ext) pretty_printer" where
  "debug_printer dbg = \<lparr>fmt_block = debug_fmt_block dbg, fmt_extrinsic = debug_fmt_extrinsic dbg\<rparr>"

record ('hash, 'num, 'hdr, 'ext, 'be) inspector =
  ins_printer :: "('hdr, 'ext) pretty_printer"
  ins_chain :: "('hash, 'num, 'hdr, 'ext, 'be) chain_access"

definition with_printer ::
    "('hash, 'num, 'hdr, 'ext, 'be) chain_access \<Rightarrow> ('hdr, 'ext) pretty_printer
      \<Rightarrow> ('hash, 'num, 'hdr, 'ext, 'be) inspector" where
  "with_printer chain printer = \<lparr>ins_printer = printer, ins_chain = chain\<rparr>"

definition inspector_new ::
    "('hash, 'num, 'hdr, 'ext) debug_api \<Rightarrow> ('hash, 'num, 'hdr, 'ext, 'be) chain_access
      \<Rightarrow> ('hash, 'num, 'hdr, 'ext, 'be) inspector" where
  "inspector_new dbg chain = with_printer chain (debug_printer dbg)"

text \<open>The two arms of \<open>get_block\<close> on the chain differ in the id only; the body is asked for first.\<close>

definition chain_block ::
    "('hash, 'num, 'hdr, 'ext) debug_api \<Rightarrow> ('hash, 'num, 'hdr, 'ext, 'be) chain_access \<Rightarrow> ('hash, 'num) block_id
      \<Rightarrow> ('ce, 'be) inspect_error + ('hdr, 'ext) inspect_block" where
  "chain_block dbg chain ident =
     (let not_found = ''Could not find block '' @ debug_id dbg ident in
      try_then (map_err Blockchain (chain_body chain ident)) (\<lambda>body.
      try_then (ok_or_else body (NotFound not_found)) (\<lambda>body.
      try_then (map_err Blockchain (chain_header chain ident)) (\<lambda>header.
      try_then (ok_or_else header (NotFound not_found)) (\<lambda>header.
        Inr \<lparr>blk_header = header, blk_extrinsics = body\<rparr>)))))"

fun get_block ::
    "('hash, 'num, 'hdr, 'ext) debug_api \<Rightarrow> ('hdr, 'ext, 'ce) block_codec
      \<Rightarrow> ('hash, 'num, 'hdr, 'ext, 'be) inspector \<Rightarrow> ('hash, 'num) block_address
      \<Rightarrow> ('ce, 'be) inspect_error + ('hdr, 'ext) inspect_block" where
  "get_block dbg codec ins (Block_Bytes bytes) = map_err Codec (decode_block codec bytes)"
| "get_block dbg codec ins (Number_Address number) = chain_block dbg (ins_chain ins) (Id_Number number)"
| "get_block dbg codec ins (Hash_Address hash) = chain_block dbg (ins_chain ins) (Id_Hash hash)"

definition inspect_block_text ::
    "('hash, 'num, 'hdr, 'ext) debug_api \<Rightarrow> ('hdr, 'ext, 'ce) block_codec
      \<Rightarrow> ('hash, 'num, 'hdr, 'ext, 'be) inspector \<Rightarrow> ('hash, 'num) block_address
      \<Rightarrow> ('ce, 'be) inspect_error + string" where
  "inspect_block_text dbg codec ins input =
     try_then (get_block dbg codec ins input) (\<lambda>block. Inr (fmt_block (ins_printer ins) block))"

definition nth_extrinsic :: "'ext list \<Rightarrow> usize \<Rightarrow> 'ext option" where
  "nth_extrinsic xs i = (if unat i < length xs then Some (xs ! unat i) else None)"

definition inspect_extrinsic_text ::
    "('hash, 'num, 'hdr, 'ext) debug_api \<Rightarrow> ('hdr, 'ext, 'ce) block_codec
      \<Rightarrow> ('hash, 'num, 'hdr, 'ext, 'be) inspector \<Rightarrow> ('hash, 'num) extrinsic_address
      \<Rightarrow> ('ce, 'be) inspect_error + string" where
  "inspect_extrinsic_text dbg codec ins input =
     try_then
       (case input of
          In_Block block index \<Rightarrow>
            try_then (get_block dbg codec ins block) (\<lambda>block.
            ok_or_else (nth_extrinsic (blk_extrinsics block) index)
              (NotFound (''Could not find extrinsic '' @ show_nat (unat index) @ '' in block '' @ debug_block dbg block)))
        | Extrinsic_Bytes bytes \<Rightarrow> map_err Codec (decode_extrinsic codec bytes))
       (\<lambda>ext. Inr (fmt_extrinsic (ins_printer ins) ext))"

section \<open>The command\<close>

datatype inspect_sub_cmd = Inspect_Block string | Inspect_Extrinsic string

definition inspect_run ::
    "('hash, 'num) address_api \<Rightarrow> ('hash, 'num, 'hdr, 'ext) debug_api \<Rightarrow> ('hdr, 'ext, 'ce) block_codec
      \<Rightarrow> ('ce \<Rightarrow> string) \<Rightarrow> ('be \<Rightarrow> string) \<Rightarrow> ('hash, 'num, 'hdr, 'ext, 'be) inspector \<Rightarrow> inspect_sub_cmd
      \<Rightarrow> string + string" where
  "inspect_run api dbg codec show_codec show_chain ins command =
     (case command of
        Inspect_Block input \<Rightarrow>
          try_then (block_address_from_str api input) (\<lambda>input.
          try_then (map_err (display_error show_codec show_chain) (inspect_block_text dbg codec ins input)) (\<lambda>res.
            Inr (writeln res)))
      | Inspect_Extrinsic input \<Rightarrow>
          try_then (extrinsic_address_from_str api input) (\<lambda>input.
          try_then (map_err (display_error show_codec show_chain) (inspect_extrinsic_text dbg codec ins input)) (\<lambda>res.
            Inr (writeln res))))"

section \<open>What the addresses reach\<close>

lemma separators_not_digits: "is_separator c \<Longrightarrow> c \<notin> set (show_nat n)"
  by (rule not_in_show_nat) (auto simp: is_separator_def)

lemma extrinsic_address_parsed:
  assumes "is_separator sep" and "\<forall>c \<in> set b. \<not> is_separator c"
    and "from_hex api (b @ sep # show_nat (unat i)) = Inl e"
  shows "extrinsic_address_from_str api (b @ sep # show_nat (unat i))
    = try_then (block_address_from_str api b) (\<lambda>addr. Inr (In_Block addr i))"
proof -
  have "split_str is_separator (show_nat (unat i)) = (show_nat (unat i), [])"
    using separators_not_digits by (intro split_str_none) blast
  then have "split_str is_separator (b @ sep # show_nat (unat i)) = (b, [show_nat (unat i)])"
    using split_str_first [of b is_separator sep "show_nat (unat i)"] assms(1,2) by simp
  then show ?thesis
    using assms(3) by (simp add: extrinsic_address_from_str_def parse_show_usize)
qed

text \<open>Whatever follows a second separator is not looked at: the code accepts what the help does not name.\<close>

lemma trailing_pieces_ignored:
  assumes "is_separator sep" and "\<forall>c \<in> set b. \<not> is_separator c"
    and "is_separator sep'" and "from_hex api (b @ sep # show_nat (unat i) @ sep' # junk) = Inl e"
  shows "extrinsic_address_from_str api (b @ sep # show_nat (unat i) @ sep' # junk)
    = try_then (block_address_from_str api b) (\<lambda>addr. Inr (In_Block addr i))"
proof -
  have digits: "\<forall>c \<in> set (show_nat (unat i)). \<not> is_separator c"
    using separators_not_digits by blast
  show ?thesis
    using assms(4) split_str_first [OF assms(2,1)] split_str_first [OF digits assms(3)]
    by (simp add: extrinsic_address_from_str_def parse_show_usize)
qed

lemma concat_enumerate_nth:
  assumes "i < length xs"
  shows "\<exists>pre post. concat (map f (enumerate 0 xs)) = pre @ f (i, xs ! i) @ post"
proof -
  have xs: "xs = take i xs @ xs ! i # drop (Suc i) xs"
    by (rule id_take_nth_drop [OF assms])
  have "enumerate 0 xs = enumerate 0 (take i xs) @ (i, xs ! i) # enumerate (Suc i) (drop (Suc i) xs)"
    by (subst xs) (use assms in \<open>simp add: enumerate_append_eq min_def\<close>)
  then show ?thesis by auto
qed

lemma block_text_has_entry:
  assumes "i < length (blk_extrinsics blk)"
  shows "\<exists>pre post. debug_fmt_block dbg blk
    = pre @ writeln (''- '' @ show_nat i @ '':'') @ debug_fmt_extrinsic dbg (blk_extrinsics blk ! i) @ post"
proof -
  obtain pre post where "concat (map (\<lambda>(idx, ex). writeln (''- '' @ show_nat idx @ '':'') @ debug_fmt_extrinsic dbg ex)
        (enumerate 0 (blk_extrinsics blk)))
      = pre @ (writeln (''- '' @ show_nat i @ '':'') @ debug_fmt_extrinsic dbg (blk_extrinsics blk ! i)) @ post"
    using concat_enumerate_nth [OF assms, of "\<lambda>(idx, ex). writeln (''- '' @ show_nat idx @ '':'') @ debug_fmt_extrinsic dbg ex"]
    by auto
  then show ?thesis
    unfolding debug_fmt_block_def by (metis append.assoc)
qed

text \<open>C29: For a block the user can name as \<open>B\<close>, the address \<open>B:I\<close> (or with a point or a blank for the
  colon) names its extrinsic \<open>I\<close>: with the default printer the command prints exactly the text that
  inspecting the block prints under the heading of that extrinsic, and when the block has no extrinsic
  \<open>I\<close> the command fails with the message that says so.\<close>

theorem inspect_extrinsic_is_entry_of_block:
  fixes i :: usize
  assumes "is_separator sep" and "\<forall>c \<in> set b. \<not> is_separator c"
    and "from_hex api (b @ sep # show_nat (unat i)) = Inl e"
    and "block_address_from_str api b = Inr addr"
    and "get_block dbg codec (inspector_new dbg chain) addr = Inr blk"
  shows "\<exists>out. inspect_run api dbg codec show_codec show_chain (inspector_new dbg chain) (Inspect_Block b) = Inr out
    \<and> (if unat i < length (blk_extrinsics blk)
       then \<exists>pre txt post.
         inspect_run api dbg codec show_codec show_chain (inspector_new dbg chain)
           (Inspect_Extrinsic (b @ sep # show_nat (unat i))) = Inr (writeln txt)
         \<and> out = pre @ writeln (''- '' @ show_nat (unat i) @ '':'') @ txt @ post
       else inspect_run api dbg codec show_codec show_chain (inspector_new dbg chain)
           (Inspect_Extrinsic (b @ sep # show_nat (unat i)))
         = Inl (''Could not find extrinsic '' @ show_nat (unat i) @ '' in block '' @ debug_block dbg blk))"
proof -
  let ?ins = "inspector_new dbg chain"
  have printer: "ins_printer ?ins = debug_printer dbg"
    by (simp add: inspector_new_def with_printer_def)
  have block: "inspect_run api dbg codec show_codec show_chain ?ins (Inspect_Block b)
      = Inr (writeln (debug_fmt_block dbg blk))"
    using assms(4,5) by (simp add: inspect_run_def inspect_block_text_def printer debug_printer_def)
  have addr: "extrinsic_address_from_str api (b @ sep # show_nat (unat i)) = Inr (In_Block addr i)"
    using extrinsic_address_parsed [OF assms(1-3)] assms(4) by simp
  show ?thesis
  proof (cases "unat i < length (blk_extrinsics blk)")
    case True
    then obtain pre post where "debug_fmt_block dbg blk = pre @ writeln (''- '' @ show_nat (unat i) @ '':'')
        @ debug_fmt_extrinsic dbg (blk_extrinsics blk ! unat i) @ post"
      using block_text_has_entry by blast
    moreover have "inspect_run api dbg codec show_codec show_chain ?ins (Inspect_Extrinsic (b @ sep # show_nat (unat i)))
        = Inr (writeln (debug_fmt_extrinsic dbg (blk_extrinsics blk ! unat i)))"
      using True assms(5) addr
      by (simp add: inspect_run_def inspect_extrinsic_text_def nth_extrinsic_def printer debug_printer_def)
    ultimately show ?thesis
      using True block by (auto simp: writeln_def)
  next
    case False
    then show ?thesis
      using assms(5) addr block
      by (simp add: inspect_run_def inspect_extrinsic_text_def nth_extrinsic_def)
  qed
qed

text \<open>A chain of one block, number 5, with the extrinsics 7 and 9, and an api that reads numbers only.\<close>

definition demo_address_api :: "(nat, usize) address_api" where
  "demo_address_api =
     \<lparr>parse_hash = (\<lambda>_. None),
      parse_number = (\<lambda>s. case parse_usize s of Inl _ \<Rightarrow> None | Inr n \<Rightarrow> Some n),
      from_hex = (\<lambda>_. Inl ''missing prefix'')\<rparr>"

definition demo_debug :: "(nat, usize, nat, nat) debug_api" where
  "demo_debug =
     \<lparr>debug_id = (\<lambda>_. ''id''), debug_header = show_nat, debug_extrinsic = show_nat, debug_block = (\<lambda>_. ''block''),
      hex_block = (\<lambda>_. ''00''), hex_extrinsic = show_nat\<rparr>"

definition demo_codec :: "(nat, nat, string) block_codec" where
  "demo_codec = \<lparr>decode_block = (\<lambda>_. Inl ''bad block''), decode_extrinsic = (\<lambda>_. Inl ''bad extrinsic'')\<rparr>"

definition demo_chain :: "(nat, usize, nat, nat, string) chain_access" where
  "demo_chain =
     \<lparr>chain_body = (\<lambda>ident. Inr (if ident = Id_Number 5 then Some [7, 9] else None)),
      chain_header = (\<lambda>ident. Inr (if ident = Id_Number 5 then Some 3 else None))\<rparr>"

lemma inspect_extrinsic_is_entry_of_block_witness:
  "\<exists>txt. inspect_run demo_address_api demo_debug demo_codec (\<lambda>e. e) (\<lambda>e. e) (inspector_new demo_debug demo_chain)
      (Inspect_Extrinsic ''5:1'') = Inr (writeln txt)
    \<and> inspect_run demo_address_api demo_debug demo_codec (\<lambda>e. e) (\<lambda>e. e) (inspector_new demo_debug demo_chain)
      (Inspect_Extrinsic ''5:2'') = Inl ''Could not find extrinsic 2 in block block''"
proof -
  let ?ins = "inspector_new demo_debug demo_chain"
  have digits: "show_nat (Suc 0) = ''1''" "show_nat 2 = ''2''" "show_nat 5 = ''5''"
    by (simp_all add: show_nat.simps [of "Suc 0"] show_nat.simps [of 2] show_nat.simps [of 5] digit_char_def char_of_def bit_iff_odd)
  have five: "parse_usize ''5'' = Inr 5"
    using parse_show_usize [of 5] digits by simp
  have addr: "block_address_from_str demo_address_api ''5'' = Inr (Number_Address 5)"
    by (simp add: block_address_from_str_def demo_address_api_def five)
  have blk: "get_block demo_debug demo_codec ?ins (Number_Address 5) = Inr \<lparr>blk_header = 3, blk_extrinsics = [7, 9]\<rparr>"
    by (simp add: chain_block_def inspector_new_def with_printer_def demo_chain_def)
  have sep: "is_separator CHR '':''" "\<forall>c \<in> set ''5''. \<not> is_separator c" by (simp_all add: is_separator_def)
  have hex: "from_hex demo_address_api s = Inl ''missing prefix''" for s by (simp add: demo_address_api_def)
  have dbg: "debug_block demo_debug = (\<lambda>_. ''block'')" by (simp add: demo_debug_def)
  note run = inspect_extrinsic_is_entry_of_block [OF sep hex addr blk, where show_codec = "\<lambda>e. e" and show_chain = "\<lambda>e. e"]
  show ?thesis
    using run [of 1] run [of 2] by (auto simp: digits dbg)
qed

end
