(* ===== verification/Command.thy ===== *)
theory Command
  imports Chain_Spec Factory Inspect
begin

text \<open>
  The command line of the node (cli/src/command.rs with the types of cli/src/cli.rs): which part of the
  program a subcommand runs, in which order the configuration is filled in, and which network the
  factory accepts.

  What the framework's command line does (reading arguments, filling in the configuration, opening the
  database, running the node, the base subcommands and the benchmark) is a parameter, one field of
  \<open>cli_calls\<close> per call; \<open>init_config\<close> gets the loader of specifications as the code passes it, and
  \<open>start_full\<close> says whether the started builder has a select chain.
\<close>

section \<open>Parameters\<close>

record factory_cmd =
  cmd_blocks :: "32 word"
  cmd_transactions :: "32 word"

definition default_factory_cmd :: factory_cmd where
  "default_factory_cmd = \<lparr>cmd_blocks = 1, cmd_transactions = 8\<rparr>"

datatype subcommand =
    Run_Node
  | Base
  | Factory_Cmd factory_cmd
  | Inspect_Cmd inspect_sub_cmd
  | Benchmark

record 'hash cli_calls =
  run_node :: "(string \<Rightarrow> string + chain_spec option) \<Rightarrow> string + unit"
  run_base :: "(string \<Rightarrow> string + chain_spec option) \<Rightarrow> string + unit"
  run_benchmark :: "(string \<Rightarrow> string + chain_spec option) \<Rightarrow> string + unit"
  cli_init :: "string + unit"
  init_config :: "(string \<Rightarrow> string + chain_spec option) \<Rightarrow> string + chain_spec"
  fill_import_params :: "string + unit"
  fill_keystore_in_memory :: "string + unit"
  set_tracing :: "(string + unit) option"
  start_full :: "string + bool"
  best_chain :: "string + 'hash"
  runtime_version_at :: "'hash \<Rightarrow> string + 32 word"
  genesis_block_hash :: "string + 'hash option"

text \<open>The command line's framework when nothing fails and the user names the network \<open>name\<close>.\<close>

definition plain_calls :: "string \<Rightarrow> 'hash \<Rightarrow> 'hash cli_calls" where
  "plain_calls name h =
     \<lparr>run_node = (\<lambda>_. Inr ()), run_base = (\<lambda>_. Inr ()), run_benchmark = (\<lambda>_. Inr ()), cli_init = Inr (),
      init_config = (\<lambda>load. try_then (load name) (\<lambda>spec. ok_or_else spec ''unknown chain'')),
      fill_import_params = Inr (), fill_keystore_in_memory = Inr (), set_tracing = None,
      start_full = Inr True, best_chain = Inr h, runtime_version_at = (\<lambda>_. Inr 224), genesis_block_hash = Inr (Some h)\<rparr>"

section \<open>The factory\<close>

definition factory_supports :: "chain_spec \<Rightarrow> bool" where
  "factory_supports spec =
     (case chain_from (spec_id spec) of
        Some c \<Rightarrow> c = Development \<or> c = LocalTestnet
      | None \<Rightarrow> False)"

text \<open>The start of the factory function, before its loop, and the loop.\<close>

definition run_factory_function ::
    "'hash cli_calls \<Rightarrow> ('hash \<Rightarrow> ('acct, 'hash) factory_block \<Rightarrow> 'hash option) \<Rightarrow> 'acct \<Rightarrow> (32 word \<Rightarrow> 'acct)
      \<Rightarrow> factory_state \<Rightarrow> ('acct, 'hash) factory_block list exit" where
  "run_factory_function calls bake master account_of st =
     exit_then (best_chain calls) (\<lambda>best_hash.
     exit_then (runtime_version_at calls best_hash) (\<lambda>_.
     exit_then (genesis_block_hash calls) (\<lambda>genesis_hash.
       case genesis_hash of
         None \<Rightarrow> Panic_Exit ''Genesis block always exists; qed''
       | Some _ \<Rightarrow>
           (case factory bake master account_of best_hash st of
              None \<Rightarrow> Panic_Exit ''factory''
            | Some (blocks, _, _) \<Rightarrow> Ok_Exit blocks))))"

definition start_factory ::
    "'hash cli_calls \<Rightarrow> ('hash \<Rightarrow> ('acct, 'hash) factory_block \<Rightarrow> 'hash option) \<Rightarrow> 'acct \<Rightarrow> (32 word \<Rightarrow> 'acct)
      \<Rightarrow> factory_cmd \<Rightarrow> ('acct, 'hash) factory_block list exit" where
  "start_factory calls bake master account_of cmd =
     (case set_tracing calls of
        Some (Inl e) \<Rightarrow> Panic_Exit (''Unable to set global default subscriber '' @ e)
      | _ \<Rightarrow>
          (let st = factory_new (cmd_blocks cmd) (cmd_transactions cmd)
           in exit_then (start_full calls) (\<lambda>select_chain.
                if \<not> select_chain
                then Panic_Exit ''The select_chain is always initialized by new_full_start!; QED''
                else
                  (case run_factory_function calls bake master account_of st of
                     Err_Exit e \<Rightarrow> Err_Exit (''Error in transaction factory: '' @ e)
                   | r \<Rightarrow> r))))"

definition run_factory ::
    "'hash cli_calls \<Rightarrow> (string \<Rightarrow> string + chain_spec option)
      \<Rightarrow> ('hash \<Rightarrow> ('acct, 'hash) factory_block \<Rightarrow> 'hash option) \<Rightarrow> 'acct \<Rightarrow> (32 word \<Rightarrow> 'acct)
      \<Rightarrow> factory_cmd \<Rightarrow> ('acct, 'hash) factory_block list exit" where
  "run_factory calls load bake master account_of cmd =
     exit_then (cli_init calls) (\<lambda>_.
     exit_then (init_config calls load) (\<lambda>spec.
     exit_then (fill_import_params calls) (\<lambda>_.
     exit_then (fill_keystore_in_memory calls) (\<lambda>_.
       if factory_supports spec
       then start_factory calls bake master account_of cmd
       else Panic_Exit ''Factory is only supported for development and local testnet.''))))"

section \<open>The command\<close>

text \<open>The inspect command fills in the configuration, opens the client and runs on it.\<close>

definition inspect_init :: "'h cli_calls \<Rightarrow> (string \<Rightarrow> string + chain_spec option) \<Rightarrow> string + chain_spec" where
  "inspect_init calls load =
     try_then (init_config calls load) (\<lambda>spec.
     try_then (fill_keystore_in_memory calls) (\<lambda>_.
     try_then (fill_import_params calls) (\<lambda>_. Inr spec)))"

datatype 'blocks ran = Ran | Printed string | Made 'blocks

definition run_command ::
    "'h cli_calls \<Rightarrow> (string \<Rightarrow> string + chain_spec option)
      \<Rightarrow> (chain_spec \<Rightarrow> string + ('hash, 'num, 'hdr, 'ext, 'be) chain_access)
      \<Rightarrow> ('hash, 'num) address_api \<Rightarrow> ('hash, 'num, 'hdr, 'ext) debug_api \<Rightarrow> ('hdr, 'ext, 'ce) block_codec
      \<Rightarrow> ('ce \<Rightarrow> string) \<Rightarrow> ('be \<Rightarrow> string)
      \<Rightarrow> ('h \<Rightarrow> ('acct, 'h) factory_block \<Rightarrow> 'h option) \<Rightarrow> 'acct \<Rightarrow> (32 word \<Rightarrow> 'acct)
      \<Rightarrow> subcommand \<Rightarrow> ('acct, 'h) factory_block list ran exit" where
  "run_command calls load new_full_client api dbg codec show_codec show_chain bake master account_of sub =
     (case sub of
        Run_Node \<Rightarrow> exit_then (run_node calls load) (\<lambda>_. Ok_Exit Ran)
      | Inspect_Cmd cmd \<Rightarrow>
          exit_then (inspect_init calls load) (\<lambda>spec.
          exit_then (new_full_client spec) (\<lambda>client.
          exit_then (inspect_run api dbg codec show_codec show_chain (inspector_new dbg client) cmd) (\<lambda>out.
            Ok_Exit (Printed out))))
      | Benchmark \<Rightarrow> exit_then (run_benchmark calls load) (\<lambda>_. Ok_Exit Ran)
      | Factory_Cmd cmd \<Rightarrow>
          (case run_factory calls load bake master account_of cmd of
             Ok_Exit blocks \<Rightarrow> Ok_Exit (Made blocks)
           | Err_Exit e \<Rightarrow> Err_Exit e
           | Panic_Exit e \<Rightarrow> Panic_Exit e)
      | Base \<Rightarrow> exit_then (run_base calls load) (\<lambda>_. Ok_Exit Ran))"

section \<open>Which networks the factory accepts\<close>

text \<open>
  The guard looks the network's own id up in the table of the names that the option \<open>--chain\<close> takes.
  The two agree on \<open>dev\<close> only: the local network is loaded by \<open>local\<close> and calls itself
  \<open>local_testnet\<close>.  The id of Flaming Fir is the one in cli/res/flaming-fir.json.
\<close>

lemma factory_supports_loaded:
  assumes "load_spec ks wasm fir name = Inr (Some spec)" and "\<And>s. fir = Inr s \<Longrightarrow> spec_id s = ''flamingfir5''"
  shows "factory_supports spec \<longleftrightarrow> name = ''dev''"
  using assms
  by (auto simp: load_spec_def chain_load_def factory_supports_def chain_from_def development_config_def
      local_testnet_config_def staging_testnet_config_def Inr_iffs split: if_splits)

text \<open>C28: The factory command runs on the network loaded by the name \<open>dev\<close> and panics on every other
  network that can be loaded by a name, the local network included, although its help and its own
  message say that the local network is supported.\<close>

theorem factory_command_runs_on_dev_only:
  assumes "cli_init calls = Inr ()" and "fill_import_params calls = Inr ()" and "fill_keystore_in_memory calls = Inr ()"
    and "load_spec ks wasm fir name = Inr (Some spec)" and "init_config calls (load_spec ks wasm fir) = Inr spec"
    and "\<And>s. fir = Inr s \<Longrightarrow> spec_id s = ''flamingfir5''"
  shows "run_factory calls (load_spec ks wasm fir) bake master account_of cmd =
    (if name = ''dev'' then start_factory calls bake master account_of cmd
     else Panic_Exit ''Factory is only supported for development and local testnet.'')"
  using assms(1-3,5) factory_supports_loaded [OF assms(4,6)] by (simp add: run_factory_def)

lemma factory_command_runs_on_dev_only_witness:
  "run_factory (plain_calls ''local'' (0 :: nat)) (load_spec demo_keys [] (Inl ''no file''))
     (\<lambda>h b. Some (h + 1)) (7 :: nat) unat default_factory_cmd
   = Panic_Exit ''Factory is only supported for development and local testnet.''"
proof -
  have load: "load_spec demo_keys [] (Inl ''no file'') ''local'' = Inr (Some (local_testnet_config demo_keys []))"
    by (simp add: load_spec_def chain_from_def chain_load_def)
  have config: "init_config (plain_calls ''local'' (0 :: nat)) (load_spec demo_keys [] (Inl ''no file''))
      = Inr (local_testnet_config demo_keys [])"
    by (simp add: plain_calls_def load)
  show ?thesis
    by (subst factory_command_runs_on_dev_only [OF _ _ _ load config]) (simp_all add: plain_calls_def)
qed

end
