(* ===== verification/Runtime_Config.thy ===== *)
theory Runtime_Config
  imports Runtime
begin

text \<open>
  The configuration of the runtime (runtime/src/lib.rs): its version, the constants handed to the pallets
  of the framework, the transactions the offchain workers of the runtime create, and the two runtime
  interfaces that decide something of their own, the call of a contract and the dispatch of a benchmark.

  What belongs to the framework is a parameter: the mortal era, the rest of a signed payload, the
  signer, the lookup of addresses, the contracts pallet and the benchmarks.
\<close>

section \<open>Version and constants\<close>

record runtime_version =
  rv_spec_name :: string
  rv_impl_name :: string
  rv_authoring_version :: "32 word"
  rv_spec_version :: "32 word"
  rv_impl_version :: "32 word"

definition VERSION :: runtime_version where
  "VERSION = \<lparr>rv_spec_name = ''node'', rv_impl_name = ''substrate-node'', rv_authoring_version = 10,
     rv_spec_version = 224, rv_impl_version = 1\<rparr>"

definition BlockHashCount :: block_number where "BlockHashCount = 250"
definition MaximumBlockLength :: "32 word" where "MaximumBlockLength = 5 * 1024 * 1024"
definition MultisigDepositBase :: balance where "MultisigDepositBase = 30 * CENTS"
definition MultisigDepositFactor :: balance where "MultisigDepositFactor = 5 * CENTS"
definition MaxSignatories :: "16 word" where "MaxSignatories = 100"
definition EpochDuration :: "64 word" where "EpochDuration = EPOCH_DURATION_IN_SLOTS"
definition ExpectedBlockTime :: moment where "ExpectedBlockTime = MILLISECS_PER_BLOCK"
definition IndexDeposit :: balance where "IndexDeposit = 1 * DOLLARS"
definition UncleGenerations :: block_number where "UncleGenerations = 5"
definition SessionsPerEra :: "32 word" where "SessionsPerEra = 6"
definition BondingDuration :: "32 word" where "BondingDuration = 24 * 28"
definition SlashDeferDuration :: "32 word" where "SlashDeferDuration = 24 * 7"
definition LaunchPeriod :: block_number where "LaunchPeriod = 28 * 24 * 60 * MINUTES"
definition VotingPeriod :: block_number where "VotingPeriod = 28 * 24 * 60 * MINUTES"
definition EmergencyVotingPeriod :: block_number where "EmergencyVotingPeriod = 3 * 24 * 60 * MINUTES"
definition MinimumDeposit :: balance where "MinimumDeposit = 100 * DOLLARS"
definition EnactmentPeriod :: block_number where "EnactmentPeriod = 30 * 24 * 60 * MINUTES"
definition CooloffPeriod :: block_number where "CooloffPeriod = 28 * 24 * 60 * MINUTES"
definition PreimageByteDeposit :: balance where "PreimageByteDeposit = 1 * CENTS"
definition CandidacyBond :: balance where "CandidacyBond = 10 * DOLLARS"
definition VotingBond :: balance where "VotingBond = 1 * DOLLARS"
definition TermDuration :: block_number where "TermDuration = 7 * DAYS"
definition DesiredMembers :: "32 word" where "DesiredMembers = 13"
definition DesiredRunnersUp :: "32 word" where "DesiredRunnersUp = 7"
definition ProposalBondMinimum :: balance where "ProposalBondMinimum = 1 * DOLLARS"
definition SpendPeriod :: block_number where "SpendPeriod = 1 * DAYS"
definition TipCountdown :: block_number where "TipCountdown = 1 * DAYS"
definition TipReportDepositBase :: balance where "TipReportDepositBase = 1 * DOLLARS"
definition TipReportDepositPerByte :: balance where "TipReportDepositPerByte = 1 * CENTS"
definition ContractTransactionBaseFee :: balance where "ContractTransactionBaseFee = 1 * CENTS"
definition ContractTransactionByteFee :: balance where "ContractTransactionByteFee = 10 * MILLICENTS"
definition ContractFee :: balance where "ContractFee = 1 * CENTS"
definition TombstoneDeposit :: balance where "TombstoneDeposit = 1 * DOLLARS"
definition RentByteFee :: balance where "RentByteFee = 1 * DOLLARS"
definition RentDepositOffset :: balance where "RentDepositOffset = 1000 * DOLLARS"
definition SurchargeReward :: balance where "SurchargeReward = 150 * DOLLARS"
definition SessionDuration :: block_number where "SessionDuration = ucast EPOCH_DURATION_IN_SLOTS"
definition WindowSize :: block_number where "WindowSize = 101"
definition ReportLatency :: block_number where "ReportLatency = 1000"
definition BasicDeposit :: balance where "BasicDeposit = 10 * DOLLARS"
definition FieldDeposit :: balance where "FieldDeposit = 250 * CENTS"
definition SubAccountDeposit :: balance where "SubAccountDeposit = 2 * DOLLARS"
definition MaxSubAccounts :: "32 word" where "MaxSubAccounts = 100"
definition MaxAdditionalFields :: "32 word" where "MaxAdditionalFields = 100"
definition ConfigDepositBase :: balance where "ConfigDepositBase = 5 * DOLLARS"
definition FriendDepositFactor :: balance where "FriendDepositFactor = 50 * CENTS"
definition MaxFriends :: "16 word" where "MaxFriends = 9"
definition RecoveryDeposit :: balance where "RecoveryDeposit = 5 * DOLLARS"
definition CandidateDeposit :: balance where "CandidateDeposit = 10 * DOLLARS"
definition WrongSideDeduction :: balance where "WrongSideDeduction = 2 * DOLLARS"
definition MaxStrikes :: "32 word" where "MaxStrikes = 10"
definition RotationPeriod :: block_number where "RotationPeriod = 80 * HOURS"
definition PeriodSpend :: balance where "PeriodSpend = 500 * DOLLARS"
definition MaxLockDuration :: block_number where "MaxLockDuration = 36 * 30 * DAYS"
definition ChallengePeriod :: block_number where "ChallengePeriod = 7 * DAYS"

text \<open>
  The periods in blocks, as natural numbers: none of the products wraps at its width.  A block takes
  three seconds, so a day has 28800 blocks.
\<close>

lemma periods_exact:
  "unat DAYS = 28800"
  "unat LaunchPeriod = 28 * 28800" "unat VotingPeriod = 28 * 28800" "unat EmergencyVotingPeriod = 3 * 28800"
  "unat EnactmentPeriod = 30 * 28800" "unat CooloffPeriod = 28 * 28800" "unat TermDuration = 7 * 28800"
  "unat SpendPeriod = 28800" "unat RotationPeriod = 80 * 1200" "unat MaxLockDuration = 36 * 30 * 28800"
  "unat ChallengePeriod = 7 * 28800" "unat SessionDuration = 200" "unat BondingDuration = 4 * unat SlashDeferDuration"
  by (simp_all add: DAYS_def HOURS_def MINUTES_def SECS_PER_BLOCK_def MILLISECS_PER_BLOCK_def LaunchPeriod_def
      VotingPeriod_def EmergencyVotingPeriod_def EnactmentPeriod_def CooloffPeriod_def TermDuration_def SpendPeriod_def
      RotationPeriod_def MaxLockDuration_def ChallengePeriod_def SessionDuration_def EPOCH_DURATION_IN_SLOTS_def
      EPOCH_DURATION_IN_BLOCKS_def SLOT_DURATION_def BondingDuration_def SlashDeferDuration_def)

lemma enactment_after_voting: "VotingPeriod < EnactmentPeriod \<and> EmergencyVotingPeriod < VotingPeriod"
  by (simp add: word_less_nat_alt periods_exact)

lemma deposits_cover_existence:
  "ExistentialDeposit \<le> IndexDeposit \<and> ExistentialDeposit \<le> VotingBond \<and> ExistentialDeposit \<le> TombstoneDeposit
    \<and> ExistentialDeposit \<le> CandidateDeposit"
  by (simp add: ExistentialDeposit_def IndexDeposit_def VotingBond_def TombstoneDeposit_def CandidateDeposit_def
      DOLLARS_def CENTS_def MILLICENTS_def)

section \<open>Creating a signed transaction\<close>

text \<open>\<open>u32::checked_next_power_of_two\<close>.\<close>

definition checked_next_power_of_two :: "32 word \<Rightarrow> 32 word option" where
  "checked_next_power_of_two n = map_option (\<lambda>k. 2 ^ k) (find (\<lambda>k. unat n \<le> 2 ^ k) [0..<32])"

record ('era, 'idx) signed_extra =
  ex_era :: 'era
  ex_nonce :: 'idx
  ex_tip :: balance

record ('call, 'era, 'idx, 'add, 'pub, 'sig, 'addr, 'err) tx_api =
  era_mortal :: "64 word \<Rightarrow> 64 word \<Rightarrow> 'era"
  additional_signed :: "'call \<Rightarrow> ('era, 'idx) signed_extra \<Rightarrow> 'err + 'add"
  sign_payload :: "'pub \<Rightarrow> 'call \<times> ('era, 'idx) signed_extra \<times> 'add \<Rightarrow> 'sig option"
  unlookup :: "account_id \<Rightarrow> 'addr"

definition mortal_period :: "64 word" where
  "mortal_period =
     ucast (case map_option (\<lambda>c. c div 2) (checked_next_power_of_two BlockHashCount) of Some c \<Rightarrow> c | None \<Rightarrow> 2)"

definition saturating_sub :: "'w::len word \<Rightarrow> 'w word \<Rightarrow> 'w word" where
  "saturating_sub a b = (if b \<le> a then a - b else 0)"

definition create_transaction ::
    "('call, 'era, 'idx, 'add, 'pub, 'sig, 'addr, 'err) tx_api \<Rightarrow> 'call \<Rightarrow> 'pub \<Rightarrow> account_id \<Rightarrow> 'idx
      \<Rightarrow> 'a system_state_scheme \<Rightarrow> ('call \<times> 'addr \<times> 'sig \<times> ('era, 'idx) signed_extra) option" where
  "create_transaction api call public account index s =
     (let period = mortal_period;
          current_block = saturating_sub (ucast (BlockNumber s) :: 64 word) 1;
          extra = \<lparr>ex_era = era_mortal api period current_block, ex_nonce = index, ex_tip = 0\<rparr>
      in case additional_signed api call extra of
           Inl e \<Rightarrow> None
         | Inr add \<Rightarrow>
             (case sign_payload api public (call, extra, add) of
                None \<Rightarrow> None
              | Some signature \<Rightarrow> Some (call, unlookup api account, signature, extra)))"

text \<open>
  The period is the biggest power of two for which the chain still knows the hash of the block the
  transaction is anchored at, as the comment in the code says.
\<close>

lemma mortal_period_eq: "mortal_period = 128"
  by code_simp

lemma mortal_period_biggest:
  "unat mortal_period \<le> unat BlockHashCount \<and> (\<forall>k. 2 ^ k \<le> unat BlockHashCount \<longrightarrow> 2 ^ k \<le> unat mortal_period)"
proof -
  have "(2 :: nat) ^ k \<le> 128" if "2 ^ k \<le> (250 :: nat)" for k
  proof (cases "k \<le> 7")
    case True
    then have "(2 :: nat) ^ k \<le> 2 ^ 7" by (intro power_increasing) simp_all
    then show ?thesis by simp
  next
    case False
    then have "(2 :: nat) ^ 8 \<le> 2 ^ k" by (intro power_increasing) simp_all
    then show ?thesis using that by simp
  qed
  then show ?thesis by (simp add: mortal_period_eq BlockHashCount_def)
qed

text \<open>A transaction created in block \<open>n + 1\<close> is anchored at block \<open>n\<close>, and before any block at block 0.\<close>

lemma created_transaction_anchor:
  assumes "create_transaction api call public account index s = Some (call', address, signature, extra)"
  shows "ex_era extra = era_mortal api 128 (if BlockNumber s = 0 then 0 else ucast (BlockNumber s - 1))
    \<and> call' = call \<and> address = unlookup api account \<and> ex_nonce extra = index \<and> ex_tip extra = 0"
proof -
  have "saturating_sub (ucast (BlockNumber s) :: 64 word) 1
      = (if BlockNumber s = 0 then 0 else ucast (BlockNumber s - 1))"
  proof (cases "BlockNumber s = 0")
    case False
    then have one: "1 \<le> unat (BlockNumber s)" by (simp add: Suc_le_eq unat_gt_0)
    have up: "unat (ucast (BlockNumber s) :: 64 word) = unat (BlockNumber s)"
      by (simp add: unsigned_ucast_eq take_bit_nat_eq_self order.strict_trans [OF unsigned_less])
    have down: "unat (BlockNumber s - 1) = unat (BlockNumber s) - 1"
      using one by (subst unat_sub) (simp_all add: word_le_nat_alt)
    have le: "(1 :: 64 word) \<le> ucast (BlockNumber s)" using one up by (simp add: word_le_nat_alt)
    have "unat (saturating_sub (ucast (BlockNumber s) :: 64 word) 1) = unat (ucast (BlockNumber s - 1) :: 64 word)"
      using le by (simp add: saturating_sub_def unat_sub up unsigned_ucast_eq down take_bit_nat_eq_self
          order.strict_trans1 [OF diff_le_self] order.strict_trans [OF unsigned_less])
    then show ?thesis using False by (simp add: word_unat_eq_iff)
  qed (simp add: saturating_sub_def)
  then show ?thesis
    using assms by (auto simp: create_transaction_def Let_def mortal_period_eq split: sum.splits option.splits)
qed

section \<open>Runtime interfaces\<close>

datatype 'd contract_exec_result = Contract_Success "8 word" 'd | Contract_Error

definition contracts_call :: "('args \<Rightarrow> 'e + 8 word \<times> 'd) \<Rightarrow> 'args \<Rightarrow> 'd contract_exec_result" where
  "contracts_call bare_call args =
     (case bare_call args of
        Inr (status, data) \<Rightarrow> Contract_Success status data
      | Inl _ \<Rightarrow> Contract_Error)"

datatype benchmarked_pallet = Bench_Balances | Bench_Identity | Bench_Timestamp

definition dispatch_benchmark ::
    "(benchmarked_pallet \<Rightarrow> string \<Rightarrow> 32 word \<Rightarrow> 32 word \<Rightarrow> 'e + 'res list) \<Rightarrow> string \<Rightarrow> string
      \<Rightarrow> 32 word \<Rightarrow> 32 word \<Rightarrow> 'res list option" where
  "dispatch_benchmark run_benchmark module extrinsic steps repeat =
     (let ok = (\<lambda>r. case r of Inl _ \<Rightarrow> None | Inr res \<Rightarrow> Some res) in
      if module = ''pallet-balances'' \<or> module = ''balances'' then ok (run_benchmark Bench_Balances extrinsic steps repeat)
      else if module = ''pallet-identity'' \<or> module = ''identity'' then ok (run_benchmark Bench_Identity extrinsic steps repeat)
      else if module = ''pallet-timestamp'' \<or> module = ''timestamp'' then ok (run_benchmark Bench_Timestamp extrinsic steps repeat)
      else None)"

end
