(* ===== verification/Runtime_Governance.thy ===== *)
theory Runtime_Governance
  imports Runtime_Config
begin

text \<open>
  How the runtime wires the pallets of the framework together (runtime/src/lib.rs, impls.rs): the pallets it
  is made of and what each contributes, who may take which decision, who receives which money, and the
  periods, deposits and bounds each pallet runs with.

  An \<open>impl pallet::Trait for Runtime\<close> is a record, its associated types and constants the fields; those
  that only name the runtime's own call, event, origin or block types, which the types of the model fix, are
  left out.  What the framework does with a wiring is a parameter with its documented behaviour as a
  hypothesis: whether a motion satisfies an origin, and how a fee is split in two.
\<close>

section \<open>The pallets\<close>

datatype runtime_pallet =
    P_System | P_Utility | P_Babe | P_Timestamp | P_Authorship | P_Indices | P_Balances | P_TransactionPayment
  | P_Staking | P_Session | P_Democracy | P_Council | P_TechnicalCommittee | P_Elections | P_TechnicalMembership
  | P_FinalityTracker | P_Grandpa | P_Treasury | P_Contracts | P_Sudo | P_ImOnline | P_AuthorityDiscovery
  | P_Offences | P_RandomnessCollectiveFlip | P_Identity | P_Society | P_Recovery | P_Vesting
  | P_DepositLoan | P_GenericAsset | P_NewOracle

datatype pallet_part = Calls | Configured | Stores | Emits | Origins | Inherents | Validates_Unsigned

definition runtime_pallets :: "(runtime_pallet \<times> pallet_part list) list" where
  "runtime_pallets =
     [(P_System, [Calls, Configured, Stores, Emits]),
      (P_Utility, [Calls, Stores, Emits]),
      (P_Babe, [Calls, Stores, Configured, Inherents]),
      (P_Timestamp, [Calls, Stores, Inherents]),
      (P_Authorship, [Calls, Stores, Inherents]),
      (P_Indices, [Calls, Stores, Configured, Emits]),
      (P_Balances, [Calls, Stores, Configured, Emits]),
      (P_TransactionPayment, [Stores]),
      (P_Staking, [Calls, Configured, Stores, Emits]),
      (P_Session, [Calls, Stores, Emits, Configured]),
      (P_Democracy, [Calls, Stores, Configured, Emits]),
      (P_Council, [Calls, Stores, Origins, Emits, Configured]),
      (P_TechnicalCommittee, [Calls, Stores, Origins, Emits, Configured]),
      (P_Elections, [Calls, Stores, Emits]),
      (P_TechnicalMembership, [Calls, Stores, Emits, Configured]),
      (P_FinalityTracker, [Calls, Inherents]),
      (P_Grandpa, [Calls, Stores, Configured, Emits]),
      (P_Treasury, [Calls, Stores, Configured, Emits]),
      (P_Contracts, [Calls, Configured, Stores, Emits]),
      (P_Sudo, [Calls, Configured, Stores, Emits]),
      (P_ImOnline, [Calls, Stores, Emits, Validates_Unsigned, Configured]),
      (P_AuthorityDiscovery, [Calls, Configured]),
      (P_Offences, [Calls, Stores, Emits]),
      (P_RandomnessCollectiveFlip, [Calls, Stores]),
      (P_Identity, [Calls, Stores, Emits]),
      (P_Society, [Calls, Stores, Emits, Configured]),
      (P_Recovery, [Calls, Stores, Emits]),
      (P_Vesting, [Calls, Stores, Emits, Configured]),
      (P_DepositLoan, [Calls, Stores, Emits, Configured]),
      (P_GenericAsset, [Calls, Stores, Emits, Configured]),
      (P_NewOracle, [Calls, Stores, Configured, Emits, Validates_Unsigned])]"

definition has_part :: "pallet_part \<Rightarrow> runtime_pallet \<Rightarrow> bool" where
  "has_part part p \<longleftrightarrow> (\<exists>(q, parts) \<in> set runtime_pallets. q = p \<and> part \<in> set parts)"

text \<open>Unsigned calls are validated by two pallets only, so the prices of the oracle are the one unsigned
  input besides the heartbeats of the validators.\<close>

lemma validates_unsigned: "has_part Validates_Unsigned p \<longleftrightarrow> p = P_ImOnline \<or> p = P_NewOracle"
  by (auto simp: has_part_def runtime_pallets_def)

lemma pallets_distinct: "distinct (map fst runtime_pallets)"
  by (simp add: runtime_pallets_def)

section \<open>Who decides\<close>

datatype collective = Council_Collective | Technical_Collective

datatype privileged_origin =
    Proportion_At_Least nat nat collective
  | Proportion_More_Than nat nat collective
  | Any_Member collective
  | Members nat collective
  | Society_Founder

text \<open>Where an imbalance goes: dropped (the unit type), to the treasury, or shared as a fee.\<close>

datatype imbalance_handler = Dropped | To_Treasury | Deal_With_Fees

record staking_config =
  sg_currency :: runtime_pallet
  sg_time :: runtime_pallet
  sg_reward_remainder :: imbalance_handler
  sg_slash :: imbalance_handler
  sg_reward :: imbalance_handler
  sg_sessions_per_era :: "32 word"
  sg_bonding_duration :: "32 word"
  sg_slash_defer_duration :: "32 word"
  sg_slash_cancel_origin :: privileged_origin

definition staking_trait :: staking_config where
  "staking_trait =
     \<lparr>sg_currency = P_Balances, sg_time = P_Timestamp, sg_reward_remainder = To_Treasury, sg_slash = To_Treasury,
      sg_reward = Dropped, sg_sessions_per_era = SessionsPerEra, sg_bonding_duration = BondingDuration,
      sg_slash_defer_duration = SlashDeferDuration,
      sg_slash_cancel_origin = Proportion_At_Least 3 4 Council_Collective\<rparr>"

record democracy_config =
  dg_currency :: runtime_pallet
  dg_enactment_period :: block_number
  dg_launch_period :: block_number
  dg_voting_period :: block_number
  dg_minimum_deposit :: balance
  dg_external_origin :: privileged_origin
  dg_external_majority_origin :: privileged_origin
  dg_external_default_origin :: privileged_origin
  dg_fast_track_origin :: privileged_origin
  dg_emergency_voting_period :: block_number
  dg_cancellation_origin :: privileged_origin
  dg_veto_origin :: privileged_origin
  dg_cooloff_period :: block_number
  dg_preimage_byte_deposit :: balance
  dg_slash :: imbalance_handler

definition democracy_trait :: democracy_config where
  "democracy_trait =
     \<lparr>dg_currency = P_Balances, dg_enactment_period = EnactmentPeriod, dg_launch_period = LaunchPeriod,
      dg_voting_period = VotingPeriod, dg_minimum_deposit = MinimumDeposit,
      dg_external_origin = Proportion_At_Least 1 2 Council_Collective,
      dg_external_majority_origin = Proportion_At_Least 3 4 Council_Collective,
      dg_external_default_origin = Proportion_At_Least 1 1 Council_Collective,
      dg_fast_track_origin = Proportion_At_Least 2 3 Technical_Collective,
      dg_emergency_voting_period = EmergencyVotingPeriod,
      dg_cancellation_origin = Proportion_At_Least 2 3 Council_Collective,
      dg_veto_origin = Any_Member Technical_Collective,
      dg_cooloff_period = CooloffPeriod, dg_preimage_byte_deposit = PreimageByteDeposit, dg_slash = To_Treasury\<rparr>"

record elections_config =
  eg_currency :: runtime_pallet
  eg_change_members :: runtime_pallet
  eg_candidacy_bond :: balance
  eg_voting_bond :: balance
  eg_loser_candidate :: imbalance_handler
  eg_bad_report :: imbalance_handler
  eg_kicked_member :: imbalance_handler
  eg_desired_members :: "32 word"
  eg_desired_runners_up :: "32 word"
  eg_term_duration :: block_number

definition elections_trait :: elections_config where
  "elections_trait =
     \<lparr>eg_currency = P_Balances, eg_change_members = P_Council, eg_candidacy_bond = CandidacyBond,
      eg_voting_bond = VotingBond, eg_loser_candidate = Dropped, eg_bad_report = Dropped, eg_kicked_member = Dropped,
      eg_desired_members = DesiredMembers, eg_desired_runners_up = DesiredRunnersUp, eg_term_duration = TermDuration\<rparr>"

record membership_config =
  mg_add_origin :: privileged_origin
  mg_remove_origin :: privileged_origin
  mg_swap_origin :: privileged_origin
  mg_reset_origin :: privileged_origin
  mg_membership_initialized :: runtime_pallet
  mg_membership_changed :: runtime_pallet

definition technical_membership_trait :: membership_config where
  "technical_membership_trait =
     \<lparr>mg_add_origin = Proportion_More_Than 1 2 Council_Collective,
      mg_remove_origin = Proportion_More_Than 1 2 Council_Collective,
      mg_swap_origin = Proportion_More_Than 1 2 Council_Collective,
      mg_reset_origin = Proportion_More_Than 1 2 Council_Collective,
      mg_membership_initialized = P_TechnicalCommittee, mg_membership_changed = P_TechnicalCommittee\<rparr>"

text \<open>Percentages are kept as the numbers the code gives to \<open>from_percent\<close>.\<close>

definition AvailableBlockRatio :: nat where "AvailableBlockRatio = 75"
definition TargetBlockFullness :: nat where "TargetBlockFullness = 25"
definition DisabledValidatorsThreshold :: nat where "DisabledValidatorsThreshold = 17"
definition ProposalBond :: nat where "ProposalBond = 5"
definition TreasuryBurn :: nat where "TreasuryBurn = 50"
definition TipFindersFee :: nat where "TipFindersFee = 20"

record treasury_config =
  ty_currency :: runtime_pallet
  ty_approve_origin :: privileged_origin
  ty_reject_origin :: privileged_origin
  ty_tippers :: runtime_pallet
  ty_tip_countdown :: block_number
  ty_tip_finders_fee_percent :: nat
  ty_tip_report_deposit_base :: balance
  ty_tip_report_deposit_per_byte :: balance
  ty_proposal_rejection :: imbalance_handler
  ty_proposal_bond_percent :: nat
  ty_proposal_bond_minimum :: balance
  ty_spend_period :: block_number
  ty_burn_percent :: nat

definition treasury_trait :: treasury_config where
  "treasury_trait =
     \<lparr>ty_currency = P_Balances, ty_approve_origin = Members 4 Council_Collective,
      ty_reject_origin = Members 2 Council_Collective, ty_tippers = P_Elections, ty_tip_countdown = TipCountdown,
      ty_tip_finders_fee_percent = TipFindersFee, ty_tip_report_deposit_base = TipReportDepositBase,
      ty_tip_report_deposit_per_byte = TipReportDepositPerByte, ty_proposal_rejection = Dropped,
      ty_proposal_bond_percent = ProposalBond, ty_proposal_bond_minimum = ProposalBondMinimum, ty_spend_period = SpendPeriod,
      ty_burn_percent = TreasuryBurn\<rparr>"

record identity_config =
  ig_currency :: runtime_pallet
  ig_basic_deposit :: balance
  ig_field_deposit :: balance
  ig_sub_account_deposit :: balance
  ig_max_sub_accounts :: "32 word"
  ig_max_additional_fields :: "32 word"
  ig_slashed :: imbalance_handler
  ig_force_origin :: privileged_origin
  ig_registrar_origin :: privileged_origin

definition identity_trait :: identity_config where
  "identity_trait =
     \<lparr>ig_currency = P_Balances, ig_basic_deposit = BasicDeposit, ig_field_deposit = FieldDeposit,
      ig_sub_account_deposit = SubAccountDeposit, ig_max_sub_accounts = MaxSubAccounts,
      ig_max_additional_fields = MaxAdditionalFields, ig_slashed = To_Treasury,
      ig_force_origin = Proportion_More_Than 1 2 Council_Collective,
      ig_registrar_origin = Proportion_More_Than 1 2 Council_Collective\<rparr>"

record recovery_config =
  rg_currency :: runtime_pallet
  rg_config_deposit_base :: balance
  rg_friend_deposit_factor :: balance
  rg_max_friends :: "16 word"
  rg_recovery_deposit :: balance

definition recovery_trait :: recovery_config where
  "recovery_trait =
     \<lparr>rg_currency = P_Balances, rg_config_deposit_base = ConfigDepositBase,
      rg_friend_deposit_factor = FriendDepositFactor, rg_max_friends = MaxFriends, rg_recovery_deposit = RecoveryDeposit\<rparr>"

record society_config =
  og_currency :: runtime_pallet
  og_randomness :: runtime_pallet
  og_candidate_deposit :: balance
  og_wrong_side_deduction :: balance
  og_max_strikes :: "32 word"
  og_period_spend :: balance
  og_rotation_period :: block_number
  og_max_lock_duration :: block_number
  og_founder_set_origin :: privileged_origin
  og_suspension_judgement_origin :: privileged_origin
  og_challenge_period :: block_number

definition society_trait :: society_config where
  "society_trait =
     \<lparr>og_currency = P_Balances, og_randomness = P_RandomnessCollectiveFlip, og_candidate_deposit = CandidateDeposit,
      og_wrong_side_deduction = WrongSideDeduction, og_max_strikes = MaxStrikes, og_period_spend = PeriodSpend,
      og_rotation_period = RotationPeriod, og_max_lock_duration = MaxLockDuration,
      og_founder_set_origin = Proportion_More_Than 1 2 Council_Collective,
      og_suspension_judgement_origin = Society_Founder, og_challenge_period = ChallengePeriod\<rparr>"

section \<open>The rest of the wiring\<close>

record frame_system_config =
  ym_lookup :: runtime_pallet
  ym_block_hash_count :: block_number
  ym_maximum_block_weight :: "32 word"
  ym_maximum_block_length :: "32 word"
  ym_available_block_percent :: nat
  ym_version :: runtime_version
  ym_on_reap_account :: "runtime_pallet list"

definition frame_system_trait :: frame_system_config where
  "frame_system_trait =
     \<lparr>ym_lookup = P_Indices, ym_block_hash_count = BlockHashCount, ym_maximum_block_weight = MaximumBlockWeight,
      ym_maximum_block_length = MaximumBlockLength, ym_available_block_percent = AvailableBlockRatio, ym_version = VERSION,
      ym_on_reap_account = [P_Balances, P_Staking, P_Contracts, P_Session, P_Recovery]\<rparr>"

record payment_config =
  pg_currency :: runtime_pallet
  pg_on_transaction_payment :: imbalance_handler
  pg_transaction_base_fee :: balance
  pg_transaction_byte_fee :: balance
  pg_weight_to_fee :: "32 word \<Rightarrow> balance"
  pg_target_fullness_percent :: nat

definition transaction_payment_trait :: payment_config where
  "transaction_payment_trait =
     \<lparr>pg_currency = P_Balances, pg_on_transaction_payment = Deal_With_Fees,
      pg_transaction_base_fee = TransactionBaseFee, pg_transaction_byte_fee = TransactionByteFee,
      pg_weight_to_fee = weight_to_fee WeightFeeCoefficient, pg_target_fullness_percent = TargetBlockFullness\<rparr>"

record authorship_config =
  ag_uncle_generations :: block_number
  ag_event_handler :: "runtime_pallet list"

definition authorship_trait :: authorship_config where
  "authorship_trait = \<lparr>ag_uncle_generations = UncleGenerations, ag_event_handler = [P_Staking, P_ImOnline]\<rparr>"

record session_config =
  ng_should_end_session :: runtime_pallet
  ng_session_manager :: runtime_pallet
  ng_disabled_validators_percent :: nat

definition session_trait :: session_config where
  "session_trait =
     \<lparr>ng_should_end_session = P_Babe, ng_session_manager = P_Staking, ng_disabled_validators_percent = DisabledValidatorsThreshold\<rparr>"

record contracts_config =
  cg_currency :: runtime_pallet
  cg_time :: runtime_pallet
  cg_randomness :: runtime_pallet
  cg_gas_payment :: imbalance_handler
  cg_rent_payment :: imbalance_handler
  cg_tombstone_deposit :: balance
  cg_rent_byte_fee :: balance
  cg_rent_deposit_offset :: balance
  cg_surcharge_reward :: balance
  cg_transaction_base_fee :: balance
  cg_transaction_byte_fee :: balance
  cg_contract_fee :: balance

definition contracts_trait :: contracts_config where
  "contracts_trait =
     \<lparr>cg_currency = P_Balances, cg_time = P_Timestamp, cg_randomness = P_RandomnessCollectiveFlip,
      cg_gas_payment = Dropped, cg_rent_payment = Dropped, cg_tombstone_deposit = TombstoneDeposit,
      cg_rent_byte_fee = RentByteFee, cg_rent_deposit_offset = RentDepositOffset, cg_surcharge_reward = SurchargeReward,
      cg_transaction_base_fee = ContractTransactionBaseFee, cg_transaction_byte_fee = ContractTransactionByteFee,
      cg_contract_fee = ContractFee\<rparr>"

record im_online_config =
  mo_session_duration :: block_number
  mo_report_unresponsiveness :: runtime_pallet

definition im_online_trait :: im_online_config where
  "im_online_trait = \<lparr>mo_session_duration = SessionDuration, mo_report_unresponsiveness = P_Offences\<rparr>"

record finality_tracker_config =
  fg_window_size :: block_number
  fg_report_latency :: block_number

definition finality_tracker_trait :: finality_tracker_config where
  "finality_tracker_trait = \<lparr>fg_window_size = WindowSize, fg_report_latency = ReportLatency\<rparr>"

text \<open>What the runtime tells a BABE client; slot duration, authorities and randomness are the pallet's.\<close>

definition PRIMARY_PROBABILITY :: "64 word \<times> 64 word" where "PRIMARY_PROBABILITY = (1, 4)"

record ('auth, 'rand) babe_configuration =
  bb_slot_duration :: "64 word"
  bb_epoch_length :: "64 word"
  bb_c :: "64 word \<times> 64 word"
  bb_genesis_authorities :: "'auth list"
  bb_randomness :: 'rand
  bb_secondary_slots :: bool

definition babe_api_configuration :: "64 word \<Rightarrow> 'auth list \<Rightarrow> 'rand \<Rightarrow> ('auth, 'rand) babe_configuration" where
  "babe_api_configuration slot_duration authorities randomness =
     \<lparr>bb_slot_duration = slot_duration, bb_epoch_length = EpochDuration, bb_c = PRIMARY_PROBABILITY,
      bb_genesis_authorities = authorities, bb_randomness = randomness, bb_secondary_slots = True\<rparr>"

section \<open>Fees\<close>

text \<open>
  \<open>DealWithFees\<close> splits an imbalance in the ratio 4 to 1, gives the first part to the treasury and the
  second to the author of the block; \<open>Author\<close> resolves it into the author's account.  \<open>SplitTwoWays\<close>, the
  treasury and \<open>resolve_creating\<close> are the framework's.
\<close>

definition author_on_nonzero_unbalanced ::
    "(account_id \<Rightarrow> balance \<Rightarrow> 's \<Rightarrow> 's) \<Rightarrow> ('s \<Rightarrow> account_id) \<Rightarrow> balance \<Rightarrow> 's \<Rightarrow> 's" where
  "author_on_nonzero_unbalanced resolve_creating author amount s = resolve_creating (author s) amount s"

definition deal_with_fees ::
    "(nat \<Rightarrow> (balance \<Rightarrow> 's \<Rightarrow> 's) \<Rightarrow> nat \<Rightarrow> (balance \<Rightarrow> 's \<Rightarrow> 's) \<Rightarrow> balance \<Rightarrow> 's \<Rightarrow> 's)
      \<Rightarrow> (account_id \<Rightarrow> balance \<Rightarrow> 's \<Rightarrow> 's) \<Rightarrow> ('s \<Rightarrow> account_id) \<Rightarrow> (balance \<Rightarrow> 's \<Rightarrow> 's) \<Rightarrow> balance \<Rightarrow> 's \<Rightarrow> 's" where
  "deal_with_fees split_two_ways resolve_creating author treasury =
     split_two_ways 4 treasury 1 (author_on_nonzero_unbalanced resolve_creating author)"

text \<open>Nothing of a fee is lost: when the split hands out two parts that add up to the fee, one after the other,
  what the treasury and the author's account gain together is the fee.\<close>

lemma fees_reach_treasury_and_author:
  fixes worth :: "'s \<Rightarrow> nat"
  assumes parts: "\<And>n f m g a s. \<exists>x y. unat x + unat y = unat a \<and> split_two_ways n f m g a s = g y (f x s)"
    and "\<And>a s. worth (treasury a s) = worth s + unat a"
    and "\<And>who a s. worth (resolve_creating who a s) = worth s + unat a"
  shows "worth (deal_with_fees split_two_ways resolve_creating author treasury fee s) = worth s + unat fee"
proof -
  obtain x y where xy: "unat x + unat y = unat fee"
    and "deal_with_fees split_two_ways resolve_creating author treasury fee s
      = author_on_nonzero_unbalanced resolve_creating author y (treasury x s)"
    using parts unfolding deal_with_fees_def by blast
  then show ?thesis
    by (simp add: author_on_nonzero_unbalanced_def assms(2,3) add.assoc)
qed

section \<open>The order of the council's powers\<close>

text \<open>
  A motion of a collective with the ayes and the number of its members, and the documented meaning of the
  origins of the collective pallet: at least, or more than, the given share of the members.
\<close>

datatype motion = Motion collective nat nat

text \<open>Whatever motion can table a referendum with default carriage can table one with majority carriage and
  cancel a slash; such a motion can cancel a referendum; such a motion decides on the technical committee, and
  that one can table an external referendum.  The comments on the origins order them the same way.\<close>

lemma council_powers_ordered:
  assumes at_least: "\<And>n d c y m. passes (Proportion_At_Least n d c) (Motion c y m) \<longleftrightarrow> n * m \<le> y * d"
    and more_than: "\<And>n d c y m. passes (Proportion_More_Than n d c) (Motion c y m) \<longleftrightarrow> n * m < y * d"
    and can: "\<And>orig. can orig \<longleftrightarrow> passes orig (Motion Council_Collective y m)" and members: "0 < m"
  shows "can (dg_external_default_origin democracy_trait) \<Longrightarrow> can (dg_external_majority_origin democracy_trait)"
    and "can (dg_external_majority_origin democracy_trait) \<longleftrightarrow> can (sg_slash_cancel_origin staking_trait)"
    and "can (dg_external_majority_origin democracy_trait) \<Longrightarrow> can (dg_cancellation_origin democracy_trait)"
    and "can (dg_cancellation_origin democracy_trait) \<Longrightarrow> can (mg_add_origin technical_membership_trait)"
    and "can (mg_add_origin technical_membership_trait) \<Longrightarrow> can (dg_external_origin democracy_trait)"
  using members
  by (simp_all add: can democracy_trait_def staking_trait_def technical_membership_trait_def at_least more_than)

text \<open>Money that is slashed by the pallets of the framework always reaches the treasury.\<close>

lemma slashes_reach_treasury:
  "sg_slash staking_trait = To_Treasury \<and> dg_slash democracy_trait = To_Treasury \<and> ig_slashed identity_trait = To_Treasury"
  by (simp add: staking_trait_def democracy_trait_def identity_trait_def)

end
