(* ===== verification/Node_Service.thy ===== *)
theory Node_Service
  imports Results
begin

text \<open>
  How the node is put together (cli/src/service.rs): the builder of a full node, the tasks a full node
  starts by its role, and the builder of a light node.

  The components themselves are the framework's.  A call that can fail is a field of \<open>service_calls\<close>
  with its result; what the model keeps is the order of the calls, the errors and panics of this file,
  and which tasks are started with which configuration.
\<close>

section \<open>Parameters\<close>

record node_config =
  nc_is_authority :: bool
  nc_force_authoring :: bool
  nc_name :: string
  nc_disable_grandpa :: bool
  nc_sentry_nodes :: "string list"
  nc_sentry_mode :: bool

record service_calls =
  sv_builder :: "string + unit"
  sv_with_select_chain :: "string + bool"
  sv_transaction_pool :: "string + unit"
  sv_grandpa_block_import :: "string + unit"
  sv_babe_config :: "string + unit"
  sv_babe_block_import :: "string + unit"
  sv_import_queue :: "string + unit"
  sv_rpc_extensions :: "string + unit"
  sv_network_protocol :: "string + unit"
  sv_finality_proof_provider :: "string + unit"
  sv_build :: "string + bool"
  sv_start_babe :: "string + unit"
  sv_grandpa_observer :: "string + unit"
  sv_grandpa_voter :: "string + unit"
  sv_disabled_grandpa :: "string + unit"

definition exit_bind :: "'a exit \<Rightarrow> ('a \<Rightarrow> 'b exit) \<Rightarrow> 'b exit" where
  "exit_bind r k = (case r of Ok_Exit a \<Rightarrow> k a | Err_Exit e \<Rightarrow> Err_Exit e | Panic_Exit e \<Rightarrow> Panic_Exit e)"

lemma exit_bind_simps [simp]:
  "exit_bind (Ok_Exit a) k = k a" "exit_bind (Err_Exit e) k = Err_Exit e" "exit_bind (Panic_Exit e) k = Panic_Exit e"
  by (simp_all add: exit_bind_def)

lemma exit_bind_Ok_iff: "exit_bind r k = Ok_Exit b \<longleftrightarrow> (\<exists>a. r = Ok_Exit a \<and> k a = Ok_Exit b)"
  by (cases r) simp_all

lemma exit_then_Ok_iff: "exit_then r k = Ok_Exit b \<longleftrightarrow> (\<exists>a. r = Inr a \<and> k a = Ok_Exit b)"
  by (cases r) simp_all

lemmas Ok_iffs = exit_bind_Ok_iff exit_then_Ok_iff

section \<open>The builder of a full node\<close>

text \<open>
  \<open>import_setup\<close> is filled in by the closure of the import queue; the closure of the RPC extensions
  expects it and the select chain.  The flag says whether the builder has a select chain.
\<close>

definition import_queue_closure :: "service_calls \<Rightarrow> bool \<Rightarrow> string + unit option" where
  "import_queue_closure calls select_chain =
     (if \<not> select_chain then Inl ''SelectChainRequired''
      else
        try_then (sv_grandpa_block_import calls) (\<lambda>_.
        try_then (sv_babe_config calls) (\<lambda>_.
        try_then (sv_babe_block_import calls) (\<lambda>_.
        try_then (sv_import_queue calls) (\<lambda>_. Inr (Some ()))))))"

definition new_full_start :: "service_calls \<Rightarrow> (unit option) exit" where
  "new_full_start calls =
     exit_then (sv_builder calls) (\<lambda>_.
     exit_then (sv_with_select_chain calls) (\<lambda>select_chain.
     exit_then (sv_transaction_pool calls) (\<lambda>_.
     exit_then (import_queue_closure calls select_chain) (\<lambda>import_setup.
       case import_setup of
         None \<Rightarrow> Panic_Exit ''BabeLink is present for full services or set up failed; qed.''
       | Some _ \<Rightarrow>
           (if \<not> select_chain
            then Panic_Exit ''SelectChain is present for full services or set up failed; qed.''
            else exit_then (sv_rpc_extensions calls) (\<lambda>_. Ok_Exit import_setup))))))"

section \<open>The tasks of a full node\<close>

datatype spawned = Essential string | Spawned string

record grandpa_config =
  gp_gossip_millis :: nat
  gp_justification_period :: "32 word"
  gp_name :: string
  gp_observer_enabled :: bool
  gp_has_keystore :: bool
  gp_is_authority :: bool

record node_service =
  ns_tasks :: "spawned list"
  ns_babe_force_authoring :: "bool option"
  ns_sentry_nodes :: "string list"
  ns_grandpa :: grandpa_config

text \<open>\<open>sv_build\<close> returns whether the built service has a select chain.\<close>

definition start_authoring :: "service_calls \<Rightarrow> bool \<Rightarrow> spawned list exit" where
  "start_authoring calls select_chain =
     (if \<not> select_chain then Err_Exit ''SelectChainRequired''
      else exit_then (sv_start_babe calls) (\<lambda>_.
             Ok_Exit [Essential ''babe-proposer'', Spawned ''authority-discovery'']))"

definition start_grandpa :: "service_calls \<Rightarrow> bool \<Rightarrow> bool \<Rightarrow> spawned list exit" where
  "start_grandpa calls is_authority disable_grandpa =
     (case (is_authority, disable_grandpa) of
        (False, False) \<Rightarrow> exit_then (sv_grandpa_observer calls) (\<lambda>_. Ok_Exit [Spawned ''grandpa-observer''])
      | (True, False) \<Rightarrow> exit_then (sv_grandpa_voter calls) (\<lambda>_. Ok_Exit [Essential ''grandpa-voter''])
      | (_, True) \<Rightarrow> exit_then (sv_disabled_grandpa calls) (\<lambda>_. Ok_Exit []))"

definition new_full :: "service_calls \<Rightarrow> node_config \<Rightarrow> node_service exit" where
  "new_full calls config =
     (let is_authority = nc_is_authority config;
          participates_in_consensus = is_authority \<and> \<not> nc_sentry_mode config
      in exit_bind (new_full_start calls) (\<lambda>import_setup.
         exit_then (sv_network_protocol calls) (\<lambda>_.
         exit_then (sv_finality_proof_provider calls) (\<lambda>_.
         exit_then (sv_build calls) (\<lambda>select_chain.
           case import_setup of
             None \<Rightarrow> Panic_Exit ''Link Half and Block Import are present for Full Services or setup failed before. qed''
           | Some _ \<Rightarrow>
               exit_bind (if participates_in_consensus then start_authoring calls select_chain else Ok_Exit []) (\<lambda>authoring.
                 let keystore = participates_in_consensus;
                     grandpa = \<lparr>gp_gossip_millis = 333, gp_justification_period = 512, gp_name = nc_name config,
                       gp_observer_enabled = True, gp_has_keystore = keystore, gp_is_authority = is_authority\<rparr>
                 in exit_bind (start_grandpa calls is_authority (nc_disable_grandpa config)) (\<lambda>finality.
                      Ok_Exit \<lparr>ns_tasks = authoring @ finality,
                        ns_babe_force_authoring =
                          (if participates_in_consensus then Some (nc_force_authoring config) else None),
                        ns_sentry_nodes = (if participates_in_consensus then nc_sentry_nodes config else []),
                        ns_grandpa = grandpa\<rparr>)))))))"

section \<open>A light node\<close>

text \<open>The fetcher and the remote blockchain of a light client may be missing, which is an error.\<close>

definition new_light :: "service_calls \<Rightarrow> bool \<Rightarrow> bool \<Rightarrow> string + unit" where
  "new_light calls fetcher remote_blockchain =
     try_then (sv_builder calls) (\<lambda>_.
     try_then (sv_with_select_chain calls) (\<lambda>_.
     try_then (if fetcher then sv_transaction_pool calls
               else Inl ''Trying to start light transaction pool without active fetcher'') (\<lambda>_.
     try_then (if fetcher
               then
                 try_then (sv_grandpa_block_import calls) (\<lambda>_.
                 try_then (sv_babe_config calls) (\<lambda>_.
                 try_then (sv_babe_block_import calls) (\<lambda>_. sv_import_queue calls)))
               else Inl ''Trying to start light import queue without active fetch checker'') (\<lambda>_.
     try_then (sv_network_protocol calls) (\<lambda>_.
     try_then (sv_finality_proof_provider calls) (\<lambda>_.
     try_then (if \<not> fetcher then Inl ''Trying to start node RPC without active fetcher''
               else if \<not> remote_blockchain then Inl ''Trying to start node RPC without active remote blockchain''
               else sv_rpc_extensions calls) (\<lambda>_.
     try_then (sv_build calls) (\<lambda>_. Inr ()))))))))"

section \<open>Who takes part in consensus\<close>

text \<open>The \<open>expect\<close>s of the builder and of the service cannot fail.\<close>

lemma new_full_start_never_panics: "new_full_start calls \<noteq> Panic_Exit msg"
  by (auto simp: new_full_start_def import_queue_closure_def exit_then_def try_then_def split: sum.splits)

lemma new_full_start_Ok: "new_full_start calls = Ok_Exit link \<Longrightarrow> link = Some ()"
  by (auto simp: new_full_start_def import_queue_closure_def Ok_iffs Inr_iffs split: if_splits option.splits)

lemma start_grandpa_Ok:
  "start_grandpa calls is_authority disabled = Ok_Exit tasks \<Longrightarrow>
     tasks = (if disabled then [] else if is_authority then [Essential ''grandpa-voter''] else [Spawned ''grandpa-observer''])"
  by (cases is_authority; cases disabled) (auto simp: start_grandpa_def Ok_iffs)

lemma new_full_tasks:
  assumes "new_full calls config = Ok_Exit svc"
  shows "ns_tasks svc =
      (if nc_is_authority config \<and> \<not> nc_sentry_mode config
       then [Essential ''babe-proposer'', Spawned ''authority-discovery''] else [])
    @ (if nc_disable_grandpa config then []
       else if nc_is_authority config then [Essential ''grandpa-voter''] else [Spawned ''grandpa-observer''])"
    "gp_has_keystore (ns_grandpa svc) = (nc_is_authority config \<and> \<not> nc_sentry_mode config)"
    "gp_is_authority (ns_grandpa svc) = nc_is_authority config"
  using assms
  by (auto simp: new_full_def Let_def Ok_iffs start_authoring_def
      dest!: start_grandpa_Ok split: if_splits option.splits)

text \<open>A sentry node votes like an authority would but holds no key to vote with, and never authors.\<close>

lemma sentry_holds_no_key:
  assumes "new_full calls config = Ok_Exit svc" and "nc_sentry_mode config"
  shows "Essential ''babe-proposer'' \<notin> set (ns_tasks svc) \<and> \<not> gp_has_keystore (ns_grandpa svc)"
  using new_full_tasks [OF assms(1)] assms(2) by simp

lemma new_full_never_panics: "new_full calls config \<noteq> Panic_Exit msg"
proof
  assume panic: "new_full calls config = Panic_Exit msg"
  show False
  proof (cases "new_full_start calls")
    case (Ok_Exit link)
    then have "link = Some ()" by (rule new_full_start_Ok)
    with panic Ok_Exit show False
      by (auto simp: new_full_def Let_def exit_then_def exit_bind_def start_authoring_def start_grandpa_def
          split: sum.splits exit.splits if_splits bool.splits)
  next
    case (Err_Exit e)
    with panic show False by (simp add: new_full_def Let_def)
  next
    case (Panic_Exit e)
    then show False using new_full_start_never_panics by blast
  qed
qed

end
