(* ===== verification/Testing.thy ===== *)
theory Testing
  imports Chain_Spec Runtime_Config Node_Service "HOL-Library.RBT"
begin

text \<open>
  The support for benchmarks and tests (testing/src): the genesis of a test chain (genesis.rs), signing
  with well-known keys (keyring.rs), and the benchmark database with its ring of endowed accounts and the
  block it generates (bench.rs).

  Key pairs, hashing, the codec and the client are code outside the repository and parameters; a result
  the code \<open>expect\<close>s is an option.  The database of the benchmarks, with its files, is in Bench_Db.
\<close>

definition expect :: "string \<Rightarrow> 'a option \<Rightarrow> ('a \<Rightarrow> 'b exit) \<Rightarrow> 'b exit" where
  "expect msg x k = (case x of None \<Rightarrow> Panic_Exit msg | Some a \<Rightarrow> k a)"

lemma expect_simps [simp]: "expect msg None k = Panic_Exit msg" "expect msg (Some a) k = k a"
  by (simp_all add: expect_def)

section \<open>Well-known accounts\<close>

datatype keyring_name = Alice | Bob | Charlie | Dave | Eve | Ferdie

record well_known_keys =
  wk_account :: "keyring_name \<Rightarrow> account_id"
  wk_ed25519 :: "keyring_name \<Rightarrow> public_key"
  wk_sr25519 :: "keyring_name \<Rightarrow> public_key"

definition alice :: "well_known_keys \<Rightarrow> account_id" where "alice wk = wk_account wk Alice"
definition bob :: "well_known_keys \<Rightarrow> account_id" where "bob wk = wk_account wk Bob"
definition charlie :: "well_known_keys \<Rightarrow> account_id" where "charlie wk = wk_account wk Charlie"
definition dave :: "well_known_keys \<Rightarrow> account_id" where "dave wk = wk_account wk Dave"
definition eve :: "well_known_keys \<Rightarrow> account_id" where "eve wk = wk_account wk Eve"
definition ferdie :: "well_known_keys \<Rightarrow> account_id" where "ferdie wk = wk_account wk Ferdie"

definition to_session_keys :: "well_known_keys \<Rightarrow> keyring_name \<Rightarrow> keyring_name \<Rightarrow> session_keys" where
  "to_session_keys wk ed25519_keyring sr25519_keyring =
     \<lparr>sk_grandpa = wk_ed25519 wk ed25519_keyring, sk_babe = wk_sr25519 wk sr25519_keyring,
      sk_im_online = wk_sr25519 wk sr25519_keyring, sk_authority_discovery = wk_sr25519 wk sr25519_keyring\<rparr>"

section \<open>The genesis of a test chain\<close>

text \<open>The fields the code sets; every other pallet has its default, and \<open>slash_reward_percent\<close> is 10.\<close>

record test_genesis =
  tg_changes_trie :: "(32 word \<times> 32 word) option"
  tg_code :: "8 word list"
  tg_balances :: "(account_id \<times> balance) list"
  tg_session_keys :: "(account_id \<times> session_keys) list"
  tg_current_era :: "32 word"
  tg_stakers :: "(account_id \<times> account_id \<times> balance \<times> staker_status) list"
  tg_validator_count :: "32 word"
  tg_minimum_validator_count :: "32 word"
  tg_slash_reward_percent :: "32 word"
  tg_invulnerables :: "account_id list"
  tg_gas_price :: balance
  tg_society_members :: "account_id list"
  tg_society_pot :: balance
  tg_society_max_members :: "32 word"

definition config_endowed ::
    "well_known_keys \<Rightarrow> 8 word list \<Rightarrow> bool \<Rightarrow> 8 word list option \<Rightarrow> account_id list \<Rightarrow> test_genesis" where
  "config_endowed wk wasm_binary support_changes_trie code extra_endowed =
     (let endowed =
            [(alice wk, 111 * DOLLARS), (bob wk, 100 * DOLLARS), (charlie wk, 100000000 * DOLLARS),
             (dave wk, 111 * DOLLARS), (eve wk, 101 * DOLLARS), (ferdie wk, 100 * DOLLARS)];
          endowed = endowed @ map (\<lambda>endowed. (endowed, 100 * DOLLARS)) extra_endowed
      in \<lparr>tg_changes_trie = (if support_changes_trie then Some (2, 2) else None),
          tg_code = (case code of Some x \<Rightarrow> x | None \<Rightarrow> wasm_binary),
          tg_balances = endowed,
          tg_session_keys =
            [(alice wk, to_session_keys wk Alice Alice), (bob wk, to_session_keys wk Bob Bob),
             (charlie wk, to_session_keys wk Charlie Charlie)],
          tg_current_era = 0,
          tg_stakers =
            [(dave wk, alice wk, 111 * DOLLARS, Validator), (eve wk, bob wk, 100 * DOLLARS, Validator),
             (ferdie wk, charlie wk, 100 * DOLLARS, Validator)],
          tg_validator_count = 3,
          tg_minimum_validator_count = 0,
          tg_slash_reward_percent = 10,
          tg_invulnerables = [alice wk, bob wk, charlie wk],
          tg_gas_price = 1 * MILLICENTS,
          tg_society_members = [alice wk, bob wk],
          tg_society_pot = 0,
          tg_society_max_members = 999\<rparr>)"

definition test_config :: "well_known_keys \<Rightarrow> 8 word list \<Rightarrow> bool \<Rightarrow> 8 word list option \<Rightarrow> test_genesis" where
  "test_config wk wasm_binary support_changes_trie code = config_endowed wk wasm_binary support_changes_trie code []"

text \<open>
  The parameters of a test client and the storage it starts from: \<open>build_storage\<close> of the configuration, whose
  error is a panic.  The builder's \<open>build_with_native_executor\<close> returns the client and its chain.
\<close>

record genesis_parameters =
  support_changes_trie :: bool

definition default_genesis_parameters :: genesis_parameters where
  "default_genesis_parameters = \<lparr>support_changes_trie = False\<rparr>"

definition genesis_storage ::
    "(test_genesis \<Rightarrow> string + 'st) \<Rightarrow> well_known_keys \<Rightarrow> 8 word list \<Rightarrow> genesis_parameters \<Rightarrow> 'st exit" where
  "genesis_storage build_storage wk wasm_binary params =
     (case build_storage (test_config wk wasm_binary (support_changes_trie params) None) of
        Inl e \<Rightarrow> Panic_Exit e
      | Inr storage \<Rightarrow> Ok_Exit storage)"

definition test_client_build :: "('builder \<Rightarrow> 'exec option \<Rightarrow> 'client \<times> 'chain) \<Rightarrow> 'builder \<Rightarrow> 'client" where
  "test_client_build build_with_native_executor builder = fst (build_with_native_executor builder None)"

lemma default_test_client_has_no_changes_trie:
  "genesis_storage Inr wk wasm_binary default_genesis_parameters = Ok_Exit g
     \<Longrightarrow> tg_changes_trie g = None \<and> tg_code g = wasm_binary"
  by (auto simp: genesis_storage_def default_genesis_parameters_def test_config_def config_endowed_def)

section \<open>Signing\<close>

type_synonym block_hash = "256 word"

record ('call, 'era) checked_extrinsic =
  cx_signed :: "(account_id \<times> ('era, 32 word) signed_extra) option"
  cx_function :: 'call

record ('call, 'era, 'sig) unchecked_extrinsic =
  ux_signature :: "(account_id \<times> 'sig \<times> ('era, 32 word) signed_extra) option"
  ux_function :: 'call

record ('call, 'era, 'pair, 'sig) test_crypto =
  tc_mortal :: "64 word \<Rightarrow> 64 word \<Rightarrow> 'era"
  tc_encode :: "'call \<times> ('era, 32 word) signed_extra \<times> 32 word \<times> block_hash \<times> block_hash \<Rightarrow> 8 word list"
  tc_blake2_256 :: "8 word list \<Rightarrow> 8 word list"
  tc_sign :: "'pair \<Rightarrow> 8 word list \<Rightarrow> 'sig"
  tc_from_string :: "string \<Rightarrow> 'pair option"
  tc_into_account :: "'pair \<Rightarrow> account_id"

definition test_signed_extra ::
    "('call, 'era, 'pair, 'sig) test_crypto \<Rightarrow> 32 word \<Rightarrow> balance \<Rightarrow> ('era, 32 word) signed_extra" where
  "test_signed_extra tc nonce extra_fee = \<lparr>ex_era = tc_mortal tc 256 0, ex_nonce = nonce, ex_tip = extra_fee\<rparr>"

definition sign_bytes :: "('call, 'era, 'pair, 'sig) test_crypto \<Rightarrow> 'pair \<Rightarrow> 8 word list \<Rightarrow> 'sig" where
  "sign_bytes tc key b = (if 256 < length b then tc_sign tc key (tc_blake2_256 tc b) else tc_sign tc key b)"

text \<open>Both rings sign alike, up to where the key comes from and what is said when there is none.\<close>

definition sign_with ::
    "('call, 'era, 'pair, 'sig) test_crypto \<Rightarrow> string \<Rightarrow> (account_id \<Rightarrow> 'pair option) \<Rightarrow> ('call, 'era) checked_extrinsic
      \<Rightarrow> 32 word \<Rightarrow> block_hash \<Rightarrow> ('call, 'era, 'sig) unchecked_extrinsic exit" where
  "sign_with tc msg key_of xt version genesis_hash =
     (case cx_signed xt of
        Some (signer, extra) \<Rightarrow>
          (let payload = (cx_function xt, extra, version, genesis_hash, genesis_hash) in
           expect msg (key_of signer) (\<lambda>key.
             Ok_Exit \<lparr>ux_signature = Some (signer, sign_bytes tc key (tc_encode tc payload), extra),
                      ux_function = cx_function xt\<rparr>))
      | None \<Rightarrow> Ok_Exit \<lparr>ux_signature = None, ux_function = cx_function xt\<rparr>)"

definition keyring_sign ::
    "('call, 'era, 'pair, 'sig) test_crypto \<Rightarrow> (account_id \<Rightarrow> 'pair option) \<Rightarrow> ('call, 'era) checked_extrinsic
      \<Rightarrow> 32 word \<Rightarrow> block_hash \<Rightarrow> ('call, 'era, 'sig) unchecked_extrinsic exit" where
  "keyring_sign tc from_account_id = sign_with tc ''called `Option::unwrap()` on a `None` value'' from_account_id"

section \<open>The ring of accounts of the benchmarks\<close>

text \<open>A \<open>BTreeMap\<close> from accounts to key pairs: its keys come in ascending order.\<close>

type_synonym 'pair bench_keyring = "(account_id, 'pair) rbt"

fun bench_keyring_insert ::
    "('call, 'era, 'pair, 'sig) test_crypto \<Rightarrow> nat list \<Rightarrow> 'pair bench_keyring \<Rightarrow> 'pair bench_keyring exit" where
  "bench_keyring_insert tc [] accounts = Ok_Exit accounts"
| "bench_keyring_insert tc (n # ns) accounts =
     (let seed = ''//endowed-user/'' @ show_nat n in
      expect ''failed to generate pair'' (tc_from_string tc seed) (\<lambda>pair.
        bench_keyring_insert tc ns (RBT.insert (tc_into_account tc pair) pair accounts)))"

definition bench_keyring_new :: "('call, 'era, 'pair, 'sig) test_crypto \<Rightarrow> nat \<Rightarrow> 'pair bench_keyring exit" where
  "bench_keyring_new tc len = bench_keyring_insert tc [0..<len] RBT.empty"

definition collect_account_ids :: "'pair bench_keyring \<Rightarrow> account_id list" where
  "collect_account_ids ring = RBT.keys ring"

definition bench_keyring_at :: "'pair bench_keyring \<Rightarrow> nat \<Rightarrow> account_id exit" where
  "bench_keyring_at ring index =
     (if index < length (RBT.keys ring) then Ok_Exit (RBT.keys ring ! index) else Panic_Exit ''Failed to get account'')"

definition bench_keyring_sign ::
    "('call, 'era, 'pair, 'sig) test_crypto \<Rightarrow> 'pair bench_keyring \<Rightarrow> ('call, 'era) checked_extrinsic
      \<Rightarrow> 32 word \<Rightarrow> block_hash \<Rightarrow> ('call, 'era, 'sig) unchecked_extrinsic exit" where
  "bench_keyring_sign tc ring = sign_with tc ''Account id not found in keyring'' (RBT.lookup ring)"

definition generate_genesis :: "well_known_keys \<Rightarrow> 8 word list \<Rightarrow> 'pair bench_keyring \<Rightarrow> test_genesis" where
  "generate_genesis wk wasm_binary ring =
     config_endowed wk wasm_binary False (Some wasm_binary) (collect_account_ids ring)"

definition bench_account_from_seed :: "('call, 'era, 'pair, 'sig) test_crypto \<Rightarrow> string \<Rightarrow> account_id exit" where
  "bench_account_from_seed tc seed =
     expect ''static values are valid; qed'' (tc_from_string tc (''//'' @ seed)) (\<lambda>pair. Ok_Exit (tc_into_account tc pair))"

section \<open>Generating a block\<close>

datatype execution_strategy = NativeWhenPossible | AlwaysWasm | Both | NativeElseWasm

record execution_strategies =
  es_syncing :: execution_strategy
  es_importing :: execution_strategy
  es_block_construction :: execution_strategy
  es_offchain_worker :: execution_strategy
  es_other :: execution_strategy

datatype profile = Native | Wasm

definition into_execution_strategies :: "profile \<Rightarrow> execution_strategies" where
  "into_execution_strategies p =
     (case p of
        Wasm \<Rightarrow> \<lparr>es_syncing = AlwaysWasm, es_importing = AlwaysWasm, es_block_construction = AlwaysWasm,
                 es_offchain_worker = AlwaysWasm, es_other = AlwaysWasm\<rparr>
      | Native \<Rightarrow> \<lparr>es_syncing = NativeElseWasm, es_importing = NativeElseWasm, es_block_construction = NativeElseWasm,
                   es_offchain_worker = NativeElseWasm, es_other = NativeElseWasm\<rparr>)"

datatype 'bb push_result = Pushed 'bb | Exhausted_Resources | Push_Error string

datatype bench_call = Balances_transfer account_id balance

record ('xt, 'bb, 'block, 'era, 'sig) bench_client =
  bc_spec_version :: "32 word option"
  bc_genesis_hash :: "block_hash option option"
  bc_new_block :: "'bb option"
  bc_inherents :: "moment \<times> 32 word \<Rightarrow> 'xt list option"
  bc_decode_opaque :: "(bench_call, 'era, 'sig) unchecked_extrinsic \<Rightarrow> 'xt option"
  bc_push :: "'xt \<Rightarrow> 'bb \<Rightarrow> 'bb push_result"
  bc_build :: "'bb \<Rightarrow> 'block option"

fun push_inherents :: "('xt, 'bb, 'block, 'era, 'sig) bench_client \<Rightarrow> 'xt list \<Rightarrow> 'bb \<Rightarrow> 'bb exit" where
  "push_inherents client [] block = Ok_Exit block"
| "push_inherents client (extrinsic # rest) block =
     (case bc_push client extrinsic block of
        Pushed block \<Rightarrow> push_inherents client rest block
      | _ \<Rightarrow> Panic_Exit ''Push inherent failed'')"

definition bench_transfer ::
    "(bench_call, 'era, 'pair, 'sig) test_crypto \<Rightarrow> 'pair bench_keyring \<Rightarrow> 32 word \<Rightarrow> block_hash \<Rightarrow> nat
      \<Rightarrow> (bench_call, 'era, 'sig) unchecked_extrinsic exit" where
  "bench_transfer tc ring version genesis_hash iteration =
     exit_bind (bench_keyring_at ring iteration) (\<lambda>sender.
     exit_bind (bench_account_from_seed tc (''random-user//'' @ show_nat iteration)) (\<lambda>receiver.
       bench_keyring_sign tc ring
         \<lparr>cx_signed = Some (sender, test_signed_extra tc 0 (1 * DOLLARS)),
          cx_function = Balances_transfer receiver (1 * DOLLARS)\<rparr>
         version genesis_hash))"

text \<open>The loop over the transactions; a full block ends it early.\<close>

fun push_transactions ::
    "(bench_call, 'era, 'pair, 'sig) test_crypto \<Rightarrow> ('xt, 'bb, 'block, 'era, 'sig) bench_client \<Rightarrow> 'pair bench_keyring
      \<Rightarrow> 32 word \<Rightarrow> block_hash \<Rightarrow> nat \<Rightarrow> nat \<Rightarrow> 'bb \<Rightarrow> 'bb exit" where
  "push_transactions tc client ring version genesis_hash 0 iteration block = Ok_Exit block"
| "push_transactions tc client ring version genesis_hash (Suc transactions) iteration block =
     exit_bind (bench_transfer tc ring version genesis_hash iteration) (\<lambda>xt.
     expect ''Failed  to decode opaque'' (bc_decode_opaque client xt) (\<lambda>opaque.
       case bc_push client opaque block of
         Exhausted_Resources \<Rightarrow> Ok_Exit block
       | Push_Error err \<Rightarrow> Panic_Exit (''Error pushing transaction: '' @ err)
       | Pushed block \<Rightarrow>
           push_transactions tc client ring version genesis_hash transactions (iteration + 1) block))"

definition generate_block ::
    "(bench_call, 'era, 'pair, 'sig) test_crypto \<Rightarrow> ('xt, 'bb, 'block, 'era, 'sig) bench_client \<Rightarrow> 'pair bench_keyring
      \<Rightarrow> nat \<Rightarrow> 'block exit" where
  "generate_block tc client ring transactions =
     expect ''There should be runtime version at 0'' (bc_spec_version client) (\<lambda>version.
     expect ''Database error?'' (bc_genesis_hash client) (\<lambda>genesis_hash.
     expect ''Genesis block always exists; qed'' genesis_hash (\<lambda>genesis_hash.
     expect ''Block creation failed'' (bc_new_block client) (\<lambda>block.
     let timestamp = 1 * MinimumPeriod in
     expect ''Get inherents failed'' (bc_inherents client (timestamp, 0)) (\<lambda>inherents.
     exit_bind (push_inherents client inherents block) (\<lambda>block.
     exit_bind (push_transactions tc client ring version genesis_hash transactions 0 block) (\<lambda>block.
       expect ''Block build failed'' (bc_build client block) Ok_Exit)))))))"

section \<open>Importing it\<close>

record imported_aux =
  ia_header_only :: bool
  ia_clear_justification_requests :: bool
  ia_needs_justification :: bool
  ia_bad_justification :: bool
  ia_needs_finality_proof :: bool
  ia_is_new_best :: bool

datatype import_result = Imported imported_aux | Not_Imported

definition bench_import_block ::
    "('c \<Rightarrow> 32 word) \<Rightarrow> ('block \<Rightarrow> 'c \<Rightarrow> (import_result \<times> 'c) option) \<Rightarrow> 'block \<Rightarrow> 'c \<Rightarrow> 'c exit" where
  "bench_import_block best_number import_block block c =
     (if best_number c \<noteq> 0 then Panic_Exit ''assertion failed''
      else expect ''Failed to import block'' (import_block block c) (\<lambda>(result, c).
        if result \<noteq> Imported \<lparr>ia_header_only = False, ia_clear_justification_requests = False,
             ia_needs_justification = False, ia_bad_justification = False, ia_needs_finality_proof = False,
             ia_is_new_best = True\<rparr> then Panic_Exit ''assertion failed''
        else if best_number c \<noteq> 1 then Panic_Exit ''assertion failed''
        else Ok_Exit c))"

section \<open>What the ring holds and what it signs\<close>

definition ring_ok :: "('call, 'era, 'pair, 'sig) test_crypto \<Rightarrow> 'pair bench_keyring \<Rightarrow> bool" where
  "ring_ok tc ring \<longleftrightarrow> (\<forall>a pair. RBT.lookup ring a = Some pair \<longrightarrow> tc_into_account tc pair = a)"

lemma ring_ok_insert: "ring_ok tc ring \<Longrightarrow> ring_ok tc (RBT.insert (tc_into_account tc pair) pair ring)"
  by (simp add: ring_ok_def)

lemma ring_insert_ok: "bench_keyring_insert tc ns ring = Ok_Exit ring' \<Longrightarrow> ring_ok tc ring \<Longrightarrow> ring_ok tc ring'"
proof (induction ns arbitrary: ring)
  case (Cons n ns)
  show ?case
  proof (cases "tc_from_string tc (''//endowed-user/'' @ show_nat n)")
    case None
    with Cons.prems(1) show ?thesis by simp
  next
    case (Some pair)
    with Cons.prems(1) have "bench_keyring_insert tc ns (RBT.insert (tc_into_account tc pair) pair ring) = Ok_Exit ring'"
      by simp
    then show ?thesis by (rule Cons.IH) (rule ring_ok_insert [OF Cons.prems(2)])
  qed
qed simp

lemma ring_new_ok: "bench_keyring_new tc n = Ok_Exit ring \<Longrightarrow> ring_ok tc ring"
  unfolding bench_keyring_new_def by (erule ring_insert_ok) (simp add: ring_ok_def)

text \<open>The accounts come in the order of their ids, not in the order of the seeds they are made from.\<close>

lemma ring_ids_ascending: "sorted_wrt (<) (collect_account_ids ring)"
  by (simp add: collect_account_ids_def strict_sorted_iff RBT.sorted_keys RBT.distinct_keys)

lemma ring_at_Ok: "bench_keyring_at ring i = Ok_Exit a \<longleftrightarrow> i < length (collect_account_ids ring) \<and> a = collect_account_ids ring ! i"
  by (auto simp: bench_keyring_at_def collect_account_ids_def)

text \<open>
  Whoever signs a generated transfer holds 100 dollars in the generated genesis, signs with the key of
  the account it names, and with the nonce of an account that has not signed before; no account signs
  two transfers of a block.
\<close>

theorem bench_transfer_signed_by_endowed:
  assumes "bench_keyring_new tc n = Ok_Exit ring" and "bench_transfer tc ring version genesis_hash i = Ok_Exit xt"
  shows "\<exists>a pair b extra. ux_signature xt = Some (a, sign_bytes tc pair b, extra) \<and> tc_into_account tc pair = a
    \<and> a = collect_account_ids ring ! i \<and> i < length (collect_account_ids ring) \<and> ex_nonce extra = 0
    \<and> (a, 100 * DOLLARS) \<in> set (tg_balances (generate_genesis wk wasm ring))"
proof -
  obtain a where a: "bench_keyring_at ring i = Ok_Exit a"
    using assms(2) by (auto simp: bench_transfer_def Ok_iffs)
  then obtain pair b extra where xt: "RBT.lookup ring a = Some pair" "ux_signature xt = Some (a, sign_bytes tc pair b, extra)"
    "ex_nonce extra = 0"
    using assms(2)
    by (auto simp: bench_transfer_def Ok_iffs bench_keyring_sign_def sign_with_def test_signed_extra_def expect_def
        split: option.splits)
  moreover have "tc_into_account tc pair = a"
    using ring_new_ok [OF assms(1)] xt(1) by (simp add: ring_ok_def)
  moreover have "(a, 100 * DOLLARS) \<in> set (tg_balances (generate_genesis wk wasm ring))"
    using a nth_mem [of i "collect_account_ids ring"]
    by (auto simp: ring_at_Ok generate_genesis_def config_endowed_def Let_def)
  ultimately show ?thesis using a by (auto simp: ring_at_Ok)
qed

section \<open>How many transactions fit\<close>

lemma bench_transfer_cases:
  assumes "\<And>s. tc_from_string tc s \<noteq> None"
  shows "bench_transfer tc ring version genesis_hash i = Panic_Exit ''Failed to get account'' \<and> length (collect_account_ids ring) \<le> i
    \<or> (\<exists>xt. bench_transfer tc ring version genesis_hash i = Ok_Exit xt) \<and> i < length (collect_account_ids ring)"
proof (cases "i < length (RBT.keys ring)")
  case True
  then have "RBT.keys ring ! i \<in> dom (RBT.lookup ring)"
    by (simp add: RBT.lookup_keys)
  then obtain pair where "RBT.lookup ring (RBT.keys ring ! i) = Some pair" by blast
  moreover obtain p where "tc_from_string tc (''//'' @ ''random-user//'' @ show_nat i) = Some p"
    using assms by blast
  ultimately show ?thesis
    using True by (simp add: bench_transfer_def bench_keyring_at_def bench_account_from_seed_def bench_keyring_sign_def
        sign_with_def collect_account_ids_def)
qed (simp add: bench_transfer_def bench_keyring_at_def collect_account_ids_def)

lemma push_transactions_outcome:
  assumes "\<And>s. tc_from_string tc s \<noteq> None" and "\<And>xt. bc_decode_opaque client xt \<noteq> None"
    and "\<And>x b. \<exists>b'. bc_push client x b = Pushed b'"
  shows "i \<le> length (collect_account_ids ring) \<Longrightarrow>
    if i + k \<le> length (collect_account_ids ring)
    then \<exists>b'. push_transactions tc client ring version genesis_hash k i b = Ok_Exit b'
    else push_transactions tc client ring version genesis_hash k i b = Panic_Exit ''Failed to get account''"
proof (induction k arbitrary: i b)
  case (Suc k)
  show ?case
  proof (cases "i < length (collect_account_ids ring)")
    case True
    then obtain xt where xt: "bench_transfer tc ring version genesis_hash i = Ok_Exit xt"
      using bench_transfer_cases [OF assms(1), of ring version genesis_hash i] by auto
    obtain opaque where opaque: "bc_decode_opaque client xt = Some opaque" using assms(2) by blast
    obtain b' where "bc_push client opaque b = Pushed b'" using assms(3) by blast
    then show ?thesis using Suc.IH [of "Suc i" b'] True by (simp add: xt opaque)
  next
    case False
    then show ?thesis
      using Suc.prems bench_transfer_cases [OF assms(1), of ring version genesis_hash i] by auto
  qed
qed simp

text \<open>
  With a client that accepts everything, a block can be generated with at most as many transactions as
  the ring has accounts; with one more the generation panics.
\<close>

theorem generate_block_needs_accounts:
  assumes "\<And>s. tc_from_string tc s \<noteq> None" and "\<And>xt. bc_decode_opaque client xt \<noteq> None"
    and "\<And>x b. \<exists>b'. bc_push client x b = Pushed b'" and "\<And>b. bc_build client b \<noteq> None"
    and "bc_spec_version client = Some v" "bc_genesis_hash client = Some (Some h)" "bc_new_block client = Some b0"
    and "bc_inherents client (MinimumPeriod, 0) = Some inherents"
  shows "if transactions \<le> length (collect_account_ids ring)
    then \<exists>block. generate_block tc client ring transactions = Ok_Exit block
    else generate_block tc client ring transactions = Panic_Exit ''Failed to get account''"
proof -
  have "\<exists>b'. push_inherents client xs b = Ok_Exit b'" for xs b
  proof (induction xs arbitrary: b)
    case (Cons x xs)
    obtain b' where "bc_push client x b = Pushed b'" using assms(3) by blast
    then show ?case using Cons.IH by simp
  qed simp
  then obtain b1 where b1: "push_inherents client inherents b0 = Ok_Exit b1" by blast
  have run: "generate_block tc client ring transactions
      = exit_bind (push_transactions tc client ring v h transactions 0 b1) (\<lambda>b. expect ''Block build failed'' (bc_build client b) Ok_Exit)"
    using assms(5-) by (simp add: generate_block_def b1)
  have "\<exists>block. expect ''Block build failed'' (bc_build client b) Ok_Exit = Ok_Exit block" for b
    using assms(4) [of b] by auto
  then show ?thesis
    using push_transactions_outcome [OF assms(1-3), of 0 ring transactions v h b1]
    by (auto simp: run split: if_splits)
qed

end
