(* ===== verification/Factory_Adapter.thy ===== *)
theory Factory_Adapter
  imports Factory Testing
begin

text \<open>
  The runtime adapter of the transaction factory in full (cli/src/factory_impl.rs) and the loop of
  transaction-factory/src/lib.rs with the client's calls in the order the loop makes them: the derivation
  of accounts from seeds, the signed extras, signing, the calls that build and import a block, and every
  \<open>expect\<close> of the loop.  A panic is \<open>None\<close>.

  The client, its block builder, the random generator behind \<open>StdRng\<close>, sr25519, hashing and the codec are
  parameters.  The last two sections show that the loop follows the plan that the theory Factory describes,
  and what it gives the client: with one that records, every block is written out, signatures included.
\<close>

section \<open>Accounts from seeds\<close>

text \<open>\<open>StdRng\<close>: a generator from a 64-bit seed, and its next byte.\<close>

record 'rng std_rng =
  rng_seed_from_u64 :: "64 word \<Rightarrow> 'rng"
  rng_gen_u8 :: "'rng \<Rightarrow> 8 word \<times> 'rng"

primrec gen_bytes :: "('rng \<Rightarrow> 8 word \<times> 'rng) \<Rightarrow> nat \<Rightarrow> 'rng \<Rightarrow> 8 word list" where
  "gen_bytes gen 0 r = []"
| "gen_bytes gen (Suc n) r = (let (b, r) = gen r in b # gen_bytes gen n r)"

definition gen_seed_bytes :: "'rng std_rng \<Rightarrow> 32 word \<Rightarrow> 8 word list" where
  "gen_seed_bytes rng seed = gen_bytes (rng_gen_u8 rng) 32 (rng_seed_from_u64 rng (ucast seed))"

text \<open>What the adapter uses besides the signing of \<open>test_crypto\<close>: key pairs from seeds, Alice's pair and
  account from the keyring, and encoding and decoding a signed extrinsic.\<close>

record ('era, 'pair, 'sig, 'rng, 'xt) adapter =
  ad_crypto :: "(bench_call, 'era, 'pair, 'sig) test_crypto"
  ad_rng :: "'rng std_rng"
  ad_from_seed :: "8 word list \<Rightarrow> 'pair"
  ad_alice_account :: account_id
  ad_alice_pair :: 'pair
  ad_recode :: "(bench_call, 'era, 'sig) unchecked_extrinsic \<Rightarrow> 'xt option"

definition gen_random_account_secret :: "('era, 'pair, 'sig, 'rng, 'xt) adapter \<Rightarrow> 32 word \<Rightarrow> 'pair" where
  "gen_random_account_secret ad seed = ad_from_seed ad (gen_seed_bytes (ad_rng ad) seed)"

definition gen_random_account_id :: "('era, 'pair, 'sig, 'rng, 'xt) adapter \<Rightarrow> 32 word \<Rightarrow> account_id" where
  "gen_random_account_id ad seed =
     (let pair = ad_from_seed ad (gen_seed_bytes (ad_rng ad) seed) in tc_into_account (ad_crypto ad) pair)"

definition minimum_balance :: balance where "minimum_balance = ExistentialDeposit"

definition master_account_id :: "('era, 'pair, 'sig, 'rng, 'xt) adapter \<Rightarrow> account_id" where
  "master_account_id ad = ad_alice_account ad"

definition master_account_secret :: "('era, 'pair, 'sig, 'rng, 'xt) adapter \<Rightarrow> 'pair" where
  "master_account_secret ad = ad_alice_pair ad"

section \<open>Signing a transfer\<close>

definition build_extra ::
    "('era, 'pair, 'sig, 'rng, 'xt) adapter \<Rightarrow> 32 word \<Rightarrow> 64 word \<Rightarrow> ('era, 32 word) signed_extra" where
  "build_extra ad index phase = \<lparr>ex_era = tc_mortal (ad_crypto ad) 256 phase, ex_nonce = index, ex_tip = 0\<rparr>"

definition adapter_sign ::
    "('era, 'pair, 'sig, 'rng, 'xt) adapter \<Rightarrow> (bench_call, 'era) checked_extrinsic \<Rightarrow> 'pair
      \<Rightarrow> 32 word \<times> block_hash \<times> block_hash \<Rightarrow> 'xt option" where
  "adapter_sign ad xt key additional =
     (let s = (case cx_signed xt of
                 Some (signer, extra) \<Rightarrow>
                   (let payload = (cx_function xt, extra, additional);
                        signature = sign_bytes (ad_crypto ad) key (tc_encode (ad_crypto ad) payload)
                    in \<lparr>ux_signature = Some (signer, signature, extra), ux_function = fst payload\<rparr>)
               | None \<Rightarrow> \<lparr>ux_signature = None, ux_function = cx_function xt\<rparr>)
      in ad_recode ad s)"

definition adapter_transfer_extrinsic ::
    "('era, 'pair, 'sig, 'rng, 'xt) adapter \<Rightarrow> account_id \<Rightarrow> 'pair \<Rightarrow> account_id \<Rightarrow> balance
      \<Rightarrow> 32 word \<Rightarrow> block_hash \<Rightarrow> block_hash \<Rightarrow> factory_state \<Rightarrow> 'xt option \<times> factory_state" where
  "adapter_transfer_extrinsic ad sender key destination amount version genesis_hash prior_block_hash st =
     (let phase = ucast (fs_block_number st);
          extra = build_extra ad (fs_index st) phase;
          st = st\<lparr>fs_index := fs_index st + 1\<rparr>
      in (adapter_sign ad \<lparr>cx_signed = Some (sender, extra), cx_function = Balances_transfer destination amount\<rparr>
            key (version, genesis_hash, prior_block_hash), st))"

section \<open>The loop with the calls of the client\<close>

record ('xt, 'bb, 'block, 'c) factory_client =
  fc_inherents :: "block_hash \<Rightarrow> moment \<times> 32 word \<Rightarrow> 'c \<Rightarrow> 'xt list option"
  fc_new_block :: "'c \<Rightarrow> 'bb option"
  fc_redecode :: "'xt \<Rightarrow> 'xt option"
  fc_push :: "'xt \<Rightarrow> 'bb \<Rightarrow> 'bb option"
  fc_build :: "'bb \<Rightarrow> 'block option"
  fc_header_hash :: "'block \<Rightarrow> block_hash"
  fc_import_block :: "'block \<Rightarrow> 'c \<Rightarrow> 'c option"

primrec push_all :: "('x \<Rightarrow> 'bb \<Rightarrow> 'bb option) \<Rightarrow> 'x list \<Rightarrow> 'bb \<Rightarrow> 'bb option" where
  "push_all push [] block = Some block"
| "push_all push (x # xs) block = Option.bind (push x block) (push_all push xs)"

definition factory_push_transfer ::
    "('era, 'pair, 'sig, 'rng, 'xt) adapter \<Rightarrow> ('xt, 'bb, 'block, 'c) factory_client \<Rightarrow> 32 word \<Rightarrow> block_hash \<Rightarrow> block_hash
      \<Rightarrow> 32 word \<Rightarrow> 'bb \<Rightarrow> factory_state \<Rightarrow> ('bb \<times> factory_state) option" where
  "factory_push_transfer ad client version genesis_hash best_hash tx_num block st =
     (let seed = tx_num * (fs_block_number st + 1);
          to_acct = gen_random_account_id ad seed;
          (transfer, st) = adapter_transfer_extrinsic ad (master_account_id ad) (master_account_secret ad)
                             to_acct minimum_balance version genesis_hash best_hash st
      in Option.bind transfer (\<lambda>transfer.
         Option.bind (fc_redecode client transfer) (\<lambda>xt.
         Option.bind (fc_push client xt block) (\<lambda>block. Some (block, st)))))"

primrec factory_push_transfers ::
    "('era, 'pair, 'sig, 'rng, 'xt) adapter \<Rightarrow> ('xt, 'bb, 'block, 'c) factory_client \<Rightarrow> 32 word \<Rightarrow> block_hash \<Rightarrow> block_hash
      \<Rightarrow> 32 word list \<Rightarrow> 'bb \<Rightarrow> factory_state \<Rightarrow> ('bb \<times> factory_state) option" where
  "factory_push_transfers ad client version genesis_hash best_hash [] block st = Some (block, st)"
| "factory_push_transfers ad client version genesis_hash best_hash (tx_num # rest) block st =
     Option.bind (factory_push_transfer ad client version genesis_hash best_hash tx_num block st) (\<lambda>(block, st).
       factory_push_transfers ad client version genesis_hash best_hash rest block st)"

text \<open>One turn of the loop: the hash of the new block, the client after the import, and the state.\<close>

definition factory_turn ::
    "('era, 'pair, 'sig, 'rng, 'xt) adapter \<Rightarrow> ('xt, 'bb, 'block, 'c) factory_client \<Rightarrow> 32 word \<Rightarrow> block_hash \<Rightarrow> block_hash
      \<Rightarrow> 'c \<Rightarrow> factory_state \<Rightarrow> (block_hash \<times> 'c \<times> factory_state) option" where
  "factory_turn ad client version genesis_hash best_hash c st =
     Option.bind (fc_inherents client best_hash (inherent_extrinsics st) c) (\<lambda>inherents.
     let tx_per_block = fs_transactions st
     in Option.bind (fc_new_block client c) (\<lambda>block.
        Option.bind (factory_push_transfers ad client version genesis_hash best_hash
                       (map of_nat [0..<unat tx_per_block]) block st) (\<lambda>(block, st).
        Option.bind (push_all (fc_push client) inherents block) (\<lambda>block.
        Option.bind (fc_build client block) (\<lambda>block.
          let st = st\<lparr>fs_block_number := fs_block_number st + 1\<rparr>;
              best_hash = fc_header_hash client block
          in Option.bind (fc_import_block client block c) (\<lambda>c. Some (best_hash, c, st)))))))"

lemma factory_push_transfers_state:
  "factory_push_transfers ad client v g h ns block st = Some (block', st') \<Longrightarrow>
     st' = st\<lparr>fs_index := fs_index st + of_nat (length ns)\<rparr>"
proof (induction ns arbitrary: block st)
  case (Cons n ns)
  then obtain b t where "factory_push_transfer ad client v g h n block st = Some (b, t)"
    and rest: "factory_push_transfers ad client v g h ns b t = Some (block', st')"
    by (auto simp: bind_eq_Some_conv)
  then have "t = st\<lparr>fs_index := fs_index st + 1\<rparr>"
    by (auto simp: factory_push_transfer_def adapter_transfer_extrinsic_def Let_def bind_eq_Some_conv)
  with Cons.IH [OF rest] show ?case by (simp add: algebra_simps)
qed simp

lemma factory_turn_state:
  "factory_turn ad client v g h c st = Some (h', c', st') \<Longrightarrow>
     st' = st\<lparr>fs_block_number := fs_block_number st + 1, fs_index := fs_index st + fs_transactions st\<rparr>"
  by (auto simp: factory_turn_def Let_def bind_eq_Some_conv dest!: factory_push_transfers_state)

function factory_loop ::
    "('era, 'pair, 'sig, 'rng, 'xt) adapter \<Rightarrow> ('xt, 'bb, 'block, 'c) factory_client \<Rightarrow> 32 word \<Rightarrow> block_hash \<Rightarrow> block_hash
      \<Rightarrow> 'c \<Rightarrow> factory_state \<Rightarrow> (block_hash \<times> 'c \<times> factory_state) option" where
  "factory_loop ad client version genesis_hash best_hash c st =
     (if fs_block_number st < fs_blocks st then
        (case factory_turn ad client version genesis_hash best_hash c st of
           None \<Rightarrow> None
         | Some (best_hash, c, st) \<Rightarrow> factory_loop ad client version genesis_hash best_hash c st)
      else Some (best_hash, c, st))"
  by pat_completeness auto

termination
  by (relation "measure (\<lambda>(ad, client, v, g, h, c, st). unat (fs_blocks st) - unat (fs_block_number st))")
    (auto dest!: factory_turn_state intro: next_block_closer)

declare factory_loop.simps [simp del]

section \<open>The loop makes the planned blocks\<close>

text \<open>
  The plan of the theory Factory leaves the client to a function from the parent and the block that is
  planned on it.  For the loop this function signs and pushes the planned transfers, then the inherents,
  and builds and imports the block; the parent is its hash together with the client that holds it.
\<close>

definition push_signed ::
    "('era, 'pair, 'sig, 'rng, 'xt) adapter \<Rightarrow> ('xt, 'bb, 'block, 'c) factory_client \<Rightarrow> 32 word \<Rightarrow> block_hash
      \<Rightarrow> (account_id, block_hash \<times> 'c) transfer_xt \<Rightarrow> 'bb \<Rightarrow> 'bb option" where
  "push_signed ad client version genesis_hash x block =
     Option.bind (adapter_sign ad
         \<lparr>cx_signed = Some (xt_sender x, build_extra ad (xt_nonce x) (xt_phase x)),
          cx_function = Balances_transfer (xt_destination x) (xt_amount x)\<rparr>
         (master_account_secret ad) (version, genesis_hash, fst (xt_prior_block_hash x))) (\<lambda>transfer.
     Option.bind (fc_redecode client transfer) (\<lambda>xt. fc_push client xt block))"

definition bake_planned ::
    "('era, 'pair, 'sig, 'rng, 'xt) adapter \<Rightarrow> ('xt, 'bb, 'block, 'c) factory_client \<Rightarrow> 32 word \<Rightarrow> block_hash
      \<Rightarrow> block_hash \<times> 'c \<Rightarrow> (account_id, block_hash \<times> 'c) factory_block \<Rightarrow> (block_hash \<times> 'c) option" where
  "bake_planned ad client version genesis_hash parent b =
     Option.bind (fc_inherents client (fst parent) (fb_inherents b) (snd parent)) (\<lambda>inherents.
     Option.bind (fc_new_block client (snd parent)) (\<lambda>block.
     Option.bind (push_all (push_signed ad client version genesis_hash) (fb_transfers b) block) (\<lambda>block.
     Option.bind (push_all (fc_push client) inherents block) (\<lambda>block.
     Option.bind (fc_build client block) (\<lambda>block.
       map_option (Pair (fc_header_hash client block)) (fc_import_block client block (snd parent)))))))"

abbreviation planned_transfers where
  "planned_transfers ad \<equiv> push_transfers (master_account_id ad) (gen_random_account_id ad)"

lemma factory_push_transfers_planned:
  "factory_push_transfers ad client v g (fst parent) ns block st =
     map_option (\<lambda>block. (block, snd (planned_transfers ad parent ns st)))
       (push_all (push_signed ad client v g) (fst (planned_transfers ad parent ns st)) block)"
proof (induction ns arbitrary: block st)
  case (Cons n ns)
  let ?x = "fst (transfer_extrinsic (master_account_id ad) (gen_random_account_id ad (n * (fs_block_number st + 1)))
               ExistentialDeposit parent st)"
  have one: "factory_push_transfer ad client v g (fst parent) n block st =
      map_option (\<lambda>block. (block, st\<lparr>fs_index := fs_index st + 1\<rparr>)) (push_signed ad client v g ?x block)"
    by (simp add: factory_push_transfer_def adapter_transfer_extrinsic_def push_signed_def transfer_extrinsic_def
        minimum_balance_def Let_def map_conv_bind_option comp_def)
  show ?case
    by (simp add: one Cons.IH transfer_extrinsic_def Let_def split_beta bind_map_option comp_def map_option_bind)
qed simp

lemma factory_turn_planned:
  "factory_turn ad client v g h c st =
     (let (b, st') = factory_round (master_account_id ad) (gen_random_account_id ad) (h, c) st
      in map_option (\<lambda>(h', c'). (h', c', st')) (bake_planned ad client v g (h, c) b))"
  using factory_push_transfers_planned [of ad client v g "(h, c)"]
  by (simp add: factory_turn_def factory_round_def bake_planned_def Let_def split_beta map_conv_bind_option comp_def)

text \<open>The loop and the plan agree for every client: they return or panic alike and leave the same head, client
  and state.\<close>

theorem factory_loop_makes_plan:
  "factory_loop ad client version genesis_hash best_hash c st =
     map_option (\<lambda>(blocks, (h, c), st). (h, c, st))
       (factory (bake_planned ad client version genesis_hash) (master_account_id ad) (gen_random_account_id ad)
          (best_hash, c) st)"
proof (induction ad client version genesis_hash best_hash c st rule: factory_loop.induct)
  case (1 ad client v g h c st)
  obtain b t where round: "factory_round (master_account_id ad) (gen_random_account_id ad) (h, c) st = (b, t)"
    by fastforce
  show ?case
  proof (cases "fs_block_number st < fs_blocks st")
    case True
    show ?thesis
    proof (cases "bake_planned ad client v g (h, c) b")
      case None
      then show ?thesis
        using True by (subst factory_loop.simps, subst factory.simps) (simp add: factory_turn_planned round)
    next
      case (Some p)
      then obtain h' c' where p: "bake_planned ad client v g (h, c) b = Some (h', c')" by (cases p) simp
      then have turn: "factory_turn ad client v g h c st = Some (h', c', t)"
        by (simp add: factory_turn_planned round)
      have "factory_loop ad client v g h' c' t = map_option (\<lambda>(blocks, (h, c), st). (h, c, st))
          (factory (bake_planned ad client v g) (master_account_id ad) (gen_random_account_id ad) (h', c') t)"
        by (rule 1 [OF True turn refl refl])
      then show ?thesis
        using True
        by (subst factory_loop.simps, subst factory.simps)
          (simp add: turn round p option.map_comp comp_def case_prod_unfold)
    qed
  next
    case False
    then show ?thesis
      by (subst factory_loop.simps, subst factory.simps) simp
  qed
qed

section \<open>What the client is given\<close>

text \<open>
  A client that accepts everything and keeps what it is given: its blocks are lists of extrinsics, importing
  one appends it.  The hash of a block and the inherents of a parent are parameters.
\<close>

definition recorder ::
    "('xt list \<Rightarrow> block_hash) \<Rightarrow> (block_hash \<Rightarrow> moment \<times> 32 word \<Rightarrow> 'xt list)
      \<Rightarrow> ('xt, 'xt list, 'xt list, 'xt list list) factory_client" where
  "recorder hash inherents =
     \<lparr>fc_inherents = (\<lambda>parent inherent_data c. Some (inherents parent inherent_data)),
      fc_new_block = (\<lambda>c. Some []), fc_redecode = Some, fc_push = (\<lambda>x block. Some (block @ [x])),
      fc_build = Some, fc_header_hash = hash, fc_import_block = (\<lambda>block c. Some (c @ [block]))\<rparr>"

lemma recorder_sel [simp]:
  "fc_inherents (recorder hash inherents) parent d c = Some (inherents parent d)"
  "fc_new_block (recorder hash inherents) c = Some []" "fc_redecode (recorder hash inherents) x = Some x"
  "fc_push (recorder hash inherents) x block = Some (block @ [x])" "fc_build (recorder hash inherents) block = Some block"
  "fc_header_hash (recorder hash inherents) = hash" "fc_import_block (recorder hash inherents) block c = Some (c @ [block])"
  by (simp_all add: recorder_def)

lemma recorder_push_all: "push_all (fc_push (recorder hash inherents)) xs block = Some (block @ xs)"
  by (induction xs arbitrary: block) simp_all

lemma gen_bytes_iterates: "gen_bytes gen n r = map (\<lambda>j. fst (gen (((snd \<circ> gen) ^^ j) r))) [0..<n]"
proof (induction n arbitrary: r)
  case (Suc n)
  have "((snd \<circ> gen) ^^ j) (snd (gen r)) = ((snd \<circ> gen) ^^ Suc j) r" for j
    by (simp add: funpow_swap1)
  then show ?case
    by (simp add: Suc.IH split_beta upt_conv_Cons map_Suc_upt [symmetric] comp_def del: upt_Suc)
qed simp

text \<open>The extrinsic the factory should push: Alice's transfer of the least balance to an account, in the mortal
  era of a block, with a nonce, signed over its encoding with the genesis and the parent.\<close>

definition alice_transfer ::
    "('era, 'pair, 'sig, 'rng, 'xt) adapter \<Rightarrow> 32 word \<Rightarrow> block_hash \<Rightarrow> block_hash \<Rightarrow> 64 word \<Rightarrow> 32 word \<Rightarrow> account_id
      \<Rightarrow> (bench_call, 'era, 'sig) unchecked_extrinsic" where
  "alice_transfer ad version genesis_hash prior phase nonce dest =
     (let call = Balances_transfer dest ExistentialDeposit;
          extra = \<lparr>ex_era = tc_mortal (ad_crypto ad) 256 phase, ex_nonce = nonce, ex_tip = 0\<rparr>;
          encoded = tc_encode (ad_crypto ad) (call, extra, version, genesis_hash, prior);
          signed = (if 256 < length encoded then tc_blake2_256 (ad_crypto ad) encoded else encoded)
      in \<lparr>ux_signature = Some (ad_alice_account ad, tc_sign (ad_crypto ad) (ad_alice_pair ad) signed, extra),
          ux_function = call\<rparr>)"

lemma adapter_transfer_alice:
  "adapter_transfer_extrinsic ad (master_account_id ad) (master_account_secret ad) dest minimum_balance v g prior st
    = (ad_recode ad (alice_transfer ad v g prior (ucast (fs_block_number st)) (fs_index st) dest),
       st\<lparr>fs_index := fs_index st + 1\<rparr>)"
  by (simp add: adapter_transfer_extrinsic_def adapter_sign_def alice_transfer_def build_extra_def sign_bytes_def
      master_account_id_def master_account_secret_def minimum_balance_def Let_def)

lemma recorded_transfers:
  assumes "\<And>u. ad_recode ad u = Some (enc u)"
  shows "factory_push_transfers ad (recorder hash inherents) v g prior ns block st =
    Some (block @ map (\<lambda>(i, n). enc (alice_transfer ad v g prior (ucast (fs_block_number st)) (fs_index st + of_nat i)
        (gen_random_account_id ad (n * (fs_block_number st + 1))))) (enumerate 0 ns),
      st\<lparr>fs_index := fs_index st + of_nat (length ns)\<rparr>)"
proof (induction ns arbitrary: block st)
  case (Cons n ns)
  have shift: "enumerate (Suc 0) ns = map (\<lambda>(i, n). (Suc i, n)) (enumerate 0 ns)"
    by (simp add: enumerate_eq_zip zip_map1 [symmetric] map_Suc_upt [symmetric] del: upt_Suc)
  show ?case
    by (simp add: factory_push_transfer_def adapter_transfer_alice assms Cons.IH shift split_beta comp_def algebra_simps)
qed simp

text \<open>What block \<open>k\<close> on a parent should hold.\<close>

definition expected_block ::
    "('era, 'pair, 'sig, 'rng, 'xt) adapter \<Rightarrow> ((bench_call, 'era, 'sig) unchecked_extrinsic \<Rightarrow> 'xt)
      \<Rightarrow> (block_hash \<Rightarrow> moment \<times> 32 word \<Rightarrow> 'xt list) \<Rightarrow> 32 word \<Rightarrow> block_hash \<Rightarrow> nat \<Rightarrow> nat \<Rightarrow> block_hash \<Rightarrow> 'xt list" where
  "expected_block ad enc inherents version genesis_hash m k prior =
     map (\<lambda>i. enc (alice_transfer ad version genesis_hash prior (of_nat k) (of_nat (k * m + i))
         (gen_random_account_id ad (of_nat (i * Suc k))))) [0..<m]
     @ inherents prior (of_nat (Suc k) * MinimumPeriod, of_nat k)"

lemma recorded_turn:
  assumes "\<And>u. ad_recode ad u = Some (enc u)"
    and "fs_block_number st = of_nat k" and "k < 2 ^ 32" and "fs_index st = of_nat (k * unat (fs_transactions st))"
  shows "factory_turn ad (recorder hash inherents) v g prior c st =
    (let block = expected_block ad enc inherents v g (unat (fs_transactions st)) k prior
     in Some (hash block, c @ [block],
          st\<lparr>fs_block_number := fs_block_number st + 1, fs_index := fs_index st + fs_transactions st\<rparr>))"
proof -
  have wide: "ucast (of_nat k :: 32 word) = (of_nat k :: 64 word)"
    using assms(3) by (simp add: word_unat_eq_iff unat_of_nat unsigned_ucast_eq take_bit_nat_eq_self)
  have numbered: "enumerate 0 (map f [0..<n]) = map (\<lambda>i. (i, f i)) [0..<n]" for f :: "nat \<Rightarrow> 32 word" and n
    by (simp add: enumerate_eq_zip zip_map2 zip_same_conv_map)
  show ?thesis
    using assms(2,4)
    by (simp add: factory_turn_def Let_def recorded_transfers [OF assms(1)] recorder_push_all numbered
        expected_block_def inherent_extrinsics_def wide comp_def algebra_simps)
qed

lemma recorded_loop:
  fixes st :: factory_state
  assumes recode: "\<And>u. ad_recode ad u = Some (enc u)"
    and "fs_block_number st = of_nat k" and "k \<le> unat (fs_blocks st)"
    and "fs_index st = of_nat (k * unat m)" and "fs_transactions st = m"
  shows "\<exists>h blocks t. factory_loop ad (recorder hash inherents) v g h0 c st = Some (h, c @ blocks, t)
    \<and> length blocks = unat (fs_blocks st) - k
    \<and> (\<forall>j < unat (fs_blocks st) - k. blocks ! j =
         expected_block ad enc inherents v g (unat m) (k + j) (if j = 0 then h0 else hash (blocks ! (j - 1))))"
  using assms(2-)
proof (induction "unat (fs_blocks st) - k" arbitrary: k st h0 c)
  case 0
  then have k: "k = unat (fs_blocks st)" by simp
  then have "fs_block_number st = fs_blocks st" using 0 by simp
  then show ?case
    by (subst factory_loop.simps) (simp add: k)
next
  case (Suc d)
  have k: "k < unat (fs_blocks st)" using Suc.hyps(2) by simp
  then have k32: "k < 2 ^ 32" using unat_less_2p [of "fs_blocks st"] by simp
  then have less: "fs_block_number st < fs_blocks st"
    using k Suc.prems(1) by (simp add: word_less_nat_alt unat_of_nat)
  let ?block = "expected_block ad enc inherents v g (unat m)"
  let ?b = "?block k h0"
  let ?t = "st\<lparr>fs_block_number := fs_block_number st + 1, fs_index := fs_index st + fs_transactions st\<rparr>"
  have turn: "factory_turn ad (recorder hash inherents) v g h0 c st = Some (hash ?b, c @ [?b], ?t)"
    using recorded_turn [where ad = ad and enc = enc, OF recode Suc.prems(1) k32, of hash inherents v g h0 c] Suc.prems(3,4)
    by (simp add: Let_def)
  have next_t: "fs_block_number ?t = of_nat (Suc k)" "Suc k \<le> unat (fs_blocks ?t)"
    "fs_index ?t = of_nat (Suc k * unat m)" "fs_transactions ?t = m" "d = unat (fs_blocks ?t) - Suc k"
    using Suc.prems Suc.hyps(2) k by (simp_all add: algebra_simps)
  obtain h blocks t where rest: "factory_loop ad (recorder hash inherents) v g (hash ?b) (c @ [?b]) ?t = Some (h, (c @ [?b]) @ blocks, t)"
    and len: "length blocks = unat (fs_blocks st) - Suc k"
    and each: "\<And>j. j < unat (fs_blocks st) - Suc k \<Longrightarrow>
      blocks ! j = ?block (Suc k + j) (if j = 0 then hash ?b else hash (blocks ! (j - 1)))"
    using Suc.hyps(1) [OF next_t(5,1-4), of "hash ?b" "c @ [?b]"] by auto
  have "factory_loop ad (recorder hash inherents) v g h0 c st = Some (h, c @ ?b # blocks, t)"
    using rest by (subst factory_loop.simps) (simp add: less turn)
  moreover have "(?b # blocks) ! j = ?block (k + j) (if j = 0 then h0 else hash ((?b # blocks) ! (j - 1)))"
    if "j < unat (fs_blocks st) - k" for j
    using that each [of "j - 1"] by (cases j) (auto simp: nth_Cons')
  ultimately show ?case
    using len k by (intro exI [of _ h] exI [of _ "?b # blocks"] exI [of _ t]) simp
qed

text \<open>C39: Started on an empty client that accepts everything and keeps what it is given, the loop of the
  factory makes the requested number of blocks, and block \<open>k\<close> holds exactly the requested number of
  extrinsics followed by the inherents of its parent.  Extrinsic \<open>i\<close> is a transfer of the least balance to
  the account of the key pair that the first 32 bytes of the generator seeded with \<open>i * (k + 1)\<close> make,
  from Alice, with her signature over the encoding of the call, the extra and the additional data (over its
  hash, when it is longer than 256 bytes); the extra has the mortal era of block \<open>k\<close>, the nonce counted on
  from block to block, and no tip, and the additional data are the version, the genesis and the parent.
  Encoding and decoding an extrinsic must not fail.\<close>

theorem factory_signs_transfers:
  fixes ad :: "('era, 'pair, 'sig, 'rng, 'xt) adapter"
  assumes "\<And>u. ad_recode ad u = Some (enc u)"
  shows "\<exists>h blocks st. factory_loop ad (recorder hash inherents) version genesis_hash best_hash [] (factory_new n m)
      = Some (h, blocks, st)
    \<and> length blocks = unat n
    \<and> (\<forall>k < unat n.
         let prior = (if k = 0 then best_hash else hash (blocks ! (k - 1))) in
         blocks ! k = map (\<lambda>i.
             let seed = rng_seed_from_u64 (ad_rng ad) (ucast (of_nat (i * Suc k) :: 32 word));
                 bytes = map (\<lambda>j. fst (rng_gen_u8 (ad_rng ad) (((snd \<circ> rng_gen_u8 (ad_rng ad)) ^^ j) seed))) [0..<32];
                 call = Balances_transfer (tc_into_account (ad_crypto ad) (ad_from_seed ad bytes)) ExistentialDeposit;
                 extra = \<lparr>ex_era = tc_mortal (ad_crypto ad) 256 (of_nat k), ex_nonce = of_nat (k * unat m + i), ex_tip = 0\<rparr>;
                 encoded = tc_encode (ad_crypto ad) (call, extra, version, genesis_hash, prior);
                 signed = (if 256 < length encoded then tc_blake2_256 (ad_crypto ad) encoded else encoded)
             in enc \<lparr>ux_signature = Some (ad_alice_account ad, tc_sign (ad_crypto ad) (ad_alice_pair ad) signed, extra),
                     ux_function = call\<rparr>) [0..<unat m]
           @ inherents prior (of_nat (Suc k) * MinimumPeriod, of_nat k))"
proof -
  have start: "fs_block_number (factory_new n m) = of_nat 0" "0 \<le> unat (fs_blocks (factory_new n m))"
    "fs_index (factory_new n m) = of_nat (0 * unat m)" "fs_transactions (factory_new n m) = m"
    by (simp_all add: factory_new_def)
  show ?thesis
    using recorded_loop [where ad = ad and enc = enc, OF assms start, of hash inherents version genesis_hash best_hash "[]"]
    by (simp add: expected_block_def alice_transfer_def gen_random_account_id_def gen_seed_bytes_def gen_bytes_iterates Let_def
        factory_new_def del: of_nat_mult of_nat_Suc of_nat_add cong: map_cong)
qed

text \<open>A toy adapter: the signature is the key with what it signs, the generator counts, and a block is hashed to
  its length.  The second block of two is signed over the hash of the first, with the nonces 2 and 3.\<close>

definition toy_adapter ::
    "(nat, nat, nat \<times> 8 word list, 64 word, (bench_call, nat, nat \<times> 8 word list) unchecked_extrinsic) adapter" where
  "toy_adapter =
     \<lparr>ad_crypto =
        \<lparr>tc_mortal = (\<lambda>period phase. unat phase),
         tc_encode = (\<lambda>(call, extra, version, genesis, prior). [ucast (ex_nonce extra), ucast prior]),
         tc_blake2_256 = (\<lambda>b. b), tc_sign = (\<lambda>key b. (key, b)), tc_from_string = (\<lambda>str. None),
         tc_into_account = of_nat\<rparr>,
      ad_rng = \<lparr>rng_seed_from_u64 = (\<lambda>seed. seed), rng_gen_u8 = (\<lambda>r. (ucast r, r + 1))\<rparr>,
      ad_from_seed = (\<lambda>bytes. unat (hd bytes)), ad_alice_account = 7, ad_alice_pair = 1, ad_recode = Some\<rparr>"

lemma factory_signs_transfers_witness:
  "\<exists>h blocks st. factory_loop toy_adapter (recorder (\<lambda>b. of_nat (length b)) (\<lambda>parent d. [])) 1 0 9 [] (factory_new 2 2)
      = Some (h, blocks, st)
    \<and> map ux_signature (blocks ! 1) =
        [Some (7, (1, [2, 2]), \<lparr>ex_era = 1, ex_nonce = 2, ex_tip = 0\<rparr>),
         Some (7, (1, [3, 2]), \<lparr>ex_era = 1, ex_nonce = 3, ex_tip = 0\<rparr>)]"
proof -
  let ?hash = "\<lambda>b. of_nat (length b) :: block_hash"
  have recode: "ad_recode toy_adapter u = Some u" for u by (simp add: toy_adapter_def)
  have two: "(\<forall>k < unat (2 :: 32 word). P k) \<longleftrightarrow> P 0 \<and> P 1" for P
    by (auto simp: less_2_cases_iff)
  obtain h blocks st where "factory_loop toy_adapter (recorder ?hash (\<lambda>parent d. [])) 1 0 9 [] (factory_new 2 2)
      = Some (h, blocks, st)" "length (blocks ! 0) = 2"
    "map ux_signature (blocks ! 1) = map (\<lambda>i. Some (7, (1, [2 + of_nat i, ucast (?hash (blocks ! 0))]),
       \<lparr>ex_era = 1, ex_nonce = 2 + of_nat i, ex_tip = 0\<rparr>)) [0, 1]"
    using factory_signs_transfers [of toy_adapter "\<lambda>u. u" ?hash "\<lambda>parent d. []" 1 0 9 2 2, OF recode]
    unfolding two by (auto simp: toy_adapter_def Let_def upt_rec)
  then show ?thesis
    by (intro exI [of _ h] exI [of _ blocks] exI [of _ st]) simp
qed

end
