(* ===== verification/Bench_Db.thy ===== *)
theory Bench_Db
  imports Testing
begin

text \<open>
  The benchmark database (testing/src/bench.rs): a seed database in a temporary directory, made once with
  the genesis of the ring, copied for every clone and every context, and the client that is opened on it.

  The file system is a parameter: a state with the operations the code calls, each of which may fail, which
  the code \<open>expect\<close>s not to happen.  So is the client.
\<close>

record ('dir, 'f) bench_fs =
  fs_temp_dir :: "'f \<Rightarrow> ('dir \<times> 'f) option"
  fs_read_dir :: "'dir \<Rightarrow> 'f \<Rightarrow> string option list option"
  fs_copy_items :: "string list \<Rightarrow> 'dir \<Rightarrow> 'dir \<Rightarrow> 'f \<Rightarrow> 'f option"

text \<open>The settings of the client, and the call that opens or creates its database.\<close>

record 'dir database_settings =
  db_state_cache_size :: nat
  db_state_cache_child_ratio :: "(nat \<times> nat) option"
  db_archive_all :: bool
  db_path :: 'dir
  db_cache_size :: "nat option"

type_synonym ('dir, 'f, 'client) open_client =
  "'dir database_settings \<Rightarrow> test_genesis \<Rightarrow> execution_strategies \<Rightarrow> 'f \<Rightarrow> ('client \<times> 'f) option"

definition bench_db_client ::
    "('dir, 'f, 'client) open_client \<Rightarrow> well_known_keys \<Rightarrow> 8 word list \<Rightarrow> 'dir \<Rightarrow> profile \<Rightarrow> 'pair bench_keyring
      \<Rightarrow> 'f \<Rightarrow> ('client \<times> 'f) exit" where
  "bench_db_client new_client wk wasm dir prof ring fs =
     (let db_config =
            \<lparr>db_state_cache_size = 16 * 1024 * 1024, db_state_cache_child_ratio = Some (0, 100),
             db_archive_all = True, db_path = dir, db_cache_size = None\<rparr>
      in expect ''Should not fail''
           (new_client db_config (generate_genesis wk wasm ring) (into_execution_strategies prof) fs) Ok_Exit)"

record ('pair, 'dir) bench_db =
  bd_keyring :: "'pair bench_keyring"
  bd_directory :: 'dir

definition bench_db_new ::
    "('dir, 'f) bench_fs \<Rightarrow> ('dir, 'f, 'client) open_client \<Rightarrow> ('call, 'era, 'pair, 'sig) test_crypto
      \<Rightarrow> well_known_keys \<Rightarrow> 8 word list \<Rightarrow> nat \<Rightarrow> 'f \<Rightarrow> (('pair, 'dir) bench_db \<times> 'f) exit" where
  "bench_db_new api new_client tc wk wasm keyring_length fs =
     exit_bind (bench_keyring_new tc keyring_length) (\<lambda>ring.
     expect ''temp dir creation failed'' (fs_temp_dir api fs) (\<lambda>(dir, fs).
     exit_bind (bench_db_client new_client wk wasm dir Native ring fs) (\<lambda>(_, fs).
       Ok_Exit (\<lparr>bd_keyring = ring, bd_directory = dir\<rparr>, fs))))"

text \<open>Every file of the seed directory must be readable.\<close>

primrec expect_all :: "string \<Rightarrow> 'a option list \<Rightarrow> 'a list exit" where
  "expect_all msg [] = Ok_Exit []"
| "expect_all msg (x # xs) =
     expect msg x (\<lambda>a. exit_bind (expect_all msg xs) (\<lambda>rest. Ok_Exit (a # rest)))"

definition bench_db_clone ::
    "('dir, 'f) bench_fs \<Rightarrow> ('pair, 'dir) bench_db \<Rightarrow> 'f \<Rightarrow> (('pair, 'dir) bench_db \<times> 'f) exit" where
  "bench_db_clone api db fs =
     (let ring = bd_keyring db in
      expect ''temp dir creation failed'' (fs_temp_dir api fs) (\<lambda>(dir, fs).
      let seed_dir = bd_directory db in
      expect ''failed to list file in seed dir'' (fs_read_dir api seed_dir fs) (\<lambda>entries.
      exit_bind (expect_all ''failed to read file in seed db'' entries) (\<lambda>seed_db_files.
      expect ''Copy of seed database is ok'' (fs_copy_items api seed_db_files seed_dir dir fs) (\<lambda>fs.
        Ok_Exit (\<lparr>bd_keyring = ring, bd_directory = dir\<rparr>, fs))))))"

record ('dir, 'client) bench_context =
  bx_client :: 'client
  bx_directory :: 'dir

definition create_context ::
    "('dir, 'f) bench_fs \<Rightarrow> ('dir, 'f, 'client) open_client \<Rightarrow> well_known_keys \<Rightarrow> 8 word list
      \<Rightarrow> ('pair, 'dir) bench_db \<Rightarrow> profile \<Rightarrow> 'f \<Rightarrow> (('dir, 'client) bench_context \<times> 'f) exit" where
  "create_context api new_client wk wasm db prof fs =
     exit_bind (bench_db_clone api db fs) (\<lambda>(db, fs).
     exit_bind (bench_db_client new_client wk wasm (bd_directory db) prof (bd_keyring db) fs) (\<lambda>(client, fs).
       Ok_Exit (\<lparr>bx_client = client, bx_directory = bd_directory db\<rparr>, fs)))"

section \<open>Contexts do not touch the seed\<close>

lemma expect_Ok: "expect msg x k = Ok_Exit b \<longleftrightarrow> (\<exists>a. x = Some a \<and> k a = Ok_Exit b)"
  by (simp add: expect_def split: option.split)

text \<open>
  A new context leaves the files of the seed database, and of every other directory that was in use, as
  they were: its own directory is one the operating system just made, copying writes the target directory
  only, and so does opening the client on it.
\<close>

theorem context_leaves_seed:
  fixes files :: "'dir \<Rightarrow> 'f \<Rightarrow> 'x" and used :: "'f \<Rightarrow> 'dir set"
  assumes fresh: "\<And>fs dir fs'. fs_temp_dir api fs = Some (dir, fs') \<Longrightarrow>
      dir \<notin> used fs \<and> (\<forall>d\<in>used fs. files d fs' = files d fs)"
    and copies: "\<And>xs src dst fs fs'. fs_copy_items api xs src dst fs = Some fs' \<Longrightarrow> \<forall>d. d \<noteq> dst \<longrightarrow> files d fs' = files d fs"
    and opens: "\<And>cfg g es fs c fs'. new_client cfg g es fs = Some (c, fs') \<Longrightarrow> \<forall>d. d \<noteq> db_path cfg \<longrightarrow> files d fs' = files d fs"
    and run: "create_context api new_client wk wasm db prof fs = Ok_Exit (ctx, fs')" and seed: "d \<in> used fs"
  shows "files d fs' = files d fs \<and> bx_directory ctx \<noteq> d"
proof -
  obtain dir fs1 entries xs fs2 c where t: "fs_temp_dir api fs = Some (dir, fs1)"
    and c: "fs_copy_items api xs (bd_directory db) dir fs1 = Some fs2"
    and o: "bench_db_client new_client wk wasm dir prof (bd_keyring db) fs2 = Ok_Exit (c, fs')"
    and ctx: "ctx = \<lparr>bx_client = c, bx_directory = dir\<rparr>"
    using run by (auto simp: create_context_def bench_db_clone_def Let_def Ok_iffs expect_Ok)
  have dir: "d \<noteq> dir" "files d fs1 = files d fs" using fresh [OF t] seed by auto
  have "files d fs2 = files d fs1" using copies [OF c] dir(1) by simp
  moreover have "files d fs' = files d fs2"
    using o opens dir(1) by (fastforce simp: bench_db_client_def Let_def expect_Ok)
  ultimately show ?thesis using dir ctx by simp
qed

end
