(* ===== verification/Rpc.thy ===== *)
theory Rpc
  imports Results
begin

text \<open>
  The RPC extensions of the node (rpc/src/lib.rs), the demonstration client (rpc-client/src/main.rs) and
  the entry of the browser (cli/src/browser.rs).  The handlers and transports are the framework's; what
  is modelled is which handlers a full and a light node offer, over which components, and in which order
  calls are made and errors returned.
\<close>

section \<open>The handlers of a node\<close>

record ('keystore, 'config, 'epochs) babe_deps =
  bd_babe_config :: 'config
  bd_shared_epoch_changes :: 'epochs
  bd_keystore :: 'keystore

record ('client, 'pool, 'select, 'keystore, 'config, 'epochs) full_deps =
  fd_client :: 'client
  fd_pool :: 'pool
  fd_select_chain :: 'select
  fd_babe :: "('keystore, 'config, 'epochs) babe_deps"

record ('client, 'pool, 'remote, 'fetcher) light_deps =
  ld_client :: 'client
  ld_pool :: 'pool
  ld_remote_blockchain :: 'remote
  ld_fetcher :: 'fetcher

datatype ('client, 'pool, 'select, 'keystore, 'config, 'epochs) full_handler =
    FullSystem 'client 'pool
  | Contracts 'client
  | TransactionPayment 'client
  | BabeRPCHandler 'client 'epochs 'keystore 'config 'select

datatype ('client, 'pool, 'remote, 'fetcher) light_handler = LightSystem 'client 'remote 'fetcher 'pool

text \<open>An \<open>IoHandler\<close> is the list of the handlers it was extended with.\<close>

definition extend_with :: "'h list \<Rightarrow> 'h \<Rightarrow> 'h list" where
  "extend_with io h = io @ [h]"

definition create_full ::
    "('client, 'pool, 'select, 'keystore, 'config, 'epochs) full_deps
      \<Rightarrow> ('client, 'pool, 'select, 'keystore, 'config, 'epochs) full_handler list" where
  "create_full deps =
     (let io = [];
          client = fd_client deps; pool = fd_pool deps; select_chain = fd_select_chain deps; babe = fd_babe deps;
          keystore = bd_keystore babe; babe_config = bd_babe_config babe;
          shared_epoch_changes = bd_shared_epoch_changes babe;
          io = extend_with io (FullSystem client pool);
          io = extend_with io (Contracts client);
          io = extend_with io (TransactionPayment client);
          io = extend_with io (BabeRPCHandler client shared_epoch_changes keystore babe_config select_chain)
      in io)"

definition create_light ::
    "('client, 'pool, 'remote, 'fetcher) light_deps \<Rightarrow> ('client, 'pool, 'remote, 'fetcher) light_handler list" where
  "create_light deps =
     (let client = ld_client deps; pool = ld_pool deps; remote_blockchain = ld_remote_blockchain deps;
          fetcher = ld_fetcher deps; io = [];
          io = extend_with io (LightSystem client remote_blockchain fetcher pool)
      in io)"

section \<open>The demonstration client\<close>

datatype ('hash, 'bytes) extrinsic_or_hash = Hash 'hash | Extrinsic 'bytes

record ('hash, 'bytes, 'err) author_client =
  ac_pending_extrinsics :: "'err + 'bytes list"
  ac_remove_extrinsic :: "('hash, 'bytes) extrinsic_or_hash list \<Rightarrow> 'err + 'hash list"

definition remove_all_extrinsics :: "('hash, 'bytes, 'err) author_client \<Rightarrow> 'err + 'hash list" where
  "remove_all_extrinsics client =
     try_then (ac_pending_extrinsics client) (\<lambda>pending.
     try_then (ac_remove_extrinsic client (map (\<lambda>tx. Extrinsic tx) pending)) (\<lambda>removed. Inr removed))"

text \<open>What the program prints.\<close>

definition rpc_client_main ::
    "('err \<Rightarrow> string) \<Rightarrow> ('hash list \<Rightarrow> string) \<Rightarrow> (string \<Rightarrow> 'err + ('hash, 'bytes, 'err) author_client) \<Rightarrow> string" where
  "rpc_client_main debug_err debug_hashes connect =
     (let uri = ''http://localhost:9933'' in
      case try_then (connect uri) remove_all_extrinsics of
        Inl e \<Rightarrow> ''Error: '' @ debug_err e
      | Inr removed \<Rightarrow> ''Removed extrinsics: '' @ debug_hashes removed)"

text \<open>The whole pool is asked to be removed, in one request.\<close>

lemma remove_all_extrinsics_Inr:
  "remove_all_extrinsics client = Inr removed \<longleftrightarrow>
     (\<exists>pending. ac_pending_extrinsics client = Inr pending
        \<and> ac_remove_extrinsic client (map Extrinsic pending) = Inr removed)"
  by (simp add: remove_all_extrinsics_def Inr_iffs)

section \<open>The entry of the browser\<close>

record ('spec, 'config, 'service) browser_calls =
  bw_level_from_str :: "string \<Rightarrow> string + unit"
  bw_init_console_log :: "string + unit"
  bw_spec_from_json :: "string \<Rightarrow> string + 'spec"
  bw_browser_configuration :: "'spec \<Rightarrow> string + 'config"
  bw_new_light :: "'config \<Rightarrow> string + 'service"

definition start_inner :: "('spec, 'config, 'service) browser_calls \<Rightarrow> string \<Rightarrow> string \<Rightarrow> string + 'service" where
  "start_inner calls chain_spec log_level =
     try_then (bw_level_from_str calls log_level) (\<lambda>_.
     try_then (bw_init_console_log calls) (\<lambda>_.
     try_then (bw_spec_from_json calls chain_spec) (\<lambda>chain_spec.
     try_then (bw_browser_configuration calls chain_spec) (\<lambda>config.
     try_then (bw_new_light calls config) (\<lambda>service. Inr service)))))"

definition start_client :: "('spec, 'config, 'service) browser_calls \<Rightarrow> string \<Rightarrow> string \<Rightarrow> string + 'service" where
  "start_client calls chain_spec log_level = map_err (\<lambda>err. err) (start_inner calls chain_spec log_level)"

text \<open>A browser node only ever runs a light client of the specification it was given.\<close>

lemma start_client_Inr:
  "start_client calls chain_spec log_level = Inr service \<longleftrightarrow>
     bw_level_from_str calls log_level = Inr () \<and> bw_init_console_log calls = Inr ()
     \<and> (\<exists>spec config. bw_spec_from_json calls chain_spec = Inr spec
          \<and> bw_browser_configuration calls spec = Inr config \<and> bw_new_light calls config = Inr service)"
  by (auto simp: start_client_def start_inner_def Inr_iffs)

end
