(* ===== verification/Bridge_Tests.thy ===== *)
theory Bridge_Tests
  imports Bridge_Properties
begin

text \<open>
  The test environment of the bridge (bridge/src/mock.rs) and its unit tests (bridge/src/tests.rs), one lemma
  per test, evaluated on the model of the pallet.  The mock was written when the bridge kept the shadow asset
  in the pallet \<open>assets\<close>: it gives that pallet the symbols and generic-asset the next id, with two fields
  that generic-asset no longer has.  The bridge as it is uses generic-asset for both, so the two
  configurations are read as one genesis of generic-asset.  Accounts of the mock are 64-bit numbers.
\<close>

section \<open>The environment\<close>

definition mock_DECIMALS :: balance where "mock_DECIMALS = 100000000"

definition mock_ROOT :: account_id where "mock_ROOT = 1"
definition mock_ALICE :: account_id where "mock_ALICE = 2"
definition mock_BOB :: account_id where "mock_BOB = 3"
definition mock_CHRIS :: account_id where "mock_CHRIS = 4"
definition mock_DAVE :: account_id where "mock_DAVE = 5"

definition RBTC_ASSET_ID :: asset_id where "RBTC_ASSET_ID = 1"
definition RSC1_ASSET_ID :: asset_id where "RSC1_ASSET_ID = 2"
definition RSC2_ASSET_ID :: asset_id where "RSC2_ASSET_ID = 3"
definition RSC3_ASSET_ID :: asset_id where "RSC3_ASSET_ID = 4"
definition RSC4_ASSET_ID :: asset_id where "RSC4_ASSET_ID = 5"
definition RSC5_ASSET_ID :: asset_id where "RSC5_ASSET_ID = 6"
definition SBTC_ASSET_ID :: asset_id where "SBTC_ASSET_ID = 7"
definition TBD_ASSET_ID :: asset_id where "TBD_ASSET_ID = 8"

text \<open>\<open>new_test_ext\<close>: the storage the tests start from; every \<open>unwrap\<close> of it is a panic.\<close>

definition bridge_new_test_ext :: "(unit, bridge_state) dispatch" where
  "bridge_new_test_ext =
     (let t = \<lparr>SudoKey = mock_ROOT, BlockNumber = 0, ExtrinsicIndex = None, Now = 0\<rparr>
      in case ga_genesis_build
          \<lparr>gen_assets = [], gen_initial_balance = 0, gen_endowed_accounts = [],
           gen_symbols =
             [(SBTC_ASSET_ID, ''SBTC''), (RBTC_ASSET_ID, ''RBTC''), (RSC1_ASSET_ID, ''RSC1''),
              (RSC2_ASSET_ID, ''RSC2''), (RSC3_ASSET_ID, ''RSC3''), (RSC4_ASSET_ID, ''RSC4''),
              (RSC5_ASSET_ID, ''RSC5''), (TBD_ASSET_ID, ''TBD'')],
           gen_next_asset_id = 9\<rparr> (empty_ga_state t) of
         Done _ t \<Rightarrow> Done () (bridge_genesis_build SBTC_ASSET_ID 3000000000 mock_DAVE [(mock_ROOT, All)] t)
       | Fail e _ \<Rightarrow> Panic
       | Panic \<Rightarrow> Panic)"

text \<open>A test runs its calls one after the other; \<open>assert_ok!\<close> panics unless the call succeeds.\<close>

definition assert_ok :: "(unit, 's) dispatch \<Rightarrow> ('s \<Rightarrow> bool) \<Rightarrow> bool" where
  "assert_ok r k = (case r of Done _ s \<Rightarrow> k s | _ \<Rightarrow> False)"

definition assert_noop :: "(unit, 's) dispatch \<Rightarrow> dispatch_error \<Rightarrow> 's \<Rightarrow> bool" where
  "assert_noop r e s \<longleftrightarrow> r = Fail e s"

definition in_bridge_test :: "(bridge_state \<Rightarrow> bool) \<Rightarrow> bool" where
  "in_bridge_test body = assert_ok bridge_new_test_ext body"

section \<open>What the tests read\<close>

lemma mock_ids [simp]:
  "mock_ROOT = 1" "mock_ALICE = 2" "mock_CHRIS = 4" "mock_DAVE = 5" "SBTC_ASSET_ID = 7"
  by (simp_all add: mock_ROOT_def mock_ALICE_def mock_CHRIS_def mock_DAVE_def SBTC_ASSET_ID_def)

definition test_storage :: bridge_state where
  "test_storage = (case bridge_new_test_ext of Done _ s \<Rightarrow> s)"

lemma test_storage_runs:
  "bridge_new_test_ext = Done () test_storage"
  "free_balance aid w test_storage = 0" "total_issuance aid test_storage = 0"
  "check_permission 7 1 Mint test_storage" "symbols 7 test_storage = ''SBTC''"
  "SudoKey test_storage = 1" "BridgeAssetId test_storage = 7" "BridgePaused test_storage = False"
  "KycList test_storage = []" "Threshold test_storage = 3000000000" "Admins test_storage = [(1, All)]"
  "PendingDepositList test_storage = []" "DepositHistory test_storage = []" "PendingWithdraws test_storage = []"
  "PendingWithdrawVault test_storage = 5"
  by (simp_all add: test_storage_def bridge_new_test_ext_def ga_genesis_build_def create_asset_eq Let_def
      empty_ga_state_def system_state.defs ga_state.defs created_def deposit_ga_event_def bridge_genesis_build_def
      set_free_balance_def set_total_issuance_def symbols_def check_permission_def get_permission_def
      into_versions_def total_issuance_def free_balance_def lm_insert_def lm_contains_def RBTC_ASSET_ID_def
      RSC1_ASSET_ID_def RSC2_ASSET_ID_def RSC3_ASSET_ID_def RSC4_ASSET_ID_def RSC5_ASSET_ID_def TBD_ASSET_ID_def)

lemma bridge_mint_reads [simp]:
  "total_issuance aid (s\<lparr>KycList := x2\<rparr>) = total_issuance aid s"
  "total_issuance aid (s\<lparr>PendingDepositList := x3\<rparr>) = total_issuance aid s"
  "total_issuance aid (s\<lparr>DepositHistory := x4\<rparr>) = total_issuance aid s"
  "total_issuance aid (s\<lparr>BridgeEvents := x6\<rparr>) = total_issuance aid s"
  "check_permission aid w p (s\<lparr>KycList := x2\<rparr>) = check_permission aid w p s"
  "check_permission aid w p (s\<lparr>PendingDepositList := x3\<rparr>) = check_permission aid w p s"
  "check_permission aid w p (s\<lparr>DepositHistory := x4\<rparr>) = check_permission aid w p s"
  "check_permission aid w p (s\<lparr>BridgeEvents := x6\<rparr>) = check_permission aid w p s"
  by (simp_all add: total_issuance_def check_permission_def get_permission_def cong: permission_type.case_cong)

lemma bridge_fields_written [simp]:
  "BridgeAssetId (set_free_balance aid w n s) = BridgeAssetId s" "BridgeAssetId (set_total_issuance aid m s) = BridgeAssetId s"
  "BridgeAssetId (deposit_ga_event ev s) = BridgeAssetId s"
  "KycList (set_free_balance aid w n s) = KycList s" "KycList (set_total_issuance aid m s) = KycList s"
  "KycList (deposit_ga_event ev s) = KycList s"
  "Admins (set_free_balance aid w n s) = Admins s" "Admins (set_total_issuance aid m s) = Admins s"
  "Admins (deposit_ga_event ev s) = Admins s"
  "PendingDepositList (set_free_balance aid w n s) = PendingDepositList s" "PendingDepositList (set_total_issuance aid m s) = PendingDepositList s"
  "PendingDepositList (deposit_ga_event ev s) = PendingDepositList s"
  "DepositHistory (set_free_balance aid w n s) = DepositHistory s" "DepositHistory (set_total_issuance aid m s) = DepositHistory s"
  "DepositHistory (deposit_ga_event ev s) = DepositHistory s"
  "PendingWithdraws (set_free_balance aid w n s) = PendingWithdraws s" "PendingWithdraws (set_total_issuance aid m s) = PendingWithdraws s"
  "PendingWithdraws (deposit_ga_event ev s) = PendingWithdraws s"
  "PendingWithdrawVault (set_free_balance aid w n s) = PendingWithdrawVault s" "PendingWithdrawVault (set_total_issuance aid m s) = PendingWithdrawVault s"
  "PendingWithdrawVault (deposit_ga_event ev s) = PendingWithdrawVault s"
  by (simp_all add: set_free_balance_def set_total_issuance_def deposit_ga_event_def)

text \<open>The calls the tests make, with what they evaluate to where the accounts and amounts are numbers.\<close>

lemmas test_calls = in_bridge_test_def assert_ok_def assert_noop_def bridge_pause_def bridge_resume_def
  bridge_deposit_def refund_def withdraw_finish_def withdraw_def mark_black_def mark_white_def has_auth_def
  is_tx_seen_def check_list_def simple_deposit_with_event_def hold_deposit_with_event_def mark_with_event_def
  mark_def deposit_bridge_event_def remove_from_pending_withdraws_def mint_free_def checked_add_def make_transfer_with_event_eq

lemmas test_reads = test_storage_runs pending_withdraws_def pending_deposits_def lm_insert_def lm_contains_def
  lm_get_def lm_mutate_def lm_remove_def ledger_simps Let_def ensure_def

section \<open>The tests\<close>

lemma pause_works: "in_bridge_test (\<lambda>s. assert_ok (bridge_pause Root s) BridgePaused)"
  by (simp add: test_calls test_reads)

lemma resume_works:
  "in_bridge_test (\<lambda>s. assert_ok (bridge_pause Root s) (\<lambda>s. BridgePaused s
     \<and> assert_ok (bridge_resume Root s) (\<lambda>s. \<not> BridgePaused s)))"
  by (simp add: test_calls test_reads)

lemma deposit_auth_works:
  "in_bridge_test (\<lambda>s. assert_noop (bridge_deposit (Signed mock_ALICE) mock_DAVE 100000000 0 s)
     (Other ''no deposit auth'') s)"
  by (simp add: test_calls test_reads)

lemma deposit_works:
  "in_bridge_test (\<lambda>s. assert_ok (bridge_deposit (Signed mock_ROOT) mock_DAVE 100000000 0 s)
     (\<lambda>s. free_balance SBTC_ASSET_ID mock_DAVE s = 100000000))"
  by (simp add: test_calls test_reads)

lemma deposit_repeated_tx_hash_works:
  "in_bridge_test (\<lambda>s. assert_ok (bridge_deposit (Signed mock_ROOT) mock_DAVE 100000000 0 s)
     (\<lambda>s. assert_noop (bridge_deposit (Signed mock_ROOT) mock_DAVE 200000000 0 s) (Other ''repeated transaction'') s))"
  by (simp add: test_calls test_reads)

lemma deposit_over_threshold_works:
  "in_bridge_test (\<lambda>s. assert_ok (bridge_deposit (Signed mock_ROOT) mock_DAVE 3000000000 0 s)
     (\<lambda>s. map dep_tx_hash (pending_deposits mock_DAVE s) = [Some 0]))"
  by (simp add: test_calls test_reads)

lemma mark_black_works:
  "in_bridge_test (\<lambda>s. assert_ok (bridge_deposit (Signed mock_ROOT) mock_DAVE 3000000000 0 s)
     (\<lambda>s. assert_ok (mark_black (Signed mock_ROOT) mock_DAVE s)
     (\<lambda>s. check_list mock_DAVE s = Some Black \<and> pending_deposits mock_DAVE s = []
       \<and> free_balance SBTC_ASSET_ID mock_DAVE s = 0)))"
  by (simp add: test_calls test_reads)

lemma mark_white_works:
  "in_bridge_test (\<lambda>s. assert_ok (bridge_deposit (Signed mock_ROOT) mock_DAVE 3000000000 0 s)
     (\<lambda>s. assert_ok (mark_white (Signed mock_ROOT) mock_DAVE s)
     (\<lambda>s. check_list mock_DAVE s = Some White \<and> pending_deposits mock_DAVE s = []
       \<and> free_balance SBTC_ASSET_ID mock_DAVE s = 3000000000)))"
  by (simp add: test_calls test_reads)

lemma black_blocks_works:
  "in_bridge_test (\<lambda>s. assert_ok (mark_black (Signed mock_ROOT) mock_DAVE s)
     (\<lambda>s. assert_ok (bridge_deposit (Signed mock_ROOT) mock_DAVE 3000000000 0 s)
     (\<lambda>s. map dep_tx_hash (pending_deposits mock_DAVE s) = [Some 0])))"
  by (simp add: test_calls test_reads)

lemma white_passes_works:
  "in_bridge_test (\<lambda>s. assert_ok (mark_white (Signed mock_ROOT) mock_DAVE s)
     (\<lambda>s. assert_ok (bridge_deposit (Signed mock_ROOT) mock_DAVE 3000000000 0 s)
     (\<lambda>s. pending_deposits mock_DAVE s = [] \<and> free_balance SBTC_ASSET_ID mock_DAVE s = 3000000000)))"
  by (simp add: test_calls test_reads)

text \<open>The tests of withdrawals first mint for account 4; the root is the account 1, which may mint.\<close>

lemma withdraw_works:
  "in_bridge_test (\<lambda>s. assert_ok (mint (Signed mock_ROOT) SBTC_ASSET_ID mock_CHRIS 100000000 s)
     (\<lambda>s. assert_ok (withdraw (Signed mock_CHRIS) 100000000 s)
     (\<lambda>s. free_balance SBTC_ASSET_ID mock_CHRIS s = 0 \<and> pending_withdraws mock_CHRIS s = [100000000])))"
  by (simp add: test_calls test_reads mint_def)

lemma refund_works:
  "in_bridge_test (\<lambda>s. assert_ok (mint (Signed mock_ROOT) SBTC_ASSET_ID mock_CHRIS 100000000 s)
     (\<lambda>s. assert_ok (withdraw (Signed mock_CHRIS) 100000000 s)
     (\<lambda>s. assert_ok (refund (Signed mock_ROOT) mock_CHRIS 100000000 s)
     (\<lambda>s. pending_withdraws mock_CHRIS s = [] \<and> free_balance SBTC_ASSET_ID mock_CHRIS s = 100000000))))"
  by (simp add: test_calls test_reads mint_def)

lemma withdraw_finish_works:
  "in_bridge_test (\<lambda>s. assert_ok (mint (Signed mock_ROOT) SBTC_ASSET_ID mock_CHRIS 100000000 s)
     (\<lambda>s. assert_ok (withdraw (Signed mock_CHRIS) 100000000 s)
     (\<lambda>s. assert_ok (withdraw_finish (Signed mock_ROOT) mock_CHRIS 100000000 s)
     (\<lambda>s. pending_withdraws mock_CHRIS s = [] \<and> free_balance SBTC_ASSET_ID mock_CHRIS s = 0))))"
  by (simp add: test_calls test_reads mint_def)

lemma two_withdraw_of_same_amount_works:
  "in_bridge_test (\<lambda>s. assert_ok (mint (Signed mock_ROOT) SBTC_ASSET_ID mock_CHRIS 200000000 s)
     (\<lambda>s. assert_ok (withdraw (Signed mock_CHRIS) 100000000 s)
     (\<lambda>s. assert_ok (withdraw (Signed mock_CHRIS) 100000000 s)
     (\<lambda>s. free_balance SBTC_ASSET_ID mock_CHRIS s = 0 \<and> length (pending_withdraws mock_CHRIS s) = 2
       \<and> assert_ok (withdraw_finish (Signed mock_ROOT) mock_CHRIS 100000000 s)
           (\<lambda>s. length (pending_withdraws mock_CHRIS s) = 1 \<and> free_balance SBTC_ASSET_ID mock_CHRIS s = 0)))))"
  by (simp add: test_calls test_reads mint_def word_le_nat_alt)

lemma two_withdraw_of_same_amount_refund_works:
  "in_bridge_test (\<lambda>s. assert_ok (mint (Signed mock_ROOT) SBTC_ASSET_ID mock_CHRIS 200000000 s)
     (\<lambda>s. assert_ok (withdraw (Signed mock_CHRIS) 100000000 s)
     (\<lambda>s. assert_ok (withdraw (Signed mock_CHRIS) 100000000 s)
     (\<lambda>s. free_balance SBTC_ASSET_ID mock_CHRIS s = 0 \<and> length (pending_withdraws mock_CHRIS s) = 2
       \<and> assert_ok (refund (Signed mock_ROOT) mock_CHRIS 100000000 s)
           (\<lambda>s. length (pending_withdraws mock_CHRIS s) = 1
             \<and> free_balance SBTC_ASSET_ID mock_CHRIS s = 100000000)))))"
  by (simp add: test_calls test_reads mint_def word_le_nat_alt)

end
