(* ===== verification/Spec2Isabelle.thy ===== *)
theory Spec2Isabelle
  imports Asset_Locks Runtime_Liveness Block_Start Savings_Par Loan_Custody Bridge_Vault Btc_Properties Command Runtime_Governance
    Factory_Adapter Bench_Db Rpc Bridge_Tests
begin

text \<open>
  A verification development for the money-pool node: a Substrate node whose own logic is in five
  pallets (runtime/modules), the composition of three of them into the runtime (runtime/src), the networks
  it can be started on (cli/src/chain_spec.rs), its command line and service (cli/src), the inspect command
  (inspect/src) and the transaction factory (transaction-factory/src, cli/src/factory_impl.rs).  All paths
  are relative to src/.

  \<^bold>\<open>The program.\<close>  The generic-asset pallet keeps balances of any number of assets.  The oracle
  collects prices that an offchain worker fetches and aggregates them every few blocks.  The
  deposit-loan pallet takes savings and lends them against a collateral: it moves both through
  generic-asset, values the collateral at the oracle's price, checks the health of every loan and
  computes interest at the start of each block.  The bridge mints a shadow asset for Bitcoin deposits,
  holding large ones until an administrator clears the account; the btc-bridge does the same on the
  pallet \<open>assets\<close> and derives receiving keys.  The runtime runs the hooks and dispatches calls.  The node
  loads a network by name, starts its tasks by its role, and can print blocks or fill a chain with transfers.

  \<^bold>\<open>How code becomes definitions.\<close>  Every definition keeps the name of the function, storage item or
  type it models (a prefix \<open>btc_\<close>, \<open>bridge_\<close>, \<open>loan_\<close> or \<open>oracle_\<close> where two pallets use one name).  The
  storage of the runtime is an extensible record, \<open>system_state\<close>, then \<open>ga_state\<close>, \<open>oracle_state\<close>,
  \<open>loan_state\<close> (or \<open>bridge_state\<close> over \<open>ga_state\<close>), with one field per storage item.  A \<open>map\<close> item is a partial
  function, a \<open>linked_map\<close> an association list whose newest key comes first.  A dispatchable returns an
  \<open>outcome\<close>: \<open>Done\<close>, \<open>Fail\<close> with the error and the storage as it was left (this version of the framework
  does not roll back), or \<open>Panic\<close>.  Machine integers are words of their width and the unchecked operators
  wrap, as in a release build; every conversion and division that can panic does.

  \<^bold>\<open>The theories.\<close>
  \<^item> Exec: outcomes, the combinators for \<open>ensure!\<close>, \<open>?\<close>, \<open>or_else\<close>, \<open>unwrap\<close> and loops, the rules
    \<open>keeps_intros\<close> that carry an invariant through them, checked arithmetic.
  \<^item> Results: results of code without storage, splitting, decimal numbers.
  \<^item> Linked_Map: storage maps; the interface \<open>enumerable_storage\<close> with the linked map as provider.
  \<^item> System: types, errors, origins and the storage of the frame.
  \<^item> Generic_Asset (generic-asset/src/lib.rs); Asset_Ledger: the interface \<open>asset_ledger\<close> that clients
    of the pallet rely on, with the pallet as provider, and its invariant \<open>ga_inv\<close> (free and reserved
    balances add up to the issuance; unused ids are empty); Asset_Properties.  Ledger_Spec: the abstract
    ledger over natural numbers and, through the interface \<open>implements_spec\<close>, that the pallet implements it;
    Asset_Locks: locks against reserved balances.
  \<^item> New_Oracle (new-oracle/src/lib.rs) and Oracle_Properties.
  \<^item> Loan_Model and Loan_Calls (deposit-loan/src/lib.rs); Loan_Book: the well-formedness of the loan book
    and that every operation keeps it; Loan_Frame: the interfaces \<open>loan_frame\<close> and its extensions, which
    say what the operations leave alone; Loan_Properties, Loan_Lifecycle and Loan_Savings: opening,
    repaying, health and liquidation, savings and interest.
  \<^item> Bridge, Bridge_Properties, Bridge_Types and Bridge_Vault (bridge/src/lib.rs): crediting, the typing of
    the storage, and that the vault covers the pending withdrawals.  Bridge_Tests (bridge/src/mock.rs, tests.rs):
    the repository's unit tests of the bridge, evaluated on the model.
  \<^item> Btc_Bridge and Btc_Properties (btc-bridge/src/lib.rs); the interface \<open>mintable_ledger\<close> says what is
    relied on of the pallet \<open>assets\<close>, and generic-asset is shown to provide it.
  \<^item> Runtime, Runtime_Config, Runtime_Governance, Runtime_Properties and Runtime_Liveness (runtime/src/lib.rs,
    constants.rs, impls.rs): the composition, the constants and signed transactions, the wiring of the
    framework's pallets (who decides, who receives which money), safety and progress of the chain.
    Block_Start: exactly when the hooks at the start of a block panic.  Savings_Par: what a share of the
    savings is worth over every run of the chain, and what a saver can take out.
  \<^item> Loan_Machine: the life of a loan as an abstract machine with actors; through the interface
    \<open>step_refinement\<close>, every labelled history of the chain is a history of the machine.
    Loan_Custody: when the pawn shop holds the collateral of the open loans, and that they can then be repaid.
  \<^item> Chain_Spec (cli/src/chain_spec.rs, lib.rs): the genesis of every network and the names they load by.
  \<^item> Inspect (inspect/src/cli.rs, lib.rs), Command (cli/src/command.rs, cli.rs) and Node_Service
    (cli/src/service.rs).
  \<^item> Factory and Factory_Adapter (transaction-factory/src/lib.rs, cli/src/factory_impl.rs): the plan of the
    factory, and its loop with signing and the calls of the client, which follows the plan.
  \<^item> Testing and Bench_Db (testing/src/genesis.rs, keyring.rs, client.rs, bench.rs) and Rpc (rpc/src/lib.rs, rpc-client/src/main.rs,
    cli/src/browser.rs).

  \<^bold>\<open>What is proved.\<close>  Of the composed runtime: from the genesis of the testnet on, every step (hooks,
  calls by anybody, failing calls included) keeps the conservation of every asset and the loan book, and a
  block can always be finalised; that submitted prices are published within five blocks; that the loans
  follow the abstract machine, so that a loan never reopens or changes hands and only its owner or the
  liquidation account ends it; that the pawn shop backs the open loans, and what that needs; and that
  outsiders can stop the chain through the oracle, and exactly in which storages the next block cannot be
  started; that a share of the savings is worth one unit for ever.  Of the ledger: that it implements its specification.  Of each pallet:
  its invariant over all calls and histories, the effect of its operations on every branch, who may change
  what, round trips (reserve and unreserve, lend and repay, withdraw and refund, encode and decode) and the
  bounds of its arithmetic.  Where the code does not do what it means to (the two threshold setters, the
  interest that never accrues, drawing without payment, a debt booked without a loan, shares that survive their redemption, totals that
  drift from the book, a settlement that leaves the collateral behind, a failed one that pays the liquidation account, locks that can be released in part, a factory that refuses a network it supports), the
  theorem states what it does.  Of the commands: what an address names, which networks start sound, which
  networks and roles run what.

  \<^bold>\<open>Bounds.\<close>  No model uses fuel: the loops recurse over lists, and the loop of the factory ends because the
  block number grows up to the number of blocks.  The invariant of the runtime is stated for fewer than
  \<open>2 ^ 64\<close> steps, because loan ids and the number of stacked prices are 64-bit numbers: each step adds at
  most one to either.

  \<^bold>\<open>Parameters.\<close>  Code outside the repository is an argument of the definitions that use it: the hash
  that names a list of locks, the codec of accounts, the JSON parser, HTTP and floating point of the oracle,
  the pallet \<open>assets\<close> and the key derivation of the btc-bridge, fixed-point numbers in the fee adjustment,
  keys derived from seeds, the client of the factory, the file system of the benchmarks, and, for the commands, the framework's parsers, codec,
  database and builders, whose calls appear with their results (\<open>cli_calls\<close>, \<open>service_calls\<close>).

  \<^bold>\<open>Not modelled.\<close>  The program entry and the executor only name code of the framework; of the mocks
  of the pallets only the storage of the bridge's tests is modelled: those of deposit-loan and generic-asset
  configure fields that their pallets no longer have.  The
  associated types of the runtime that only name its own call, event and block types are fixed by the types
  of the model, and the runtime interfaces that forward to the framework have no logic of their own.  Weights
  and logging have no effect on what is modelled and are left out.
\<close>

end
